(* ===== verification/Prelude.thy ===== *)
theory Prelude
  imports Complex_Main "HOL-Library.Multiset"
begin

text \<open>
  Shared vocabulary of the ShareTea development: the types that name money, calendar days
  and hours, the JavaScript values that arrive in a request body (\<open>jsval\<close>) with their
  truthiness (the \<open>!x\<close> guards of \<^verbatim>\<open>src/backend/server.js\<close>), the coercions PostgreSQL
  applies when a request value is bound to an integer or numeric column, the SQL
  aggregates the report queries use (\<open>COALESCE(MAX ..)\<close>, \<open>SUM\<close> over nullable values),
  and the generic list lemmas the component theories share.
\<close>

section \<open>Names for the model's types\<close>

type_synonym money = rat \<comment> \<open>PostgreSQL NUMERIC: exact decimal arithmetic\<close>
type_synonym day = int   \<comment> \<open>a calendar date, as a day number\<close>
type_synonym hour = int  \<comment> \<open>\<open>EXTRACT(HOUR FROM ..)\<close>, 0 to 23\<close>
type_synonym instant = int \<comment> \<open>a \<open>timestamp\<close>: seconds since the epoch, server time zone\<close>

named_theorems handler_simps "equations that unfold the HTTP handlers of the model"
named_theorems row_simps "selector equations of the rows the handlers insert"

text \<open>\<open>ts::DATE\<close> and \<open>EXTRACT(HOUR FROM ts)\<close>.\<close>

definition date_of :: "instant \<Rightarrow> day" where
  "date_of t = t div 86400"

definition hour_of :: "instant \<Rightarrow> hour" where
  "hour_of t = (t mod 86400) div 3600"

text \<open>The range of a PostgreSQL \<open>integer\<close> (int4) column.\<close>

definition in_int4 :: "int \<Rightarrow> bool" where
  "in_int4 x \<longleftrightarrow> - 2147483648 \<le> x \<and> x \<le> 2147483647"

section \<open>JavaScript values of a request body\<close>

text \<open>
  A field of \<open>req.body\<close> after \<open>express.json()\<close>: absent (\<open>undefined\<close>), \<open>null\<close>,
  a boolean, a number or a string. \<open>JSON.stringify\<close> turns \<open>NaN\<close> into \<open>null\<close>, so no
  request carries \<open>NaN\<close>; JSON numbers are finite decimals, modelled as rationals.
\<close>

datatype jsval = JUndef | JNull | JBool bool | JNum rat | JStr string

fun js_truthy :: "jsval \<Rightarrow> bool" where
  "js_truthy JUndef = False"
| "js_truthy JNull = False"
| "js_truthy (JBool b) = b"
| "js_truthy (JNum n) = (n \<noteq> 0)"
| "js_truthy (JStr s) = (s \<noteq> [])"

text \<open>
  A JSON document as the front end receives it in \<open>res.data\<close>: an object (its members in
  order) or a primitive. \<open>get_prop v k\<close> is \<open>v.k\<close>: \<open>None\<close> when \<open>v\<close> is \<open>undefined\<close> or
  \<open>null\<close> (a \<open>TypeError\<close>), \<open>undefined\<close> for a missing member or a member of a primitive.
\<close>

datatype json = JObj "(string \<times> json) list" | JArr "json list" | JPrim jsval

fun get_prop :: "json \<Rightarrow> string \<Rightarrow> json option" where
  "get_prop (JObj kvs) k = Some (case map_of kvs k of Some v \<Rightarrow> v | None \<Rightarrow> JPrim JUndef)"
| "get_prop (JArr _) k = Some (JPrim JUndef)"
| "get_prop (JPrim JUndef) k = None"
| "get_prop (JPrim JNull) k = None"
| "get_prop (JPrim _) k = Some (JPrim JUndef)"

fun json_truthy :: "json \<Rightarrow> bool" where
  "json_truthy (JObj _) = True"
| "json_truthy (JArr _) = True"
| "json_truthy (JPrim v) = js_truthy v"

text \<open>
  \<open>res.json(v)\<close> serialises with \<open>JSON.stringify\<close>, which drops members whose value is
  \<open>undefined\<close>.
\<close>

definition json_obj :: "(string \<times> json) list \<Rightarrow> json" where
  "json_obj kvs = JObj (filter (\<lambda>(_, v). v \<noteq> JPrim JUndef) kvs)"

text \<open>An HTTP response: its status code and its JSON body.\<close>

type_synonym http_response = "nat \<times> json"

text \<open>
  \<open>String.prototype.toLowerCase\<close> on the ASCII letters (also PostgreSQL's case-insensitive
  reading of the special numeric literals).
\<close>

definition js_lower :: "string \<Rightarrow> string" where
  "js_lower = map (\<lambda>c. if (65::nat) \<le> of_char c \<and> of_char c \<le> (90::nat) then char_of (of_char c + (32::nat)) else c)"

text \<open>
  Whether a page's table renders the list it holds:
  \<open>list.length === 0 ? ... : list.map(...)\<close>. An array renders; a string renders only
  when empty (otherwise it has no \<open>map\<close>); \<open>null\<close> and \<open>undefined\<close> have no \<open>length\<close>;
  another object renders when its \<open>length\<close> member is 0. A render that throws unmounts the
  application, which has no error boundary.
\<close>

definition list_renders :: "json \<Rightarrow> bool" where
  "list_renders v =
     (case v of
        JArr _ \<Rightarrow> True
      | JPrim (JStr s) \<Rightarrow> s = []
      | JPrim JNull \<Rightarrow> False
      | JPrim JUndef \<Rightarrow> False
      | JPrim _ \<Rightarrow> False
      | JObj _ \<Rightarrow> get_prop v ''length'' = Some (JPrim (JNum 0)))"

text \<open>
  The shape of a JSON document as a page expects it: a number, a string, a boolean,
  \<open>null\<close>, one of two shapes, an array of one shape, or an object that has at least the
  listed members, each of its shape.
\<close>

datatype jtype = TNum | TStr | TBool | TNull | TOr jtype jtype | TArr jtype | TObj "(string \<times> jtype) list"

fun has_type :: "jtype \<Rightarrow> json \<Rightarrow> bool" where
  "has_type TNum v = (case v of JPrim (JNum _) \<Rightarrow> True | _ \<Rightarrow> False)"
| "has_type TStr v = (case v of JPrim (JStr _) \<Rightarrow> True | _ \<Rightarrow> False)"
| "has_type TBool v = (case v of JPrim (JBool _) \<Rightarrow> True | _ \<Rightarrow> False)"
| "has_type TNull v = (v = JPrim JNull)"
| "has_type (TOr a b) v = (has_type a v \<or> has_type b v)"
| "has_type (TArr t) v = (case v of JArr xs \<Rightarrow> list_all (has_type t) xs | _ \<Rightarrow> False)"
| "has_type (TObj fs) v =
     (case v of
        JObj kvs \<Rightarrow> list_all (\<lambda>f. case map_of kvs (fst f) of Some x \<Rightarrow> has_type (snd f) x | None \<Rightarrow> False) fs
      | _ \<Rightarrow> False)"

section \<open>Decimal digits\<close>

definition is_digit :: "char \<Rightarrow> bool" where
  "is_digit c \<longleftrightarrow> (48::nat) \<le> of_char c \<and> of_char c \<le> (57::nat)"

definition digit_val :: "char \<Rightarrow> nat" where
  "digit_val c = of_char c - 48"

text \<open>Digits read most significant first, accumulated left to right.\<close>

fun digits_acc :: "nat \<Rightarrow> string \<Rightarrow> nat" where
  "digits_acc a [] = a"
| "digits_acc a (c # cs) = digits_acc (10 * a + digit_val c) cs"

definition parse_nat :: "string \<Rightarrow> nat option" where
  "parse_nat s = (if s \<noteq> [] \<and> list_all is_digit s then Some (digits_acc 0 s) else None)"

text \<open>
  PostgreSQL's text input of an integer (what \<^verbatim>\<open>node-postgres\<close> sends for a bound
  parameter): an optional minus sign and decimal digits.
\<close>

definition parse_int :: "string \<Rightarrow> int option" where
  "parse_int s = (case s of
      c # cs \<Rightarrow> if c = CHR ''-'' then map_option (\<lambda>n. - int n) (parse_nat cs)
                else map_option int (parse_nat s)
    | [] \<Rightarrow> None)"

section \<open>Coercion of bound parameters\<close>

text \<open>
  A request value bound to an \<open>integer\<close> column: a JSON number must be integral, a string
  must be an integer literal; anything else makes the statement fail. \<open>NULL\<close> is refused
  too: the columns written by the handlers are taken to be \<open>NOT NULL\<close>.
\<close>

fun pg_int :: "jsval \<Rightarrow> int option" where
  "pg_int (JNum q) = (if q = of_int \<lfloor>q\<rfloor> then Some \<lfloor>q\<rfloor> else None)"
| "pg_int (JStr s) = parse_int s"
| "pg_int _ = None"

fun pg_num :: "jsval \<Rightarrow> money option" where
  "pg_num (JNum q) = Some q"
| "pg_num (JStr s) = map_option of_int (parse_int s)"
| "pg_num _ = None"

text \<open>
  Strings joined with a separator: \<open>Array.prototype.join\<close> and the separator of
  \<open>STRING_AGG\<close>.
\<close>

fun join_sep :: "string \<Rightarrow> string list \<Rightarrow> string" where
  "join_sep sep [] = []"
| "join_sep sep [x] = x"
| "join_sep sep (x # xs) = x @ sep @ join_sep sep xs"

section \<open>SQL aggregates\<close>

text \<open>\<open>COALESCE(MAX(x), 0)\<close> over a column.\<close>

definition coalesce_max :: "int list \<Rightarrow> int" where
  "coalesce_max xs = (case xs of [] \<Rightarrow> 0 | x # ys \<Rightarrow> fold max ys x)"

text \<open>\<open>COALESCE(SUM(x), 0)\<close> over a nullable column: \<open>SUM\<close> skips \<open>NULL\<close>s.\<close>

definition coalesce_sum :: "'a::comm_monoid_add option list \<Rightarrow> 'a" where
  "coalesce_sum xs = sum_list (List.map_filter id xs)"

text \<open>\<open>SUM(x)\<close>: \<open>NULL\<close> when every value is \<open>NULL\<close>; \<open>COALESCE(x, d)\<close>.\<close>

definition sql_sum :: "'a::comm_monoid_add option list \<Rightarrow> 'a option" where
  "sql_sum xs = (if List.map_filter id xs = [] then None else Some (sum_list (List.map_filter id xs)))"

definition coalesce :: "'a option \<Rightarrow> 'a \<Rightarrow> 'a" where
  "coalesce x d = (case x of None \<Rightarrow> d | Some v \<Rightarrow> v)"

text \<open>\<open>COUNT(DISTINCT x)\<close>: the number of distinct non-\<open>NULL\<close> values.\<close>

definition count_distinct :: "'a option list \<Rightarrow> nat" where
  "count_distinct xs = length (remdups (List.map_filter id xs))"

text \<open>
  \<open>a LEFT JOIN b ON ..\<close> seen from one row of \<open>a\<close>: its matching rows of \<open>b\<close>, or a single
  row of \<open>NULL\<close>s when none matches.
\<close>

definition opt_rows :: "'a list \<Rightarrow> 'a option list" where
  "opt_rows ys = (if ys = [] then [None] else map Some ys)"

text \<open>\<open>GROUP BY k ORDER BY k\<close>: the distinct keys ascending, each with its rows in order.\<close>

definition group_by :: "('r \<Rightarrow> 'k::linorder) \<Rightarrow> 'r list \<Rightarrow> ('k \<times> 'r list) list" where
  "group_by k rs = map (\<lambda>h. (h, filter (\<lambda>r. k r = h) rs)) (sort (remdups (map k rs)))"

section \<open>Shared lemmas\<close>

lemma coalesce_max_Max: "xs \<noteq> [] \<Longrightarrow> coalesce_max xs = Max (set xs)"
  by (cases xs) (simp_all add: coalesce_max_def flip: Max.set_eq_fold)

lemma coalesce_max_ge [intro]: "x \<in> set xs \<Longrightarrow> x \<le> coalesce_max xs"
  by (cases "xs = []") (auto simp: coalesce_max_Max)

lemma coalesce_max_Nil [simp]: "coalesce_max [] = 0"
  by (simp add: coalesce_max_def)

lemma coalesce_max_mem: "xs \<noteq> [] \<Longrightarrow> coalesce_max xs \<in> set xs"
  by (simp add: coalesce_max_Max)

lemma coalesce_max_append_single:
  "coalesce_max xs < y \<Longrightarrow> coalesce_max (xs @ [y]) = y"
proof (cases "xs = []")
  case False
  assume lt: "coalesce_max xs < y"
  with False have "\<forall>x \<in> set xs. x < y"
    using coalesce_max_ge by fastforce
  then show ?thesis by (simp add: coalesce_max_Max Max_insert2 less_imp_le)
qed (simp add: coalesce_max_def)

lemma coalesce_sum_Nil [simp]: "coalesce_sum [] = 0"
  and coalesce_sum_Some [simp]: "coalesce_sum (Some x # xs) = x + coalesce_sum xs"
  and coalesce_sum_None [simp]: "coalesce_sum (None # xs) = coalesce_sum xs"
  by (simp_all add: coalesce_sum_def List.map_filter_simps)

lemma coalesce_sum_append [simp]: "coalesce_sum (xs @ ys) = coalesce_sum xs + coalesce_sum ys"
  by (simp add: coalesce_sum_def List.map_filter_def)

lemma coalesce_sum_map_Some [simp]: "coalesce_sum (map (\<lambda>x. Some (f x)) xs) = sum_list (map f xs)"
  by (induction xs) auto

lemma sorted_wrt_less_append_single:
  "sorted_wrt (<) xs \<Longrightarrow> (\<forall>x \<in> set xs. x < (y::'a::linorder)) \<Longrightarrow> sorted_wrt (<) (xs @ [y])"
  by (simp add: sorted_wrt_append)

lemma opt_rows_length [simp]: "length (opt_rows xs) = max 1 (length xs)"
  by (cases xs) (simp_all add: opt_rows_def)

lemma opt_rows_ex: "\<exists>x. x \<in> set (opt_rows xs)"
  by (cases xs) (auto simp: opt_rows_def)

lemma opt_rows_ne [simp]: "opt_rows xs \<noteq> []"
  by (simp add: opt_rows_def)

lemma coalesce_sql_sum: "coalesce (sql_sum xs) 0 = sum_list (List.map_filter id xs)"
  by (simp add: coalesce_def sql_sum_def)

lemma coalesce_map_option_zero: "f 0 = 0 \<Longrightarrow> coalesce (map_option f x) 0 = f (coalesce x 0)"
  by (cases x) (simp_all add: coalesce_def)

lemma map_filter_map_Some [simp]: "List.map_filter id (map (\<lambda>x. Some (f x)) xs) = map f xs"
  by (induction xs) (simp_all add: List.map_filter_simps)

lemma filter_key_length_le:
  "distinct (map k xs) \<Longrightarrow> length (filter (\<lambda>x. k x = v) xs) \<le> 1"
proof (induction xs)
  case (Cons a xs)
  show ?case
  proof (cases "k a = v")
    case True
    with Cons.prems have "filter (\<lambda>x. k x = v) xs = []" by (auto simp: filter_empty_conv image_iff)
    with True show ?thesis by simp
  next
    case False
    with Cons show ?thesis by simp
  qed
qed simp

lemma filter_key_opt_rows:
  "distinct (map k xs) \<Longrightarrow> length (opt_rows (filter (\<lambda>x. k x = v) xs)) = 1"
  using filter_key_length_le [of k xs v] by (auto simp: opt_rows_def le_Suc_eq)

lemma filter_concat_map_key:
  assumes "\<And>s r. r \<in> set (f s) \<Longrightarrow> g r = s"
  shows "filter (\<lambda>r. P (g r)) (concat (map f xs)) = concat (map f (filter P xs))"
  using assms by (induction xs) (auto intro!: filter_True simp: filter_empty_conv)

lemma sum_list_concat_map: "sum_list (map f (concat (map g xs))) = sum_list (map (\<lambda>x. sum_list (map f (g x))) xs)"
  by (induction xs) simp_all

lemma map_filter_concat_map:
  "List.map_filter h (concat (map g xs)) = concat (map (\<lambda>x. List.map_filter h (g x)) xs)"
  by (induction xs) (simp_all add: List.map_filter_def)

lemma map_const_replicate: "map (\<lambda>_. c) ys = replicate (length ys) c"
  by (induction ys) simp_all

lemma concat_map_const: "concat (map (\<lambda>_. map (\<lambda>_. c) ys) xs) = replicate (length xs * length ys) c"
  by (induction xs) (simp_all add: map_const_replicate replicate_add)

lemma concat_map_singleton: "concat (map (\<lambda>x. [x]) xs) = xs"
  by (induction xs) simp_all

lemma map_filter_opt_rows [simp]: "List.map_filter id (map (map_option f) (opt_rows xs)) = map f xs"
  by (induction xs) (simp_all add: opt_rows_def List.map_filter_def comp_def)

lemma map_butlast_last: "xs \<noteq> [] \<Longrightarrow> map f (butlast xs) @ [f (last xs)] = map f xs"
  by (metis append_butlast_last_id map_append list.simps(8) list.simps(9))

lemma those_map_Some: "(\<And>x. x \<in> set xs \<Longrightarrow> f x = Some (g x)) \<Longrightarrow> those (map f xs) = Some (map g xs)"
  by (induction xs) auto

lemma those_SomeD: "those xs = Some ys \<Longrightarrow> xs = map Some ys"
  by (induction xs arbitrary: ys) (auto split: option.splits)

lemma sum_update_less:
  assumes "i < (n::nat)" "f' i < f i" "\<And>k. k \<noteq> i \<Longrightarrow> f' k = f k"
  shows "(\<Sum>k<n. f' k) < (\<Sum>k<n. (f k :: nat))"
proof -
  have i: "i \<in> {..<n}" using assms(1) by simp
  have "(\<Sum>k<n. f' k) = f' i + (\<Sum>k\<in>{..<n} - {i}. f' k)" by (meson finite_lessThan i sum.remove)
  also have "(\<Sum>k\<in>{..<n} - {i}. f' k) = (\<Sum>k\<in>{..<n} - {i}. f k)" using assms(3) by (intro sum.cong) auto
  also have "f' i + \<dots> < f i + \<dots>" using assms(2) by simp
  also have "\<dots> = (\<Sum>k<n. f k)" by (metis finite_lessThan i sum.remove)
  finally show ?thesis .
qed

end
