(* ===== verification/PgSequence.thy ===== *)
theory PgSequence
  imports Prelude
begin

text \<open>
  The PostgreSQL sequence behind the \<open>id\<close> column of \<open>transactions\<close>
  (\<open>transactions_id_seq\<close>), as far as the order handler of
  \<^verbatim>\<open>src/backend/server.js\<close> uses it: \<open>setval(seq, v)\<close> in the resynchronisation at
  the start of every order batch, and \<open>nextval(seq)\<close>, the column default evaluated by
  every \<open>INSERT INTO transactions\<close>. Both are non-transactional: a \<open>ROLLBACK\<close> does not
  undo them. The sequence is bounded by \<open>min_value\<close> and \<open>max_value\<close> (1 and
  2147483647 for a \<open>SERIAL\<close> column); \<open>setval\<close> outside the bounds and \<open>nextval\<close>
  past \<open>max_value\<close> raise an error, which the model returns as \<open>Inl\<close>.
\<close>

record pg_seq =
  last_value :: int
  is_called :: bool
  min_value :: int
  max_value :: int

datatype seq_error = SetvalOutOfBounds int | NextvalExhausted

text \<open>The value the next \<open>nextval\<close> hands out.\<close>

definition next_value :: "pg_seq \<Rightarrow> int" where
  "next_value s = (if is_called s then last_value s + 1 else last_value s)"

definition nextval :: "pg_seq \<Rightarrow> seq_error + int \<times> pg_seq" where
  "nextval s =
     (let v = next_value s in
      if max_value s < v then Inl NextvalExhausted
      else Inr (v, s\<lparr>last_value := v, is_called := True\<rparr>))"

text \<open>Two-argument \<open>setval\<close>: the next \<open>nextval\<close> returns \<open>v + 1\<close>.\<close>

definition setval :: "pg_seq \<Rightarrow> int \<Rightarrow> seq_error + pg_seq" where
  "setval s v =
     (if v < min_value s \<or> max_value s < v then Inl (SetvalOutOfBounds v)
      else Inr (s\<lparr>last_value := v, is_called := True\<rparr>))"

text \<open>A freshly created \<open>SERIAL\<close> sequence.\<close>

definition serial_seq :: pg_seq where
  "serial_seq = \<lparr>last_value = 1, is_called = False, min_value = 1, max_value = 2147483647\<rparr>"

text \<open>Well-formed sequence state: the bounds are ordered and the next value is not below the minimum.\<close>

definition seq_wf :: "pg_seq \<Rightarrow> bool" where
  "seq_wf s \<longleftrightarrow> min_value s \<le> max_value s \<and> min_value s \<le> next_value s"

section \<open>Behaviour of nextval and setval\<close>

lemma nextval_Inr_iff:
  "nextval s = Inr (v, s') \<longleftrightarrow>
     next_value s \<le> max_value s \<and> v = next_value s \<and> s' = s\<lparr>last_value := v, is_called := True\<rparr>"
  by (auto simp: nextval_def Let_def)

lemma nextval_Inl_iff: "nextval s = Inl e \<longleftrightarrow> max_value s < next_value s \<and> e = NextvalExhausted"
  by (auto simp: nextval_def Let_def)

lemma nextval_ok [simp]:
  "next_value s \<le> max_value s \<Longrightarrow>
     nextval s = Inr (next_value s, s\<lparr>last_value := next_value s, is_called := True\<rparr>)"
  by (simp add: nextval_def Let_def)

lemma nextval_exhausted [simp]: "max_value s < next_value s \<Longrightarrow> nextval s = Inl NextvalExhausted"
  by (simp add: nextval_def Let_def)

lemma next_value_after_nextval [simp]:
  "next_value (s\<lparr>last_value := v, is_called := True\<rparr>) = v + 1"
  by (simp add: next_value_def)

lemma setval_ok [simp]:
  "min_value s \<le> v \<Longrightarrow> v \<le> max_value s \<Longrightarrow> setval s v = Inr (s\<lparr>last_value := v, is_called := True\<rparr>)"
  by (simp add: setval_def)

lemma setval_below [simp]: "v < min_value s \<Longrightarrow> setval s v = Inl (SetvalOutOfBounds v)"
  by (simp add: setval_def)

lemma setval_above [simp]: "max_value s < v \<Longrightarrow> setval s v = Inl (SetvalOutOfBounds v)"
  by (simp add: setval_def)

lemma setval_Inr_next_value: "setval s v = Inr s' \<Longrightarrow> next_value s' = v + 1"
  by (auto simp: setval_def split: if_splits)

lemma setval_bounds [simp]:
  "min_value (s\<lparr>last_value := v, is_called := True\<rparr>) = min_value s"
  "max_value (s\<lparr>last_value := v, is_called := True\<rparr>) = max_value s"
  by simp_all

text \<open>Every value \<open>nextval\<close> hands out lies within the bounds of a well-formed sequence.\<close>

lemma nextval_in_bounds:
  "seq_wf s \<Longrightarrow> nextval s = Inr (v, s') \<Longrightarrow> min_value s \<le> v \<and> v \<le> max_value s \<and> seq_wf s'"
  by (auto simp: nextval_Inr_iff seq_wf_def)

lemma setval_wf: "setval s v = Inr s' \<Longrightarrow> seq_wf s'"
  by (auto simp: setval_def seq_wf_def next_value_def split: if_splits)

lemma serial_seq_wf: "seq_wf serial_seq"
  by (simp add: seq_wf_def serial_seq_def next_value_def)

end
