(* ===== verification/Orders.thy ===== *)
theory Orders
  imports PgSequence
begin

text \<open>
  The order handler \<open>app.post("/api/orders", ..)\<close> of \<^verbatim>\<open>src/backend/server.js\<close>
  (lines 136 to 193): it validates the request body, opens a database transaction,
  resynchronises \<open>transactions_id_seq\<close> to \<open>COALESCE(MAX(id), 0)\<close>, inserts one
  \<open>transactions\<close> row per cart line (\<open>sale_id = 0\<close>, \<open>quantity = 1\<close>, the request's
  price, category \<open>Sale\<close>) and commits; any exception rolls the table back. The sequence
  is not rolled back (\<open>PgSequence\<close>). The state is the part of the database the handler
  touches: the \<open>transactions\<close> table, in insertion order, and its sequence.
\<close>

section \<open>Rows, requests, state\<close>

record txn =
  txn_id :: int
  sale_id :: int
  menu_item_id :: int
  quantity :: int
  price :: money
  paymentmethod :: "string option"
  transactioncategory :: string

text \<open>One entry of \<open>req.body.items\<close>: its fields \<open>itemid\<close> and \<open>price\<close>.\<close>

record order_item =
  itemid :: jsval
  item_price :: jsval

text \<open>
  \<open>req.body\<close>; \<open>items = None\<close> when \<open>items\<close> is not an array. \<open>paymentMethod\<close> is
  bound to a text column as it is (\<open>None\<close> for \<open>undefined\<close>, stored as \<open>NULL\<close>).
\<close>

record order_request =
  customerName :: jsval
  userId :: jsval
  items :: "order_item list option"
  paymentMethod :: "string option"

record order_db =
  transactions :: "txn list"
  transactions_id_seq :: pg_seq

datatype order_response = OrderSaved | MissingOrderDetails | FailedToSave

datatype order_error = InvalidItemFormat | BindError | SeqFailure seq_error

section \<open>The handler\<close>

text \<open>\<open>!customerName || !userId || !Array.isArray(items) || items.length === 0\<close>\<close>

definition missing_order_details :: "order_request \<Rightarrow> bool" where
  "missing_order_details r \<longleftrightarrow>
     \<not> js_truthy (customerName r) \<or> \<not> js_truthy (userId r) \<or> items r = None \<or> items r = Some []"

definition order_items :: "order_request \<Rightarrow> order_item list" where
  "order_items r = (case items r of None \<Rightarrow> [] | Some xs \<Rightarrow> xs)"

text \<open>\<open>!item.itemid || item.price === undefined\<close>\<close>

definition invalid_item_format :: "order_item \<Rightarrow> bool" where
  "invalid_item_format it \<longleftrightarrow> \<not> js_truthy (itemid it) \<or> item_price it = JUndef"

text \<open>The row \<open>INSERT INTO transactions .. VALUES (0, itemid, 1, price, paymentMethod, 'Sale')\<close> writes, with the id \<open>nextval\<close> gave.\<close>

definition sale_txn :: "int \<Rightarrow> int \<Rightarrow> money \<Rightarrow> string option \<Rightarrow> txn" where
  "sale_txn i mid p pm =
     \<lparr>txn_id = i, sale_id = 0, menu_item_id = mid, quantity = 1, price = p,
      paymentmethod = pm, transactioncategory = ''Sale''\<rparr>"

text \<open>\<open>SELECT COALESCE(MAX(id), 0) FROM transactions\<close>\<close>

definition max_txn_id :: "txn list \<Rightarrow> int" where
  "max_txn_id ts = coalesce_max (map txn_id ts)"

text \<open>\<open>SELECT setval('transactions_id_seq', (SELECT COALESCE(MAX(id), 0) FROM transactions))\<close>\<close>

definition resync_seq :: "order_db \<Rightarrow> seq_error + order_db" where
  "resync_seq d =
     (case setval (transactions_id_seq d) (max_txn_id (transactions d)) of
        Inl e \<Rightarrow> Inl e
      | Inr s \<Rightarrow> Inr (d\<lparr>transactions_id_seq := s\<rparr>))"

text \<open>
  The \<open>for (const item of items)\<close> loop. An error carries the sequence state reached, since
  the rollback keeps it. The bound parameters are coerced before the column default
  \<open>nextval\<close> runs, so a coercion error consumes no sequence value.
\<close>

fun insert_items :: "string option \<Rightarrow> order_item list \<Rightarrow> order_db \<Rightarrow> (order_error \<times> pg_seq) + order_db" where
  "insert_items pm [] d = Inr d"
| "insert_items pm (it # its) d =
     (if invalid_item_format it then Inl (InvalidItemFormat, transactions_id_seq d)
      else case (pg_int (itemid it), pg_num (item_price it)) of
        (Some mid, Some p) \<Rightarrow>
          (case nextval (transactions_id_seq d) of
             Inl e \<Rightarrow> Inl (SeqFailure e, transactions_id_seq d)
           | Inr (i, s) \<Rightarrow>
               insert_items pm its
                 (d\<lparr>transactions := transactions d @ [sale_txn i mid p pm], transactions_id_seq := s\<rparr>))
      | _ \<Rightarrow> Inl (BindError, transactions_id_seq d))"

text \<open>Everything between \<open>BEGIN\<close> and \<open>COMMIT\<close>.\<close>

definition order_batch :: "order_request \<Rightarrow> order_db \<Rightarrow> (order_error \<times> pg_seq) + order_db" where
  "order_batch r d =
     (case resync_seq d of
        Inl e \<Rightarrow> Inl (SeqFailure e, transactions_id_seq d)
      | Inr d1 \<Rightarrow> insert_items (paymentMethod r) (order_items r) d1)"

text \<open>The handler: \<open>400\<close> before any query, \<open>COMMIT\<close> or \<open>ROLLBACK\<close> after the batch.\<close>

definition submit_order :: "order_request \<Rightarrow> order_db \<Rightarrow> order_response \<times> order_db" where
  "submit_order r d =
     (if missing_order_details r then (MissingOrderDetails, d)
      else case order_batch r d of
        Inl (e, s) \<Rightarrow> (FailedToSave, d\<lparr>transactions_id_seq := s\<rparr>)
      | Inr d' \<Rightarrow> (OrderSaved, d'))"

section \<open>What a cart line becomes\<close>

text \<open>The menu item id and price a line is stored with, or \<open>None\<close> when the line aborts the batch.\<close>

definition item_line :: "order_item \<Rightarrow> (int \<times> money) option" where
  "item_line it =
     (if invalid_item_format it then None
      else case (pg_int (itemid it), pg_num (item_price it)) of
        (Some mid, Some p) \<Rightarrow> Some (mid, p)
      | _ \<Rightarrow> None)"

fun sale_rows :: "string option \<Rightarrow> int \<Rightarrow> (int \<times> money) list \<Rightarrow> txn list" where
  "sale_rows pm k [] = []"
| "sale_rows pm k ((mid, p) # ls) = sale_txn k mid p pm # sale_rows pm (k + 1) ls"

text \<open>The transaction ids, read in insertion order, strictly increase.\<close>

definition ids_ascending :: "txn list \<Rightarrow> bool" where
  "ids_ascending ts \<longleftrightarrow> sorted_wrt (<) (map txn_id ts)"

text \<open>The state the handler commits when every line of \<open>r\<close> is stored as \<open>ls\<close>.\<close>

abbreviation saved_db :: "order_request \<Rightarrow> order_db \<Rightarrow> (int \<times> money) list \<Rightarrow> order_db" where
  "saved_db r d ls \<equiv>
     \<lparr>transactions = transactions d @ sale_rows (paymentMethod r) (max_txn_id (transactions d) + 1) ls,
      transactions_id_seq = (transactions_id_seq d)\<lparr>last_value := max_txn_id (transactions d) + int (length ls), is_called := True\<rparr>\<rparr>"

section \<open>Example data for the witnesses\<close>

definition example_db :: order_db where
  "example_db =
     \<lparr>transactions = [sale_txn 5 1 (9/2) (Some ''Cash'')],
      transactions_id_seq = serial_seq\<lparr>last_value := 5, is_called := True\<rparr>\<rparr>"

definition example_order :: order_request where
  "example_order =
     \<lparr>customerName = JStr ''Ann'', userId = JNum 7,
      items = Some [\<lparr>itemid = JNum 3, item_price = JNum (11/2)\<rparr>, \<lparr>itemid = JNum 4, item_price = JNum 5\<rparr>],
      paymentMethod = Some ''Cash''\<rparr>"

definition example_bad_order :: order_request where
  "example_bad_order =
     example_order\<lparr>items := Some [\<lparr>itemid = JNum 3, item_price = JNum (11/2)\<rparr>, \<lparr>itemid = JNum 0, item_price = JNum 5\<rparr>]\<rparr>"


definition example_empty_db :: order_db where
  "example_empty_db = \<lparr>transactions = [], transactions_id_seq = serial_seq\<rparr>"

text \<open>\<open>example_db\<close> after \<open>example_bad_order\<close> was rolled back: id 6 was consumed.\<close>

definition example_retry_db :: order_db where
  "example_retry_db = example_db\<lparr>transactions_id_seq := serial_seq\<lparr>last_value := 6, is_called := True\<rparr>\<rparr>"

section \<open>Lemmas on lines, the insert loop and the resynchronisation\<close>

lemma item_line_Some_iff:
  "item_line it = Some (mid, p) \<longleftrightarrow>
     \<not> invalid_item_format it \<and> pg_int (itemid it) = Some mid \<and> pg_num (item_price it) = Some p"
  by (auto simp: item_line_def split: option.splits)

lemma item_line_None_iff:
  "item_line it = None \<longleftrightarrow>
     invalid_item_format it \<or> pg_int (itemid it) = None \<or> pg_num (item_price it) = None"
  by (auto simp: item_line_def split: option.splits)

lemma seq_called_same [simp]:
  "is_called s \<Longrightarrow> s\<lparr>last_value := last_value s, is_called := True\<rparr> = s"
  by (cases s) simp

lemma insert_items_lines:
  assumes "map item_line its = map Some ls"
    and "is_called (transactions_id_seq d)"
    and "last_value (transactions_id_seq d) + int (length its) \<le> max_value (transactions_id_seq d)"
  shows "insert_items pm its d =
           Inr (d\<lparr>transactions := transactions d @ sale_rows pm (last_value (transactions_id_seq d) + 1) ls,
                  transactions_id_seq := (transactions_id_seq d)\<lparr>last_value := last_value (transactions_id_seq d) + int (length its), is_called := True\<rparr>\<rparr>)"
  using assms
proof (induction its arbitrary: d ls)
  case Nil
  then show ?case by simp
next
  case (Cons it its)
  let ?s = "transactions_id_seq d"
  from Cons.prems(1) obtain mid p ls' where ls: "ls = (mid, p) # ls'"
    and line: "item_line it = Some (mid, p)" and lines: "map item_line its = map Some ls'"
    by (cases ls) auto
  from line have ok: "\<not> invalid_item_format it" "pg_int (itemid it) = Some mid" "pg_num (item_price it) = Some p"
    by (simp_all add: item_line_Some_iff)
  from Cons.prems(2,3) have nv: "nextval ?s = Inr (last_value ?s + 1, ?s\<lparr>last_value := last_value ?s + 1, is_called := True\<rparr>)"
    by (simp add: next_value_def)
  let ?d1 = "d\<lparr>transactions := transactions d @ [sale_txn (last_value ?s + 1) mid p pm],
               transactions_id_seq := ?s\<lparr>last_value := last_value ?s + 1, is_called := True\<rparr>\<rparr>"
  have "insert_items pm its ?d1 =
          Inr (?d1\<lparr>transactions := transactions ?d1 @ sale_rows pm (last_value ?s + 1 + 1) ls',
                   transactions_id_seq := ?s\<lparr>last_value := last_value ?s + 1 + int (length its), is_called := True\<rparr>\<rparr>)"
    using Cons.IH [OF lines, of ?d1] Cons.prems(3) by simp
  then show ?case using ok nv ls by (simp add: algebra_simps)
qed

lemma insert_items_InrD:
  assumes "insert_items pm its d = Inr d'" and "is_called (transactions_id_seq d)"
  shows "\<exists>ls. map item_line its = map Some ls \<and>
           (its \<noteq> [] \<longrightarrow> last_value (transactions_id_seq d) + int (length its) \<le> max_value (transactions_id_seq d))"
  using assms
proof (induction its arbitrary: d)
  case Nil
  then show ?case by simp
next
  case (Cons it its)
  let ?s = "transactions_id_seq d"
  from Cons.prems(1) obtain mid p where ok: "\<not> invalid_item_format it" "pg_int (itemid it) = Some mid" "pg_num (item_price it) = Some p"
    by (auto split: if_splits option.splits)
  with Cons.prems have le: "last_value ?s + 1 \<le> max_value ?s"
    by (cases "max_value ?s < last_value ?s + 1") (auto simp: next_value_def)
  with ok Cons.prems have rest: "insert_items pm its (d\<lparr>transactions := transactions d @ [sale_txn (last_value ?s + 1) mid p pm],
               transactions_id_seq := ?s\<lparr>last_value := last_value ?s + 1, is_called := True\<rparr>\<rparr>) = Inr d'"
    by (simp add: next_value_def)
  from Cons.IH [OF rest] obtain ls where "map item_line its = map Some ls"
    and "its \<noteq> [] \<longrightarrow> last_value ?s + 1 + int (length its) \<le> max_value ?s" by auto
  with ok le show ?case
    by (intro exI [of _ "(mid, p) # ls"]) (auto simp: item_line_Some_iff algebra_simps)
qed

lemma insert_items_bad_line:
  "\<exists>it \<in> set its. item_line it = None \<Longrightarrow> \<exists>e s. insert_items pm its d = Inl (e, s)"
proof (induction its arbitrary: d)
  case Nil
  then show ?case by simp
next
  case (Cons it its)
  show ?case
  proof (cases "item_line it")
    case None
    then show ?thesis by (auto simp: item_line_None_iff split: option.splits)
  next
    case (Some l)
    with Cons.prems have "\<exists>it \<in> set its. item_line it = None" by auto
    note IH = Cons.IH [OF this]
    from Some show ?thesis
      using IH by (auto simp: item_line_def split: if_splits option.splits sum.splits)
  qed
qed


lemma resync_seq_ok:
  "min_value (transactions_id_seq d) \<le> max_txn_id (transactions d) \<Longrightarrow>
   max_txn_id (transactions d) \<le> max_value (transactions_id_seq d) \<Longrightarrow>
   resync_seq d = Inr (d\<lparr>transactions_id_seq := (transactions_id_seq d)\<lparr>last_value := max_txn_id (transactions d), is_called := True\<rparr>\<rparr>)"
  by (simp add: resync_seq_def)

lemma resync_seq_InrD:
  "resync_seq d = Inr d1 \<Longrightarrow>
   min_value (transactions_id_seq d) \<le> max_txn_id (transactions d) \<and>
   max_txn_id (transactions d) \<le> max_value (transactions_id_seq d) \<and>
   d1 = d\<lparr>transactions_id_seq := (transactions_id_seq d)\<lparr>last_value := max_txn_id (transactions d), is_called := True\<rparr>\<rparr>"
  by (auto simp: resync_seq_def setval_def split: sum.splits if_splits)

lemma order_items_nonempty: "\<not> missing_order_details r \<Longrightarrow> order_items r \<noteq> []"
  by (auto simp: missing_order_details_def order_items_def split: option.splits)

lemma submit_order_commit:
  assumes "\<not> missing_order_details r"
    and "map item_line (order_items r) = map Some ls"
    and "min_value (transactions_id_seq d) \<le> max_txn_id (transactions d)"
    and "max_txn_id (transactions d) + int (length ls) \<le> max_value (transactions_id_seq d)"
  shows "submit_order r d = (OrderSaved, saved_db r d ls)"
proof -
  have len: "length (order_items r) = length ls"
    using assms(2) by (metis length_map)
  have "resync_seq d = Inr (d\<lparr>transactions_id_seq := (transactions_id_seq d)\<lparr>last_value := max_txn_id (transactions d), is_called := True\<rparr>\<rparr>)"
    using assms(3,4) by (intro resync_seq_ok) simp_all
  moreover have "insert_items (paymentMethod r) (order_items r)
      (d\<lparr>transactions_id_seq := (transactions_id_seq d)\<lparr>last_value := max_txn_id (transactions d), is_called := True\<rparr>\<rparr>)
      = Inr (saved_db r d ls)"
    using insert_items_lines [OF assms(2)] assms(4) len by (cases d) simp
  ultimately show ?thesis
    using assms(1) by (simp add: submit_order_def order_batch_def)
qed

lemma submit_order_savedD:
  assumes "submit_order r d = (OrderSaved, d')"
  shows "\<exists>ls. \<not> missing_order_details r \<and> map item_line (order_items r) = map Some ls \<and>
           min_value (transactions_id_seq d) \<le> max_txn_id (transactions d) \<and>
           max_txn_id (transactions d) + int (length ls) \<le> max_value (transactions_id_seq d) \<and>
           d' = saved_db r d ls"
proof -
  have nm: "\<not> missing_order_details r" using assms by (auto simp: submit_order_def)
  then obtain d1 where rs: "resync_seq d = Inr d1" and ins: "insert_items (paymentMethod r) (order_items r) d1 = Inr d'"
    using assms by (auto simp: submit_order_def order_batch_def split: sum.splits prod.splits)
  from resync_seq_InrD [OF rs] have b: "min_value (transactions_id_seq d) \<le> max_txn_id (transactions d)"
    "max_txn_id (transactions d) \<le> max_value (transactions_id_seq d)"
    and d1: "d1 = d\<lparr>transactions_id_seq := (transactions_id_seq d)\<lparr>last_value := max_txn_id (transactions d), is_called := True\<rparr>\<rparr>"
    by auto
  from insert_items_InrD [OF ins] d1 obtain ls where lines: "map item_line (order_items r) = map Some ls"
    and le: "order_items r \<noteq> [] \<longrightarrow> max_txn_id (transactions d) + int (length (order_items r)) \<le> max_value (transactions_id_seq d)"
    by auto
  have len: "length (order_items r) = length ls" using lines by (metis length_map)
  with le order_items_nonempty [OF nm] have bound: "max_txn_id (transactions d) + int (length ls) \<le> max_value (transactions_id_seq d)"
    by simp
  from submit_order_commit [OF nm lines b(1) bound] assms have "d' = saved_db r d ls" by simp
  with nm lines b(1) bound show ?thesis by blast
qed

lemma sale_rows_ids: "map txn_id (sale_rows pm k ls) = map (\<lambda>j. k + int j) [0..<length ls]"
proof (induction ls arbitrary: k)
  case Nil
  then show ?case by simp
next
  case (Cons l ls)
  then show ?case
    by (cases l) (simp add: sale_txn_def map_upt_Suc algebra_simps del: upt_Suc)
qed

lemma sale_rows_fields:
  "t \<in> set (sale_rows pm k ls) \<Longrightarrow>
     k \<le> txn_id t \<and> txn_id t < k + int (length ls) \<and> sale_id t = 0 \<and> quantity t = 1 \<and>
     paymentmethod t = pm \<and> transactioncategory t = ''Sale''"
proof (induction ls arbitrary: k)
  case Nil
  then show ?case by simp
next
  case (Cons l ls)
  then show ?case by (cases l) (fastforce simp: sale_txn_def)
qed

lemma sale_rows_ascending: "sorted_wrt (<) (map txn_id (sale_rows pm k ls))"
  by (simp add: sale_rows_ids sorted_wrt_map sorted_wrt_iff_nth_less)

lemma sale_rows_length [simp]: "length (sale_rows pm k ls) = length ls"
  by (induction ls arbitrary: k) auto

lemma submit_order_FailedD:
  "submit_order r d = (FailedToSave, d') \<Longrightarrow> transactions d' = transactions d"
  by (auto simp: submit_order_def split: if_splits sum.splits prod.splits)

lemma submit_order_MissingD:
  "submit_order r d = (MissingOrderDetails, d') \<Longrightarrow> d' = d"
  by (auto simp: submit_order_def split: if_splits sum.splits prod.splits)

lemma max_txn_id_ge: "t \<in> set ts \<Longrightarrow> txn_id t \<le> max_txn_id ts"
  by (auto simp: max_txn_id_def)

lemmas example_defs = example_db_def example_order_def example_bad_order_def serial_seq_def
  example_empty_db_def example_retry_db_def
  missing_order_details_def order_items_def item_line_def invalid_item_format_def max_txn_id_def
  coalesce_max_def sale_txn_def

lemma example_order_lines:
  "\<not> missing_order_details example_order \<and>
   map item_line (order_items example_order) = map Some [(3, 11/2), (4, 5)]"
  by (simp add: example_defs)

lemma example_order_result:
  "submit_order example_order example_db = (OrderSaved, saved_db example_order example_db [(3, 11/2), (4, 5)])"
  using example_order_lines by (intro submit_order_commit) (simp_all add: example_defs)

lemma example_retry_result:
  "submit_order example_order example_retry_db =
     (OrderSaved, saved_db example_order example_retry_db [(3, 11/2), (4, 5)])"
  using example_order_lines by (intro submit_order_commit) (simp_all add: example_defs)

lemma example_bad_order_result:
  "submit_order example_bad_order example_db = (FailedToSave, example_retry_db)"
  by (simp add: example_defs submit_order_def order_batch_def resync_seq_def next_value_def
      setval_def nextval_def)

lemma submit_order_appends:
  assumes "submit_order r d = (resp, d')"
  shows "\<exists>new. transactions d' = transactions d @ new \<and> (\<forall>t \<in> set new. sale_id t = 0)"
proof (cases resp)
  case OrderSaved
  then obtain ls where "d' = saved_db r d ls" using submit_order_savedD assms by blast
  then show ?thesis by (auto dest: sale_rows_fields)
next
  case MissingOrderDetails
  then show ?thesis using submit_order_MissingD assms by (intro exI [of _ "[]"]) auto
next
  case FailedToSave
  then show ?thesis using submit_order_FailedD assms by (intro exI [of _ "[]"]) auto
qed

section \<open>Properties of the order handler\<close>





text \<open>
  C3. Transaction ids stay strictly increasing in insertion order (hence unique) across
  every outcome of the handler: committed rows get ids above every stored id.
\<close>

theorem submit_order_ids_ascending:
  assumes "ids_ascending (transactions d)" and "submit_order r d = (resp, d')"
  shows "ids_ascending (transactions d')"
proof (cases resp)
  case OrderSaved
  with assms(2) obtain ls where d': "d' = saved_db r d ls" using submit_order_savedD by blast
  have "\<forall>x \<in> set (transactions d). \<forall>y \<in> set (sale_rows (paymentMethod r) (max_txn_id (transactions d) + 1) ls).
          txn_id x < txn_id y"
    using sale_rows_fields max_txn_id_ge by fastforce
  with assms(1) d' sale_rows_ascending [of "paymentMethod r" "max_txn_id (transactions d) + 1" ls]
  show ?thesis
    by (auto simp: ids_ascending_def sorted_wrt_append)
next
  case MissingOrderDetails
  with assms show ?thesis using submit_order_MissingD by blast
next
  case FailedToSave
  with assms show ?thesis using submit_order_FailedD by fastforce
qed


theorem submit_order_ids_ascending_witness:
  "ids_ascending (transactions example_db) \<and>
   ids_ascending (transactions (saved_db example_order example_db [(3, 11/2), (4, 5)]))"
proof -
  have h: "ids_ascending (transactions example_db)" by (simp add: example_defs ids_ascending_def)
  show ?thesis using h submit_order_ids_ascending [OF h example_order_result] by simp
qed

text \<open>
  C4. After a committed order the sequence is ahead of the table: every stored id is below
  the value the next \<open>nextval\<close> hands out, whatever state the sequence was in before
  (the resynchronisation repairs drift).
\<close>

theorem submit_order_seq_ahead:
  assumes "submit_order r d = (OrderSaved, d')"
  shows "\<forall>t \<in> set (transactions d'). txn_id t < next_value (transactions_id_seq d')"
proof -
  from submit_order_savedD [OF assms] obtain ls where d': "d' = saved_db r d ls" by blast
  have "\<forall>t \<in> set (transactions d). txn_id t < max_txn_id (transactions d) + int (length ls) + 1"
    using max_txn_id_ge by fastforce
  moreover have "\<forall>t \<in> set (sale_rows (paymentMethod r) (max_txn_id (transactions d) + 1) ls).
      txn_id t < max_txn_id (transactions d) + int (length ls) + 1"
    using sale_rows_fields by fastforce
  ultimately show ?thesis using d' by (auto simp: next_value_def)
qed

theorem submit_order_seq_ahead_witness:
  "list_all (\<lambda>t. txn_id t < next_value (transactions_id_seq (saved_db example_order example_db [(3, 11/2), (4, 5)])))
     (transactions (saved_db example_order example_db [(3, 11/2), (4, 5)]))"
  using submit_order_seq_ahead [OF example_order_result] by (simp only: list_all_iff)

text \<open>
  C5. A committed order appends exactly one row per cart line, after the existing rows;
  each new row has an id strictly above the sequence minimum and at most its maximum,
  quantity 1, \<open>sale_id\<close> 0 and category \<open>Sale\<close>.
\<close>

theorem submit_order_new_rows:
  assumes "submit_order r d = (OrderSaved, d')"
  shows "\<exists>new. transactions d' = transactions d @ new \<and> length new = length (order_items r) \<and>
     (\<forall>t \<in> set new. min_value (transactions_id_seq d) < txn_id t \<and> txn_id t \<le> max_value (transactions_id_seq d) \<and>
        quantity t = 1 \<and> sale_id t = 0 \<and> transactioncategory t = ''Sale'')"
proof -
  from submit_order_savedD [OF assms] obtain ls where
    lines: "map item_line (order_items r) = map Some ls"
    and lo: "min_value (transactions_id_seq d) \<le> max_txn_id (transactions d)"
    and hi: "max_txn_id (transactions d) + int (length ls) \<le> max_value (transactions_id_seq d)"
    and d': "d' = saved_db r d ls" by blast
  have len: "length (order_items r) = length ls" using lines by (metis length_map)
  show ?thesis
    using sale_rows_fields [of _ "paymentMethod r" "max_txn_id (transactions d) + 1" ls] lo hi d' len
    by (intro exI [of _ "sale_rows (paymentMethod r) (max_txn_id (transactions d) + 1) ls"]) fastforce
qed

theorem submit_order_new_rows_witness:
  "\<exists>new. transactions (saved_db example_order example_db [(3, 11/2), (4, 5)]) = transactions example_db @ new \<and>
     length new = length (order_items example_order) \<and>
     (\<forall>t \<in> set new. min_value (transactions_id_seq example_db) < txn_id t \<and>
        txn_id t \<le> max_value (transactions_id_seq example_db) \<and>
        quantity t = 1 \<and> sale_id t = 0 \<and> transactioncategory t = ''Sale'')"
  using submit_order_new_rows [OF example_order_result] .

text \<open>
  C6. On an empty \<open>transactions\<close> table every order fails: the resynchronisation calls
  \<open>setval\<close> with \<open>COALESCE(MAX(id), 0) = 0\<close>, below the sequence minimum 1, so
  PostgreSQL raises and the batch is rolled back; the table stays empty.
\<close>

theorem submit_order_empty_table:
  assumes "transactions d = []" and "0 < min_value (transactions_id_seq d)"
  shows "fst (submit_order r d) \<noteq> OrderSaved \<and> transactions (snd (submit_order r d)) = []"
proof -
  obtain resp d' where res: "submit_order r d = (resp, d')" by fastforce
  have "resp \<noteq> OrderSaved"
  proof
    assume "resp = OrderSaved"
    with res submit_order_savedD have "min_value (transactions_id_seq d) \<le> max_txn_id (transactions d)"
      by blast
    with assms show False by (simp add: max_txn_id_def)
  qed
  moreover have "transactions d' = []"
    using res \<open>resp \<noteq> OrderSaved\<close> assms(1)
    by (cases resp) (auto dest: submit_order_FailedD submit_order_MissingD)
  ultimately show ?thesis using res by simp
qed

theorem submit_order_empty_table_witness:
  "fst (submit_order example_order example_empty_db) \<noteq> OrderSaved \<and>
   transactions (snd (submit_order example_order example_empty_db)) = []"
proof -
  have h: "transactions example_empty_db = []" "0 < min_value (transactions_id_seq example_empty_db)"
    by (simp_all add: example_defs)
  show ?thesis using submit_order_empty_table [OF h] .
qed

text \<open>
  C7. The resynchronisation can move the sequence backwards: when the sequence has already
  handed out values above the largest stored id (as after a rolled-back batch, whose
  \<open>nextval\<close> calls survive the rollback), a committed order stores a row whose id is one
  of those values again.
\<close>

theorem submit_order_reissues_ids:
  assumes "submit_order r d = (OrderSaved, d')"
    and "max_txn_id (transactions d) < last_value (transactions_id_seq d)"
  shows "\<exists>t \<in> set (transactions d'). t \<notin> set (transactions d) \<and> txn_id t \<le> last_value (transactions_id_seq d)"
proof -
  from submit_order_savedD [OF assms(1)] obtain ls where nm: "\<not> missing_order_details r"
    and lines: "map item_line (order_items r) = map Some ls" and d': "d' = saved_db r d ls" by blast
  have "ls \<noteq> []" using order_items_nonempty [OF nm] lines by auto
  then obtain mid p ls' where ls: "ls = (mid, p) # ls'" by (metis list.exhaust surj_pair)
  let ?t = "sale_txn (max_txn_id (transactions d) + 1) mid p (paymentMethod r)"
  have "?t \<notin> set (transactions d)"
    using max_txn_id_ge by (fastforce simp: sale_txn_def)
  moreover have "?t \<in> set (transactions d')" using d' ls by simp
  moreover have "txn_id ?t \<le> last_value (transactions_id_seq d)"
    using assms(2) by (simp add: sale_txn_def)
  ultimately show ?thesis by blast
qed

theorem submit_order_reissues_ids_witness:
  "submit_order example_bad_order example_db = (FailedToSave, example_retry_db) \<and>
   (\<exists>t \<in> set (transactions (saved_db example_order example_retry_db [(3, 11/2), (4, 5)])).
      t \<notin> set (transactions example_retry_db) \<and> txn_id t \<le> last_value (transactions_id_seq example_retry_db))"
proof -
  have h: "max_txn_id (transactions example_retry_db) < last_value (transactions_id_seq example_retry_db)"
    by (simp add: example_defs)
  show ?thesis
    using example_bad_order_result submit_order_reissues_ids [OF example_retry_result h] by simp
qed

end
