(* ===== verification/Inventory.thy ===== *)
theory Inventory
  imports PgSequence
begin

text \<open>
  The inventory handlers of \<^verbatim>\<open>src/backend/server.js\<close>: \<open>POST /api/inventory/add\<close>
  (lines 261 to 293), an upsert by menu item written as a \<open>SELECT\<close> followed by an
  \<open>UPDATE quantity = quantity + $1\<close> or an \<open>INSERT\<close>; \<open>POST /api/inventory/update\<close>
  (lines 317 to 331), an absolute overwrite by inventory id; and
  \<open>DELETE /api/inventory/delete\<close> (lines 300 to 314). Each query is its own
  autocommitted statement. The state is the \<open>inventory\<close> table in insertion order and the
  sequence of its \<open>inventoryid\<close> column. The sequential handlers keep one row per menu
  item; the interleaving of two add requests (an inductive step relation at the end) does
  not.
\<close>

section \<open>Rows, requests, state\<close>

record inv_row =
  inventoryid :: int
  inv_quantity :: int
  menuitemid :: int
  timestamp :: instant
  restockdate :: instant
  lastupdated :: instant

record inv_db =
  inventory :: "inv_row list"
  inventory_id_seq :: pg_seq

text \<open>\<open>const { menuitemid, quantity } = req.body\<close> of the add handler.\<close>

record inv_add_request =
  add_menuitemid :: jsval
  add_quantity :: jsval

text \<open>\<open>const { inventoryid, quantity } = req.body\<close> of the update handler.\<close>

record inv_update_request =
  upd_inventoryid :: jsval
  upd_quantity :: jsval

datatype inv_response =
    InventoryAdded | InventoryUpdated | MissingFields | MissingInventoryId
  | MissingIdOrQuantity | DeleteOk | UpdateOk | InventoryFailed

datatype inv_error = InvBindError | InvOutOfRange | InvSeqFailure seq_error

section \<open>Statements\<close>

text \<open>A value bound to an \<open>integer\<close> parameter: it must parse and fit in int4.\<close>

definition bind_int4 :: "jsval \<Rightarrow> inv_error + int" where
  "bind_int4 v = (case pg_int v of
      None \<Rightarrow> Inl InvBindError
    | Some x \<Rightarrow> if in_int4 x then Inr x else Inl InvOutOfRange)"

text \<open>\<open>SELECT * FROM inventory WHERE menuitemid = $1\<close>, tested with \<open>result.rows.length > 0\<close>.\<close>

definition has_item :: "int \<Rightarrow> inv_row list \<Rightarrow> bool" where
  "has_item mid rows \<longleftrightarrow> (\<exists>row \<in> set rows. menuitemid row = mid)"

text \<open>
  \<open>UPDATE inventory SET quantity = quantity + $1, lastupdated = $2 WHERE menuitemid = $3\<close>:
  one statement over every matching row; an int4 overflow in any of them aborts it.
\<close>

definition increment_rows :: "int \<Rightarrow> int \<Rightarrow> instant \<Rightarrow> inv_row list \<Rightarrow> inv_error + inv_row list" where
  "increment_rows mid q now rows =
     (if \<exists>row \<in> set rows. menuitemid row = mid \<and> \<not> in_int4 (inv_quantity row + q)
      then Inl InvOutOfRange
      else Inr (map (\<lambda>row. if menuitemid row = mid
                          then row\<lparr>inv_quantity := inv_quantity row + q, lastupdated := now\<rparr>
                          else row) rows))"

text \<open>\<open>INSERT INTO inventory (timestamp, menuitemid, quantity, restockdate, lastupdated) VALUES ($1, $2, $3, $1, $1)\<close>\<close>

definition insert_row :: "int \<Rightarrow> int \<Rightarrow> instant \<Rightarrow> inv_db \<Rightarrow> inv_error + inv_db" where
  "insert_row mid q now d =
     (case nextval (inventory_id_seq d) of
        Inl e \<Rightarrow> Inl (InvSeqFailure e)
      | Inr (i, s) \<Rightarrow>
          Inr (d\<lparr>inventory := inventory d @
                   [\<lparr>inventoryid = i, inv_quantity = q, menuitemid = mid, timestamp = now,
                     restockdate = now, lastupdated = now\<rparr>],
                 inventory_id_seq := s\<rparr>))"

text \<open>The write the add handler issues after its \<open>SELECT\<close> saw \<open>found\<close>.\<close>

definition add_write :: "bool \<Rightarrow> int \<Rightarrow> jsval \<Rightarrow> instant \<Rightarrow> inv_db \<Rightarrow> inv_error + inv_db" where
  "add_write found mid qv now d =
     (case bind_int4 qv of
        Inl e \<Rightarrow> Inl e
      | Inr q \<Rightarrow>
          if found then
            (case increment_rows mid q now (inventory d) of
               Inl e \<Rightarrow> Inl e
             | Inr rows \<Rightarrow> Inr (d\<lparr>inventory := rows\<rparr>))
          else insert_row mid q now d)"

section \<open>Handlers\<close>

text \<open>\<open>app.post('/api/inventory/add')\<close>, at time \<open>now\<close>.\<close>

definition add_inventory :: "instant \<Rightarrow> inv_add_request \<Rightarrow> inv_db \<Rightarrow> inv_response \<times> inv_db" where
  "add_inventory now r d =
     (if \<not> js_truthy (add_menuitemid r) \<or> \<not> js_truthy (add_quantity r) then (MissingFields, d)
      else case bind_int4 (add_menuitemid r) of
        Inl e \<Rightarrow> (InventoryFailed, d)
      | Inr mid \<Rightarrow>
          (let found = has_item mid (inventory d) in
           case add_write found mid (add_quantity r) now d of
             Inl e \<Rightarrow> (InventoryFailed, d)
           | Inr d' \<Rightarrow> (if found then InventoryUpdated else InventoryAdded, d')))"

text \<open>\<open>app.delete('/api/inventory/delete')\<close>: \<open>DELETE FROM inventory WHERE inventoryid = $1\<close>.\<close>

definition delete_inventory :: "jsval \<Rightarrow> inv_db \<Rightarrow> inv_response \<times> inv_db" where
  "delete_inventory v d =
     (if \<not> js_truthy v then (MissingInventoryId, d)
      else case bind_int4 v of
        Inl e \<Rightarrow> (InventoryFailed, d)
      | Inr iid \<Rightarrow> (DeleteOk, d\<lparr>inventory := filter (\<lambda>row. inventoryid row \<noteq> iid) (inventory d)\<rparr>))"

text \<open>\<open>app.post('/api/inventory/update')\<close>: \<open>UPDATE inventory SET quantity = $1 WHERE inventoryid = $2\<close>.\<close>

definition update_inventory :: "inv_update_request \<Rightarrow> inv_db \<Rightarrow> inv_response \<times> inv_db" where
  "update_inventory r d =
     (if \<not> js_truthy (upd_inventoryid r) \<or> \<not> js_truthy (upd_quantity r) then (MissingIdOrQuantity, d)
      else case (bind_int4 (upd_quantity r), bind_int4 (upd_inventoryid r)) of
        (Inr q, Inr iid) \<Rightarrow>
          (UpdateOk, d\<lparr>inventory := map (\<lambda>row. if inventoryid row = iid then row\<lparr>inv_quantity := q\<rparr> else row)
                                         (inventory d)\<rparr>)
      | _ \<Rightarrow> (InventoryFailed, d))"

text \<open>The three writing endpoints as one operation type, as the route table dispatches them.\<close>

datatype inv_op = AddOp instant inv_add_request | UpdateOp inv_update_request | DeleteOp jsval

fun inv_handle :: "inv_op \<Rightarrow> inv_db \<Rightarrow> inv_response \<times> inv_db" where
  "inv_handle (AddOp now r) d = add_inventory now r d"
| "inv_handle (UpdateOp r) d = update_inventory r d"
| "inv_handle (DeleteOp v) d = delete_inventory v d"

section \<open>The table's invariant\<close>

text \<open>
  One row per menu item, inventory ids strictly increasing in insertion order, and the
  sequence ahead of every stored id.
\<close>

definition inv_wf :: "inv_db \<Rightarrow> bool" where
  "inv_wf d \<longleftrightarrow>
     distinct (map menuitemid (inventory d)) \<and>
     sorted_wrt (<) (map inventoryid (inventory d)) \<and>
     (\<forall>row \<in> set (inventory d). inventoryid row < next_value (inventory_id_seq d))"

text \<open>The quantity the table holds for a menu item, summed over its rows.\<close>

definition item_quantity :: "int \<Rightarrow> inv_db \<Rightarrow> int" where
  "item_quantity mid d = sum_list (map inv_quantity (filter (\<lambda>row. menuitemid row = mid) (inventory d)))"

definition item_rows :: "int \<Rightarrow> inv_db \<Rightarrow> nat" where
  "item_rows mid d = length (filter (\<lambda>row. menuitemid row = mid) (inventory d))"

section \<open>Concurrent add requests\<close>

text \<open>
  The add handler awaits its \<open>SELECT\<close> before it issues the \<open>UPDATE\<close> or \<open>INSERT\<close>,
  and Node serves other requests meanwhile; each statement is atomic on its own. A request
  (after its guard and the binding of \<open>menuitemid\<close>) is a client with its menu item, its
  quantity value and its time; its program counter says whether it has run its
  \<open>SELECT\<close> (and what it saw) and whether its write succeeded. Which client moves next is
  not determined: the steps are a relation.
\<close>

datatype add_pc = AddStart | AddChecked bool | AddDone bool

record race_state =
  race_db :: inv_db
  race_pc :: "nat \<Rightarrow> add_pc"

type_synonym add_client = "int \<times> jsval \<times> instant"

inductive race_step :: "add_client list \<Rightarrow> race_state \<Rightarrow> race_state \<Rightarrow> bool" for cs where
  check: "i < length cs \<Longrightarrow> race_pc s i = AddStart \<Longrightarrow> cs ! i = (mid, v, now) \<Longrightarrow>
    race_step cs s (s\<lparr>race_pc := (race_pc s)(i := AddChecked (has_item mid (inventory (race_db s))))\<rparr>)"
| write_ok: "i < length cs \<Longrightarrow> race_pc s i = AddChecked b \<Longrightarrow> cs ! i = (mid, v, now) \<Longrightarrow>
    add_write b mid v now (race_db s) = Inr d' \<Longrightarrow>
    race_step cs s \<lparr>race_db = d', race_pc = (race_pc s)(i := AddDone True)\<rparr>"
| write_err: "i < length cs \<Longrightarrow> race_pc s i = AddChecked b \<Longrightarrow> cs ! i = (mid, v, now) \<Longrightarrow>
    add_write b mid v now (race_db s) = Inl e \<Longrightarrow>
    race_step cs s (s\<lparr>race_pc := (race_pc s)(i := AddDone False)\<rparr>)"

inductive race_reach :: "add_client list \<Rightarrow> inv_db \<Rightarrow> race_state \<Rightarrow> bool" for cs d0 where
  start: "race_reach cs d0 \<lparr>race_db = d0, race_pc = (\<lambda>_. AddStart)\<rparr>"
| step: "race_reach cs d0 s \<Longrightarrow> race_step cs s t \<Longrightarrow> race_reach cs d0 t"

text \<open>The quantity client \<open>i\<close> adds to its item when its write succeeds.\<close>

definition client_delta :: "add_client list \<Rightarrow> int \<Rightarrow> race_state \<Rightarrow> nat \<Rightarrow> int" where
  "client_delta cs mid s i =
     (case cs ! i of (m, v, now) \<Rightarrow>
        if m = mid \<and> race_pc s i = AddDone True
        then (case bind_int4 v of Inr q \<Rightarrow> q | Inl _ \<Rightarrow> 0) else 0)"

text \<open>The invariant of the interleaving proof: the item keeps one row, its quantity is the
  initial one plus what the finished clients added, and no client of the item saw it absent.\<close>

definition race_inv :: "add_client list \<Rightarrow> int \<Rightarrow> inv_db \<Rightarrow> race_state \<Rightarrow> bool" where
  "race_inv cs mid d0 s \<longleftrightarrow>
     item_rows mid (race_db s) = 1 \<and>
     item_quantity mid (race_db s) = item_quantity mid d0 + (\<Sum>k<length cs. client_delta cs mid s k) \<and>
     (\<forall>k<length cs. fst (cs ! k) = mid \<longrightarrow> race_pc s k \<noteq> AddChecked False)"

text \<open>
  Progress of the interleaving: a client that has not run its \<open>SELECT\<close> has two steps
  left, one that has run it has one, a finished client none.
\<close>

definition pc_rank :: "add_pc \<Rightarrow> nat" where
  "pc_rank pc = (case pc of AddStart \<Rightarrow> 2 | AddChecked _ \<Rightarrow> 1 | AddDone _ \<Rightarrow> 0)"

definition race_pending :: "add_client list \<Rightarrow> race_state \<Rightarrow> nat" where
  "race_pending cs s = (\<Sum>k<length cs. pc_rank (race_pc s k))"

section \<open>Example data for the witnesses\<close>

definition example_inv_db :: inv_db where
  "example_inv_db =
     \<lparr>inventory = [\<lparr>inventoryid = 1, inv_quantity = 10, menuitemid = 1, timestamp = 0,
                     restockdate = 0, lastupdated = 0\<rparr>],
      inventory_id_seq = serial_seq\<lparr>last_value := 1, is_called := True\<rparr>\<rparr>"

definition example_race :: "add_client list" where
  "example_race = [(2, JStr ''5'', 100), (2, JNum 7, 101)]"

section \<open>Lemmas on the statements and handlers\<close>

lemma increment_rows_Inr:
  "increment_rows mid q now rows = Inr rows' \<Longrightarrow>
     map menuitemid rows' = map menuitemid rows \<and> map inventoryid rows' = map inventoryid rows"
  by (auto simp: increment_rows_def split: if_splits)

lemma increment_rows_ok:
  "\<forall>row \<in> set rows. menuitemid row = mid \<longrightarrow> in_int4 (inv_quantity row + q) \<Longrightarrow>
   increment_rows mid q now rows =
     Inr (map (\<lambda>row. if menuitemid row = mid
                     then row\<lparr>inv_quantity := inv_quantity row + q, lastupdated := now\<rparr> else row) rows)"
  by (auto simp: increment_rows_def)

lemma insert_row_Inr:
  "insert_row mid q now d = Inr d' \<Longrightarrow>
     next_value (inventory_id_seq d) \<le> max_value (inventory_id_seq d) \<and>
     d' = d\<lparr>inventory := inventory d @
              [\<lparr>inventoryid = next_value (inventory_id_seq d), inv_quantity = q, menuitemid = mid,
                timestamp = now, restockdate = now, lastupdated = now\<rparr>],
            inventory_id_seq := (inventory_id_seq d)\<lparr>last_value := next_value (inventory_id_seq d), is_called := True\<rparr>\<rparr>"
  by (auto simp: insert_row_def nextval_Inr_iff split: sum.splits)

lemma inv_wf_same_keys:
  assumes wf: "inv_wf d"
    and k1: "map menuitemid (inventory d') = map menuitemid (inventory d)"
    and k2: "map inventoryid (inventory d') = map inventoryid (inventory d)"
    and sq: "inventory_id_seq d' = inventory_id_seq d"
  shows "inv_wf d'"
proof -
  have img: "inventoryid ` set (inventory d') = inventoryid ` set (inventory d)"
    using k2 by (metis list.set_map)
  have "\<forall>row \<in> set (inventory d'). inventoryid row < next_value (inventory_id_seq d')"
  proof
    fix row
    assume "row \<in> set (inventory d')"
    then have "inventoryid row \<in> inventoryid ` set (inventory d)" using img by blast
    then obtain row' where "row' \<in> set (inventory d)" and "inventoryid row = inventoryid row'" by blast
    with wf sq show "inventoryid row < next_value (inventory_id_seq d')" by (simp add: inv_wf_def)
  qed
  with wf k1 k2 show ?thesis by (simp add: inv_wf_def)
qed

lemma insert_row_wf:
  "inv_wf d \<Longrightarrow> \<not> has_item mid (inventory d) \<Longrightarrow> insert_row mid q now d = Inr d' \<Longrightarrow> inv_wf d'"
  by (drule insert_row_Inr) (auto simp: inv_wf_def has_item_def sorted_wrt_append)

lemma add_write_Inr:
  "add_write found mid v now d = Inr d' \<Longrightarrow>
     \<exists>q. bind_int4 v = Inr q \<and>
       (if found then \<exists>rows. increment_rows mid q now (inventory d) = Inr rows \<and> d' = d\<lparr>inventory := rows\<rparr>
        else insert_row mid q now d = Inr d')"
  by (auto simp: add_write_def split: sum.splits)

lemma add_write_wf:
  assumes wf: "inv_wf d" and res: "add_write (has_item mid (inventory d)) mid v now d = Inr d'"
  shows "inv_wf d'"
proof (cases "has_item mid (inventory d)")
  case True
  with add_write_Inr [OF res] obtain q rows where inc: "increment_rows mid q now (inventory d) = Inr rows"
    and d': "d' = d\<lparr>inventory := rows\<rparr>"
    by auto
  from increment_rows_Inr [OF inc] have keys: "map menuitemid rows = map menuitemid (inventory d)"
    "map inventoryid rows = map inventoryid (inventory d)" by simp_all
  have "inv_wf (d\<lparr>inventory := rows\<rparr>)"
    by (rule inv_wf_same_keys [OF wf]) (simp_all add: keys)
  then show ?thesis using d' by simp
next
  case False
  with add_write_Inr [OF res] obtain q where "insert_row mid q now d = Inr d'" by auto
  with False wf show ?thesis by (rule_tac insert_row_wf)
qed

lemma add_inventory_cases:
  "add_inventory now r d = (resp, d') \<Longrightarrow>
     d' = d \<or> (\<exists>mid. add_write (has_item mid (inventory d)) mid (add_quantity r) now d = Inr d')"
proof -
  assume res: "add_inventory now r d = (resp, d')"
  show ?thesis
  proof (cases "js_truthy (add_menuitemid r) \<and> js_truthy (add_quantity r)")
    case True
    show ?thesis
    proof (cases "bind_int4 (add_menuitemid r)")
      case (Inl e)
      with True res show ?thesis by (simp add: add_inventory_def)
    next
      case (Inr mid)
      with True res show ?thesis
        by (cases "add_write (has_item mid (inventory d)) mid (add_quantity r) now d")
           (auto simp: add_inventory_def Let_def)
    qed
  next
    case False
    with res show ?thesis by (auto simp: add_inventory_def)
  qed
qed

lemma add_inventory_wf: "inv_wf d \<Longrightarrow> add_inventory now r d = (resp, d') \<Longrightarrow> inv_wf d'"
  by (drule add_inventory_cases) (auto intro: add_write_wf)

lemma delete_inventory_wf: "inv_wf d \<Longrightarrow> delete_inventory v d = (resp, d') \<Longrightarrow> inv_wf d'"
  by (auto simp: delete_inventory_def inv_wf_def distinct_map_filter sorted_wrt_map sorted_wrt_filter
      split: if_splits sum.splits)

lemma update_inventory_cases:
  "update_inventory r d = (resp, d') \<Longrightarrow>
     d' = d \<or> (\<exists>q iid. d' = d\<lparr>inventory := map (\<lambda>row. if inventoryid row = iid then row\<lparr>inv_quantity := q\<rparr> else row) (inventory d)\<rparr>)"
  by (auto simp: update_inventory_def split: if_splits sum.splits)

lemma map_set_quantity_keys:
  "map menuitemid (map (\<lambda>row. if P row then row\<lparr>inv_quantity := q\<rparr> else row) xs) = map menuitemid xs"
  "map inventoryid (map (\<lambda>row. if P row then row\<lparr>inv_quantity := q\<rparr> else row) xs) = map inventoryid xs"
  by (induction xs) auto

lemma update_inventory_wf: "inv_wf d \<Longrightarrow> update_inventory r d = (resp, d') \<Longrightarrow> inv_wf d'"
  by (drule update_inventory_cases) (auto intro!: inv_wf_same_keys [of d] simp: map_set_quantity_keys)

lemma filter_item_increment:
  "filter (\<lambda>row. menuitemid row = mid)
     (map (\<lambda>row. if menuitemid row = m then row\<lparr>inv_quantity := inv_quantity row + q, lastupdated := now\<rparr> else row) rows)
   = (if m = mid then map (\<lambda>row. row\<lparr>inv_quantity := inv_quantity row + q, lastupdated := now\<rparr>)
                        (filter (\<lambda>row. menuitemid row = mid) rows)
      else filter (\<lambda>row. menuitemid row = mid) rows)"
  by (induction rows) auto

lemma item_rows_increment:
  "increment_rows m q now (inventory d) = Inr rows \<Longrightarrow> item_rows mid (d\<lparr>inventory := rows\<rparr>) = item_rows mid d"
  by (auto simp: increment_rows_def item_rows_def filter_item_increment split: if_splits)

lemma item_quantity_increment:
  "increment_rows m q now (inventory d) = Inr rows \<Longrightarrow>
   item_quantity mid (d\<lparr>inventory := rows\<rparr>) =
     item_quantity mid d + (if m = mid then int (item_rows mid d) * q else 0)"
proof -
  assume "increment_rows m q now (inventory d) = Inr rows"
  then have rows: "rows = map (\<lambda>row. if menuitemid row = m then row\<lparr>inv_quantity := inv_quantity row + q, lastupdated := now\<rparr> else row) (inventory d)"
    by (auto simp: increment_rows_def split: if_splits)
  have "sum_list (map (\<lambda>row. inv_quantity row + q) xs) = sum_list (map inv_quantity xs) + int (length xs) * q" for xs :: "inv_row list"
    by (induction xs) (auto simp: algebra_simps)
  then show ?thesis
    by (simp add: rows item_quantity_def item_rows_def filter_item_increment comp_def)
qed

lemma no_item_filter: "\<not> has_item mid rows \<Longrightarrow> filter (\<lambda>row. menuitemid row = mid) rows = []"
  by (auto simp: has_item_def filter_empty_conv)

lemma insert_row_ok:
  "next_value (inventory_id_seq d) \<le> max_value (inventory_id_seq d) \<Longrightarrow>
   insert_row mid q now d =
     Inr (d\<lparr>inventory := inventory d @
              [\<lparr>inventoryid = next_value (inventory_id_seq d), inv_quantity = q, menuitemid = mid,
                timestamp = now, restockdate = now, lastupdated = now\<rparr>],
            inventory_id_seq := (inventory_id_seq d)\<lparr>last_value := next_value (inventory_id_seq d), is_called := True\<rparr>\<rparr>)"
  by (simp add: insert_row_def)

lemma item_rows_insert:
  "insert_row m q now d = Inr d' \<Longrightarrow> item_rows mid d' = item_rows mid d + (if m = mid then 1 else 0)"
  by (drule insert_row_Inr) (simp add: item_rows_def)

lemma item_quantity_insert:
  "insert_row m q now d = Inr d' \<Longrightarrow> item_quantity mid d' = item_quantity mid d + (if m = mid then q else 0)"
  by (drule insert_row_Inr) (simp add: item_quantity_def)

lemma race_reach_check:
  "race_reach cs d0 s \<Longrightarrow> i < length cs \<Longrightarrow> race_pc s i = AddStart \<Longrightarrow> cs ! i = (mid, v, now) \<Longrightarrow>
   race_reach cs d0 (s\<lparr>race_pc := (race_pc s)(i := AddChecked (has_item mid (inventory (race_db s))))\<rparr>)"
  by (rule race_reach.step) (auto intro: race_step.check)

lemma race_reach_write:
  "race_reach cs d0 s \<Longrightarrow> i < length cs \<Longrightarrow> race_pc s i = AddChecked b \<Longrightarrow> cs ! i = (mid, v, now) \<Longrightarrow>
   add_write b mid v now (race_db s) = Inr d' \<Longrightarrow>
   race_reach cs d0 \<lparr>race_db = d', race_pc = (race_pc s)(i := AddDone True)\<rparr>"
  by (rule race_reach.step) (auto intro: race_step.write_ok)

lemma sum_lessThan_change_one:
  fixes f g :: "nat \<Rightarrow> int"
  assumes "i < n" and "\<forall>k<n. k \<noteq> i \<longrightarrow> g k = f k"
  shows "(\<Sum>k<n. g k) = (\<Sum>k<n. f k) + (g i - f i)"
proof -
  have fin: "finite {..<n}" and mem: "i \<in> {..<n}" using assms(1) by simp_all
  have rest: "(\<Sum>k \<in> {..<n} - {i}. g k) = (\<Sum>k \<in> {..<n} - {i}. f k)"
    using assms(2) by (intro sum.cong) auto
  show ?thesis
    using sum.remove [OF fin mem, of g] sum.remove [OF fin mem, of f] rest by simp
qed

lemma client_delta_same:
  "race_pc t k = race_pc s k \<Longrightarrow> client_delta cs mid t k = client_delta cs mid s k"
  by (simp add: client_delta_def)

lemma client_delta_not_done:
  "race_pc s k \<noteq> AddDone True \<Longrightarrow> client_delta cs mid s k = 0"
  by (simp add: client_delta_def split: prod.splits)

lemma has_item_one: "item_rows mid d = 1 \<Longrightarrow> has_item mid (inventory d)"
proof -
  assume "item_rows mid d = 1"
  then have "filter (\<lambda>row. menuitemid row = mid) (inventory d) \<noteq> []" by (auto simp: item_rows_def)
  then show ?thesis by (auto simp: has_item_def filter_empty_conv)
qed

lemma race_step_inv:
  assumes step: "race_step cs s t" and inv: "race_inv cs mid d0 s"
  shows "race_inv cs mid d0 t"
  using step
proof cases
  case (check i m v now)
  let ?b = "has_item m (inventory (race_db s))"
  have deltas: "\<forall>k<length cs. k \<noteq> i \<longrightarrow> client_delta cs mid t k = client_delta cs mid s k"
    using check by (auto intro!: client_delta_same)
  have "client_delta cs mid t i = 0" "client_delta cs mid s i = 0"
    using check by (simp_all add: client_delta_not_done)
  then have sums: "(\<Sum>k<length cs. client_delta cs mid t k) = (\<Sum>k<length cs. client_delta cs mid s k)"
    using sum_lessThan_change_one [OF check(2) deltas] by simp
  have "m = mid \<Longrightarrow> ?b" using inv has_item_one by (auto simp: race_inv_def)
  with inv check sums show ?thesis by (auto simp: race_inv_def)
next
  case (write_ok i b m v now d')
  have deltas: "\<forall>k<length cs. k \<noteq> i \<longrightarrow> client_delta cs mid t k = client_delta cs mid s k"
    using write_ok by (auto intro!: client_delta_same)
  have si: "client_delta cs mid s i = 0" using write_ok by (simp add: client_delta_not_done)
  from add_write_Inr [OF write_ok(5)] obtain q where q: "bind_int4 v = Inr q"
    and w: "if b then \<exists>rows. increment_rows m q now (inventory (race_db s)) = Inr rows \<and> d' = (race_db s)\<lparr>inventory := rows\<rparr>
            else insert_row m q now (race_db s) = Inr d'" by blast
  have ti: "client_delta cs mid t i = (if m = mid then q else 0)"
    using write_ok q by (simp add: client_delta_def)
  have db: "item_rows mid d' = item_rows mid (race_db s) \<and>
            item_quantity mid d' = item_quantity mid (race_db s) + (if m = mid then q else 0)"
  proof (cases b)
    case True
    with w obtain rows where inc: "increment_rows m q now (inventory (race_db s)) = Inr rows"
      and d': "d' = (race_db s)\<lparr>inventory := rows\<rparr>" by auto
    show ?thesis using item_rows_increment [OF inc, of mid] item_quantity_increment [OF inc, of mid] inv d'
      by (simp add: race_inv_def)
  next
    case False
    then have "m \<noteq> mid" using inv write_ok by (auto simp: race_inv_def)
    with False w show ?thesis using item_rows_insert item_quantity_insert by simp
  qed
  have sums: "(\<Sum>k<length cs. client_delta cs mid t k) = (\<Sum>k<length cs. client_delta cs mid s k) + (if m = mid then q else 0)"
    using sum_lessThan_change_one [OF write_ok(2) deltas] si ti by simp
  show ?thesis using inv write_ok db sums by (auto simp: race_inv_def)
next
  case (write_err i b m v now e)
  have deltas: "\<forall>k<length cs. k \<noteq> i \<longrightarrow> client_delta cs mid t k = client_delta cs mid s k"
    using write_err by (auto intro!: client_delta_same)
  have "client_delta cs mid t i = 0" "client_delta cs mid s i = 0"
    using write_err by (simp_all add: client_delta_not_done)
  then have sums: "(\<Sum>k<length cs. client_delta cs mid t k) = (\<Sum>k<length cs. client_delta cs mid s k)"
    using sum_lessThan_change_one [OF write_err(2) deltas] by simp
  with inv write_err show ?thesis by (auto simp: race_inv_def)
qed

lemma filter_distinct_key:
  "distinct (map f xs) \<Longrightarrow> x \<in> set xs \<Longrightarrow> filter (\<lambda>y. f y = f x) xs = [x]"
proof (induction xs)
  case Nil
  then show ?case by simp
next
  case (Cons y ys)
  show ?case
  proof (cases "y = x")
    case True
    with Cons.prems have "\<forall>z \<in> set ys. f z \<noteq> f x" by (auto simp: image_iff)
    with True show ?thesis by (simp add: filter_empty_conv)
  next
    case False
    with Cons.prems have "x \<in> set ys" "f y \<noteq> f x" by auto
    with Cons show ?thesis by simp
  qed
qed

lemma inv_wf_ids_distinct: "inv_wf d \<Longrightarrow> distinct (map inventoryid (inventory d))"
  by (simp add: inv_wf_def strict_sorted_iff)

lemma filter_item_set_quantity:
  "filter (\<lambda>r. menuitemid r = m) (map (\<lambda>r. if inventoryid r = iid then r\<lparr>inv_quantity := q\<rparr> else r) rows)
   = map (\<lambda>r. if inventoryid r = iid then r\<lparr>inv_quantity := q\<rparr> else r) (filter (\<lambda>r. menuitemid r = m) rows)"
  by (induction rows) auto

lemmas inv_example_defs = example_inv_db_def example_race_def serial_seq_def inv_wf_def has_item_def
  bind_int4_def parse_int_def parse_nat_def is_digit_def digit_val_def in_int4_def next_value_def

lemma race_step_pending: "race_step cs s t \<Longrightarrow> race_pending cs t < race_pending cs s"
  by (induction rule: race_step.induct) (auto simp: race_pending_def pc_rank_def intro!: sum_update_less)

lemma race_final_iff:
  "(\<forall>t. \<not> race_step cs s t) \<longleftrightarrow> (\<forall>k<length cs. \<exists>b. race_pc s k = AddDone b)"
proof
  assume none: "\<forall>t. \<not> race_step cs s t"
  show "\<forall>k<length cs. \<exists>b. race_pc s k = AddDone b"
  proof (intro allI impI)
    fix k assume k: "k < length cs"
    obtain mid v now where c: "cs ! k = (mid, v, now)" by (cases "cs ! k") auto
    show "\<exists>b. race_pc s k = AddDone b"
    proof (cases "race_pc s k")
      case AddStart then show ?thesis using none race_step.check [OF k AddStart c] by blast
    next
      case (AddChecked b)
      then show ?thesis
        using none race_step.write_ok [OF k AddChecked c] race_step.write_err [OF k AddChecked c]
        by (cases "add_write b mid v now (race_db s)") blast+
    qed simp
  qed
next
  assume "\<forall>k<length cs. \<exists>b. race_pc s k = AddDone b"
  then show "\<forall>t. \<not> race_step cs s t"
    by (auto elim!: race_step.cases)
qed

lemma item_quantity_set_row:
  assumes wf: "inv_wf d" and row: "row \<in> set (inventory d)" "inventoryid row = iid"
  shows "item_quantity (menuitemid row) (d\<lparr>inventory := map (\<lambda>r. if inventoryid r = iid then r\<lparr>inv_quantity := q\<rparr> else r) (inventory d)\<rparr>) = q \<and>
         (\<forall>m. m \<noteq> menuitemid row \<longrightarrow>
            item_quantity m (d\<lparr>inventory := map (\<lambda>r. if inventoryid r = iid then r\<lparr>inv_quantity := q\<rparr> else r) (inventory d)\<rparr>) =
            item_quantity m d)"
proof -
  let ?upd = "\<lambda>r. if inventoryid r = iid then r\<lparr>inv_quantity := q\<rparr> else r"
  have mine: "filter (\<lambda>r. menuitemid r = menuitemid row) (inventory d) = [row]"
    using wf row(1) by (intro filter_distinct_key) (simp add: inv_wf_def)
  have ids: "filter (\<lambda>r. inventoryid r = inventoryid row) (inventory d) = [row]"
    using inv_wf_ids_distinct [OF wf] row(1) by (intro filter_distinct_key)
  have other: "map ?upd (filter (\<lambda>r. menuitemid r = m) (inventory d)) = filter (\<lambda>r. menuitemid r = m) (inventory d)"
    if "m \<noteq> menuitemid row" for m
  proof (rule map_idI)
    fix r
    assume r: "r \<in> set (filter (\<lambda>r. menuitemid r = m) (inventory d))"
    have "inventoryid r \<noteq> iid"
    proof
      assume "inventoryid r = iid"
      with r row(2) have "r \<in> set (filter (\<lambda>r. inventoryid r = inventoryid row) (inventory d))" by simp
      with ids have "r = row" by simp
      with r that show False by simp
    qed
    then show "?upd r = r" by simp
  qed
  show ?thesis
    using mine row(2) other by (simp add: item_quantity_def filter_item_set_quantity)
qed

lemma item_rows_one:
  assumes wf: "inv_wf d" and h: "has_item m (inventory d)"
  shows "item_rows m d = 1"
proof -
  obtain row where row: "row \<in> set (inventory d)" "menuitemid row = m"
    using h by (auto simp: has_item_def)
  have "filter (\<lambda>r. menuitemid r = menuitemid row) (inventory d) = [row]"
    using wf row(1) by (intro filter_distinct_key) (simp add: inv_wf_def)
  with row(2) show ?thesis by (simp add: item_rows_def)
qed

section \<open>Properties of the inventory handlers\<close>

text \<open>
  C8. Run one at a time, every inventory endpoint (add, update, delete), on every branch,
  keeps the table well-formed: one row per menu item, inventory ids strictly increasing,
  the id sequence ahead of every stored id.
\<close>

theorem inv_handle_wf:
  assumes "inv_wf d" and "inv_handle op d = (resp, d')"
  shows "inv_wf d'"
  using assms
  by (cases op) (auto intro: add_inventory_wf update_inventory_wf delete_inventory_wf)

theorem inv_handle_wf_witness:
  "inv_wf example_inv_db \<and>
   inv_wf (snd (inv_handle (AddOp 100 \<lparr>add_menuitemid = JNum 2, add_quantity = JStr ''5''\<rparr>) example_inv_db))"
proof -
  have h: "inv_wf example_inv_db" by (simp add: inv_example_defs)
  show ?thesis using h inv_handle_wf [OF h, of "AddOp 100 \<lparr>add_menuitemid = JNum 2, add_quantity = JStr ''5''\<rparr>"]
    by (metis prod.collapse)
qed

text \<open>
  C9. Two add requests for a menu item with no row, run one after the other, create
  exactly one row whose quantity is the sum of the two quantities: the first answers
  \<open>Inventory added\<close>, the second \<open>Inventory updated\<close>.
\<close>

theorem add_inventory_twice:
  assumes wf: "inv_wf d" and new: "\<not> has_item mid (inventory d)"
    and mv: "js_truthy mv" "bind_int4 mv = Inr mid"
    and v1: "js_truthy v1" "bind_int4 v1 = Inr q1"
    and v2: "js_truthy v2" "bind_int4 v2 = Inr q2"
    and sum: "in_int4 (q1 + q2)"
    and room: "next_value (inventory_id_seq d) \<le> max_value (inventory_id_seq d)"
  shows "\<exists>d1 d2. add_inventory t1 \<lparr>add_menuitemid = mv, add_quantity = v1\<rparr> d = (InventoryAdded, d1) \<and>
           add_inventory t2 \<lparr>add_menuitemid = mv, add_quantity = v2\<rparr> d1 = (InventoryUpdated, d2) \<and>
           item_rows mid d2 = 1 \<and> item_quantity mid d2 = q1 + q2 \<and> inv_wf d2"
proof -
  obtain d1 where ins: "insert_row mid q1 t1 d = Inr d1" using insert_row_ok [OF room] by blast
  have first: "add_inventory t1 \<lparr>add_menuitemid = mv, add_quantity = v1\<rparr> d = (InventoryAdded, d1)"
    using mv v1 new ins by (simp add: add_inventory_def add_write_def)
  have rows1: "item_rows mid d1 = 1" and qty1: "item_quantity mid d1 = q1"
    using item_rows_insert [OF ins, of mid] item_quantity_insert [OF ins, of mid] new
    by (simp_all add: item_rows_def item_quantity_def no_item_filter)
  obtain row where fr: "filter (\<lambda>row. menuitemid row = mid) (inventory d1) = [row]"
    using rows1 by (auto simp: item_rows_def length_Suc_conv)
  have "row \<in> set (filter (\<lambda>row. menuitemid row = mid) (inventory d1))" using fr by simp
  then have has1: "has_item mid (inventory d1)" by (auto simp: has_item_def)
  have rq1: "inv_quantity row = q1" using fr qty1 by (simp add: item_quantity_def)
  have "\<forall>r \<in> set (inventory d1). menuitemid r = mid \<longrightarrow> in_int4 (inv_quantity r + q2)"
  proof (intro ballI impI)
    fix r assume "r \<in> set (inventory d1)" "menuitemid r = mid"
    then have "r \<in> set (filter (\<lambda>row. menuitemid row = mid) (inventory d1))" by simp
    with fr rq1 sum show "in_int4 (inv_quantity r + q2)" by simp
  qed
  from increment_rows_ok [OF this] obtain rows where inc: "increment_rows mid q2 t2 (inventory d1) = Inr rows"
    by blast
  have second: "add_inventory t2 \<lparr>add_menuitemid = mv, add_quantity = v2\<rparr> d1 = (InventoryUpdated, d1\<lparr>inventory := rows\<rparr>)"
    using mv v2 has1 inc by (simp add: add_inventory_def add_write_def)
  have wf1: "inv_wf d1" using insert_row_wf [OF wf new ins] .
  have wf2: "inv_wf (d1\<lparr>inventory := rows\<rparr>)"
    using add_write_wf [OF wf1, of mid v2 t2 "d1\<lparr>inventory := rows\<rparr>"] has1 inc v2
    by (simp add: add_write_def)
  show ?thesis
    using first second item_rows_increment [OF inc, of mid] item_quantity_increment [OF inc, of mid] rows1 qty1 wf2
    by (intro exI [of _ d1] exI [of _ "d1\<lparr>inventory := rows\<rparr>"]) simp
qed

theorem add_inventory_twice_witness:
  "\<exists>d1 d2. add_inventory 100 \<lparr>add_menuitemid = JNum 2, add_quantity = JStr ''5''\<rparr> example_inv_db = (InventoryAdded, d1) \<and>
     add_inventory 101 \<lparr>add_menuitemid = JNum 2, add_quantity = JNum 7\<rparr> d1 = (InventoryUpdated, d2) \<and>
     item_rows 2 d2 = 1 \<and> item_quantity 2 d2 = 12 \<and> inv_wf d2"
proof -
  have h: "inv_wf example_inv_db" "\<not> has_item 2 (inventory example_inv_db)"
    "js_truthy (JNum 2)" "bind_int4 (JNum 2) = Inr 2"
    "js_truthy (JStr ''5'')" "bind_int4 (JStr ''5'') = Inr 5"
    "js_truthy (JNum 7)" "bind_int4 (JNum 7) = Inr 7"
    "in_int4 (5 + 7)"
    "next_value (inventory_id_seq example_inv_db) \<le> max_value (inventory_id_seq example_inv_db)"
    by (simp_all add: inv_example_defs)
  show ?thesis using add_inventory_twice [OF h, of 100 101] by simp
qed

text \<open>
  C10. The add handler's check-then-act is not atomic: when two add requests for a menu
  item with no row interleave (both \<open>SELECT\<close>s before either write), both insert, and
  the table holds two rows for the item.
\<close>

theorem add_race_duplicates:
  assumes new: "\<not> has_item mid (inventory d0)"
    and ij: "i < length cs" "j < length cs" "i \<noteq> j"
    and ci: "cs ! i = (mid, vi, ti)" and cj: "cs ! j = (mid, vj, tj)"
    and qi: "bind_int4 vi = Inr qi" and qj: "bind_int4 vj = Inr qj"
    and room: "next_value (inventory_id_seq d0) + 1 \<le> max_value (inventory_id_seq d0)"
  shows "\<exists>s. race_reach cs d0 s \<and> item_rows mid (race_db s) = 2"
proof -
  let ?s0 = "\<lparr>race_db = d0, race_pc = (\<lambda>_. AddStart)\<rparr>"
  have r1: "race_reach cs d0 (?s0\<lparr>race_pc := (race_pc ?s0)(i := AddChecked False)\<rparr>)"
    using race_reach_check [OF race_reach.start [of cs d0] ij(1) _ ci] new by simp
  let ?s1 = "?s0\<lparr>race_pc := (race_pc ?s0)(i := AddChecked False)\<rparr>"
  have r2: "race_reach cs d0 (?s1\<lparr>race_pc := (race_pc ?s1)(j := AddChecked False)\<rparr>)"
    using race_reach_check [OF r1 ij(2) _ cj] new ij(3) by simp
  let ?s2 = "?s1\<lparr>race_pc := (race_pc ?s1)(j := AddChecked False)\<rparr>"
  obtain d1 where ins1: "insert_row mid qi ti d0 = Inr d1"
    using insert_row_ok room by fastforce
  have r3: "race_reach cs d0 \<lparr>race_db = d1, race_pc = (race_pc ?s2)(i := AddDone True)\<rparr>"
    using race_reach_write [OF r2 ij(1) _ ci, of False d1] ij(3) qi ins1 by (simp add: add_write_def)
  let ?s3 = "\<lparr>race_db = d1, race_pc = (race_pc ?s2)(i := AddDone True)\<rparr>"
  have nv1: "next_value (inventory_id_seq d1) \<le> max_value (inventory_id_seq d1)"
    using insert_row_Inr [OF ins1] room by simp
  obtain d2 where ins2: "insert_row mid qj tj d1 = Inr d2"
    using insert_row_ok [OF nv1] by fastforce
  have r4: "race_reach cs d0 \<lparr>race_db = d2, race_pc = (race_pc ?s3)(j := AddDone True)\<rparr>"
    using race_reach_write [OF r3 ij(2) _ cj, of False d2] ij(3) qj ins2 by (simp add: add_write_def)
  have "item_rows mid d2 = 2"
    using item_rows_insert [OF ins1, of mid] item_rows_insert [OF ins2, of mid] new
    by (simp add: item_rows_def no_item_filter)
  with r4 show ?thesis by auto
qed

theorem add_race_duplicates_witness:
  "\<exists>s. race_reach example_race example_inv_db s \<and> item_rows 2 (race_db s) = 2"
proof -
  have h: "\<not> has_item 2 (inventory example_inv_db)" "0 < length example_race" "1 < length example_race" "(0::nat) \<noteq> 1"
    "example_race ! 0 = (2, JStr ''5'', 100)" "example_race ! 1 = (2, JNum 7, 101)"
    "bind_int4 (JStr ''5'') = Inr 5" "bind_int4 (JNum 7) = Inr 7"
    "next_value (inventory_id_seq example_inv_db) + 1 \<le> max_value (inventory_id_seq example_inv_db)"
    by (simp_all add: inv_example_defs)
  show ?thesis using add_race_duplicates [OF h] .
qed

text \<open>
  C11. Increments are never lost: for an item that has exactly one row, in every state
  any interleaving of add requests reaches, the item still has one row and its quantity
  is the initial quantity plus the quantity of every request whose write succeeded
  (\<open>quantity = quantity + $1\<close> is a single atomic statement).
\<close>

theorem add_race_no_lost_update:
  assumes "race_reach cs d0 s" and "item_rows mid d0 = 1"
  shows "item_rows mid (race_db s) = 1 \<and>
         item_quantity mid (race_db s) = item_quantity mid d0 + (\<Sum>k<length cs. client_delta cs mid s k)"
proof -
  have "race_inv cs mid d0 s"
    using assms(1)
  proof (induction rule: race_reach.induct)
    case start
    show ?case using assms(2) by (simp add: race_inv_def client_delta_def split: prod.splits)
  next
    case (step s t)
    then show ?case using race_step_inv by blast
  qed
  then show ?thesis by (simp add: race_inv_def)
qed

theorem add_race_no_lost_update_witness:
  "item_rows 1 example_inv_db = 1 \<and>
   item_quantity 1 (race_db \<lparr>race_db = example_inv_db, race_pc = (\<lambda>_. AddStart)\<rparr>) =
     item_quantity 1 example_inv_db +
     (\<Sum>k<length example_race. client_delta example_race 1 \<lparr>race_db = example_inv_db, race_pc = (\<lambda>_. AddStart)\<rparr> k)"
proof -
  have h: "item_rows 1 example_inv_db = 1" by (simp add: example_inv_db_def item_rows_def)
  show ?thesis using h add_race_no_lost_update [OF race_reach.start h] by simp
qed

text \<open>
  C12. The update endpoint overwrites: for a row of a well-formed table, it sets the
  quantity of that row's menu item to the bound value, whatever its sign, and leaves the
  quantity of every other item as it was.
\<close>

theorem update_inventory_quantity:
  assumes wf: "inv_wf d" and row: "row \<in> set (inventory d)" "inventoryid row = iid"
    and iv: "js_truthy iv" "bind_int4 iv = Inr iid"
    and qv: "js_truthy qv" "bind_int4 qv = Inr q"
  shows "\<exists>d'. update_inventory \<lparr>upd_inventoryid = iv, upd_quantity = qv\<rparr> d = (UpdateOk, d') \<and>
           item_quantity (menuitemid row) d' = q \<and>
           (\<forall>m. m \<noteq> menuitemid row \<longrightarrow> item_quantity m d' = item_quantity m d)"
  using iv qv item_quantity_set_row [OF wf row, of q] by (simp add: update_inventory_def)

theorem update_inventory_quantity_witness:
  "\<exists>d'. update_inventory \<lparr>upd_inventoryid = JNum 1, upd_quantity = JNum (-5)\<rparr> example_inv_db = (UpdateOk, d') \<and>
     item_quantity 1 d' = -5 \<and> (\<forall>m. m \<noteq> 1 \<longrightarrow> item_quantity m d' = item_quantity m example_inv_db)"
proof -
  let ?row = "\<lparr>inventoryid = 1, inv_quantity = 10, menuitemid = 1, timestamp = 0, restockdate = 0, lastupdated = 0\<rparr>"
  have h: "inv_wf example_inv_db" "?row \<in> set (inventory example_inv_db)" "inventoryid ?row = 1"
    "js_truthy (JNum 1)" "bind_int4 (JNum 1) = Inr 1" "js_truthy (JNum (-5))" "bind_int4 (JNum (-5)) = Inr (-5)"
    by (simp_all add: inv_example_defs)
  show ?thesis using update_inventory_quantity [OF h] by simp
qed



end
