(* ===== verification/Catalog.thy ===== *)
theory Catalog
  imports Prelude
begin

text \<open>
  The menu catalog handlers of \<^verbatim>\<open>src/backend/server.js\<close>: the listings
  \<open>GET /api/menu\<close> and \<open>GET /api/menu/:type\<close> (lines 83 to 132, available items with
  their ingredient names, ordered by item id), \<open>POST /api/menu/add\<close> (lines 198 to 213,
  the next id computed as \<open>COALESCE(MAX(itemid), 0) + 1\<close>) and
  \<open>POST /api/menu/delete\<close> (lines 217 to 226, delete by name). Express registers a second
  \<open>POST /api/menu/add\<close> and \<open>POST /api/menu/delete\<close> later in the file (lines 455 to
  483); those never run (see the route table) and are modelled in \<open>Listings\<close>. \<open>itemid\<close> is the table's primary key (the
  listing groups by it while selecting \<open>itemname\<close>).
\<close>

section \<open>Tables\<close>

record menu_item =
  itemid :: int
  itemname :: string
  itemtype :: string
  itemprice :: money
  available :: bool

record catalog =
  menuitem :: "menu_item list"
  itemingredients :: "(int \<times> int) list" \<comment> \<open>(itemid, ingredientid)\<close>
  ingredients :: "(int \<times> string) list"   \<comment> \<open>(ingredientid, ingredientname)\<close>

text \<open>A row of the listing: \<open>itemid, itemname, itemtype, itemprice, ingredients\<close>.\<close>

record menu_row =
  row_itemid :: int
  row_itemname :: string
  row_itemtype :: string
  row_itemprice :: money
  row_ingredients :: "string list"

datatype menu_response = MenuRows "menu_row list" | MenuAdded | MenuDeleted | MenuFailed

section \<open>The listings\<close>

text \<open>
  \<open>ARRAY_REMOVE(ARRAY_AGG(i.ingredientname), NULL)\<close> over
  \<open>LEFT JOIN itemingredients mi ON m.itemid = mi.itemid LEFT JOIN ingredients i ON mi.ingredientid = i.ingredientid\<close>:
  the names of the item's ingredients, in join order; links to a missing ingredient give
  \<open>NULL\<close> and are removed.
\<close>

definition ingredient_names :: "catalog \<Rightarrow> int \<Rightarrow> string list" where
  "ingredient_names c i =
     concat (map (\<lambda>(it, ing). map snd (filter (\<lambda>(ing', _). ing' = ing) (ingredients c)))
                 (filter (\<lambda>(it, _). it = i) (itemingredients c)))"

definition menu_row_of :: "catalog \<Rightarrow> menu_item \<Rightarrow> menu_row" where
  "menu_row_of c m =
     \<lparr>row_itemid = itemid m, row_itemname = itemname m, row_itemtype = itemtype m,
      row_itemprice = itemprice m, row_ingredients = ingredient_names c (itemid m)\<rparr>"

text \<open>\<open>WHERE m.available = TRUE [AND m.itemtype = $1] GROUP BY m.itemid, m.itemtype ORDER BY m.itemid\<close>\<close>

definition menu_listing :: "(menu_item \<Rightarrow> bool) \<Rightarrow> catalog \<Rightarrow> menu_row list" where
  "menu_listing p c = map (menu_row_of c) (sort_key itemid (filter (\<lambda>m. available m \<and> p m) (menuitem c)))"

definition get_menu :: "catalog \<Rightarrow> menu_response" where
  "get_menu c = MenuRows (menu_listing (\<lambda>_. True) c)"

definition get_menu_by_type :: "string \<Rightarrow> catalog \<Rightarrow> menu_response" where
  "get_menu_by_type ty c = MenuRows (menu_listing (\<lambda>m. itemtype m = ty) c)"

section \<open>Adding and deleting\<close>

text \<open>\<open>SELECT COALESCE(MAX(itemid), 0) + 1 AS nextid FROM menuitem\<close>\<close>

definition next_itemid :: "catalog \<Rightarrow> int" where
  "next_itemid c = coalesce_max (map itemid (menuitem c)) + 1"

text \<open>
  The first \<open>app.post("/api/menu/add")\<close>: compute the next id, then
  \<open>INSERT INTO menuitem (itemid, itemname, itemtype, itemprice, available) VALUES ($1, $2, $3, $4, TRUE)\<close>.
  The insert fails on a duplicate key (a concurrent add), on a \<open>NULL\<close> name or type
  (\<open>None\<close>: absent from the body; the columns are taken to be \<open>NOT NULL\<close>) and on a
  price that does not bind. Names and types are strings, as the front end sends them.
\<close>

definition add_menu_item :: "string option \<Rightarrow> string option \<Rightarrow> jsval \<Rightarrow> catalog \<Rightarrow> menu_response \<times> catalog" where
  "add_menu_item nv tv pv c =
     (let i = next_itemid c in
      case (nv, tv, pg_num pv) of
        (Some n, Some ty, Some p) \<Rightarrow>
          if i \<in> set (map itemid (menuitem c)) then (MenuFailed, c)
          else (MenuAdded, c\<lparr>menuitem := menuitem c @
                  [\<lparr>itemid = i, itemname = n, itemtype = ty, itemprice = p, available = True\<rparr>]\<rparr>)
      | _ \<Rightarrow> (MenuFailed, c))"

text \<open>The first \<open>app.post("/api/menu/delete")\<close>: \<open>DELETE FROM menuitem WHERE itemname = $1\<close>; an absent name matches nothing.\<close>

definition delete_menu_item :: "string option \<Rightarrow> catalog \<Rightarrow> menu_response \<times> catalog" where
  "delete_menu_item nv c =
     (case nv of
        Some n \<Rightarrow> (MenuDeleted, c\<lparr>menuitem := filter (\<lambda>m. itemname m \<noteq> n) (menuitem c)\<rparr>)
      | None \<Rightarrow> (MenuDeleted, c))"

section \<open>The catalog's invariant\<close>

definition catalog_wf :: "catalog \<Rightarrow> bool" where
  "catalog_wf c \<longleftrightarrow> distinct (map itemid (menuitem c))"

section \<open>Example data for the witnesses\<close>

definition example_catalog :: catalog where
  "example_catalog =
     \<lparr>menuitem = [\<lparr>itemid = 2, itemname = ''Milk Tea'', itemtype = ''Milk Tea'', itemprice = 11/2, available = True\<rparr>,
                  \<lparr>itemid = 1, itemname = ''Taro'', itemtype = ''Milk Tea'', itemprice = 5, available = False\<rparr>],
      itemingredients = [(2, 10)], ingredients = [(10, ''Milk'')]\<rparr>"

section \<open>Lemmas\<close>

lemma row_itemid_menu_row_of [simp]: "row_itemid (menu_row_of c m) = itemid m"
  by (simp add: menu_row_of_def)

lemma menu_listing_ids:
  "map row_itemid (menu_listing p c) = map itemid (sort_key itemid (filter (\<lambda>m. available m \<and> p m) (menuitem c)))"
  by (simp add: menu_listing_def menu_row_of_def comp_def)

lemma catalog_wf_filter: "catalog_wf c \<Longrightarrow> distinct (map itemid (filter P (menuitem c)))"
  by (simp add: catalog_wf_def distinct_map_filter)

lemma next_itemid_fresh: "m \<in> set (menuitem c) \<Longrightarrow> itemid m < next_itemid c"
  by (auto simp: next_itemid_def)

section \<open>Properties of the catalog handlers\<close>

text \<open>
  C13. With item ids unique, a menu listing (all items, or one type) is strictly ascending
  by item id, lists exactly the available items that pass the filter, and shows each with
  its own name, type, price and ingredient names.
\<close>

theorem menu_listing_correct:
  assumes "catalog_wf c"
  shows "sorted_wrt (<) (map row_itemid (menu_listing p c)) \<and>
         set (map row_itemid (menu_listing p c)) = itemid ` {m \<in> set (menuitem c). available m \<and> p m} \<and>
         (\<forall>r \<in> set (menu_listing p c). \<exists>m \<in> set (menuitem c). available m \<and> p m \<and> r = menu_row_of c m)"
proof -
  let ?ms = "filter (\<lambda>m. available m \<and> p m) (menuitem c)"
  have d: "distinct (map itemid (sort_key itemid ?ms))"
    using catalog_wf_filter [OF assms] by (simp add: distinct_map mset_map)
  have s: "sorted (map itemid (sort_key itemid ?ms))" by simp
  have "sorted_wrt (<) (map itemid (sort_key itemid ?ms))"
    using d s by (simp add: strict_sorted_iff)
  moreover have "set (map row_itemid (menu_listing p c)) = itemid ` {m \<in> set (menuitem c). available m \<and> p m}"
    by (auto simp: menu_listing_ids)
  moreover have "\<forall>r \<in> set (menu_listing p c). \<exists>m \<in> set (menuitem c). available m \<and> p m \<and> r = menu_row_of c m"
    by (auto simp: menu_listing_def)
  ultimately show ?thesis by (simp only: menu_listing_ids)
qed

theorem menu_listing_correct_witness:
  "sorted_wrt (<) (map row_itemid (menu_listing (\<lambda>_. True) example_catalog)) \<and>
   set (map row_itemid (menu_listing (\<lambda>_. True) example_catalog)) =
     itemid ` {m \<in> set (menuitem example_catalog). available m \<and> True}"
proof -
  have h: "catalog_wf example_catalog" by (simp add: example_catalog_def catalog_wf_def)
  show ?thesis using menu_listing_correct [OF h, of "\<lambda>_. True"] by blast
qed

text \<open>
  C14. Adding a menu item with a name, a type and a bindable price stores it, available,
  under \<open>COALESCE(MAX(itemid), 0) + 1\<close>, an id above every stored id, so item ids stay
  unique.
\<close>

theorem add_menu_item_fresh:
  assumes wf: "catalog_wf c" and p: "pg_num pv = Some price"
  shows "add_menu_item (Some n) (Some ty) pv c =
           (MenuAdded, c\<lparr>menuitem := menuitem c @
              [\<lparr>itemid = next_itemid c, itemname = n, itemtype = ty, itemprice = price, available = True\<rparr>]\<rparr>) \<and>
         (\<forall>m \<in> set (menuitem c). itemid m < next_itemid c) \<and>
         catalog_wf (snd (add_menu_item (Some n) (Some ty) pv c))"
proof -
  have "next_itemid c \<notin> set (map itemid (menuitem c))"
    using next_itemid_fresh by fastforce
  with wf p show ?thesis
    by (auto simp: add_menu_item_def catalog_wf_def Let_def dest: next_itemid_fresh)
qed

theorem add_menu_item_fresh_witness:
  "add_menu_item (Some ''Lychee'') (Some ''Fruit Tea'') (JNum 6) example_catalog =
     (MenuAdded, example_catalog\<lparr>menuitem := menuitem example_catalog @
        [\<lparr>itemid = next_itemid example_catalog, itemname = ''Lychee'', itemtype = ''Fruit Tea'',
          itemprice = 6, available = True\<rparr>]\<rparr>) \<and>
   catalog_wf (snd (add_menu_item (Some ''Lychee'') (Some ''Fruit Tea'') (JNum 6) example_catalog))"
proof -
  have h: "catalog_wf example_catalog" "pg_num (JNum 6) = Some 6"
    by (simp_all add: example_catalog_def catalog_wf_def)
  show ?thesis using add_menu_item_fresh [OF h] by blast
qed

end
