(* ===== verification/Staff.thy ===== *)
theory Staff
  imports PgSequence
begin

text \<open>
  Employees and signing in. The server side of \<^verbatim>\<open>src/backend/server.js\<close>: the
  password login \<open>POST /api/login\<close> (lines 43 to 68), the guest login \<open>POST /api/guest\<close>
  (71 to 80), Google sign-in \<open>POST /api/google-login\<close> (648 to 662) and the router of
  \<^verbatim>\<open>src/backend/routes/authRoutes.js\<close> mounted at \<open>/api/auth\<close>, and the employee
  administration \<open>/api/employees\<close> (392 to 443). The client side: \<open>Login.handleSubmit\<close> and
  \<open>Login.handleGoogleLogin\<close> (\<^verbatim>\<open>Login.js\<close> lines 14 to 40) and \<open>App.handleLogin\<close>
  (\<^verbatim>\<open>App.js\<close> lines 40 to 57), which routes a signed-in user by role. Google's token
  verification is an external service: a parameter \<open>verify\<close> returning the token's payload
  or nothing.
\<close>

section \<open>The employee table\<close>

record employee =
  employeeid :: int
  employeename :: string
  employeepassword :: string
  employeetype :: string

record staff_db =
  employees :: "employee list"
  employee_id_seq :: pg_seq

section \<open>Server: signing in\<close>

text \<open>A \<open>Chef\<close> signs in with the role \<open>USER\<close>; every other type is its own role.\<close>

definition login_role :: "string \<Rightarrow> string" where
  "login_role t = (if t = ''Chef'' then ''USER'' else t)"

definition user_json :: "int \<Rightarrow> string \<Rightarrow> string \<Rightarrow> json" where
  "user_json i n r = json_obj [(''id'', JPrim (JNum (of_int i))), (''name'', JPrim (JStr n)), (''role'', JPrim (JStr r))]"

text \<open>
  \<open>SELECT * FROM employee WHERE employeename = $1 AND employeepassword = $2\<close>, first row.
  An absent field binds \<open>NULL\<close>, which matches no row.
\<close>

definition login :: "string option \<Rightarrow> string option \<Rightarrow> staff_db \<Rightarrow> http_response" where
  "login u p d =
     (case filter (\<lambda>e. Some (employeename e) = u \<and> Some (employeepassword e) = p) (employees d) of
        e # _ \<Rightarrow> (200, json_obj [(''success'', JPrim (JBool True)),
                    (''user'', user_json (employeeid e) (employeename e) (login_role (employeetype e)))])
      | [] \<Rightarrow> (401, json_obj [(''success'', JPrim (JBool False)), (''message'', JPrim (JStr ''Invalid credentials''))]))"

definition guest_login :: http_response where
  "guest_login = (200, json_obj [(''success'', JPrim (JBool True)), (''user'', user_json 0 ''Guest'' ''USER'')])"

text \<open>
  \<open>POST /api/google-login\<close> in \<^verbatim>\<open>server.js\<close>: the verified payload, under \<open>user\<close>
  only; a failed verification (a missing token included) answers 401 with a text body.
\<close>

definition google_login :: "(string \<Rightarrow> json option) \<Rightarrow> jsval \<Rightarrow> http_response" where
  "google_login verify tok =
     (case tok of
        JStr t \<Rightarrow> (case verify t of
                    Some p \<Rightarrow> (200, json_obj [(''user'', p)])
                  | None \<Rightarrow> (401, JPrim (JStr ''Invalid token'')))
      | _ \<Rightarrow> (401, JPrim (JStr ''Invalid token'')))"

text \<open>\<open>p.k\<close> of an object, \<open>undefined\<close> when absent.\<close>

definition json_member :: "json \<Rightarrow> string \<Rightarrow> json" where
  "json_member p k = (case get_prop p k of Some v \<Rightarrow> v | None \<Rightarrow> JPrim JUndef)"

text \<open>\<open>POST /api/auth/google-login\<close> in \<^verbatim>\<open>authRoutes.js\<close>: \<open>success\<close> and the name, e-mail and picture of the payload.\<close>

definition google_login_router :: "(string \<Rightarrow> json option) \<Rightarrow> jsval \<Rightarrow> http_response" where
  "google_login_router verify tok =
     (case (case tok of JStr t \<Rightarrow> verify t | _ \<Rightarrow> None) of
        Some p \<Rightarrow> (200, json_obj [(''success'', JPrim (JBool True)),
                    (''user'', json_obj [(''name'', json_member p ''name''),
                                         (''email'', json_member p ''email''),
                                         (''picture'', json_member p ''picture'')])])
      | None \<Rightarrow> (401, json_obj [(''success'', JPrim (JBool False)), (''message'', JPrim (JStr ''Invalid Token''))]))"

section \<open>Server: employee administration\<close>

definition employee_json :: "employee \<Rightarrow> json" where
  "employee_json e = json_obj [(''employeeid'', JPrim (JNum (of_int (employeeid e)))),
                               (''employeename'', JPrim (JStr (employeename e))),
                               (''employeepassword'', JPrim (JStr (employeepassword e))),
                               (''employeetype'', JPrim (JStr (employeetype e)))]"

text \<open>\<open>SELECT * FROM employee\<close>: every column of every row.\<close>

definition get_employees :: "staff_db \<Rightarrow> http_response" where
  "get_employees d = (200, JArr (map employee_json (employees d)))"

definition emp_ok :: json where
  "emp_ok = json_obj [(''success'', JPrim (JBool True))]"

definition emp_fail :: "string \<Rightarrow> json" where
  "emp_fail m = json_obj [(''error'', JPrim (JStr m))]"

text \<open>
  \<open>INSERT INTO employee (employeename, employeepassword, employeetype) VALUES ($1, $2, $3)\<close>;
  the id is the column default \<open>nextval\<close>, which is not undone when the insert fails on a
  \<open>NULL\<close> (an absent field) or on a taken id.
\<close>

definition add_employee :: "string option \<Rightarrow> string option \<Rightarrow> string option \<Rightarrow> staff_db \<Rightarrow> http_response \<times> staff_db" where
  "add_employee n p t d =
     (case nextval (employee_id_seq d) of
        Inl _ \<Rightarrow> ((500, emp_fail ''Failed to add employee''), d)
      | Inr (i, s) \<Rightarrow>
          (case (n, p, t) of
             (Some n', Some p', Some t') \<Rightarrow>
               if i \<in> employeeid ` set (employees d)
               then ((500, emp_fail ''Failed to add employee''), d\<lparr>employee_id_seq := s\<rparr>)
               else ((200, emp_ok), \<lparr>employees = employees d @ [\<lparr>employeeid = i, employeename = n',
                        employeepassword = p', employeetype = t'\<rparr>], employee_id_seq = s\<rparr>)
           | _ \<Rightarrow> ((500, emp_fail ''Failed to add employee''), d\<lparr>employee_id_seq := s\<rparr>)))"

text \<open>
  \<open>UPDATE employee SET .. WHERE employeeid = $4\<close> with the path's \<open>:id\<close>: text that is not an
  integer fails; the \<open>NOT NULL\<close> columns are checked only on rows that match.
\<close>

definition update_employee :: "string \<Rightarrow> string option \<Rightarrow> string option \<Rightarrow> string option \<Rightarrow> staff_db \<Rightarrow> http_response \<times> staff_db" where
  "update_employee idt n p t d =
     (case parse_int idt of
        None \<Rightarrow> ((500, emp_fail ''Failed to update employee''), d)
      | Some i \<Rightarrow>
          if \<not> in_int4 i then ((500, emp_fail ''Failed to update employee''), d)
          else if i \<notin> employeeid ` set (employees d) then ((200, emp_ok), d)
          else (case (n, p, t) of
                  (Some n', Some p', Some t') \<Rightarrow>
                    ((200, emp_ok), d\<lparr>employees := map (\<lambda>e. if employeeid e = i
                        then e\<lparr>employeename := n', employeepassword := p', employeetype := t'\<rparr> else e) (employees d)\<rparr>)
                | _ \<Rightarrow> ((500, emp_fail ''Failed to update employee''), d)))"

definition delete_employee :: "string \<Rightarrow> staff_db \<Rightarrow> http_response \<times> staff_db" where
  "delete_employee idt d =
     (case parse_int idt of
        Some i \<Rightarrow> if in_int4 i then ((200, emp_ok), d\<lparr>employees := filter (\<lambda>e. employeeid e \<noteq> i) (employees d)\<rparr>)
                  else ((500, emp_fail ''Failed to delete employee''), d)
      | None \<Rightarrow> ((500, emp_fail ''Failed to delete employee''), d))"

section \<open>Client: the login page and the role routing\<close>

datatype page = LoginPage | MenuPage | CashierPage | ManagerPage | GuestPage

text \<open>The front end's state that signing in touches: \<open>App\<close>'s \<open>user\<close>, the current route, \<open>Login\<close>'s \<open>error\<close>.\<close>

record app_state =
  app_user :: "json option"
  app_page :: page
  login_error :: string

definition role_page :: "string \<Rightarrow> page" where
  "role_page r =
     (if r = ''manager'' then ManagerPage
      else if r = ''cashier'' then CashierPage
      else if r = ''chef'' then MenuPage
      else MenuPage)"

text \<open>
  \<open>handleLogin(userData)\<close>: \<open>setUser\<close>, then \<open>userData.role.toLowerCase()\<close>, which throws a
  \<open>TypeError\<close> (\<open>Inl\<close>, the user already set) unless the role is a string.
\<close>

definition handle_login :: "json \<Rightarrow> app_state \<Rightarrow> app_state + app_state" where
  "handle_login u st =
     (let st' = st\<lparr>app_user := Some u\<rparr> in
      case get_prop u ''role'' of
        Some (JPrim (JStr r)) \<Rightarrow> Inr (st'\<lparr>app_page := role_page (js_lower r)\<rparr>)
      | _ \<Rightarrow> Inl st')"

text \<open>\<open>err.response?.data?.message || "Unknown error"\<close>; the server's messages are strings.\<close>

definition error_message :: "json option \<Rightarrow> string" where
  "error_message r =
     (case Option.bind r (\<lambda>b. get_prop b ''message'') of
        Some (JPrim (JStr m)) \<Rightarrow> if m = [] then ''Unknown error'' else m
      | _ \<Rightarrow> ''Unknown error'')"

text \<open>
  The common body of \<open>handleSubmit\<close> and \<open>handleGoogleLogin\<close> after the \<open>POST\<close>: the
  state the \<open>try\<close> block reaches, and whether it threw: a non-2xx status rejects (axios,
  \<open>Some (Some body)\<close>, \<open>err.response.data\<close> the body) and a \<open>TypeError\<close> has no response
  (\<open>Some None\<close>).
\<close>

definition login_reply :: "http_response \<Rightarrow> app_state \<Rightarrow> app_state \<times> json option option" where
  "login_reply res st =
     (case res of (status, body) \<Rightarrow>
        if 200 \<le> status \<and> status < 300 then
          (case get_prop body ''success'' of
             None \<Rightarrow> (st, Some None)
           | Some v \<Rightarrow>
               if json_truthy v then
                 (case get_prop body ''user'' of
                    None \<Rightarrow> (st, Some None)
                  | Some u \<Rightarrow> (case handle_login u st of Inr st' \<Rightarrow> (st', None) | Inl st' \<Rightarrow> (st', Some None)))
               else (st, None))
        else (st, Some (Some body)))"

text \<open>\<open>handleSubmit\<close>: \<open>setError("Login failed: " + ..)\<close> in the \<open>catch\<close>.\<close>

definition submit_login :: "http_response \<Rightarrow> app_state \<Rightarrow> app_state" where
  "submit_login res st =
     (case login_reply res st of
        (st', None) \<Rightarrow> st'
      | (st', Some r) \<Rightarrow> st'\<lparr>login_error := ''Login failed: '' @ error_message r\<rparr>)"

text \<open>\<open>handleGoogleLogin\<close>: \<open>setError("Google Login failed.")\<close> in the \<open>catch\<close>.\<close>

definition google_submit :: "http_response \<Rightarrow> app_state \<Rightarrow> app_state" where
  "google_submit res st =
     (case login_reply res st of
        (st', None) \<Rightarrow> st'
      | (st', Some _) \<Rightarrow> st'\<lparr>login_error := ''Google Login failed.''\<rparr>)"

text \<open>
  The two sign-in paths end to end: the login form posts the two input strings to
  \<open>/api/login\<close>; the Google button posts the credential to \<open>/api/google-login\<close>.
\<close>

definition password_sign_in :: "string \<Rightarrow> string \<Rightarrow> staff_db \<Rightarrow> app_state \<Rightarrow> app_state" where
  "password_sign_in u p d st = submit_login (login (Some u) (Some p) d) st"

definition google_sign_in :: "(string \<Rightarrow> json option) \<Rightarrow> string \<Rightarrow> app_state \<Rightarrow> app_state" where
  "google_sign_in verify tok st = google_submit (google_login verify (JStr tok)) st"

section \<open>The employee table's invariant\<close>

text \<open>Employee ids are unique (the table's key); the three writing endpoints as one step function.\<close>

definition staff_wf :: "staff_db \<Rightarrow> bool" where
  "staff_wf d \<longleftrightarrow> distinct (map employeeid (employees d))"

datatype staff_op =
    AddEmp "string option" "string option" "string option"
  | UpdEmp string "string option" "string option" "string option"
  | DelEmp string

fun staff_handle :: "staff_op \<Rightarrow> staff_db \<Rightarrow> http_response \<times> staff_db" where
  "staff_handle (AddEmp n p t) d = add_employee n p t d"
| "staff_handle (UpdEmp i n p t) d = update_employee i n p t d"
| "staff_handle (DelEmp i) d = delete_employee i d"

section \<open>Example data for the witnesses\<close>

definition example_staff :: staff_db where
  "example_staff =
     \<lparr>employees = [\<lparr>employeeid = 1, employeename = ''Alice'', employeepassword = ''pw1'', employeetype = ''Manager''\<rparr>,
                  \<lparr>employeeid = 2, employeename = ''Bob'', employeepassword = ''pw2'', employeetype = ''Chef''\<rparr>],
      employee_id_seq = serial_seq\<lparr>last_value := 2, is_called := True\<rparr>\<rparr>"

definition example_app :: app_state where
  "example_app = \<lparr>app_user = None, app_page = LoginPage, login_error = []\<rparr>"

section \<open>Lemmas\<close>

lemma get_prop_json_obj [simp]:
  "get_prop (json_obj kvs) k = Some (case map_of (filter (\<lambda>(_, v). v \<noteq> JPrim JUndef) kvs) k of Some v \<Rightarrow> v | None \<Rightarrow> JPrim JUndef)"
  by (simp add: json_obj_def)

lemma json_obj_not_prim [simp]: "json_obj kvs \<noteq> JPrim v"
  by (simp add: json_obj_def)

lemma user_json_role [simp]: "get_prop (user_json i n r) ''role'' = Some (JPrim (JStr r))"
  by (simp add: user_json_def)

lemma js_lower_login_role: "js_lower (login_role t) = (if t = ''Chef'' then ''user'' else js_lower t)"
  by (simp add: login_role_def js_lower_def char_of_def bit_0)

lemma user_json_not_prim [simp]: "user_json i n r \<noteq> JPrim v"
  by (simp add: user_json_def)

lemma staff_wf_seq [simp]: "staff_wf (d\<lparr>employee_id_seq := s\<rparr>) = staff_wf d"
  by (simp add: staff_wf_def)

lemma add_employee_wf: "staff_wf d \<Longrightarrow> staff_wf (snd (add_employee n p t d))"
  by (auto simp: add_employee_def staff_wf_def split: sum.split option.split prod.split)

lemma map_employeeid_update [simp]:
  "map (\<lambda>e. employeeid (if P e then e\<lparr>employeename := a, employeepassword := b, employeetype := c\<rparr> else e)) es =
   map employeeid es"
  by (induction es) auto

lemma update_employee_wf: "staff_wf d \<Longrightarrow> staff_wf (snd (update_employee i n p t d))"
  by (auto simp: update_employee_def staff_wf_def comp_def split: option.split prod.split)

lemma delete_employee_wf: "staff_wf d \<Longrightarrow> staff_wf (snd (delete_employee i d))"
  by (auto simp: delete_employee_def staff_wf_def distinct_map_filter split: option.split)

section \<open>Properties of signing in\<close>

text \<open>
  C15. Signing in with the name and password of an employee (the first matching row) sets
  the user to that employee's id, name and role and routes by type: \<open>Manager\<close> to the manager
  page, \<open>Cashier\<close> to the cashier page, every other type (\<open>Chef\<close>, which the server turns
  into \<open>USER\<close>, included) to the menu; the comparison ignores ASCII case.
\<close>

theorem password_sign_in_route:
  assumes "filter (\<lambda>e. employeename e = u \<and> employeepassword e = p) (employees d) = e # es"
  shows "password_sign_in u p d st =
           st\<lparr>app_user := Some (user_json (employeeid e) (employeename e) (login_role (employeetype e))),
              app_page := (if js_lower (employeetype e) = ''manager'' then ManagerPage
                           else if js_lower (employeetype e) = ''cashier'' then CashierPage else MenuPage)\<rparr>"
  using assms
  by (simp add: password_sign_in_def submit_login_def login_def login_reply_def handle_login_def
                role_page_def js_lower_login_role)
     (simp add: js_lower_def char_of_def bit_0)

theorem password_sign_in_route_witness:
  "filter (\<lambda>e. employeename e = ''Bob'' \<and> employeepassword e = ''pw2'') (employees example_staff) =
     [\<lparr>employeeid = 2, employeename = ''Bob'', employeepassword = ''pw2'', employeetype = ''Chef''\<rparr>] \<and>
   app_page (password_sign_in ''Bob'' ''pw2'' example_staff example_app) = MenuPage \<and>
   app_page (password_sign_in ''Alice'' ''pw1'' example_staff example_app) = ManagerPage"
proof -
  have b: "filter (\<lambda>e. employeename e = ''Bob'' \<and> employeepassword e = ''pw2'') (employees example_staff) =
     [\<lparr>employeeid = 2, employeename = ''Bob'', employeepassword = ''pw2'', employeetype = ''Chef''\<rparr>]"
    and a: "filter (\<lambda>e. employeename e = ''Alice'' \<and> employeepassword e = ''pw1'') (employees example_staff) =
     [\<lparr>employeeid = 1, employeename = ''Alice'', employeepassword = ''pw1'', employeetype = ''Manager''\<rparr>]"
    by (simp_all add: example_staff_def)
  show ?thesis
    using b password_sign_in_route [OF b, of example_app] password_sign_in_route [OF a, of example_app]
    by (simp add: js_lower_def char_of_def bit_0)
qed

text \<open>
  C16. Signing in with a name and password that match no employee answers 401 and leaves
  the user and the page as they were, with the error \<open>Login failed: Invalid credentials\<close>.
\<close>

theorem password_sign_in_rejected:
  assumes "filter (\<lambda>e. employeename e = u \<and> employeepassword e = p) (employees d) = []"
  shows "password_sign_in u p d st = st\<lparr>login_error := ''Login failed: Invalid credentials''\<rparr>"
  using assms
  by (simp add: password_sign_in_def submit_login_def login_def login_reply_def error_message_def)

theorem password_sign_in_rejected_witness:
  "filter (\<lambda>e. employeename e = ''Alice'' \<and> employeepassword e = ''pw2'') (employees example_staff) = [] \<and>
   password_sign_in ''Alice'' ''pw2'' example_staff example_app =
     example_app\<lparr>login_error := ''Login failed: Invalid credentials''\<rparr>"
proof -
  have h: "filter (\<lambda>e. employeename e = ''Alice'' \<and> employeepassword e = ''pw2'') (employees example_staff) = []"
    by (simp add: example_staff_def)
  show ?thesis using h password_sign_in_rejected [OF h] by simp
qed

text \<open>
  C17. Google sign-in never signs anyone in: \<open>/api/google-login\<close> answers a verified
  token with the payload under \<open>user\<close> and no \<open>success\<close> member, which \<open>handleGoogleLogin\<close>
  requires, so the user and the page never change; a rejected token only sets the error.
\<close>

theorem google_sign_in_never_signs_in:
  "google_sign_in verify tok st =
     (if verify tok = None then st\<lparr>login_error := ''Google Login failed.''\<rparr> else st)"
  by (cases "verify tok")
     (auto simp: google_sign_in_def google_submit_def google_login_def login_reply_def json_obj_def)

section \<open>Properties of the employee administration\<close>



text \<open>
  C19. Updating or deleting an employee id that is a valid integer but names no employee
  answers success and changes nothing.
\<close>

theorem employee_write_missing_id:
  assumes "parse_int idt = Some i" "in_int4 i" "i \<notin> employeeid ` set (employees d)"
  shows "update_employee idt n p t d = ((200, emp_ok), d) \<and> delete_employee idt d = ((200, emp_ok), d)"
proof -
  have "filter (\<lambda>e. employeeid e \<noteq> i) (employees d) = employees d"
    using assms(3) by (auto simp: filter_id_conv)
  with assms show ?thesis by (simp add: update_employee_def delete_employee_def)
qed

theorem employee_write_missing_id_witness:
  "parse_int ''9'' = Some 9 \<and> in_int4 9 \<and> 9 \<notin> employeeid ` set (employees example_staff) \<and>
   update_employee ''9'' None None None example_staff = ((200, emp_ok), example_staff) \<and>
   delete_employee ''9'' example_staff = ((200, emp_ok), example_staff)"
proof -
  have h: "parse_int ''9'' = Some 9" "in_int4 9" "9 \<notin> employeeid ` set (employees example_staff)"
    by (simp_all add: parse_int_def parse_nat_def is_digit_def digit_val_def in_int4_def example_staff_def)
  show ?thesis using h employee_write_missing_id [OF h] by simp
qed

text \<open>
  \<open>GET /api/employees\<close> sends every employee's password to the client.
\<close>

theorem get_employees_exposes_passwords:
  assumes "e \<in> set (employees d)"
  shows "\<exists>v. v \<in> set (map employee_json (employees d)) \<and>
           snd (get_employees d) = JArr (map employee_json (employees d)) \<and>
           json_member v ''employeepassword'' = JPrim (JStr (employeepassword e))"
  using assms by (force simp: get_employees_def employee_json_def json_member_def)

theorem get_employees_exposes_passwords_witness:
  "\<lparr>employeeid = 1, employeename = ''Alice'', employeepassword = ''pw1'', employeetype = ''Manager''\<rparr> \<in> set (employees example_staff) \<and>
   (\<exists>v. v \<in> set (map employee_json (employees example_staff)) \<and>
      snd (get_employees example_staff) = JArr (map employee_json (employees example_staff)) \<and>
      json_member v ''employeepassword'' = JPrim (JStr ''pw1''))"
proof -
  have h: "\<lparr>employeeid = 1, employeename = ''Alice'', employeepassword = ''pw1'', employeetype = ''Manager''\<rparr> \<in> set (employees example_staff)"
    by (simp add: example_staff_def)
  show ?thesis using h get_employees_exposes_passwords [OF h] by simp
qed

end
