(* ===== verification/TextInput.thy ===== *)
theory TextInput
  imports Prelude
begin

text \<open>
  The text conversions the report handlers of \<^verbatim>\<open>src/backend/server.js\<close> depend on. A
  query-string parameter (\<open>req.query.startHour\<close>) is a string or \<open>undefined\<close>
  (\<open>string option\<close>; repeated keys, which Express turns into arrays, are not modelled).
  It meets three parsers: JavaScript's \<open>isNaN(x)\<close> (\<open>ToNumber\<close> of a string, the X report's
  guard), JavaScript's \<open>parseInt(x)\<close> (the Z report's guard), and PostgreSQL's
  \<open>numeric\<close> input, which reads the same string when it is bound as \<open>$1\<close> of the query
  (\<^verbatim>\<open>node-postgres\<close> sends \<open>undefined\<close> as \<open>NULL\<close>). Whitespace is the ASCII set
  (tab, line feed, vertical tab, form feed, carriage return, space) for both languages;
  JavaScript's Unicode spaces are not modelled. Values are exact rationals; \<open>parseInt\<close> is
  exact below \<open>2^53\<close>, which covers every hour.
\<close>

section \<open>Lexical pieces shared by the parsers\<close>

definition is_space :: "char \<Rightarrow> bool" where
  "is_space c \<longleftrightarrow> of_char c \<in> {9::nat, 10, 11, 12, 13, 32}"

definition trim_space :: "string \<Rightarrow> string" where
  "trim_space s = rev (dropWhile is_space (rev (dropWhile is_space s)))"

definition is_exp_mark :: "char \<Rightarrow> bool" where
  "is_exp_mark c \<longleftrightarrow> c = CHR ''e'' \<or> c = CHR ''E''"

text \<open>An optional leading sign: its factor and the rest of the string.\<close>

definition split_sign :: "string \<Rightarrow> int \<times> string" where
  "split_sign s = (case s of
      c # r \<Rightarrow> if c = CHR ''-'' then (-1, r) else if c = CHR ''+'' then (1, r) else (1, s)
    | [] \<Rightarrow> (1, []))"

text \<open>\<open>digits [. digits]\<close> or \<open>. digits\<close>: the integer and the fraction digits.\<close>

definition mantissa_parts :: "string \<Rightarrow> (string \<times> string) option" where
  "mantissa_parts m =
     (let a = takeWhile is_digit m in
      case dropWhile is_digit m of
        [] \<Rightarrow> if a = [] then None else Some (a, [])
      | c # b \<Rightarrow> if c = CHR ''.'' \<and> list_all is_digit b \<and> (a \<noteq> [] \<or> b \<noteq> []) then Some (a, b) else None)"

definition parse_exponent :: "string \<Rightarrow> int option" where
  "parse_exponent s = (case split_sign s of (g, ds) \<Rightarrow> map_option (\<lambda>n. g * int n) (parse_nat ds))"

text \<open>A signed decimal literal with an optional exponent: sign, digits, fraction, exponent.\<close>

definition decimal_parts :: "string \<Rightarrow> (int \<times> string \<times> string \<times> int) option" where
  "decimal_parts s =
     (case split_sign s of (g, u) \<Rightarrow>
        (case mantissa_parts (takeWhile (Not \<circ> is_exp_mark) u) of
           None \<Rightarrow> None
         | Some (a, b) \<Rightarrow>
             (case dropWhile (Not \<circ> is_exp_mark) u of
                [] \<Rightarrow> Some (g, a, b, 0)
              | _ # ex \<Rightarrow> map_option (\<lambda>e. (g, a, b, e)) (parse_exponent ex))))"

fun decimal_value :: "int \<times> string \<times> string \<times> int \<Rightarrow> rat" where
  "decimal_value (g, a, b, e) =
     of_int g * of_nat (digits_acc 0 (a @ b)) / 10 ^ length b *
     (if 0 \<le> e then 10 ^ nat e else 1 / 10 ^ nat (- e))"

section \<open>JavaScript: \<open>isNaN\<close> and \<open>parseInt\<close>\<close>

definition is_hex_digit :: "char \<Rightarrow> bool" where
  "is_hex_digit c \<longleftrightarrow> is_digit c \<or> ((97::nat) \<le> of_char c \<and> of_char c \<le> (102::nat)) \<or>
     ((65::nat) \<le> of_char c \<and> of_char c \<le> (70::nat))"

definition hex_val :: "char \<Rightarrow> nat" where
  "hex_val c = (if is_digit c then digit_val c else if (97::nat) \<le> of_char c then of_char c - 87 else of_char c - 55)"

text \<open>\<open>0x\<close>, \<open>0o\<close> and \<open>0b\<close> literals (\<open>NonDecimalIntegerLiteral\<close>, unsigned).\<close>

fun js_nondecimal :: "string \<Rightarrow> bool" where
  "js_nondecimal (z # x # ds) =
     (z = CHR ''0'' \<and> ds \<noteq> [] \<and>
      (if x = CHR ''x'' \<or> x = CHR ''X'' then list_all is_hex_digit ds
       else if x = CHR ''o'' \<or> x = CHR ''O'' then list_all (\<lambda>c. c \<in> set ''01234567'') ds
       else if x = CHR ''b'' \<or> x = CHR ''B'' then list_all (\<lambda>c. c \<in> set ''01'') ds
       else False))"
| "js_nondecimal _ = False"

text \<open>
  \<open>StringNumericLiteral\<close>: after trimming, the empty string (which is \<open>0\<close>), a signed
  decimal literal or \<open>Infinity\<close>, or a non-decimal literal. \<open>ToNumber\<close> of any other string
  is \<open>NaN\<close>.
\<close>

definition js_numeric_string :: "string \<Rightarrow> bool" where
  "js_numeric_string s =
     (let t = trim_space s in
      t = [] \<or> snd (split_sign t) = ''Infinity'' \<or> decimal_parts t \<noteq> None \<or> js_nondecimal t)"

text \<open>\<open>isNaN(x)\<close> for a query parameter; \<open>isNaN(undefined)\<close> is \<open>true\<close>.\<close>

definition js_is_nan :: "string option \<Rightarrow> bool" where
  "js_is_nan v = (case v of None \<Rightarrow> True | Some s \<Rightarrow> \<not> js_numeric_string s)"

fun radix_acc :: "nat \<Rightarrow> nat \<Rightarrow> string \<Rightarrow> nat" where
  "radix_acc r a [] = a"
| "radix_acc r a (c # cs) = radix_acc r (r * a + hex_val c) cs"

text \<open>
  \<open>parseInt(x)\<close> with no radix: leading whitespace, a sign, a \<open>0x\<close> prefix selecting base 16,
  then the longest run of digits of the base; no digit at all gives \<open>NaN\<close> (\<open>None\<close>).
  \<open>parseInt(undefined)\<close> reads the string \<open>"undefined"\<close>: \<open>NaN\<close>.
\<close>

definition js_parse_int :: "string option \<Rightarrow> int option" where
  "js_parse_int v =
     (case v of
        None \<Rightarrow> None
      | Some s \<Rightarrow>
          (case split_sign (dropWhile is_space s) of (g, u) \<Rightarrow>
             let (r, ok, w) =
                   (case u of
                      z # x # w \<Rightarrow> if z = CHR ''0'' \<and> (x = CHR ''x'' \<or> x = CHR ''X'')
                                  then (16, is_hex_digit, w) else (10, is_digit, u)
                    | _ \<Rightarrow> (10, is_digit, u));
                 ds = takeWhile ok w
             in if ds = [] then None else Some (g * int (radix_acc r 0 ds))))"

section \<open>PostgreSQL: \<open>numeric\<close> input\<close>

text \<open>
  The text of a bound parameter read as \<open>numeric\<close> (PostgreSQL 14 or later, where
  \<open>EXTRACT\<close> returns \<open>numeric\<close>): surrounding whitespace, then a decimal with a sign, an
  optional point and an optional exponent, or, ignoring case, \<open>NaN\<close> or a signed
  \<open>Infinity\<close>/\<open>inf\<close>. A bound parameter is \<open>NULL\<close> (\<open>PNull\<close>) or a value; text that does not
  parse makes the query fail (\<open>None\<close>).
\<close>

datatype param = PNull | PVal rat | PNaN | PInf bool \<comment> \<open>\<open>PInf True\<close> is \<open>+Infinity\<close>\<close>

definition pg_numeric_in :: "string \<Rightarrow> param option" where
  "pg_numeric_in s =
     (let t = trim_space s; l = js_lower t; (g, u) = split_sign l in
      if l = ''nan'' then Some PNaN
      else if u = ''infinity'' \<or> u = ''inf'' then Some (PInf (0 < g))
      else map_option (PVal \<circ> decimal_value) (decimal_parts t))"

definition bind_numeric :: "string option \<Rightarrow> param option" where
  "bind_numeric v = (case v of None \<Rightarrow> Some PNull | Some s \<Rightarrow> pg_numeric_in s)"

text \<open>
  \<open>x BETWEEN $1 AND $2\<close> in a \<open>WHERE\<close>, in \<open>numeric\<close>'s order (\<open>-Infinity\<close> below every
  number, \<open>+Infinity\<close> above, \<open>NaN\<close> above everything); a \<open>NULL\<close> bound makes it unknown, so
  the row is dropped.
\<close>

fun param_le :: "param \<Rightarrow> int \<Rightarrow> bool" where
  "param_le (PVal a) x = (a \<le> of_int x)"
| "param_le (PInf pos) x = (\<not> pos)"
| "param_le PNaN x = False"
| "param_le PNull x = False"

fun param_ge :: "param \<Rightarrow> int \<Rightarrow> bool" where
  "param_ge (PVal b) x = (of_int x \<le> b)"
| "param_ge (PInf pos) x = pos"
| "param_ge PNaN x = True"
| "param_ge PNull x = False"

definition param_between :: "param \<Rightarrow> param \<Rightarrow> int \<Rightarrow> bool" where
  "param_between a b x \<longleftrightarrow> param_le a x \<and> param_ge b x"

section \<open>Lemmas\<close>

text \<open>Every string PostgreSQL reads as a number is also a number to \<open>isNaN\<close>.\<close>

lemma pg_numeric_in_js_numeric: "pg_numeric_in s = Some (PVal q) \<Longrightarrow> js_numeric_string s"
  by (auto simp: pg_numeric_in_def js_numeric_string_def Let_def split: prod.splits if_splits)

lemma bind_numeric_None [simp]: "bind_numeric None = Some PNull"
  by (simp add: bind_numeric_def)

end
