(* ===== verification/Reports.thy ===== *)
theory Reports
  imports Orders Catalog Staff TextInput "HOL-Library.Char_ord" "HOL-Library.List_Lexorder"
begin

text \<open>
  The hourly reports of \<^verbatim>\<open>src/backend/server.js\<close>: \<open>GET /api/xreport\<close> (lines 537 to
  574) and \<open>GET /api/zreport\<close> (578 to 618). Both run one query over
  \<open>Sales s LEFT JOIN Transactions t ON s.id = t.sale_id LEFT JOIN MenuItem mi ON
  t.menu_item_id = mi.ItemID LEFT JOIN Orders o ON o.OrderID = t.sale_id\<close> (the Z report
  joins \<open>Employee e ON e.EmployeeID = o.UserID\<close> as well), keep today's sales whose hour
  lies between the two parameters, and group by that hour. The joined rows are
  \<open>joined\<close> records, \<open>NULL\<close> columns being \<open>None\<close>; each aggregate is a function of the
  rows of one hour. \<open>CURRENT_DATE\<close> is the parameter \<open>today\<close>. \<open>STRING_AGG(DISTINCT ..)\<close>
  sorts the distinct values; strings are ordered by their characters (the C collation).
\<close>

section \<open>Tables\<close>

record sale =
  sale_key :: int \<comment> \<open>\<open>sales.id\<close>\<close>
  sales_ts :: instant
  total_amount :: money
  peak_day_flag :: bool

record order_hdr =
  orderid :: int
  rewards :: "money option"
  o_userid :: "int option"

record report_db =
  sales :: "sale list"
  txns :: "txn list"
  menu :: "menu_item list"
  orders :: "order_hdr list"
  staff :: "employee list"

text \<open>One row of the join; \<open>None\<close> for the \<open>NULL\<close>s of an unmatched \<open>LEFT JOIN\<close>.\<close>

record joined =
  j_sale :: sale
  j_txn :: "txn option"
  j_item :: "menu_item option"
  j_order :: "order_hdr option"
  j_emp :: "employee option"

section \<open>The join\<close>

definition sale_txns :: "report_db \<Rightarrow> sale \<Rightarrow> txn list" where
  "sale_txns db s = filter (\<lambda>t. sale_id t = sale_key s) (txns db)"

text \<open>A join condition on a \<open>NULL\<close> column matches nothing.\<close>

fun txn_items :: "report_db \<Rightarrow> txn option \<Rightarrow> menu_item list" where
  "txn_items db None = []"
| "txn_items db (Some t) = filter (\<lambda>m. menu_item.itemid m = menu_item_id t) (menu db)"

fun txn_orders :: "report_db \<Rightarrow> txn option \<Rightarrow> order_hdr list" where
  "txn_orders db None = []"
| "txn_orders db (Some t) = filter (\<lambda>h. orderid h = sale_id t) (orders db)"

fun order_emps :: "report_db \<Rightarrow> order_hdr option \<Rightarrow> employee list" where
  "order_emps db None = []"
| "order_emps db (Some h) = (case o_userid h of None \<Rightarrow> [] | Some u \<Rightarrow> filter (\<lambda>e. employeeid e = u) (staff db))"

text \<open>The rows the joins produce for one sale, in join order.\<close>

definition x_join_sale :: "report_db \<Rightarrow> sale \<Rightarrow> joined list" where
  "x_join_sale db s =
     concat (map (\<lambda>t. concat (map (\<lambda>m. map (\<lambda>oh.
        \<lparr>j_sale = s, j_txn = t, j_item = m, j_order = oh, j_emp = None\<rparr>)
        (opt_rows (txn_orders db t))) (opt_rows (txn_items db t)))) (opt_rows (sale_txns db s)))"

definition x_join :: "report_db \<Rightarrow> joined list" where
  "x_join db = concat (map (x_join_sale db) (sales db))"

definition z_join :: "report_db \<Rightarrow> joined list" where
  "z_join db = concat (map (\<lambda>r. map (\<lambda>e. r\<lparr>j_emp := e\<rparr>) (opt_rows (order_emps db (j_order r)))) (x_join db))"

text \<open>\<open>EXTRACT(HOUR FROM s.SalesTimestamp)\<close> and the \<open>WHERE\<close> clause, which reads the sale only.\<close>

definition sale_hour :: "sale \<Rightarrow> hour" where
  "sale_hour s = hour_of (sales_ts s)"

definition sale_in_window :: "day \<Rightarrow> param \<Rightarrow> param \<Rightarrow> sale \<Rightarrow> bool" where
  "sale_in_window today a b s \<longleftrightarrow> date_of (sales_ts s) = today \<and> param_between a b (sale_hour s)"

definition row_hour :: "joined \<Rightarrow> hour" where
  "row_hour r = sale_hour (j_sale r)"

text \<open>\<open>WHERE DATE(s.SalesTimestamp) = CURRENT_DATE AND EXTRACT(HOUR FROM s.SalesTimestamp) BETWEEN $1 AND $2\<close>\<close>

definition in_window :: "day \<Rightarrow> param \<Rightarrow> param \<Rightarrow> joined \<Rightarrow> bool" where
  "in_window today a b r \<longleftrightarrow> sale_in_window today a b (j_sale r)"

section \<open>The aggregates of one hour\<close>

definition line_amount :: "txn \<Rightarrow> money" where
  "line_amount t = price t * of_int (quantity t)"

text \<open>\<open>CASE WHEN t.TransactionCategory = c THEN f(t.price * t.quantity) ELSE 0 END\<close>\<close>

definition cat_amount :: "string \<Rightarrow> (money \<Rightarrow> money) \<Rightarrow> joined \<Rightarrow> money option" where
  "cat_amount c f r =
     Some (case j_txn r of Some t \<Rightarrow> if transactioncategory t = c then f (line_amount t) else 0 | None \<Rightarrow> 0)"

text \<open>\<open>CASE WHEN mi.ItemType = 'Drink' THEN t.quantity ELSE 0 END\<close>\<close>

definition drink_qty :: "joined \<Rightarrow> int option" where
  "drink_qty r =
     Some (case (j_item r, j_txn r) of (Some m, Some t) \<Rightarrow> if itemtype m = ''Drink'' then quantity t else 0 | _ \<Rightarrow> 0)"

text \<open>\<open>CASE WHEN o.Rewards > 0 THEN o.Rewards ELSE 0 END\<close>\<close>

definition discount :: "joined \<Rightarrow> money option" where
  "discount r =
     Some (case j_order r of Some oh \<Rightarrow> (case rewards oh of Some w \<Rightarrow> if 0 < w then w else 0 | None \<Rightarrow> 0) | None \<Rightarrow> 0)"

text \<open>\<open>STRING_AGG(DISTINCT x, ', ')\<close>: \<open>NULL\<close> when every value is \<open>NULL\<close>.\<close>

definition string_agg_distinct :: "string option list \<Rightarrow> string option" where
  "string_agg_distinct xs =
     (let vs = sort (remdups (List.map_filter id xs)) in if vs = [] then None else Some (join_sep '', '' vs))"

definition txn_id_of :: "joined \<Rightarrow> int option" where
  "txn_id_of r = map_option txn_id (j_txn r)"

definition amount_of :: "joined \<Rightarrow> money option" where
  "amount_of r = map_option line_amount (j_txn r)"

definition payment_of :: "joined \<Rightarrow> string option" where
  "payment_of r = Option.bind (j_txn r) paymentmethod"

record x_row =
  x_hour :: hour
  x_total_transactions :: nat
  x_sales_revenue :: money
  x_total_sales :: money
  x_total_returns :: money
  x_drink_sales :: int
  x_voids :: money
  x_discards :: money
  x_payment_methods :: "string option"

definition x_bucket :: "hour \<Rightarrow> joined list \<Rightarrow> x_row" where
  "x_bucket h rs =
     \<lparr>x_hour = h,
      x_total_transactions = count_distinct (map txn_id_of rs),
      x_sales_revenue = coalesce (sql_sum (map (\<lambda>r. Some (total_amount (j_sale r))) rs)) 0,
      x_total_sales = coalesce (sql_sum (map amount_of rs)) 0,
      x_total_returns = coalesce (sql_sum (map (cat_amount ''Return'' id) rs)) 0,
      x_drink_sales = coalesce (sql_sum (map drink_qty rs)) 0,
      x_voids = coalesce (sql_sum (map (cat_amount ''Void'' id) rs)) 0,
      x_discards = coalesce (sql_sum (map (cat_amount ''Discard'' id) rs)) 0,
      x_payment_methods = string_agg_distinct (map payment_of rs)\<rparr>"

record z_row =
  z_hour :: hour
  z_total_transactions :: nat
  z_sales_revenue :: money
  z_total_sales :: money
  z_total_tax :: money
  z_service_charges :: money
  z_voids :: money
  z_discards :: money
  z_discounts :: money
  z_employee_signatures :: "string option"
  z_payment_methods :: "string option"

definition z_bucket :: "hour \<Rightarrow> joined list \<Rightarrow> z_row" where
  "z_bucket h rs =
     \<lparr>z_hour = h,
      z_total_transactions = count_distinct (map txn_id_of rs),
      z_sales_revenue = coalesce (sql_sum (map (\<lambda>r. Some (total_amount (j_sale r))) rs)) 0,
      z_total_sales = coalesce (sql_sum (map amount_of rs)) 0,
      z_total_tax = coalesce (map_option (\<lambda>v. v * 8 / 100) (sql_sum (map amount_of rs))) 0,
      z_service_charges = coalesce (map_option (\<lambda>v. v * 5 / 100) (sql_sum (map amount_of rs))) 0,
      z_voids = coalesce (sql_sum (map (cat_amount ''Void'' abs) rs)) 0,
      z_discards = coalesce (sql_sum (map (cat_amount ''Discard'' abs) rs)) 0,
      z_discounts = coalesce (sql_sum (map discount rs)) 0,
      z_employee_signatures = string_agg_distinct (map (\<lambda>r. map_option employeename (j_emp r)) rs),
      z_payment_methods = string_agg_distinct (map payment_of rs)\<rparr>"

section \<open>The queries and the handlers\<close>

definition x_rows :: "day \<Rightarrow> param \<Rightarrow> param \<Rightarrow> report_db \<Rightarrow> x_row list" where
  "x_rows today a b db = map (\<lambda>(h, rs). x_bucket h rs) (group_by row_hour (filter (in_window today a b) (x_join db)))"

definition z_rows :: "day \<Rightarrow> param \<Rightarrow> param \<Rightarrow> report_db \<Rightarrow> z_row list" where
  "z_rows today a b db = map (\<lambda>(h, rs). z_bucket h rs) (group_by row_hour (filter (in_window today a b) (z_join db)))"

datatype 'r report_reply = ReportRows "'r list" | ReportBadRequest | ReportFailed

text \<open>The X report's guard: \<open>isNaN(startHour) || isNaN(endHour)\<close> answers 400.\<close>

definition x_report :: "day \<Rightarrow> string option \<Rightarrow> string option \<Rightarrow> report_db \<Rightarrow> x_row report_reply" where
  "x_report today sh eh db =
     (if js_is_nan sh \<or> js_is_nan eh then ReportBadRequest
      else case (bind_numeric sh, bind_numeric eh) of
             (Some a, Some b) \<Rightarrow> ReportRows (x_rows today a b db)
           | _ \<Rightarrow> ReportFailed)"

text \<open>The Z report's guard: \<open>parseInt(startHour) > parseInt(endHour)\<close> answers 400 (false when either is \<open>NaN\<close>).\<close>

definition z_report :: "day \<Rightarrow> string option \<Rightarrow> string option \<Rightarrow> report_db \<Rightarrow> z_row report_reply" where
  "z_report today sh eh db =
     (if (case (js_parse_int sh, js_parse_int eh) of (Some a, Some b) \<Rightarrow> b < a | _ \<Rightarrow> False) then ReportBadRequest
      else case (bind_numeric sh, bind_numeric eh) of
             (Some a, Some b) \<Rightarrow> ReportRows (z_rows today a b db)
           | _ \<Rightarrow> ReportFailed)"

section \<open>Vocabulary of the properties\<close>

text \<open>
  The keys the joins assume unique (\<open>menuitem.itemid\<close> and \<open>orders.orderid\<close>, the tables'
  primary keys); the sales of one hour of the report; their line items.
\<close>

definition unique_keys :: "report_db \<Rightarrow> bool" where
  "unique_keys db \<longleftrightarrow> distinct (map menu_item.itemid (menu db)) \<and> distinct (map orderid (orders db))"

definition hour_sales :: "day \<Rightarrow> param \<Rightarrow> param \<Rightarrow> report_db \<Rightarrow> hour \<Rightarrow> sale list" where
  "hour_sales today a b db h = filter (\<lambda>s. sale_in_window today a b s \<and> sale_hour s = h) (sales db)"

definition hour_lines :: "day \<Rightarrow> param \<Rightarrow> param \<Rightarrow> report_db \<Rightarrow> hour \<Rightarrow> txn list" where
  "hour_lines today a b db h = concat (map (sale_txns db) (hour_sales today a b db h))"

section \<open>Example data for the witnesses\<close>

text \<open>Three sales today (day 20000): two at 9 o'clock, one of them with three line items, one at 14 o'clock.\<close>

definition example_report_db :: report_db where
  "example_report_db =
     \<lparr>sales = [\<lparr>sale_key = 1, sales_ts = 1728032400, total_amount = 10, peak_day_flag = False\<rparr>,
               \<lparr>sale_key = 2, sales_ts = 1728033000, total_amount = 4, peak_day_flag = True\<rparr>,
               \<lparr>sale_key = 3, sales_ts = 1728050400, total_amount = 6, peak_day_flag = False\<rparr>],
      txns = [\<lparr>txn_id = 1, sale_id = 1, menu_item_id = 1, quantity = 1, price = 5, paymentmethod = Some ''Cash'', transactioncategory = ''Sale''\<rparr>,
              \<lparr>txn_id = 2, sale_id = 1, menu_item_id = 2, quantity = 1, price = 5, paymentmethod = Some ''Card'', transactioncategory = ''Sale''\<rparr>,
              \<lparr>txn_id = 3, sale_id = 1, menu_item_id = 1, quantity = 1, price = 2, paymentmethod = Some ''Cash'', transactioncategory = ''Return''\<rparr>,
              \<lparr>txn_id = 4, sale_id = 3, menu_item_id = 1, quantity = 2, price = 3, paymentmethod = Some ''Cash'', transactioncategory = ''Sale''\<rparr>],
      menu = [menu_item.make 1 ''Milk Tea'' ''Drink'' 5 True, menu_item.make 2 ''Egg Puff'' ''Snack'' 5 True],
      orders = [\<lparr>orderid = 1, rewards = Some 2, o_userid = Some 1\<rparr>],
      staff = [\<lparr>employeeid = 1, employeename = ''Alice'', employeepassword = ''pw1'', employeetype = ''Manager''\<rparr>]\<rparr>"

section \<open>Lemmas\<close>

lemma x_join_sale_j_sale: "r \<in> set (x_join_sale db s) \<Longrightarrow> j_sale r = s"
  by (auto simp: x_join_sale_def)

lemma x_join_sale_ne: "x_join_sale db s \<noteq> []"
proof -
  obtain t m oh where "t \<in> set (opt_rows (sale_txns db s))" "m \<in> set (opt_rows (txn_items db t))"
    "oh \<in> set (opt_rows (txn_orders db t))"
    using opt_rows_ex by metis
  then have "\<lparr>j_sale = s, j_txn = t, j_item = m, j_order = oh, j_emp = None\<rparr> \<in> set (x_join_sale db s)"
    by (auto simp: x_join_sale_def)
  then show ?thesis by auto
qed

lemma x_join_filter:
  "filter (\<lambda>r. P (j_sale r)) (x_join db) = concat (map (x_join_sale db) (filter P (sales db)))"
  unfolding x_join_def by (rule filter_concat_map_key) (rule x_join_sale_j_sale)

lemma x_rows_buckets:
  "x_rows today a b db =
     map (\<lambda>h. x_bucket h (concat (map (x_join_sale db)
               (filter (\<lambda>s. sale_in_window today a b s \<and> sale_hour s = h) (sales db)))))
       (sort (remdups (map row_hour (filter (in_window today a b) (x_join db)))))"
proof -
  have "filter (\<lambda>r. row_hour r = h) (filter (in_window today a b) (x_join db)) =
          concat (map (x_join_sale db) (filter (\<lambda>s. sale_in_window today a b s \<and> sale_hour s = h) (sales db)))"
    for h
    using x_join_filter [of "\<lambda>s. sale_in_window today a b s \<and> sale_hour s = h" db]
    by (simp add: in_window_def row_hour_def conj_commute)
  then show ?thesis by (simp add: x_rows_def group_by_def)
qed

lemma x_join_sale_txns:
  "map j_txn (x_join_sale db s) =
     concat (map (\<lambda>t. replicate (length (opt_rows (txn_items db t)) * length (opt_rows (txn_orders db t))) t)
       (opt_rows (sale_txns db s)))"
  by (simp add: x_join_sale_def map_concat comp_def concat_map_const del: opt_rows_length)

lemma unique_keys_items: "unique_keys db \<Longrightarrow> length (opt_rows (txn_items db t)) = 1"
  by (cases t) (simp_all add: unique_keys_def filter_key_opt_rows del: opt_rows_length, simp add: opt_rows_def)

lemma unique_keys_orders: "unique_keys db \<Longrightarrow> length (opt_rows (txn_orders db t)) = 1"
  by (cases t) (simp_all add: unique_keys_def filter_key_opt_rows del: opt_rows_length, simp add: opt_rows_def)

lemma x_join_sale_txns_unique:
  "unique_keys db \<Longrightarrow> map j_txn (x_join_sale db s) = opt_rows (sale_txns db s)"
  by (simp only: x_join_sale_txns unique_keys_items unique_keys_orders) (simp add: concat_map_singleton)

lemma x_rows_memD:
  "r \<in> set (x_rows today a b db) \<Longrightarrow>
   r = x_bucket (x_hour r) (concat (map (x_join_sale db) (hour_sales today a b db (x_hour r))))"
  by (auto simp: x_rows_buckets hour_sales_def x_bucket_def)

lemma x_bucket_txn_ids:
  assumes "unique_keys db"
  shows "List.map_filter id (map txn_id_of (concat (map (x_join_sale db) ss))) = map txn_id (concat (map (sale_txns db) ss))"
proof -
  have "map txn_id_of (x_join_sale db s) = map (map_option txn_id) (map j_txn (x_join_sale db s))" for s
    by (simp add: txn_id_of_def)
  then have "map txn_id_of (x_join_sale db s) = map (map_option txn_id) (opt_rows (sale_txns db s))" for s
    by (simp only: x_join_sale_txns_unique [OF assms])
  then show ?thesis by (simp add: map_concat map_filter_concat_map comp_def)
qed

lemma x_bucket_amounts:
  assumes "unique_keys db"
  shows "List.map_filter id (map amount_of (concat (map (x_join_sale db) ss))) = map line_amount (concat (map (sale_txns db) ss))"
proof -
  have "map amount_of (x_join_sale db s) = map (map_option line_amount) (map j_txn (x_join_sale db s))" for s
    by (simp add: amount_of_def)
  then have "map amount_of (x_join_sale db s) = map (map_option line_amount) (opt_rows (sale_txns db s))" for s
    by (simp only: x_join_sale_txns_unique [OF assms])
  then show ?thesis by (simp add: map_concat map_filter_concat_map comp_def)
qed

lemma x_join_sale_revenue:
  "sum_list (map (\<lambda>r. total_amount (j_sale r)) (x_join_sale db s)) = of_nat (length (x_join_sale db s)) * total_amount s"
proof -
  have m: "map (\<lambda>r. total_amount (j_sale r)) (x_join_sale db s) = map (\<lambda>r. total_amount s) (x_join_sale db s)"
    by (auto dest: x_join_sale_j_sale)
  show ?thesis unfolding m sum_list_triv ..
qed

lemma x_join_sale_length: "unique_keys db \<Longrightarrow> length (x_join_sale db s) = max 1 (length (sale_txns db s))"
proof -
  assume u: "unique_keys db"
  have "length (map j_txn (x_join_sale db s)) = length (opt_rows (sale_txns db s))"
    by (simp only: x_join_sale_txns_unique [OF u])
  then show ?thesis by simp
qed

lemma x_join_hours:
  "set (map row_hour (filter (in_window today a b) (x_join db))) =
   set (map sale_hour (filter (sale_in_window today a b) (sales db)))"
proof -
  have f: "filter (in_window today a b) (x_join db) =
             concat (map (x_join_sale db) (filter (sale_in_window today a b) (sales db)))"
    using x_join_filter [of "sale_in_window today a b" db] by (simp add: in_window_def [abs_def])
  have h: "set (map row_hour (concat (map (x_join_sale db) ss))) = set (map sale_hour ss)" for ss
  proof
    show "set (map row_hour (concat (map (x_join_sale db) ss))) \<subseteq> set (map sale_hour ss)"
      by (auto simp: row_hour_def dest: x_join_sale_j_sale)
    show "set (map sale_hour ss) \<subseteq> set (map row_hour (concat (map (x_join_sale db) ss)))"
    proof
      fix h assume "h \<in> set (map sale_hour ss)"
      then obtain s where s: "s \<in> set ss" "h = sale_hour s" by auto
      obtain r where r: "r \<in> set (x_join_sale db s)"
        using x_join_sale_ne [of db s] by (metis list.set_intros(1) neq_Nil_conv)
      then have "row_hour r = h" using s by (simp add: row_hour_def x_join_sale_j_sale)
      with r s show "h \<in> set (map row_hour (concat (map (x_join_sale db) ss)))" by force
    qed
  qed
  show ?thesis unfolding f by (rule h)
qed

lemma txn_items_txns [simp]: "txn_items (db\<lparr>txns := ts\<rparr>) t = txn_items db t"
  by (cases t) simp_all

lemma txn_orders_txns [simp]: "txn_orders (db\<lparr>txns := ts\<rparr>) t = txn_orders db t"
  by (cases t) simp_all

lemma order_emps_txns [simp]: "order_emps (db\<lparr>txns := ts\<rparr>) oh = order_emps db oh"
  by (cases oh) (simp_all split: option.split)

lemma joins_same_lines:
  assumes "\<forall>s \<in> set (sales db). sale_txns (db\<lparr>txns := ts\<rparr>) s = sale_txns db s"
  shows "x_join (db\<lparr>txns := ts\<rparr>) = x_join db \<and> z_join (db\<lparr>txns := ts\<rparr>) = z_join db"
proof -
  have x: "x_join (db\<lparr>txns := ts\<rparr>) = x_join db"
    using assms unfolding x_join_def x_join_sale_def by (intro arg_cong [where f = concat] map_cong) auto
  then show ?thesis by (simp add: z_join_def)
qed

lemma sale_txns_append_other:
  "\<forall>t \<in> set new. sale_id t = 0 \<Longrightarrow> sale_key s \<noteq> 0 \<Longrightarrow>
   sale_txns (db\<lparr>txns := txns db @ new\<rparr>) s = sale_txns db s"
  by (auto simp: sale_txns_def filter_empty_conv)

section \<open>Properties of the hourly reports\<close>

text \<open>
  C21. The X report has one row per hour in which a sale was made today within the
  requested hours, in ascending order of the hour and each hour once; an hour without a sale
  has no row at all (not a row of zeros).
\<close>

theorem x_rows_hours:
  "map x_hour (x_rows today a b db) = sort (remdups (map sale_hour (filter (sale_in_window today a b) (sales db))))"
proof -
  have "map x_hour (x_rows today a b db) = sort (remdups (map row_hour (filter (in_window today a b) (x_join db))))"
    by (simp add: x_rows_buckets x_bucket_def comp_def)
  also have "\<dots> = sorted_list_of_set (set (map row_hour (filter (in_window today a b) (x_join db))))"
    by (simp only: sorted_list_of_set_sort_remdups)
  also have "\<dots> = sorted_list_of_set (set (map sale_hour (filter (sale_in_window today a b) (sales db))))"
    by (simp only: x_join_hours)
  also have "\<dots> = sort (remdups (map sale_hour (filter (sale_in_window today a b) (sales db))))"
    by (simp only: sorted_list_of_set_sort_remdups)
  finally show ?thesis .
qed

theorem x_rows_hours_witness:
  "map x_hour (x_rows 20000 (PVal 0) (PVal 23) example_report_db) = [9, 14]"
proof -
  have "sort (remdups (map sale_hour (filter (sale_in_window 20000 (PVal 0) (PVal 23)) (sales example_report_db)))) = [9, 14]"
    by code_simp
  then show ?thesis using x_rows_hours [of 20000 "PVal 0" "PVal 23" example_report_db] by simp
qed

text \<open>
  C22. With the catalog's and the orders' keys unique, the X report's \<open>sales_revenue\<close>
  for an hour counts each sale's \<open>total_amount\<close> once per line item of the sale (once if it
  has none): the join fans the sale header out over its transactions.
\<close>

theorem x_revenue_fan_out:
  assumes "unique_keys db" and "r \<in> set (x_rows today a b db)"
  shows "x_sales_revenue r =
           (\<Sum>s \<leftarrow> hour_sales today a b db (x_hour r). of_nat (max 1 (length (sale_txns db s))) * total_amount s)"
proof -
  let ?rs = "concat (map (x_join_sale db) (hour_sales today a b db (x_hour r)))"
  have r: "r = x_bucket (x_hour r) ?rs" by (rule x_rows_memD [OF assms(2)])
  have "x_sales_revenue r = sum_list (map (\<lambda>r. total_amount (j_sale r)) ?rs)"
    using arg_cong [OF r, of x_sales_revenue] by (simp add: x_bucket_def coalesce_sql_sum)
  then show ?thesis
    by (simp add: sum_list_concat_map x_join_sale_revenue x_join_sale_length [OF assms(1)])
qed

theorem x_revenue_fan_out_witness:
  "unique_keys example_report_db \<and>
   hd (x_rows 20000 (PVal 0) (PVal 23) example_report_db) \<in> set (x_rows 20000 (PVal 0) (PVal 23) example_report_db) \<and>
   x_sales_revenue (hd (x_rows 20000 (PVal 0) (PVal 23) example_report_db)) = 34"
proof -
  have u: "unique_keys example_report_db" by code_simp
  have m: "hd (x_rows 20000 (PVal 0) (PVal 23) example_report_db) \<in> set (x_rows 20000 (PVal 0) (PVal 23) example_report_db)"
    by code_simp
  have v: "(\<Sum>s \<leftarrow> hour_sales 20000 (PVal 0) (PVal 23) example_report_db (x_hour (hd (x_rows 20000 (PVal 0) (PVal 23) example_report_db))).
              of_nat (max 1 (length (sale_txns example_report_db s))) * total_amount s) = 34"
    by code_simp
  show ?thesis using u m v x_revenue_fan_out [OF u m] by simp
qed

text \<open>
  C23. With unique keys, the X report's \<open>total_transactions\<close> for an hour is the number of
  distinct line items (transaction rows) of that hour's sales, not the number of sales, and
  its \<open>total_sales\<close> is the sum of price times quantity over those line items.
\<close>

theorem x_bucket_lines:
  assumes "unique_keys db" and "r \<in> set (x_rows today a b db)"
  shows "x_total_transactions r = card (txn_id ` set (hour_lines today a b db (x_hour r))) \<and>
         x_total_sales r = sum_list (map line_amount (hour_lines today a b db (x_hour r)))"
proof -
  let ?rs = "concat (map (x_join_sale db) (hour_sales today a b db (x_hour r)))"
  have r: "r = x_bucket (x_hour r) ?rs" by (rule x_rows_memD [OF assms(2)])
  have "x_total_transactions r = length (remdups (List.map_filter id (map txn_id_of ?rs)))"
    using arg_cong [OF r, of x_total_transactions] by (simp add: x_bucket_def count_distinct_def)
  moreover have "x_total_sales r = sum_list (List.map_filter id (map amount_of ?rs))"
    using arg_cong [OF r, of x_total_sales] by (simp add: x_bucket_def coalesce_sql_sum)
  ultimately show ?thesis
    by (simp add: x_bucket_txn_ids [OF assms(1)] x_bucket_amounts [OF assms(1)] hour_lines_def
                  length_remdups_card_conv)
qed

theorem x_bucket_lines_witness:
  "unique_keys example_report_db \<and>
   hd (x_rows 20000 (PVal 0) (PVal 23) example_report_db) \<in> set (x_rows 20000 (PVal 0) (PVal 23) example_report_db) \<and>
   x_total_transactions (hd (x_rows 20000 (PVal 0) (PVal 23) example_report_db)) = 3 \<and>
   x_total_sales (hd (x_rows 20000 (PVal 0) (PVal 23) example_report_db)) = 12"
proof -
  have u: "unique_keys example_report_db" by code_simp
  have m: "hd (x_rows 20000 (PVal 0) (PVal 23) example_report_db) \<in> set (x_rows 20000 (PVal 0) (PVal 23) example_report_db)"
    by code_simp
  have c: "card (txn_id ` set (hour_lines 20000 (PVal 0) (PVal 23) example_report_db
              (x_hour (hd (x_rows 20000 (PVal 0) (PVal 23) example_report_db))))) = 3"
    by code_simp
  have t: "sum_list (map line_amount (hour_lines 20000 (PVal 0) (PVal 23) example_report_db
              (x_hour (hd (x_rows 20000 (PVal 0) (PVal 23) example_report_db))))) = 12"
    by code_simp
  show ?thesis using u m c t x_bucket_lines [OF u m] by simp
qed

text \<open>
  C24. Every row of a Z report answer has \<open>total_tax\<close> exactly 8% and
  \<open>service_charges\<close> exactly 5% of the row's \<open>total_sales\<close> (0 when the hour has no line item).
\<close>

theorem z_report_tax_rates:
  assumes "z_report today sh eh db = ReportRows rows" and "r \<in> set rows"
  shows "z_total_tax r = z_total_sales r * 8 / 100 \<and> z_service_charges r = z_total_sales r * 5 / 100"
proof -
  from assms(1) obtain a b where "rows = z_rows today a b db"
    by (auto simp: z_report_def split: if_splits option.splits prod.splits)
  with assms(2) obtain h rs where "r = z_bucket h rs" by (auto simp: z_rows_def)
  then show ?thesis by (simp add: z_bucket_def coalesce_map_option_zero)
qed

theorem z_report_tax_rates_witness:
  "z_report 20000 (Some ''0'') (Some ''23'') example_report_db = ReportRows (z_rows 20000 (PVal 0) (PVal 23) example_report_db) \<and>
   hd (z_rows 20000 (PVal 0) (PVal 23) example_report_db) \<in> set (z_rows 20000 (PVal 0) (PVal 23) example_report_db) \<and>
   z_total_tax (hd (z_rows 20000 (PVal 0) (PVal 23) example_report_db)) = 24 / 25"
proof -
  have r: "z_report 20000 (Some ''0'') (Some ''23'') example_report_db = ReportRows (z_rows 20000 (PVal 0) (PVal 23) example_report_db)"
    by code_simp
  have m: "hd (z_rows 20000 (PVal 0) (PVal 23) example_report_db) \<in> set (z_rows 20000 (PVal 0) (PVal 23) example_report_db)"
    by code_simp
  have t: "z_total_sales (hd (z_rows 20000 (PVal 0) (PVal 23) example_report_db)) = 12"
    by code_simp
  show ?thesis using r m t z_report_tax_rates [OF r m] by simp
qed

text \<open>
  C25. The X report does not reject a start hour above the end hour: two numeric hours
  with the start above the end give an empty report (status 200), not a validation error.
\<close>

theorem x_report_reversed_range:
  assumes "pg_numeric_in s1 = Some (PVal a)" "pg_numeric_in s2 = Some (PVal b)" "b < a"
  shows "x_report today (Some s1) (Some s2) db = ReportRows []"
proof -
  have "filter (in_window today (PVal a) (PVal b)) (x_join db) = []"
    using assms(3) by (auto simp: filter_empty_conv in_window_def sale_in_window_def param_between_def)
  then have "x_rows today (PVal a) (PVal b) db = []" by (simp add: x_rows_def group_by_def)
  with assms show ?thesis by (simp add: x_report_def js_is_nan_def bind_numeric_def pg_numeric_in_js_numeric)
qed

theorem x_report_reversed_range_witness:
  "pg_numeric_in ''5'' = Some (PVal 5) \<and> pg_numeric_in ''3'' = Some (PVal 3) \<and> (3::rat) < 5 \<and>
   x_report 20000 (Some ''5'') (Some ''3'') example_report_db = ReportRows []"
proof -
  have h: "pg_numeric_in ''5'' = Some (PVal 5)" "pg_numeric_in ''3'' = Some (PVal 3)" "(3::rat) < 5"
    by code_simp+
  show ?thesis using h x_report_reversed_range [OF h] by simp
qed

text \<open>
  C26. The Z report answers 400 exactly when both hours start with integers (as
  \<open>parseInt\<close> reads them) and the start is above the end; with both hours absent it answers
  an empty report instead of a validation error.
\<close>

theorem z_report_guard:
  "(z_report today sh eh db = ReportBadRequest \<longleftrightarrow>
      (\<exists>a b. js_parse_int sh = Some a \<and> js_parse_int eh = Some b \<and> b < a)) \<and>
   z_report today None None db = ReportRows []"
proof -
  have "filter (in_window today PNull PNull) (z_join db) = []"
    by (simp add: filter_empty_conv in_window_def sale_in_window_def param_between_def)
  then have "z_rows today PNull PNull db = []" by (simp add: z_rows_def group_by_def)
  then show ?thesis by (auto simp: z_report_def js_parse_int_def split: option.splits)
qed

end
