(* ===== verification/Trends.thy ===== *)
theory Trends
  imports Reports Inventory
begin

text \<open>
  The trend series \<open>GET /api/trends\<close> (\<^verbatim>\<open>src/backend/server.js\<close> lines 335 to 385)
  and the product-usage report \<open>GET /api/productusage\<close> (487 to 534). The trend handler
  builds its SQL text from a template per trend type and a time filter string; the model
  keeps the query at the level of its clauses, in the order the template concatenates them:
  the table after \<open>FROM\<close> and the conditions of every \<open>WHERE\<close> keyword. PostgreSQL
  accepts the text only with at most one \<open>WHERE\<close> and with every column it names present
  in the table (\<open>pg_accepts\<close>); otherwise the query fails and the handler answers 500.
  \<open>CURRENT_DATE\<close> and the server's \<open>new Date()\<close> are the day \<open>today\<close> (the server and the
  database are taken to run in UTC, so \<open>toISOString\<close> gives the same calendar day). The
  product-usage dates arrive as the text of a date input: absent, empty, or a date, which
  \<open>$1::DATE\<close> reads as its day (other text is not modelled).
\<close>

section \<open>The trend query\<close>

datatype trend_kind = DailySales | PeakDays | TotalOrders | UsageTrend

text \<open>The \<open>switch (trendType)\<close>; any other value answers 400 before querying.\<close>

definition trend_kind_of :: "string option \<Rightarrow> trend_kind option" where
  "trend_kind_of tt =
     (if tt = Some ''Daily Sales'' then Some DailySales
      else if tt = Some ''Peak Days'' then Some PeakDays
      else if tt = Some ''Total Orders'' then Some TotalOrders
      else if tt = Some ''Product Usage'' then Some UsageTrend
      else None)"

datatype trend_cond = PeakFlag | SinceDays int

text \<open>\<open>timeFilter\<close>: \<open>" WHERE SalesTimestamp >= CURRENT_DATE - INTERVAL 'n days'"\<close> or empty.\<close>

definition time_filter :: "string option \<Rightarrow> trend_cond list" where
  "time_filter tr =
     (if tr = Some ''Last 7 Days'' then [SinceDays 7]
      else if tr = Some ''Last 30 Days'' then [SinceDays 30]
      else [])"

record trend_query =
  tq_kind :: trend_kind
  tq_table :: string
  tq_where :: "trend_cond list" \<comment> \<open>one entry per \<open>WHERE\<close> keyword of the text\<close>

definition build_trend_query :: "trend_kind \<Rightarrow> trend_cond list \<Rightarrow> trend_query" where
  "build_trend_query k tf =
     (case k of
        DailySales \<Rightarrow> \<lparr>tq_kind = k, tq_table = ''sales'', tq_where = tf\<rparr>
      | PeakDays \<Rightarrow> \<lparr>tq_kind = k, tq_table = ''sales'', tq_where = PeakFlag # tf\<rparr>
      | TotalOrders \<Rightarrow> \<lparr>tq_kind = k, tq_table = ''sales'', tq_where = tf\<rparr>
      | UsageTrend \<Rightarrow> \<lparr>tq_kind = k, tq_table = ''inventory'', tq_where = tf\<rparr>)"

definition cond_column :: "trend_cond \<Rightarrow> string" where
  "cond_column c = (case c of PeakFlag \<Rightarrow> ''peak_day_flag'' | SinceDays _ \<Rightarrow> ''salestimestamp'')"

text \<open>The columns of the two tables (unquoted identifiers, folded to lower case).\<close>

definition table_columns :: "string \<Rightarrow> string list" where
  "table_columns t =
     (if t = ''sales'' then [''id'', ''salestimestamp'', ''total_amount'', ''peak_day_flag'']
      else if t = ''inventory'' then [''inventoryid'', ''quantity'', ''menuitemid'', ''timestamp'', ''restockdate'', ''lastupdated'']
      else [])"

definition pg_accepts :: "trend_query \<Rightarrow> bool" where
  "pg_accepts q \<longleftrightarrow> length (tq_where q) \<le> 1 \<and> list_all (\<lambda>c. cond_column c \<in> set (table_columns (tq_table q))) (tq_where q)"

section \<open>Running it\<close>

datatype trend_row = SalesPoint instant money | CountPoint instant nat | UsagePoint instant int

fun cond_holds :: "day \<Rightarrow> sale \<Rightarrow> trend_cond \<Rightarrow> bool" where
  "cond_holds today s PeakFlag = peak_day_flag s"
| "cond_holds today s (SinceDays n) = ((today - n) * 86400 \<le> sales_ts s)"

definition trend_sales :: "day \<Rightarrow> trend_query \<Rightarrow> sale list \<Rightarrow> sale list" where
  "trend_sales today q ss = filter (\<lambda>s. list_all (cond_holds today s) (tq_where q)) ss"

text \<open>
  \<open>ORDER BY SalesTimestamp ASC\<close>, \<open>ORDER BY total_amount DESC\<close>, \<open>GROUP BY .. ORDER BY ..\<close>;
  rows that tie keep their table order (one of the orders the database may return).
\<close>

definition run_trend :: "day \<Rightarrow> trend_query \<Rightarrow> sale list \<Rightarrow> inv_row list \<Rightarrow> trend_row list" where
  "run_trend today q ss invs =
     (case tq_kind q of
        DailySales \<Rightarrow> map (\<lambda>s. SalesPoint (sales_ts s) (total_amount s)) (sort_key sales_ts (trend_sales today q ss))
      | PeakDays \<Rightarrow> map (\<lambda>s. SalesPoint (sales_ts s) (total_amount s)) (sort_key (\<lambda>s. - total_amount s) (trend_sales today q ss))
      | TotalOrders \<Rightarrow> map (\<lambda>(t, rs). CountPoint t (length rs)) (group_by sales_ts (trend_sales today q ss))
      | UsageTrend \<Rightarrow> map (\<lambda>(t, rs). UsagePoint t (sum_list (map inv_quantity rs))) (group_by restockdate invs))"

definition trends :: "day \<Rightarrow> string option \<Rightarrow> string option \<Rightarrow> sale list \<Rightarrow> inv_row list \<Rightarrow> trend_row report_reply" where
  "trends today tt tr ss invs =
     (case trend_kind_of tt of
        None \<Rightarrow> ReportBadRequest
      | Some k \<Rightarrow> let q = build_trend_query k (time_filter tr) in
                  if pg_accepts q then ReportRows (run_trend today q ss invs) else ReportFailed)"

text \<open>The time ranges the Trends page offers (\<^verbatim>\<open>Trends.js\<close> lines 109 to 111).\<close>

definition trends_page_ranges :: "string list" where
  "trends_page_ranges = [''Last 7 Days'', ''Last 30 Days'', ''All Time'']"

section \<open>Product usage\<close>

datatype date_param = DUndef | DEmpty | DDay day

fun date_truthy :: "date_param \<Rightarrow> bool" where
  "date_truthy (DDay _) = True"
| "date_truthy _ = False"

text \<open>\<open>$1::DATE\<close>: \<open>undefined\<close> binds \<open>NULL\<close> (\<open>Some None\<close>); the empty string is not a date.\<close>

fun bind_date :: "date_param \<Rightarrow> day option option" where
  "bind_date DUndef = Some None"
| "bind_date DEmpty = None"
| "bind_date (DDay d) = Some (Some d)"

fun date_between :: "day option \<Rightarrow> day option \<Rightarrow> day \<Rightarrow> bool" where
  "date_between (Some a) (Some b) d = (a \<le> d \<and> d \<le> b)"
| "date_between _ _ _ = False"

record usage_row =
  item_name :: string
  total_used :: int

text \<open>
  \<open>SELECT m.itemname, SUM(i.quantity) AS total_used FROM inventory i JOIN menuitem m ON
  i.menuitemid = m.itemid WHERE i.timestamp::DATE BETWEEN $1::DATE AND $2::DATE GROUP BY
  m.itemname ORDER BY total_used DESC\<close>
\<close>

definition usage_rows :: "day option \<Rightarrow> day option \<Rightarrow> inv_row list \<Rightarrow> menu_item list \<Rightarrow> usage_row list" where
  "usage_rows qs qe invs ms =
     sort_key (\<lambda>r. - total_used r)
       (map (\<lambda>(n, rs). \<lparr>item_name = n, total_used = sum_list (map (inv_quantity \<circ> snd) rs)\<rparr>)
          (group_by (itemname \<circ> fst)
             (filter (\<lambda>(m, i). date_between qs qe (date_of (timestamp i)))
                (concat (map (\<lambda>i. map (\<lambda>m. (m, i)) (filter (\<lambda>m. menu_item.itemid m = menuitemid i) ms)) invs)))))"

text \<open>
  The date range: a named window from \<open>new Date()\<close> (\<open>setDate(getDate() - n)\<close>, then the
  ISO date), else the request's dates; the \<open>Custom Range\<close> branch assigns the request's
  dates again.
\<close>

definition usage_range :: "day \<Rightarrow> string option \<Rightarrow> date_param \<Rightarrow> date_param \<Rightarrow> date_param \<times> date_param" where
  "usage_range today tr sd ed =
     (let (qs, qe) = (if tr = Some ''Last 7 Days'' then (DDay (today - 7), DDay today)
                      else if tr = Some ''Last 30 Days'' then (DDay (today - 30), DDay today)
                      else (sd, ed))
      in if tr = Some ''Custom Range'' \<and> date_truthy qs \<and> date_truthy qe then (sd, ed) else (qs, qe))"

definition product_usage :: "day \<Rightarrow> string option \<Rightarrow> date_param \<Rightarrow> date_param \<Rightarrow> inv_row list \<Rightarrow> menu_item list \<Rightarrow> usage_row report_reply" where
  "product_usage today tr sd ed invs ms =
     (case usage_range today tr sd ed of (qs, qe) \<Rightarrow>
        case (bind_date qs, bind_date qe) of
          (Some a, Some b) \<Rightarrow> ReportRows (usage_rows a b invs ms)
        | _ \<Rightarrow> ReportFailed)"

section \<open>Reading the rows\<close>

text \<open>The time and the amount of a trend point (what the chart plots).\<close>

fun trend_time :: "trend_row \<Rightarrow> instant" where
  "trend_time (SalesPoint t _) = t"
| "trend_time (CountPoint t _) = t"
| "trend_time (UsagePoint t _) = t"

fun trend_amount :: "trend_row \<Rightarrow> money" where
  "trend_amount (SalesPoint _ a) = a"
| "trend_amount _ = 0"

section \<open>Lemmas\<close>

lemma sorted_wrt_ge_sort_key_neg:
  "sorted_wrt (\<ge>) (map f (sort_key (\<lambda>x. - (f x :: 'a :: linordered_ab_group_add)) xs))"
proof -
  have "sorted (map (\<lambda>x. - f x) (sort_key (\<lambda>x. - f x) xs))" by simp
  then show ?thesis by (simp add: sorted_wrt_map sorted_iff_nth_mono sorted_wrt_iff_nth_less)
qed

lemma group_by_keys_strict: "sorted_wrt (<) (map fst (group_by k xs))"
  by (simp add: group_by_def comp_def strict_sorted_iff)

lemma distinct_map_sort_key: "distinct (map h (sort_key f xs)) = distinct (map h xs)"
  by (rule mset_eq_imp_distinct_iff) (simp add: mset_map)

section \<open>Properties of the trend and product-usage reports\<close>


text \<open>
  C29. Every answered trend series is ordered as the spec requires: Daily Sales ascending
  by time, Peak Days descending by amount (not strictly: equal amounts stay), Total Orders
  and the Product Usage trend strictly ascending by their grouping key.
\<close>

theorem trends_orderings:
  assumes "trends today tt tr ss invs = ReportRows rows"
  shows "(tt = Some ''Daily Sales'' \<longrightarrow> sorted (map trend_time rows)) \<and>
         (tt = Some ''Peak Days'' \<longrightarrow> sorted_wrt (\<ge>) (map trend_amount rows)) \<and>
         (tt = Some ''Total Orders'' \<longrightarrow> sorted_wrt (<) (map trend_time rows)) \<and>
         (tt = Some ''Product Usage'' \<longrightarrow> sorted_wrt (<) (map trend_time rows))"
proof -
  obtain k where k: "trend_kind_of tt = Some k" and q: "pg_accepts (build_trend_query k (time_filter tr))"
    and r: "rows = run_trend today (build_trend_query k (time_filter tr)) ss invs"
    using assms by (auto simp: trends_def Let_def split: option.splits if_splits)
  show ?thesis
  proof (intro conjI impI)
    assume "tt = Some ''Daily Sales''"
    with k r show "sorted (map trend_time rows)"
      by (simp add: trend_kind_of_def run_trend_def build_trend_query_def comp_def)
  next
    assume "tt = Some ''Peak Days''"
    with k r show "sorted_wrt (\<ge>) (map trend_amount rows)"
      using sorted_wrt_ge_sort_key_neg [of total_amount]
      by (simp add: trend_kind_of_def run_trend_def build_trend_query_def comp_def)
  next
    assume "tt = Some ''Total Orders''"
    with k r show "sorted_wrt (<) (map trend_time rows)"
      using group_by_keys_strict [of sales_ts]
      by (simp add: trend_kind_of_def run_trend_def build_trend_query_def comp_def case_prod_beta)
  next
    assume "tt = Some ''Product Usage''"
    with k r show "sorted_wrt (<) (map trend_time rows)"
      using group_by_keys_strict [of restockdate]
      by (simp add: trend_kind_of_def run_trend_def build_trend_query_def comp_def case_prod_beta)
  qed
qed

theorem trends_orderings_witness:
  "trends 20000 (Some ''Peak Days'') (Some ''All Time'') (sales example_report_db) [] =
     ReportRows (run_trend 20000 (build_trend_query PeakDays []) (sales example_report_db) []) \<and>
   sorted_wrt (\<ge>) (map trend_amount (run_trend 20000 (build_trend_query PeakDays []) (sales example_report_db) []))"
proof -
  have h: "trends 20000 (Some ''Peak Days'') (Some ''All Time'') (sales example_report_db) [] =
     ReportRows (run_trend 20000 (build_trend_query PeakDays []) (sales example_report_db) [])"
    by code_simp
  show ?thesis using h trends_orderings [OF h] by simp
qed

text \<open>
  C30. Every product-usage answer lists each item name once, in descending order of the
  total quantity used.
\<close>

theorem product_usage_rows:
  assumes "product_usage today tr sd ed invs ms = ReportRows rows"
  shows "sorted_wrt (\<ge>) (map total_used rows) \<and> distinct (map item_name rows)"
proof -
  obtain a b where r: "rows = usage_rows a b invs ms"
    using assms by (auto simp: product_usage_def split: prod.splits option.splits)
  have "sorted_wrt (\<ge>) (map total_used rows)"
    unfolding r usage_rows_def by (rule sorted_wrt_ge_sort_key_neg)
  moreover have "distinct (map item_name rows)"
    unfolding r usage_rows_def by (simp add: distinct_map_sort_key comp_def case_prod_beta group_by_def)
  ultimately show ?thesis ..
qed

theorem product_usage_rows_witness:
  "product_usage 20000 (Some ''All Time'') (DDay 0) (DDay 30000) (inventory example_inv_db) (menuitem example_catalog) =
     ReportRows (usage_rows (Some 0) (Some 30000) (inventory example_inv_db) (menuitem example_catalog)) \<and>
   sorted_wrt (\<ge>) (map total_used (usage_rows (Some 0) (Some 30000) (inventory example_inv_db) (menuitem example_catalog)))"
proof -
  have h: "product_usage 20000 (Some ''All Time'') (DDay 0) (DDay 30000) (inventory example_inv_db) (menuitem example_catalog) =
     ReportRows (usage_rows (Some 0) (Some 30000) (inventory example_inv_db) (menuitem example_catalog))"
    by code_simp
  show ?thesis using h product_usage_rows [OF h] by simp
qed

text \<open>
  The product-usage windows: \<open>Last 7 Days\<close> covers the eight calendar days from
  \<open>today - 7\<close> to \<open>today\<close> inclusive, and the \<open>Custom Range\<close> branch changes nothing: a custom
  range is the request's dates, as with no range at all.
\<close>

theorem product_usage_windows:
  "product_usage today (Some ''Last 7 Days'') sd ed invs ms = ReportRows (usage_rows (Some (today - 7)) (Some today) invs ms) \<and>
   product_usage today (Some ''Custom Range'') sd ed invs ms = product_usage today None sd ed invs ms \<and>
   card {d. date_between (Some (today - 7)) (Some today) d} = 8"
proof -
  have "{d. date_between (Some (today - 7)) (Some today) d} = {today - 7 .. today}" by auto
  then show ?thesis
    by (auto simp: product_usage_def usage_range_def split: prod.splits date_param.splits)
qed

end
