(* ===== verification/Router.thy ===== *)
theory Router
  imports Prelude
begin

text \<open>
  The Express application's dispatch in \<^verbatim>\<open>src/backend/server.js\<close>: every \<open>app.use\<close>,
  \<open>app.get\<close>, \<open>app.post\<close>, \<open>app.put\<close> and \<open>app.delete\<close> in registration order (lines 19 to
  678), the router of \<^verbatim>\<open>routes/authRoutes.js\<close> mounted at \<open>/api/auth\<close>, and the rule
  Express 4 applies: a request goes to the first layer that matches it and handles it; a
  middleware that calls \<open>next()\<close> passes it on; no match at all is a 404. Matching follows
  Express's defaults: paths compared segment by segment, ignoring ASCII case, a trailing
  slash ignored, \<open>:param\<close> matching one non-empty segment, \<open>'*'\<close> matching every path, and a
  \<open>GET\<close> route also answering \<open>HEAD\<close>. \<open>cors()\<close> answers every \<open>OPTIONS\<close> preflight itself;
  \<open>express.json()\<close> passes every request on (bodies are taken to be well-formed JSON);
  \<open>express.static\<close> serves a \<open>GET\<close> or \<open>HEAD\<close> for a path that is a file of the build
  directory (the parameter \<open>files\<close>) and passes the others on.
\<close>

datatype http_method = GET | HEAD | POST | PUT | DELETE | OPTIONS

record request =
  req_method :: http_method
  req_path :: "string list" \<comment> \<open>the path's segments: \<open>/api/menu/Tea\<close> is \<open>[''api'', ''menu'', ''Tea'']\<close>\<close>

datatype seg = Lit string | Param

text \<open>The handlers, one per registration, named after what they do.\<close>

datatype endpoint =
    CorsPreflight | AuthGoogleLogin | ServeStatic | SpaIndex
  | PostLogin | PostGuest | GetMenu | GetMenuByType | PostOrders | AddMenuItem | DeleteMenuItem
  | GetInventory | AddInventory | DeleteInventory | UpdateInventory | GetTrends
  | GetEmployees | PostEmployee | PutEmployee | DeleteEmployee
  | GetSeasonal | AddSeasonalItem | DeleteMenuItemById
  | GetProductUsage | GetXReport | GetZReport | GetTestDb | GetTransactions | PostGoogleLogin | GetWeather

datatype layer =
    MwCors
  | MwJson
  | Mount "string list" "(http_method \<times> seg list \<times> endpoint) list"
  | MwStatic
  | RouteAll http_method endpoint
  | Route http_method "seg list" endpoint

section \<open>Matching\<close>

definition seg_eq :: "string \<Rightarrow> string \<Rightarrow> bool" where
  "seg_eq a b \<longleftrightarrow> js_lower a = js_lower b"

fun seg_match :: "seg list \<Rightarrow> string list \<Rightarrow> bool" where
  "seg_match [] [] = True"
| "seg_match (Lit a # ps) (x # xs) = (seg_eq a x \<and> seg_match ps xs)"
| "seg_match (Param # ps) (x # xs) = (x \<noteq> [] \<and> seg_match ps xs)"
| "seg_match _ _ = False"

text \<open>Non-strict routing: \<open>/api/menu/\<close> is \<open>/api/menu\<close>.\<close>

definition norm_path :: "string list \<Rightarrow> string list" where
  "norm_path p = (if p \<noteq> [] \<and> last p = [] then butlast p else p)"

definition method_match :: "http_method \<Rightarrow> http_method \<Rightarrow> bool" where
  "method_match m m' \<longleftrightarrow> m = m' \<or> (m = GET \<and> m' = HEAD)"

fun strip_prefix :: "string list \<Rightarrow> string list \<Rightarrow> string list option" where
  "strip_prefix [] xs = Some xs"
| "strip_prefix (p # ps) (x # xs) = (if seg_eq p x then strip_prefix ps xs else None)"
| "strip_prefix _ [] = None"

definition first_route :: "(http_method \<times> seg list \<times> endpoint) list \<Rightarrow> request \<Rightarrow> string list \<Rightarrow> endpoint option" where
  "first_route rs r p =
     (case filter (\<lambda>(m, ps, e). method_match m (req_method r) \<and> seg_match ps (norm_path p)) rs of
        [] \<Rightarrow> None
      | (_, _, e) # _ \<Rightarrow> Some e)"

text \<open>What one layer does with a request: handle it (\<open>Some\<close>) or pass it on (\<open>None\<close>).\<close>

fun layer_handles :: "string list list \<Rightarrow> layer \<Rightarrow> request \<Rightarrow> endpoint option" where
  "layer_handles files MwCors r = (if req_method r = OPTIONS then Some CorsPreflight else None)"
| "layer_handles files MwJson r = None"
| "layer_handles files (Mount pre rs) r =
     (case strip_prefix pre (req_path r) of Some rest \<Rightarrow> first_route rs r rest | None \<Rightarrow> None)"
| "layer_handles files MwStatic r =
     (if (req_method r = GET \<or> req_method r = HEAD) \<and> req_path r \<in> set files then Some ServeStatic else None)"
| "layer_handles files (RouteAll m e) r = (if method_match m (req_method r) then Some e else None)"
| "layer_handles files (Route m ps e) r =
     (if method_match m (req_method r) \<and> seg_match ps (norm_path (req_path r)) then Some e else None)"

text \<open>The first layer that handles the request; \<open>None\<close> is Express's 404.\<close>

fun dispatch :: "string list list \<Rightarrow> layer list \<Rightarrow> request \<Rightarrow> endpoint option" where
  "dispatch files [] r = None"
| "dispatch files (l # ls) r = (case layer_handles files l r of Some e \<Rightarrow> Some e | None \<Rightarrow> dispatch files ls r)"

section \<open>The application's layers\<close>

definition api :: "string list \<Rightarrow> seg list" where
  "api xs = Lit ''api'' # map Lit xs"

definition server_layers :: "layer list" where
  "server_layers =
     [MwCors, MwJson,
      Mount [''api'', ''auth''] [(POST, [Lit ''google-login''], AuthGoogleLogin)],
      MwStatic,
      RouteAll GET SpaIndex,
      Route POST (api [''login'']) PostLogin,
      Route POST (api [''guest'']) PostGuest,
      Route GET (api [''menu'']) GetMenu,
      Route GET (api [''menu''] @ [Param]) GetMenuByType,
      Route POST (api [''orders'']) PostOrders,
      Route POST (api [''menu'', ''add'']) AddMenuItem,
      Route POST (api [''menu'', ''delete'']) DeleteMenuItem,
      Route GET (api [''inventory'']) GetInventory,
      Route POST (api [''inventory'', ''add'']) AddInventory,
      Route DELETE (api [''inventory'', ''delete'']) DeleteInventory,
      Route POST (api [''inventory'', ''update'']) UpdateInventory,
      Route GET (api [''trends'']) GetTrends,
      Route GET (api [''employees'']) GetEmployees,
      Route POST (api [''employees'']) PostEmployee,
      Route PUT (api [''employees''] @ [Param]) PutEmployee,
      Route DELETE (api [''employees''] @ [Param]) DeleteEmployee,
      Route GET (api [''menu'', ''seasonal'']) GetSeasonal,
      Route POST (api [''menu'', ''add'']) AddSeasonalItem,
      Route POST (api [''menu'', ''delete'']) DeleteMenuItemById,
      Route GET (api [''productusage'']) GetProductUsage,
      Route GET (api [''xreport'']) GetXReport,
      Route GET (api [''zreport'']) GetZReport,
      Route GET (api [''test-db'']) GetTestDb,
      Route GET (api [''transactions'']) GetTransactions,
      Route POST (api [''google-login'']) PostGoogleLogin,
      Route GET (api [''weather''] @ [Param]) GetWeather]"

text \<open>
  One layer shadows a later one when every request the later one handles is handled by it:
  the catch-all \<open>app.get('*')\<close> shadows every \<open>GET\<close> route, and a route shadows a later
  registration of the same method and path.
\<close>

fun subsumes :: "layer \<Rightarrow> layer \<Rightarrow> bool" where
  "subsumes (RouteAll m e0) (Route m' ps e) = (m = m')"
| "subsumes (Route m ps e0) (Route m' ps' e) = (m = m' \<and> ps = ps')"
| "subsumes _ _ = False"


text \<open>
  The layers that can still handle a request: \<open>server_layers\<close> without the fourteen
  registrations shadowed by an earlier one.
\<close>

definition effective_layers :: "layer list" where
  "effective_layers =
     [MwCors, MwJson,
      Mount [''api'', ''auth''] [(POST, [Lit ''google-login''], AuthGoogleLogin)],
      MwStatic,
      RouteAll GET SpaIndex,
      Route POST (api [''login'']) PostLogin,
      Route POST (api [''guest'']) PostGuest,
      Route POST (api [''orders'']) PostOrders,
      Route POST (api [''menu'', ''add'']) AddMenuItem,
      Route POST (api [''menu'', ''delete'']) DeleteMenuItem,
      Route POST (api [''inventory'', ''add'']) AddInventory,
      Route DELETE (api [''inventory'', ''delete'']) DeleteInventory,
      Route POST (api [''inventory'', ''update'']) UpdateInventory,
      Route POST (api [''employees'']) PostEmployee,
      Route PUT (api [''employees''] @ [Param]) PutEmployee,
      Route DELETE (api [''employees''] @ [Param]) DeleteEmployee,
      Route POST (api [''google-login'']) PostGoogleLogin]"


text \<open>
  The calls the front end makes (\<^verbatim>\<open>src/frontend/src/components\<close>), each with the method,
  a path it requests and the handler it means to reach: \<open>Menu.js\<close> lines 39 and 40,
  \<open>MenuItemSelectionPage.js\<close> line 14, \<open>DrinkMenu.js\<close> lines 16, 29 and 50,
  \<open>AddSeasonalItem.js\<close> lines 13, 26 and 46, \<open>Cart.js\<close> line 48, \<open>Employee.js\<close> lines 19, 28, 42
  and 56, \<open>Inventory.js\<close> lines 18, 32, 52 and 70, \<open>Login.js\<close> lines 17 and 31,
  \<open>OrderHistory.js\<close> line 14, \<open>ProductUsage.js\<close> line 28, \<open>Trends.js\<close> line 32,
  \<open>XReport.js\<close> line 13, \<open>ZReport.js\<close> line 22 and \<open>WeatherPage.js\<close> line 11; a path
  parameter is given a sample value. (\<open>OrdersPage.js\<close> line 10 asks for \<open>GET /api/orders\<close>,
  for which the server registers no handler at all.)
\<close>

definition frontend_calls :: "(string \<times> http_method \<times> string list \<times> endpoint) list" where
  "frontend_calls =
     [(''Menu.js'', GET, [''api'', ''menu''], GetMenu),
      (''Menu.js'', GET, [''api'', ''menu'', ''Milk Tea''], GetMenuByType),
      (''MenuItemSelectionPage.js'', GET, [''api'', ''menu''], GetMenu),
      (''DrinkMenu.js'', GET, [''api'', ''menu''], GetMenu),
      (''DrinkMenu.js'', POST, [''api'', ''menu'', ''add''], AddMenuItem),
      (''DrinkMenu.js'', POST, [''api'', ''menu'', ''delete''], DeleteMenuItem),
      (''AddSeasonalItem.js'', GET, [''api'', ''menu''], GetMenu),
      (''AddSeasonalItem.js'', POST, [''api'', ''menu'', ''add''], AddMenuItem),
      (''AddSeasonalItem.js'', POST, [''api'', ''menu'', ''delete''], DeleteMenuItem),
      (''Cart.js'', POST, [''api'', ''orders''], PostOrders),
      (''Employee.js'', GET, [''api'', ''employees''], GetEmployees),
      (''Employee.js'', POST, [''api'', ''employees''], PostEmployee),
      (''Employee.js'', PUT, [''api'', ''employees'', ''7''], PutEmployee),
      (''Employee.js'', DELETE, [''api'', ''employees'', ''7''], DeleteEmployee),
      (''Inventory.js'', GET, [''api'', ''inventory''], GetInventory),
      (''Inventory.js'', POST, [''api'', ''inventory'', ''add''], AddInventory),
      (''Inventory.js'', POST, [''api'', ''inventory'', ''update''], UpdateInventory),
      (''Inventory.js'', DELETE, [''api'', ''inventory'', ''delete''], DeleteInventory),
      (''Login.js'', POST, [''api'', ''login''], PostLogin),
      (''Login.js'', POST, [''api'', ''google-login''], PostGoogleLogin),
      (''OrderHistory.js'', GET, [''api'', ''transactions''], GetTransactions),
      (''ProductUsage.js'', GET, [''api'', ''productusage''], GetProductUsage),
      (''Trends.js'', GET, [''api'', ''trends''], GetTrends),
      (''XReport.js'', GET, [''api'', ''xreport''], GetXReport),
      (''ZReport.js'', GET, [''api'', ''zreport''], GetZReport),
      (''WeatherPage.js'', GET, [''api'', ''weather'', ''Houston''], GetWeather)]"


section \<open>Lemmas\<close>

lemma subsumes_handles:
  "subsumes l0 l \<Longrightarrow> layer_handles files l r \<noteq> None \<Longrightarrow> layer_handles files l0 r \<noteq> None"
  by (cases "(l0, l)" rule: subsumes.cases) (auto split: if_splits)


lemma dispatch_append:
  "dispatch files (xs @ ys) r = (case dispatch files xs r of Some e \<Rightarrow> Some e | None \<Rightarrow> dispatch files ys r)"
  by (induction xs) (auto split: option.split)


lemma dispatch_None_iff: "dispatch files xs r = None \<longleftrightarrow> (\<forall>l \<in> set xs. layer_handles files l r = None)"
  by (induction xs) (auto split: option.split)


lemma dispatch_prune:
  "dispatch files (xs @ ys) r = dispatch files (xs @ filter (\<lambda>l. \<not> list_ex (\<lambda>l0. subsumes l0 l) xs) ys) r"
proof (cases "dispatch files xs r")
  case None
  have "dispatch files ys r = dispatch files (filter (\<lambda>l. \<not> list_ex (\<lambda>l0. subsumes l0 l) xs) ys) r"
  proof (induction ys)
    case (Cons l ys)
    show ?case
    proof (cases "list_ex (\<lambda>l0. subsumes l0 l) xs")
      case True
      then obtain l0 where "l0 \<in> set xs" "subsumes l0 l" by (auto simp: list_ex_iff)
      with None have "layer_handles files l r = None"
        using subsumes_handles by (fastforce simp: dispatch_None_iff)
      with True Cons show ?thesis by simp
    next
      case False
      with Cons show ?thesis by (simp split: option.split)
    qed
  qed simp
  with None show ?thesis by (simp add: dispatch_append)
qed (simp add: dispatch_append)


lemma dispatch_prune_at:
  "dispatch files ls r = dispatch files (take n ls @ filter (\<lambda>l. \<not> list_ex (\<lambda>l0. subsumes l0 l) (take n ls)) (drop n ls)) r"
  by (metis append_take_drop_id dispatch_prune)


lemma server_layers_effective: "dispatch files server_layers r = dispatch files effective_layers r"
proof -
  define mid where "mid = take 5 server_layers @ filter (\<lambda>l. \<not> list_ex (\<lambda>l0. subsumes l0 l) (take 5 server_layers)) (drop 5 server_layers)"
  have "dispatch files server_layers r = dispatch files mid r"
    unfolding mid_def by (rule dispatch_prune_at)
  also have "\<dots> = dispatch files (take 10 mid @ filter (\<lambda>l. \<not> list_ex (\<lambda>l0. subsumes l0 l) (take 10 mid)) (drop 10 mid)) r"
    by (rule dispatch_prune_at)
  also have "take 10 mid @ filter (\<lambda>l. \<not> list_ex (\<lambda>l0. subsumes l0 l) (take 10 mid)) (drop 10 mid) = effective_layers"
    by (simp add: mid_def server_layers_def effective_layers_def api_def)
  finally show ?thesis .
qed


lemma dispatch_SomeD: "dispatch files ls r = Some e \<Longrightarrow> \<exists>l \<in> set ls. layer_handles files l r = Some e"
  by (induction ls) (auto split: option.splits)


lemma dispatch_get:
  assumes "req_method r = GET \<or> req_method r = HEAD"
  shows "dispatch files server_layers r = (if req_path r \<in> set files then Some ServeStatic else Some SpaIndex)"
proof -
  have "layer_handles files (Mount [''api'', ''auth''] [(POST, [Lit ''google-login''], AuthGoogleLogin)]) r = None"
    using assms by (auto simp: first_route_def method_match_def split: option.split)
  with assms show ?thesis
    by (elim disjE) (simp_all add: server_layers_effective effective_layers_def method_match_def del: layer_handles.simps(3))
qed


lemma effective_endpoints:
  assumes "dispatch files effective_layers r = Some e"
  shows "e \<in> {CorsPreflight, AuthGoogleLogin, SpaIndex, PostLogin, PostGuest, PostOrders, AddMenuItem, DeleteMenuItem,
                AddInventory, DeleteInventory, UpdateInventory, PostEmployee, PutEmployee, DeleteEmployee, PostGoogleLogin} \<or>
         (e = ServeStatic \<and> files \<noteq> [])"
proof -
  obtain l where l: "l \<in> set effective_layers" "layer_handles files l r = Some e"
    using dispatch_SomeD [OF assms] by blast
  then show ?thesis
    by (auto simp: effective_layers_def first_route_def split: if_splits option.splits list.splits)
qed


text \<open>
  C32. Exactly these handlers can ever answer a request: the CORS preflight, the two Google
  login routes, the single-page index, the static files (when there are any) and the twelve
  non-\<open>GET\<close> API routes that come first for their path. Every \<open>GET\<close> API handler
  (menu, inventory, trends, employees, reports, transactions, weather, \<dots>) and the second
  registrations of \<open>POST /api/menu/add\<close> and \<open>/api/menu/delete\<close> are dead code.
\<close>

theorem reachable_endpoints:
  "{e. \<exists>r. dispatch files server_layers r = Some e} =
   {CorsPreflight, AuthGoogleLogin, SpaIndex, PostLogin, PostGuest, PostOrders, AddMenuItem, DeleteMenuItem,
    AddInventory, DeleteInventory, UpdateInventory, PostEmployee, PutEmployee, DeleteEmployee, PostGoogleLogin} \<union>
   (if files = [] then {} else {ServeStatic})"
  (is "?R = ?S")
proof
  show "?R \<subseteq> ?S"
    using effective_endpoints by (auto simp: server_layers_effective)
next
  have req: "\<exists>r. dispatch files effective_layers r = Some e"
    if "e \<in> {CorsPreflight, AuthGoogleLogin, SpaIndex, PostLogin, PostGuest, PostOrders, AddMenuItem, DeleteMenuItem,
              AddInventory, DeleteInventory, UpdateInventory, PostEmployee, PutEmployee, DeleteEmployee, PostGoogleLogin}" for e
  proof -
    have "dispatch files effective_layers \<lparr>req_method = OPTIONS, req_path = []\<rparr> = Some CorsPreflight"
      "dispatch files effective_layers \<lparr>req_method = POST, req_path = [''api'', ''auth'', ''google-login'']\<rparr> = Some AuthGoogleLogin"
      "dispatch files effective_layers \<lparr>req_method = POST, req_path = [''api'', ''login'']\<rparr> = Some PostLogin"
      "dispatch files effective_layers \<lparr>req_method = POST, req_path = [''api'', ''guest'']\<rparr> = Some PostGuest"
      "dispatch files effective_layers \<lparr>req_method = POST, req_path = [''api'', ''orders'']\<rparr> = Some PostOrders"
      "dispatch files effective_layers \<lparr>req_method = POST, req_path = [''api'', ''menu'', ''add'']\<rparr> = Some AddMenuItem"
      "dispatch files effective_layers \<lparr>req_method = POST, req_path = [''api'', ''menu'', ''delete'']\<rparr> = Some DeleteMenuItem"
      "dispatch files effective_layers \<lparr>req_method = POST, req_path = [''api'', ''inventory'', ''add'']\<rparr> = Some AddInventory"
      "dispatch files effective_layers \<lparr>req_method = DELETE, req_path = [''api'', ''inventory'', ''delete'']\<rparr> = Some DeleteInventory"
      "dispatch files effective_layers \<lparr>req_method = POST, req_path = [''api'', ''inventory'', ''update'']\<rparr> = Some UpdateInventory"
      "dispatch files effective_layers \<lparr>req_method = POST, req_path = [''api'', ''employees'']\<rparr> = Some PostEmployee"
      "dispatch files effective_layers \<lparr>req_method = PUT, req_path = [''api'', ''employees'', ''7'']\<rparr> = Some PutEmployee"
      "dispatch files effective_layers \<lparr>req_method = DELETE, req_path = [''api'', ''employees'', ''7'']\<rparr> = Some DeleteEmployee"
      "dispatch files effective_layers \<lparr>req_method = POST, req_path = [''api'', ''google-login'']\<rparr> = Some PostGoogleLogin"
      by code_simp+
    moreover have "dispatch files effective_layers \<lparr>req_method = POST, req_path = [''x'']\<rparr> = None"
      by code_simp
    moreover have "\<exists>r. dispatch files effective_layers r = Some SpaIndex"
    proof -
      obtain p :: "string list" where p: "p \<notin> set files"
        using ex_new_if_finite [OF infinite_UNIV_listI finite_set] by blast
      then have "dispatch files effective_layers \<lparr>req_method = GET, req_path = p\<rparr> = Some SpaIndex"
        by (auto simp: effective_layers_def first_route_def method_match_def split: option.split)
      then show ?thesis ..
    qed
    ultimately show ?thesis using that by blast
  qed
  have st: "files \<noteq> [] \<Longrightarrow> dispatch files effective_layers \<lparr>req_method = GET, req_path = hd files\<rparr> = Some ServeStatic"
    by (auto simp: effective_layers_def first_route_def method_match_def split: option.split)
  show "?S \<subseteq> ?R"
    using req st by (auto simp: server_layers_effective split: if_splits)
qed


text \<open>
  C33. When no file of the build directory lies under \<open>api/\<close>, the front end's calls that reach
  the handler they mean are exactly its non-\<open>GET\<close> calls: every \<open>GET\<close> it makes to the API
  gets the single-page index instead of data.
\<close>

theorem frontend_calls_served:
  assumes "list_all (\<lambda>f. take 1 f \<noteq> [''api'']) files"
  shows "filter (\<lambda>(c, m, p, e). dispatch files server_layers \<lparr>req_method = m, req_path = p\<rparr> = Some e) frontend_calls =
         filter (\<lambda>(c, m, p, e). m \<noteq> GET) frontend_calls"
proof -
  have g: "dispatch files server_layers \<lparr>req_method = GET, req_path = ''api'' # p\<rparr> = Some SpaIndex" for p
    using assms dispatch_get [of "\<lparr>req_method = GET, req_path = ''api'' # p\<rparr>" files]
    by (auto simp: list_all_iff)
  have "dispatch files server_layers \<lparr>req_method = POST, req_path = [''api'', ''menu'', ''add'']\<rparr> = Some AddMenuItem"
    "dispatch files server_layers \<lparr>req_method = POST, req_path = [''api'', ''menu'', ''delete'']\<rparr> = Some DeleteMenuItem"
    "dispatch files server_layers \<lparr>req_method = POST, req_path = [''api'', ''orders'']\<rparr> = Some PostOrders"
    "dispatch files server_layers \<lparr>req_method = POST, req_path = [''api'', ''employees'']\<rparr> = Some PostEmployee"
    "dispatch files server_layers \<lparr>req_method = PUT, req_path = [''api'', ''employees'', ''7'']\<rparr> = Some PutEmployee"
    "dispatch files server_layers \<lparr>req_method = DELETE, req_path = [''api'', ''employees'', ''7'']\<rparr> = Some DeleteEmployee"
    "dispatch files server_layers \<lparr>req_method = POST, req_path = [''api'', ''inventory'', ''add'']\<rparr> = Some AddInventory"
    "dispatch files server_layers \<lparr>req_method = POST, req_path = [''api'', ''inventory'', ''update'']\<rparr> = Some UpdateInventory"
    "dispatch files server_layers \<lparr>req_method = DELETE, req_path = [''api'', ''inventory'', ''delete'']\<rparr> = Some DeleteInventory"
    "dispatch files server_layers \<lparr>req_method = POST, req_path = [''api'', ''login'']\<rparr> = Some PostLogin"
    "dispatch files server_layers \<lparr>req_method = POST, req_path = [''api'', ''google-login'']\<rparr> = Some PostGoogleLogin"
    unfolding server_layers_effective by code_simp+
  then show ?thesis
    by (simp add: frontend_calls_def g)
qed


theorem frontend_calls_served_witness:
  "list_all (\<lambda>f. take 1 f \<noteq> [''api'']) [[''index.html''], [''static'', ''main.js'']] \<and>
   filter (\<lambda>(c, m, p, e). dispatch [[''index.html''], [''static'', ''main.js'']] server_layers \<lparr>req_method = m, req_path = p\<rparr> = Some e) frontend_calls =
   filter (\<lambda>(c, m, p, e). m \<noteq> GET) frontend_calls"
  using frontend_calls_served [of "[[''index.html''], [''static'', ''main.js'']]"] by simp

end
