(* ===== verification/JsNumber.thy ===== *)
theory JsNumber
  imports TextInput "HOL-Library.Code_Target_Nat"
begin

text \<open>
  JavaScript numbers as the front-end pages use them: \<open>Number(x)\<close> (\<open>ToNumber\<close>),
  \<open>Number.prototype.toFixed\<close>, the \<open>ToString\<close> of a number in a template literal or an
  \<open>Array.prototype.join\<close>, and the text \<^verbatim>\<open>node-postgres\<close> delivers for \<open>numeric\<close> and
  \<open>bigint\<close> columns. A finite number is an exact rational: a double is a rational, and
  the values the pages meet (money with two decimals, hours, counts) convert exactly.
  Where JavaScript rounds a double (\<open>toFixed\<close>'s tie rule, the shortest digits of
  \<open>ToString\<close>) the model rounds the exact value; the two agree on every decimal with at
  most 15 significant digits.
\<close>

section \<open>Printing natural numbers\<close>

fun nat_text :: "nat \<Rightarrow> string" where
  "nat_text n = (if n < 10 then [char_of (48 + n)] else nat_text (n div 10) @ [char_of (48 + n mod 10)])"

declare nat_text.simps [simp del]

definition int_text :: "int \<Rightarrow> string" where
  "int_text i = (if i < 0 then ''-'' @ nat_text (nat (- i)) else nat_text (nat i))"

section \<open>Number values\<close>

datatype jsnum = Num rat | NaN | Infty bool \<comment> \<open>\<open>Infty True\<close> is \<open>+Infinity\<close>\<close>

definition js_radix :: "char \<Rightarrow> nat" where
  "js_radix c = (if c = CHR ''x'' \<or> c = CHR ''X'' then 16 else if c = CHR ''o'' \<or> c = CHR ''O'' then 8 else 2)"

text \<open>\<open>ToNumber\<close> of a string (\<open>StringToNumber\<close>): the literals \<open>js_numeric_string\<close> accepts.\<close>

definition js_string_to_number :: "string \<Rightarrow> jsnum" where
  "js_string_to_number s =
     (let t = trim_space s in
      if t = [] then Num 0
      else if snd (split_sign t) = ''Infinity'' then Infty (0 < fst (split_sign t))
      else case decimal_parts t of
             Some p \<Rightarrow> Num (decimal_value p)
           | None \<Rightarrow> if js_nondecimal t then Num (of_nat (radix_acc (js_radix (t ! 1)) 0 (drop 2 t))) else NaN)"

text \<open>\<open>Number(v)\<close> of a primitive value.\<close>

fun js_number :: "jsval \<Rightarrow> jsnum" where
  "js_number JUndef = NaN"
| "js_number JNull = Num 0"
| "js_number (JBool b) = Num (if b then 1 else 0)"
| "js_number (JNum q) = Num q"
| "js_number (JStr s) = js_string_to_number s"

section \<open>Printing numbers\<close>

text \<open>
  The digits of \<open>n\<close> with a point before the last \<open>f\<close> of them, padded with zeros to at
  least one digit before the point (steps 11 and 12 of \<open>toFixed\<close>; also PostgreSQL's
  output of a \<open>numeric\<close> of scale \<open>f\<close>).
\<close>

definition fixed_digits :: "nat \<Rightarrow> nat \<Rightarrow> string" where
  "fixed_digits f n =
     (let m = nat_text n in
      if f = 0 then m
      else let m' = replicate (f + 1 - length m) CHR ''0'' @ m; k = length m'
           in take (k - f) m' @ ''.'' @ drop (k - f) m')"

text \<open>The number of decimals a value needs (at most 20).\<close>

definition dec_scale :: "rat \<Rightarrow> nat" where
  "dec_scale q = (case find (\<lambda>e. of_int \<lfloor>q * 10 ^ e\<rfloor> = q * 10 ^ e) [0..<21] of Some e \<Rightarrow> e | None \<Rightarrow> 20)"

text \<open>
  \<open>Number::toString\<close> of a finite value: the digits \<open>s\<close> (\<open>k\<close> of them, no trailing zero)
  and the exponent \<open>n\<close> with \<open>s \<times> 10^(n-k)\<close> the value, printed in fixed notation when
  \<open>-6 < n \<le> 21\<close> and in exponent notation otherwise.
\<close>

definition js_num_digits :: "rat \<Rightarrow> string \<times> int" where
  "js_num_digits q =
     (let e = dec_scale q; d = nat_text (nat \<lfloor>q * 10 ^ e + 1 / 2\<rfloor>);
          t = length (takeWhile (\<lambda>c. c = CHR ''0'') (rev d)); s = take (length d - t) d
      in (s, int (length s) + int t - int e))"

definition js_pos_string :: "rat \<Rightarrow> string" where
  "js_pos_string q =
     (let (s, n) = js_num_digits q; k = int (length s) in
      if k \<le> n \<and> n \<le> 21 then s @ replicate (nat (n - k)) CHR ''0''
      else if 0 < n \<and> n \<le> 21 then take (nat n) s @ ''.'' @ drop (nat n) s
      else if -6 < n \<and> n \<le> 0 then ''0.'' @ replicate (nat (- n)) CHR ''0'' @ s
      else (if k = 1 then s else take 1 s @ ''.'' @ drop 1 s) @ ''e'' @
           (if 0 \<le> n - 1 then ''+'' else ''-'') @ nat_text (nat \<bar>n - 1\<bar>))"

fun js_num_string :: "jsnum \<Rightarrow> string" where
  "js_num_string NaN = ''NaN''"
| "js_num_string (Infty b) = (if b then ''Infinity'' else ''-Infinity'')"
| "js_num_string (Num q) = (if q = 0 then ''0'' else if q < 0 then ''-'' @ js_pos_string (- q) else js_pos_string q)"

text \<open>\<open>x < y\<close> on numbers: false whenever one of them is \<open>NaN\<close>.\<close>

fun js_less :: "jsnum \<Rightarrow> jsnum \<Rightarrow> bool" where
  "js_less (Num a) (Num b) = (a < b)"
| "js_less (Num a) (Infty b) = b"
| "js_less (Infty a) (Num b) = (\<not> a)"
| "js_less (Infty a) (Infty b) = (\<not> a \<and> b)"
| "js_less _ _ = False"

text \<open>\<open>parseInt(s)\<close>\<close>

definition parse_int_number :: "string \<Rightarrow> jsnum" where
  "parse_int_number s = (case js_parse_int (Some s) of Some i \<Rightarrow> Num (of_int i) | None \<Rightarrow> NaN)"

text \<open>\<open>x.toFixed(f)\<close>: ties round up in magnitude; from \<open>10^21\<close> on it is \<open>ToString(x)\<close>.\<close>

fun to_fixed :: "nat \<Rightarrow> jsnum \<Rightarrow> string" where
  "to_fixed f (Num q) =
     (if q < 0 then ''-'' else []) @
     (if 10 ^ 21 \<le> \<bar>q\<bar> then js_pos_string \<bar>q\<bar> else fixed_digits f (nat \<lfloor>\<bar>q\<bar> * 10 ^ f + 1 / 2\<rfloor>))"
| "to_fixed f x = js_num_string x"

text \<open>The value \<open>toFixed(f)\<close> prints: the magnitude rounded to \<open>f\<close> decimals, ties up.\<close>

definition round_fixed :: "nat \<Rightarrow> rat \<Rightarrow> rat" where
  "round_fixed f q = sgn q * of_int \<lfloor>\<bar>q\<bar> * 10 ^ f + 1 / 2\<rfloor> / 10 ^ f"

text \<open>
  The text of a \<open>numeric\<close> value as PostgreSQL prints it and \<^verbatim>\<open>node-postgres\<close> hands it
  to JavaScript (the value's own decimals; the column's declared scale only adds zeros),
  and of a \<open>bigint\<close>.
\<close>

definition numeric_text :: "rat \<Rightarrow> string" where
  "numeric_text q = (if q < 0 then ''-'' else []) @ fixed_digits (dec_scale q) (nat \<lfloor>\<bar>q\<bar> * 10 ^ dec_scale q + 1 / 2\<rfloor>)"

section \<open>JavaScript values as text\<close>

text \<open>An element of \<open>Array.prototype.join\<close>: \<open>undefined\<close> and \<open>null\<close> are empty.\<close>

fun join_elem :: "json \<Rightarrow> string" where
  "join_elem (JPrim JUndef) = []"
| "join_elem (JPrim JNull) = []"
| "join_elem (JPrim (JBool b)) = (if b then ''true'' else ''false'')"
| "join_elem (JPrim (JNum q)) = js_num_string (Num q)"
| "join_elem (JPrim (JStr s)) = s"
| "join_elem (JObj kvs) = ''[object Object]''"
| "join_elem (JArr xs) = join_sep '','' (map join_elem xs)"

text \<open>\<open>ToString(v)\<close>, as a template literal \<open>`${v}`\<close> applies it.\<close>

fun js_to_string :: "json \<Rightarrow> string" where
  "js_to_string (JPrim JUndef) = ''undefined''"
| "js_to_string (JPrim JNull) = ''null''"
| "js_to_string v = join_elem v"

text \<open>\<open>Number(v)\<close>: an object is first turned into its string.\<close>

fun json_number :: "json \<Rightarrow> jsnum" where
  "json_number (JPrim v) = js_number v"
| "json_number v = js_string_to_number (join_elem v)"

text \<open>\<open>`"${v || 'N/A'}"`\<close>\<close>

definition quoted_or_na :: "json \<Rightarrow> string" where
  "quoted_or_na v = CHR 0x22 # (if json_truthy v then js_to_string v else ''N/A'') @ [CHR 0x22]"

text \<open>The characters a printed number is made of.\<close>

definition num_char :: "char \<Rightarrow> bool" where
  "num_char c \<longleftrightarrow> is_digit c \<or> c \<in> set ''.-+eNaIfinty''"

text \<open>
  \<open>parseFloat(s)\<close>: after leading whitespace, the longest prefix that is a decimal literal
  (sign, digits, point, digits, exponent) or \<open>Infinity\<close>; \<open>NaN\<close> when there is none.
\<close>

definition float_exponent :: "string \<Rightarrow> int" where
  "float_exponent r =
     (case r of
        c # r' \<Rightarrow>
          if is_exp_mark c then
            (case split_sign r' of (g, u) \<Rightarrow>
               let ds = takeWhile is_digit u in if ds = [] then 0 else g * int (digits_acc 0 ds))
          else 0
      | [] \<Rightarrow> 0)"

definition js_parse_float :: "string \<Rightarrow> jsnum" where
  "js_parse_float s =
     (case split_sign (dropWhile is_space s) of (g, u) \<Rightarrow>
        if take 8 u = ''Infinity'' then Infty (0 < g)
        else
          let a = takeWhile is_digit u; r = dropWhile is_digit u;
              (b, r2) = (case r of c # r' \<Rightarrow> if c = CHR ''.'' then (takeWhile is_digit r', dropWhile is_digit r') else ([], r)
                                   | [] \<Rightarrow> ([], []))
          in if a = [] \<and> b = [] then NaN else Num (decimal_value (g, a, b, float_exponent r2)))"

text \<open>A number as \<open>JSON.stringify\<close> sends it: \<open>NaN\<close> and the infinities become \<open>null\<close>.\<close>

fun wire_number :: "jsnum \<Rightarrow> jsval" where
  "wire_number (Num q) = JNum q"
| "wire_number _ = JNull"

section \<open>Lemmas\<close>

subsection \<open>Digits\<close>

lemma digit_char [simp]: "n < 10 \<Longrightarrow> is_digit (char_of (48 + n)) \<and> digit_val (char_of (48 + n)) = n"
  by (simp add: is_digit_def digit_val_def of_char_of)

lemma nat_text_digits [simp]: "list_all is_digit (nat_text n)"
  by (induction n rule: nat_text.induct) (subst nat_text.simps, simp)

lemma nat_text_ne [simp]: "nat_text n \<noteq> []"
  by (subst nat_text.simps) simp

lemma digits_acc_append: "digits_acc a (xs @ ys) = digits_acc (digits_acc a xs) ys"
  by (induction xs arbitrary: a) simp_all

lemma digits_acc_nat_text: "digits_acc a (nat_text n) = a * 10 ^ length (nat_text n) + n"
proof (induction n arbitrary: a rule: nat_text.induct)
  case (1 n)
  show ?case
  proof (cases "n < 10")
    case True
    then show ?thesis by (simp add: nat_text.simps)
  next
    case False
    then have "digits_acc a (nat_text n) = digits_acc (a * 10 ^ length (nat_text (n div 10)) + n div 10) [char_of (48 + n mod 10)]"
      using 1 by (subst nat_text.simps) (simp add: digits_acc_append)
    also have "\<dots> = a * 10 ^ length (nat_text n) + n"
      using False by (subst (2) nat_text.simps) (simp add: algebra_simps)
    finally show ?thesis .
  qed
qed

lemma digits_acc_zeros: "digits_acc a (replicate k CHR ''0'' @ xs) = digits_acc (a * 10 ^ k) xs"
  by (induction k arbitrary: a) (simp_all add: digit_val_def mult_ac)

lemma digit_not_special:
  "is_digit c \<Longrightarrow> \<not> is_space c \<and> \<not> is_exp_mark c \<and> c \<noteq> CHR ''.'' \<and> c \<noteq> CHR ''-'' \<and> c \<noteq> CHR ''+''"
  by (auto simp: is_digit_def is_space_def is_exp_mark_def)

lemma fixed_digits_split:
  assumes "0 < f"
  obtains a b where "fixed_digits f n = a @ CHR ''.'' # b" "a \<noteq> []" "list_all is_digit a" "list_all is_digit b"
    "length b = f" "digits_acc 0 (a @ b) = n"
proof -
  define m' where "m' = replicate (f + 1 - length (nat_text n)) CHR ''0'' @ nat_text n"
  have len: "f + 1 \<le> length m'" by (simp add: m'_def)
  have "list_all is_digit (replicate k CHR ''0'')" for k by (induction k) (simp_all add: is_digit_def)
  then have dig: "list_all is_digit m'" by (simp add: m'_def)
  have val: "digits_acc 0 m' = n" by (simp add: m'_def digits_acc_zeros digits_acc_nat_text)
  show ?thesis
  proof
    show "fixed_digits f n = take (length m' - f) m' @ CHR ''.'' # drop (length m' - f) m'"
      using assms by (simp add: fixed_digits_def m'_def Let_def)
    show "take (length m' - f) m' \<noteq> []" using len by (cases m') auto
    show "list_all is_digit (take (length m' - f) m')" "list_all is_digit (drop (length m' - f) m')"
      using dig by (auto simp: list_all_iff dest: in_set_takeD in_set_dropD)
    show "length (drop (length m' - f) m') = f" using len by simp
    show "digits_acc 0 (take (length m' - f) m' @ drop (length m' - f) m') = n" using val by simp
  qed
qed

lemma fixed_digits_zero: "fixed_digits 0 n = nat_text n"
  by (simp add: fixed_digits_def)

lemma mantissa_parts_plain:
  assumes "a \<noteq> []" "list_all is_digit a" "list_all is_digit b"
  shows "mantissa_parts (a @ (if b = [] then [] else CHR ''.'' # b)) = Some (a, b)"
proof -
  have "takeWhile is_digit (a @ (if b = [] then [] else CHR ''.'' # b)) = a"
       "dropWhile is_digit (a @ (if b = [] then [] else CHR ''.'' # b)) = (if b = [] then [] else CHR ''.'' # b)"
    using assms digit_not_special [of "CHR ''.''"]
    by (auto simp: takeWhile_append2 dropWhile_append2 list_all_iff is_digit_def)
  then show ?thesis using assms by (simp add: mantissa_parts_def)
qed

lemma split_sign_plain:
  assumes "a \<noteq> []" "list_all is_digit a"
  shows "split_sign ((if neg then ''-'' else []) @ a @ r) = (if neg then -1 else 1, a @ r)"
  using assms digit_not_special [of "hd a"] by (cases a) (auto simp: split_sign_def)

lemma decimal_parts_plain:
  assumes "a \<noteq> []" "list_all is_digit a" "list_all is_digit b"
  shows "decimal_parts ((if neg then ''-'' else []) @ a @ (if b = [] then [] else CHR ''.'' # b)) =
         Some (if neg then -1 else 1, a, b, 0)"
proof -
  define u where "u = a @ (if b = [] then [] else CHR ''.'' # b)"
  have ne: "\<forall>c \<in> set u. \<not> is_exp_mark c"
    using assms digit_not_special by (auto simp: u_def list_all_iff is_exp_mark_def)
  have sp: "split_sign ((if neg then ''-'' else []) @ u) = (if neg then -1 else 1, u)"
    unfolding u_def by (rule split_sign_plain [OF assms(1,2)])
  have tw: "takeWhile (Not \<circ> is_exp_mark) u = u" and dw: "dropWhile (Not \<circ> is_exp_mark) u = []"
    using ne by (simp_all add: takeWhile_eq_all_conv dropWhile_eq_Nil_conv)
  have mp: "mantissa_parts u = Some (a, b)"
    unfolding u_def by (rule mantissa_parts_plain [OF assms])
  show ?thesis
    unfolding u_def [symmetric] decimal_parts_def sp by (simp add: tw dw mp)
qed

lemma trim_space_id:
  assumes "t \<noteq> []" "\<not> is_space (hd t)" "\<not> is_space (last t)"
  shows "trim_space t = t"
proof -
  have "dropWhile is_space t = t" using assms by (cases t) simp_all
  moreover have "dropWhile is_space (rev t) = rev t" using assms by (cases "rev t") (simp_all add: last_rev [symmetric])
  ultimately show ?thesis by (simp add: trim_space_def)
qed

lemma trim_space_plain:
  assumes "a \<noteq> []" "list_all is_digit a" "list_all is_digit b"
  shows "trim_space ((if neg then ''-'' else []) @ a @ (if b = [] then [] else CHR ''.'' # b)) =
         (if neg then ''-'' else []) @ a @ (if b = [] then [] else CHR ''.'' # b)"
proof (rule trim_space_id)
  have dh: "is_digit (hd a)" using assms by (cases a) auto
  have dl: "is_digit (last (a @ (if b = [] then [] else CHR ''.'' # b)))"
    using assms by (cases b rule: rev_cases) (auto simp: list_all_iff)
  show "(if neg then ''-'' else []) @ a @ (if b = [] then [] else CHR ''.'' # b) \<noteq> []" using assms by simp
  show "\<not> is_space (hd ((if neg then ''-'' else []) @ a @ (if b = [] then [] else CHR ''.'' # b)))"
    using assms digit_not_special [OF dh] by (auto simp: is_space_def)
  show "\<not> is_space (last ((if neg then ''-'' else []) @ a @ (if b = [] then [] else CHR ''.'' # b)))"
    using assms digit_not_special [OF dl] by auto
qed

lemma js_string_to_number_plain:
  assumes "a \<noteq> []" "list_all is_digit a" "list_all is_digit b"
  shows "js_string_to_number ((if neg then ''-'' else []) @ a @ (if b = [] then [] else CHR ''.'' # b)) =
         Num ((if neg then -1 else 1) * of_nat (digits_acc 0 (a @ b)) / 10 ^ length b)"
proof -
  have "a @ (if b = [] then [] else CHR ''.'' # b) \<noteq> ''Infinity''"
    using assms digit_not_special [of "hd a"] by (cases a) (auto simp: is_digit_def)
  then show ?thesis
    using decimal_parts_plain [OF assms, of neg] trim_space_plain [OF assms, of neg] split_sign_plain [OF assms(1,2), of neg]
    by (simp add: js_string_to_number_def Let_def)
qed

lemma fixed_digits_value:
  "js_string_to_number ((if neg then ''-'' else []) @ fixed_digits f n) = Num ((if neg then -1 else 1) * of_nat n / 10 ^ f)"
proof (cases "f = 0")
  case True
  then show ?thesis
    using js_string_to_number_plain [of "nat_text n" "[]" neg]
    by (simp add: fixed_digits_zero digits_acc_nat_text)
next
  case False
  then obtain a b where "fixed_digits f n = a @ CHR ''.'' # b" "a \<noteq> []" "list_all is_digit a" "list_all is_digit b"
    "length b = f" "digits_acc 0 (a @ b) = n"
    using fixed_digits_split by blast
  then show ?thesis
    using js_string_to_number_plain [of a b neg] False by auto
qed

lemma to_fixed_value:
  assumes "\<bar>q\<bar> < 10 ^ 21"
  shows "js_string_to_number (to_fixed f (Num q)) = Num (round_fixed f q)"
proof -
  have h: "\<lfloor>1 / 2 :: rat\<rfloor> = 0" by (rule floor_unique) simp_all
  have n: "of_nat (nat \<lfloor>\<bar>q\<bar> * 10 ^ f + 1 / 2\<rfloor>) = (of_int \<lfloor>\<bar>q\<bar> * 10 ^ f + 1 / 2\<rfloor> :: rat)"
    by simp
  show ?thesis
    using assms fixed_digits_value [of "q < 0" f "nat \<lfloor>\<bar>q\<bar> * 10 ^ f + 1 / 2\<rfloor>"]
    by (auto simp: round_fixed_def sgn_if not_less n h simp del: of_nat_nat)
qed

lemma dec_scale_exact:
  assumes "of_int \<lfloor>q * 10 ^ 20\<rfloor> = q * 10 ^ 20"
  shows "of_int \<lfloor>q * 10 ^ dec_scale q\<rfloor> = q * 10 ^ dec_scale q"
proof (cases "find (\<lambda>e. of_int \<lfloor>q * 10 ^ e\<rfloor> = q * 10 ^ e) [0..<21]")
  case None
  have "\<exists>x. x \<in> set [0..<21] \<and> of_int \<lfloor>q * 10 ^ x\<rfloor> = q * 10 ^ x"
    using assms by (intro exI [of _ "20::nat"]) simp
  with None show ?thesis unfolding find_None_iff by blast
next
  case (Some e)
  then have "dec_scale q = e" by (simp add: dec_scale_def)
  moreover from Some have "of_int \<lfloor>q * 10 ^ e\<rfloor> = q * 10 ^ e"
    unfolding find_Some_iff by blast
  ultimately show ?thesis by simp
qed

lemma numeric_text_value:
  assumes "of_int \<lfloor>q * 10 ^ 20\<rfloor> = q * 10 ^ 20"
  shows "js_string_to_number (numeric_text q) = Num q"
proof -
  define e where "e = dec_scale q"
  have ex: "of_int \<lfloor>q * 10 ^ e\<rfloor> = q * 10 ^ e" unfolding e_def by (rule dec_scale_exact [OF assms])
  have "of_int \<lfloor>\<bar>q\<bar> * 10 ^ e\<rfloor> = \<bar>q\<bar> * 10 ^ e"
    using ex by (cases "q < 0") (auto simp: abs_if floor_minus)
  then have "\<lfloor>\<bar>q\<bar> * 10 ^ e + 1 / 2\<rfloor> = \<lfloor>\<bar>q\<bar> * 10 ^ e\<rfloor>"
    by (intro floor_unique) linarith+
  then have "of_nat (nat \<lfloor>\<bar>q\<bar> * 10 ^ e + 1 / 2\<rfloor>) = \<bar>q\<bar> * 10 ^ e"
    using \<open>of_int \<lfloor>\<bar>q\<bar> * 10 ^ e\<rfloor> = \<bar>q\<bar> * 10 ^ e\<close> by simp
  then show ?thesis
    using fixed_digits_value [of "q < 0" e "nat \<lfloor>\<bar>q\<bar> * 10 ^ e + 1 / 2\<rfloor>"]
    by (simp add: numeric_text_def e_def [symmetric] abs_if)
qed


lemma nat_text_length: "n < 10 ^ k \<Longrightarrow> 0 < k \<Longrightarrow> length (nat_text n) \<le> k"
proof (induction n arbitrary: k rule: nat_text.induct)
  case (1 n)
  show ?case
  proof (cases "n < 10")
    case True
    then show ?thesis using 1 by (simp add: nat_text.simps)
  next
    case False
    obtain k' where k: "k = Suc k'" using 1 by (cases k) auto
    with 1 False have "0 < k'" by (cases k') auto
    have "n div 10 < 10 ^ k'" using 1 k by (simp add: div_less_iff_less_mult mult.commute)
    then show ?thesis using 1 False k \<open>0 < k'\<close> by (subst nat_text.simps) simp
  qed
qed

lemma strip_trailing:
  "take (length d - length (takeWhile (\<lambda>c. c = z) (rev d))) d @ replicate (length (takeWhile (\<lambda>c. c = z) (rev d))) z = d"
proof -
  define a where "a = takeWhile (\<lambda>c. c = z) (rev d)"
  define b where "b = dropWhile (\<lambda>c. c = z) (rev d)"
  have "rev d = a @ b" unfolding a_def b_def by simp
  then have d: "d = rev b @ rev a" by (metis rev_append rev_rev_ident)
  have "\<forall>c \<in> set (rev a). c = z" unfolding a_def by (auto dest: set_takeWhileD)
  then have "replicate (length a) z = rev a" using replicate_length_same [of "rev a" z] by simp
  moreover have "length d - length a = length b" using d by simp
  ultimately show ?thesis using d unfolding a_def [symmetric] by simp
qed

lemma char_zero: "char_of (48::nat) = CHR ''0''"
  by (simp add: char_of_def bit_0)

lemma dec_scale_nat: "dec_scale (of_nat m) = 0"
  by (simp add: dec_scale_def upt_rec)

lemma js_pos_string_nat:
  assumes "0 < m" "m < 10 ^ 21"
  shows "js_pos_string (of_nat m) = nat_text m"
proof -
  define d where "d = nat_text m"
  define t where "t = length (takeWhile (\<lambda>c. c = CHR ''0'') (rev d))"
  have "\<lfloor>(of_nat m :: rat) + 1 / 2\<rfloor> = int m" by (intro floor_unique) simp_all
  then have dg: "js_num_digits (of_nat m) = (take (length d - t) d, int (length (take (length d - t) d)) + int t)"
    by (simp add: js_num_digits_def dec_scale_nat d_def t_def Let_def)
  have tl: "t \<le> length d" unfolding t_def by (metis length_rev length_takeWhile_le)
  have "length d \<le> 21" unfolding d_def using assms by (intro nat_text_length) simp_all
  then show ?thesis
    using tl strip_trailing [of d "CHR ''0''"] by (simp add: js_pos_string_def dg t_def [symmetric] d_def [symmetric])
qed

lemma js_num_string_int:
  assumes "\<bar>i\<bar> < 10 ^ 21"
  shows "js_num_string (Num (of_int i)) = int_text i"
proof -
  have m: "nat \<bar>i\<bar> < 10 ^ 21" using assms by (simp add: nat_less_iff)
  show ?thesis
  proof (cases "i = 0")
    case True
    then show ?thesis by (simp add: int_text_def nat_text.simps char_zero)
  next
    case False
    then have "0 < nat \<bar>i\<bar>" by simp
    then show ?thesis using js_pos_string_nat [OF _ m] False
      by (cases "i < 0") (simp_all add: int_text_def)
  qed
qed

lemma js_lower_plain:
  "list_all (\<lambda>c. is_digit c \<or> c = CHR ''-'' \<or> c = CHR ''.'') s \<Longrightarrow> js_lower s = s"
  by (induction s) (auto simp: js_lower_def is_digit_def)

lemma pg_numeric_in_plain:
  assumes "a \<noteq> []" "list_all is_digit a" "list_all is_digit b"
  shows "pg_numeric_in ((if neg then ''-'' else []) @ a @ (if b = [] then [] else CHR ''.'' # b)) =
         Some (PVal (decimal_value (if neg then -1 else 1, a, b, 0)))"
proof -
  define u where "u = a @ (if b = [] then [] else CHR ''.'' # b)"
  define t where "t = (if neg then ''-'' else []) @ u"
  have tr: "trim_space t = t" unfolding t_def u_def by (rule trim_space_plain [OF assms])
  have l: "js_lower t = t" using assms by (intro js_lower_plain) (auto simp: t_def u_def list_all_iff)
  have sp: "split_sign t = (if neg then -1 else 1, u)" unfolding t_def u_def by (rule split_sign_plain [OF assms(1,2)])
  have dp: "decimal_parts t = Some (if neg then -1 else 1, a, b, 0)" unfolding t_def u_def by (rule decimal_parts_plain [OF assms])
  have n: "t \<noteq> ''nan''" using assms digit_not_special [of "hd a"]
    by (cases a) (auto simp: t_def u_def is_digit_def)
  have "u \<noteq> ''infinity''" "u \<noteq> ''inf''"
    using assms by (cases a; auto simp: u_def is_digit_def)+
  then show ?thesis
    unfolding t_def [symmetric] u_def [symmetric] pg_numeric_in_def Let_def tr l sp by (simp add: dp n)
qed

lemma pg_numeric_in_int_text: "pg_numeric_in (int_text i) = Some (PVal (of_int i))"
  using pg_numeric_in_plain [of "nat_text (nat \<bar>i\<bar>)" "[]" "i < 0"]
  by (cases "i < 0") (simp_all add: int_text_def digits_acc_nat_text)

lemma zeros_digits [simp]: "list_all is_digit (replicate k CHR ''0'')"
  by (induction k) (simp_all add: is_digit_def)

lemma nat_text_digit: "c \<in> set (nat_text n) \<Longrightarrow> is_digit c"
  using nat_text_digits [of n] by (simp add: list_all_iff)

lemma num_char_lits [simp]:
  "num_char CHR ''.''" "num_char CHR ''-''" "num_char CHR ''+''" "num_char CHR ''e''" "num_char CHR ''N''"
  "num_char CHR ''a''" "num_char CHR ''I''" "num_char CHR ''f''" "num_char CHR ''i''" "num_char CHR ''n''"
  "num_char CHR ''t''" "num_char CHR ''y''" "num_char CHR ''0''"
  by (simp_all add: num_char_def is_digit_def)

lemma nat_text_num [simp]: "list_all num_char (nat_text n)"
  by (auto simp: list_all_iff num_char_def dest: nat_text_digit)

lemma num_char_take_drop [simp]:
  "list_all num_char xs \<Longrightarrow> list_all num_char (take k xs)"
  "list_all num_char xs \<Longrightarrow> list_all num_char (drop k xs)"
  by (auto simp: list_all_iff dest: in_set_takeD in_set_dropD)

lemma num_char_zeros [simp]: "list_all num_char (replicate k CHR ''0'')"
  by (simp add: list_all_iff)

lemma fixed_digits_chars [simp]: "list_all num_char (fixed_digits f n)"
  by (simp add: fixed_digits_def Let_def)

lemma js_pos_string_chars [simp]: "list_all num_char (js_pos_string q)"
proof -
  obtain s n where d: "js_num_digits q = (s, n)" by fastforce
  have "list_all num_char s" using d by (auto simp: js_num_digits_def Let_def)
  then show ?thesis by (simp add: js_pos_string_def d Let_def)
qed

lemma to_fixed_chars: "list_all num_char (to_fixed f x)"
  by (cases x) simp_all

lemma int_text_chars: "list_all num_char (int_text i)"
  by (simp add: int_text_def)

lemma round_fixed_error: "\<bar>round_fixed f q - q\<bar> \<le> 1 / (2 * 10 ^ f)"
proof -
  define x where "x = \<bar>q\<bar> * 10 ^ f"
  have "of_int \<lfloor>x + 1 / 2\<rfloor> \<le> x + 1 / 2" "x + 1 / 2 < of_int \<lfloor>x + 1 / 2\<rfloor> + 1"
    by linarith+
  then have d: "\<bar>of_int \<lfloor>x + 1 / 2\<rfloor> - x\<bar> \<le> 1 / 2"
    unfolding abs_le_iff by linarith
  have "of_int \<lfloor>x + 1 / 2\<rfloor> / 10 ^ f - \<bar>q\<bar> = (of_int \<lfloor>x + 1 / 2\<rfloor> - x) / 10 ^ f"
    by (simp add: x_def field_simps)
  then have e: "\<bar>of_int \<lfloor>x + 1 / 2\<rfloor> / 10 ^ f - \<bar>q\<bar>\<bar> \<le> 1 / (2 * 10 ^ f)"
    using divide_right_mono [OF d, of "10 ^ f"] by (simp add: abs_divide)
  show ?thesis
  proof (cases "q < 0")
    case True
    then have "round_fixed f q - q = - (of_int \<lfloor>x + 1 / 2\<rfloor> / 10 ^ f - \<bar>q\<bar>)"
      by (simp add: round_fixed_def x_def)
    then show ?thesis using e by simp
  next
    case False
    then have "round_fixed f q - q = of_int \<lfloor>x + 1 / 2\<rfloor> / 10 ^ f - \<bar>q\<bar> \<or> q = 0"
      by (auto simp: round_fixed_def x_def sgn_if)
    then show ?thesis using e by (auto simp: round_fixed_def)
  qed
qed

lemma js_numeric_string_number: "js_numeric_string s \<longleftrightarrow> js_string_to_number s \<noteq> NaN"
  by (auto simp: js_numeric_string_def js_string_to_number_def Let_def split: option.split)

lemma radix_acc_digits: "list_all is_digit ds \<Longrightarrow> radix_acc 10 a ds = digits_acc a ds"
  by (induction ds arbitrary: a) (simp_all add: hex_val_def)

lemma js_parse_int_nat_text: "js_parse_int (Some (nat_text n)) = Some (int n)"
proof -
  let ?d = "nat_text n"
  have hd: "is_digit (hd ?d)" using nat_text_digits [of n] nat_text_ne [of n] by (cases ?d) auto
  have ws: "dropWhile is_space ?d = ?d" using digit_not_special [OF hd] by (cases ?d) auto
  have sp: "split_sign ?d = (1, ?d)" using split_sign_plain [of ?d False "[]"] by simp
  have tw: "takeWhile is_digit ?d = ?d" using nat_text_digits [of n] by (simp add: list_all_iff takeWhile_eq_all_conv)
  have nx: "x \<noteq> CHR ''x'' \<and> x \<noteq> CHR ''X''" if "?d = z # x # w" for z x w
  proof -
    have "is_digit x" using that nat_text_digits [of n] by (simp add: list_all_iff)
    then show ?thesis by (auto simp: is_digit_def)
  qed
  have b: "(case ?d of z # x # w \<Rightarrow> if z = CHR ''0'' \<and> (x = CHR ''x'' \<or> x = CHR ''X'') then (16, is_hex_digit, w)
                                   else (10, is_digit, ?d)
                      | _ \<Rightarrow> (10, is_digit, ?d)) = (10::nat, is_digit, ?d)"
    using nx by (auto split: list.split)
  have "js_parse_int (Some ?d) = Some (int (radix_acc 10 0 ?d))"
    by (simp add: js_parse_int_def ws sp Let_def tw b)
  then show ?thesis
    using radix_acc_digits [of ?d 0] by (simp add: digits_acc_nat_text)
qed

lemma nan_text_facts: "js_parse_int (Some ''NaN'') = None" "pg_numeric_in ''NaN'' = Some PNaN"
  by code_simp+

lemma nat_text_chars: "c \<in> set (nat_text n) \<Longrightarrow> \<exists>k<(10::nat). c = char_of (48 + k)"
proof (induction n rule: nat_text.induct)
  case (1 n)
  show ?case
  proof (cases "n < 10")
    case True
    then show ?thesis using 1 by (auto simp: nat_text.simps [of n])
  next
    case False
    then have "c \<in> set (nat_text (n div 10)) \<or> c = char_of (48 + n mod 10)"
      using 1 by (auto simp: nat_text.simps [of n])
    then show ?thesis using 1 False by (metis mod_less_divisor zero_less_numeral)
  qed
qed

lemma js_parse_float_nat_text: "js_parse_float (nat_text n) = Num (of_nat n)"
proof -
  let ?d = "nat_text n"
  have hd: "is_digit (hd ?d)" using nat_text_digits [of n] nat_text_ne [of n] by (cases ?d) auto
  have ws: "dropWhile is_space ?d = ?d" using digit_not_special [OF hd] by (cases ?d) auto
  have sp: "split_sign ?d = (1, ?d)" using split_sign_plain [of ?d False "[]"] by simp
  have tw: "takeWhile is_digit ?d = ?d" "dropWhile is_digit ?d = []"
    using nat_text_digits [of n] by (simp_all add: list_all_iff takeWhile_eq_all_conv dropWhile_eq_Nil_conv)
  have inf: "take 8 ?d \<noteq> ''Infinity''"
    using hd by (cases ?d) (auto simp: is_digit_def)
  show ?thesis
    using inf by (simp add: js_parse_float_def ws sp tw float_exponent_def digits_acc_nat_text)
qed

section \<open>Properties\<close>





end
