(* ===== verification/ZReportPage.thy ===== *)
theory ZReportPage
  imports JsNumber Reports Router
begin

text \<open>
  The Z report page, \<^verbatim>\<open>src/frontend/src/components/ZReport.js\<close>, and the way it meets the
  server. The page keeps two hours, the rows of the last report and the CSV text; \<open>Generate
  Report\<close> (\<open>fetchReportData\<close>, lines 14 to 31) checks the hours, asks
  \<open>GET /api/zreport\<close> and turns the rows into CSV (\<open>prepareCSVData\<close>, lines 33 to 55);
  \<open>Export to CSV\<close> (\<open>handleExportToCSV\<close>, lines 57 to 68) downloads that text. The server's
  answer is the parameter \<open>get\<close> of the page: the JSON \<open>res.json(result.rows)\<close> of
  \<open>Reports.z_report\<close> with \<^verbatim>\<open>node-postgres\<close>'s texts for the columns
  (\<open>zreport_http\<close>), or whatever the Express route table sends for that path
  (\<open>deployed_zreport\<close>). A thrown \<open>TypeError\<close> is \<open>None\<close>; the page catches it with the
  alert of line 27.
\<close>

section \<open>\<open>prepareCSVData\<close>\<close>

definition csv_header :: "string list" where
  "csv_header = [''Hour'', ''Transactions'', ''Sales Revenue'', ''Total Sales'', ''Total Tax'',
                 ''Service Charges'', ''Voids'', ''Discards'', ''Discounts'', ''Employee Signatures'',
                 ''Payment Methods'']"

definition money_keys :: "string list" where
  "money_keys = [''sales_revenue'', ''total_sales'', ''total_tax'', ''service_charges'', ''voids'',
                 ''discards'', ''discounts'']"

text \<open>The cells of one row (lines 40 to 50); reading a member of \<open>null\<close> or \<open>undefined\<close> throws.\<close>

definition csv_cells :: "json \<Rightarrow> string list option" where
  "csv_cells row =
     (case get_prop row ''hour'' of
        None \<Rightarrow> None
      | Some h \<Rightarrow>
          let p = (\<lambda>k. case get_prop row k of Some v \<Rightarrow> v | None \<Rightarrow> JPrim JUndef) in
          Some ([join_elem h, join_elem (p ''total_transactions'')] @
                map (\<lambda>k. to_fixed 2 (json_number (p k))) money_keys @
                [quoted_or_na (p ''employee_signatures''), quoted_or_na (p ''payment_methods'')]))"

definition newline :: string where
  "newline = [CHR 0x0A]"

text \<open>\<open>data.map(..)\<close> throws unless the data is an array.\<close>

definition prepare_csv :: "json \<Rightarrow> string option" where
  "prepare_csv data =
     (case data of
        JArr rows \<Rightarrow>
          map_option (\<lambda>ls. join_sep newline (join_sep '','' csv_header # map (join_sep '','') ls))
            (those (map csv_cells rows))
      | _ \<Rightarrow> None)"

section \<open>Reading the exported file\<close>

text \<open>
  A reader of the file as RFC 4180 describes CSV: fields separated by commas, records by
  line feeds, a field that starts with a double quote runs to the next lone double quote,
  two double quotes inside it standing for one. The state is whether the reader is inside
  quotes, the field so far and the record so far (both reversed) and the records read.
\<close>

fun csv_scan :: "bool \<Rightarrow> string \<Rightarrow> string list \<Rightarrow> string list list \<Rightarrow> string \<Rightarrow> string list list" where
  "csv_scan q f r acc [] = rev (rev (rev f # r) # acc)"
| "csv_scan True f r acc (c # cs) =
     (if c = CHR 0x22 then
        (if cs \<noteq> [] \<and> hd cs = CHR 0x22 then csv_scan True (c # f) r acc (tl cs) else csv_scan False f r acc cs)
      else csv_scan True (c # f) r acc cs)"
| "csv_scan False f r acc (c # cs) =
     (if c = CHR '','' then csv_scan False [] (rev f # r) acc cs
      else if c = CHR 0x0A then csv_scan False [] [] (rev (rev f # r) # acc) cs
      else if c = CHR 0x22 \<and> f = [] then csv_scan True [] r acc cs
      else csv_scan False (c # f) r acc cs)"

definition csv_read :: "string \<Rightarrow> string list list" where
  "csv_read s = csv_scan False [] [] [] s"

text \<open>A cell the reader takes as it is, and one it reads without its quotes.\<close>

definition csv_plain :: "string \<Rightarrow> bool" where
  "csv_plain s \<longleftrightarrow> list_all (\<lambda>c. c \<noteq> CHR '','' \<and> c \<noteq> CHR 0x22 \<and> c \<noteq> CHR 0x0A) s"

definition quote :: "string \<Rightarrow> string" where
  "quote s = CHR 0x22 # s @ [CHR 0x22]"

definition csv_quoted :: "string \<Rightarrow> bool" where
  "csv_quoted c \<longleftrightarrow> 2 \<le> length c \<and> hd c = CHR 0x22 \<and> last c = CHR 0x22 \<and> CHR 0x22 \<notin> set (butlast (tl c))"

definition csv_field :: "string \<Rightarrow> string" where
  "csv_field c = (if csv_quoted c then butlast (tl c) else c)"

definition cell_end :: "string \<Rightarrow> bool" where
  "cell_end rest \<longleftrightarrow> rest = [] \<or> hd rest = CHR '','' \<or> hd rest = CHR 0x0A"

text \<open>What the file should say: \<open>row.x || 'N/A'\<close> for a text column.\<close>

definition or_na :: "string option \<Rightarrow> string" where
  "or_na v = (case v of Some s \<Rightarrow> if s = [] then ''N/A'' else s | None \<Rightarrow> ''N/A'')"

section \<open>The server's answer\<close>

text \<open>
  A row of \<open>result.rows\<close> as \<open>res.json\<close> sends it: \<^verbatim>\<open>node-postgres\<close> hands \<open>numeric\<close>
  (\<open>EXTRACT\<close> and the sums) and \<open>bigint\<close> (\<open>COUNT\<close>) columns to JavaScript as strings,
  and a \<open>NULL\<close> aggregate as \<open>null\<close>.
\<close>

definition text_or_null :: "string option \<Rightarrow> json" where
  "text_or_null v = (case v of Some s \<Rightarrow> JPrim (JStr s) | None \<Rightarrow> JPrim JNull)"

definition z_amounts :: "z_row \<Rightarrow> money list" where
  "z_amounts r = [z_sales_revenue r, z_total_sales r, z_total_tax r, z_service_charges r, z_voids r,
                  z_discards r, z_discounts r]"

definition z_row_json :: "z_row \<Rightarrow> json" where
  "z_row_json r =
     JObj ([(''hour'', JPrim (JStr (int_text (z_hour r)))),
            (''total_transactions'', JPrim (JStr (nat_text (z_total_transactions r))))] @
           zip money_keys (map (\<lambda>v. JPrim (JStr (numeric_text v))) (z_amounts r)) @
           [(''employee_signatures'', text_or_null (z_employee_signatures r)),
            (''payment_methods'', text_or_null (z_payment_methods r))])"

text \<open>\<open>GET /api/zreport\<close> as an HTTP response (lines 583 to 617).\<close>

definition zreport_http :: "day \<Rightarrow> report_db \<Rightarrow> string option \<Rightarrow> string option \<Rightarrow> http_response" where
  "zreport_http today db sh eh =
     (case z_report today sh eh db of
        ReportRows rs \<Rightarrow> (200, JArr (map z_row_json rs))
      | ReportBadRequest \<Rightarrow> (400, JPrim (JStr ''Start hour cannot be greater than end hour''))
      | ReportFailed \<Rightarrow> (500, JPrim (JStr ''Error fetching report data'')))"

text \<open>
  What the deployed server answers for \<open>GET /api/zreport\<close>: the layer \<open>Router.dispatch\<close>
  picks. \<open>index.html\<close> (the text \<open>html\<close>) and a static file reach \<^verbatim>\<open>axios\<close> as text.
\<close>

definition deployed_zreport ::
  "string list list \<Rightarrow> string \<Rightarrow> day \<Rightarrow> report_db \<Rightarrow> string option \<Rightarrow> string option \<Rightarrow> http_response" where
  "deployed_zreport files html today db sh eh =
     (case dispatch files server_layers \<lparr>req_method = GET, req_path = [''api'', ''zreport'']\<rparr> of
        Some GetZReport \<Rightarrow> zreport_http today db sh eh
      | Some SpaIndex \<Rightarrow> (200, JPrim (JStr html))
      | Some ServeStatic \<Rightarrow> (200, JPrim (JStr html))
      | _ \<Rightarrow> (404, JPrim (JStr ''Cannot GET /api/zreport'')))"

text \<open>
  The fields a spreadsheet should read for one report row: the hour, the count, the seven
  amounts to two decimals and the two lists.
\<close>

definition z_csv_fields :: "z_row \<Rightarrow> string list" where
  "z_csv_fields r =
     [int_text (z_hour r), nat_text (z_total_transactions r)] @
     map (\<lambda>v. to_fixed 2 (Num v)) (z_amounts r) @
     [or_na (z_employee_signatures r), or_na (z_payment_methods r)]"

text \<open>
  A row the export can carry: amounts with at most 20 decimals (every \<open>numeric\<close> the
  query computes from two-decimal prices) and no double quote in the two lists.
\<close>

definition no_quote :: "string option \<Rightarrow> bool" where
  "no_quote v = (case v of None \<Rightarrow> True | Some s \<Rightarrow> list_all (\<lambda>c. c \<noteq> CHR 0x22) s)"

definition z_exportable :: "z_row \<Rightarrow> bool" where
  "z_exportable r \<longleftrightarrow>
     list_all (\<lambda>v. of_int \<lfloor>v * 10 ^ 20\<rfloor> = v * 10 ^ 20) (z_amounts r) \<and>
     no_quote (z_employee_signatures r) \<and> no_quote (z_payment_methods r)"

text \<open>The shape of a row the page reads: the hour, the count and the amounts as strings (as
  \<^verbatim>\<open>node-postgres\<close> delivers them), the two lists as a string or \<open>null\<close>.\<close>

definition z_row_type :: jtype where
  "z_row_type =
     TObj ([(''hour'', TStr), (''total_transactions'', TStr)] @ map (\<lambda>k. (k, TStr)) money_keys @
           [(''employee_signatures'', TOr TStr TNull), (''payment_methods'', TOr TStr TNull)])"

section \<open>The page\<close>

record zpage =
  zp_start :: jsnum  \<comment> \<open>\<open>startHour\<close>\<close>
  zp_end :: jsnum    \<comment> \<open>\<open>endHour\<close>\<close>
  zp_data :: json    \<comment> \<open>\<open>reportData\<close>\<close>
  zp_csv :: string   \<comment> \<open>\<open>csvData\<close>\<close>
  zp_loading :: bool

definition zpage_init :: zpage where
  "zpage_init = \<lparr>zp_start = Num 0, zp_end = Num 23, zp_data = JArr [], zp_csv = [], zp_loading = False\<rparr>"

datatype zout = Alert string | Download string

datatype zevent = StartInput string | EndInput string | Generate | Export

text \<open>The alert of line 27 (without its emoji).\<close>

definition fetch_failed :: string where
  "fetch_failed = ''Failed to fetch Z-report data. Check the backend or console.''"

text \<open>
  \<open>fetchReportData\<close>: the guard of line 15, the request with the hours printed by the
  template literal, \<open>setReportData\<close> before \<open>prepareCSVData\<close>, and the \<open>catch\<close> for a
  rejected request (\<^verbatim>\<open>axios\<close> rejects a status outside 2xx) or a thrown error.
\<close>

definition zpage_fetch ::
  "(string option \<Rightarrow> string option \<Rightarrow> http_response option) \<Rightarrow> zpage \<Rightarrow> zpage \<times> zout list" where
  "zpage_fetch get p =
     (if js_less (zp_end p) (zp_start p) then (p, [Alert ''Start hour cannot be greater than end hour''])
      else case get (Some (js_num_string (zp_start p))) (Some (js_num_string (zp_end p))) of
             Some (st, data) \<Rightarrow>
               if 200 \<le> st \<and> st < 300 then
                 (case prepare_csv data of
                    Some csv \<Rightarrow> (p\<lparr>zp_data := data, zp_csv := csv, zp_loading := False\<rparr>, [])
                  | None \<Rightarrow> (p\<lparr>zp_data := data, zp_loading := False\<rparr>, [Alert fetch_failed]))
               else (p\<lparr>zp_loading := False\<rparr>, [Alert fetch_failed])
           | None \<Rightarrow> (p\<lparr>zp_loading := False\<rparr>, [Alert fetch_failed]))"

definition zpage_export :: "zpage \<Rightarrow> zpage \<times> zout list" where
  "zpage_export p = (if zp_csv p = [] then (p, [Alert ''No data to export'']) else (p, [Download (zp_csv p)]))"

fun zpage_step ::
  "(string option \<Rightarrow> string option \<Rightarrow> http_response option) \<Rightarrow> zpage \<Rightarrow> zevent \<Rightarrow> zpage \<times> zout list" where
  "zpage_step get p (StartInput s) = (p\<lparr>zp_start := parse_int_number s\<rparr>, [])"
| "zpage_step get p (EndInput s) = (p\<lparr>zp_end := parse_int_number s\<rparr>, [])"
| "zpage_step get p Generate = zpage_fetch get p"
| "zpage_step get p Export = zpage_export p"

fun zpage_run ::
  "(string option \<Rightarrow> string option \<Rightarrow> http_response option) \<Rightarrow> zpage \<Rightarrow> zevent list \<Rightarrow> zpage \<times> zout list" where
  "zpage_run get p [] = (p, [])"
| "zpage_run get p (e # es) =
     (let (p', o1) = zpage_step get p e; (p'', o2) = zpage_run get p' es in (p'', o1 @ o2))"

text \<open>No download among the page's outputs.\<close>

definition no_download :: "zout list \<Rightarrow> bool" where
  "no_download outs \<longleftrightarrow> list_all (\<lambda>x. case x of Download _ \<Rightarrow> False | Alert _ \<Rightarrow> True) outs"

section \<open>Lemmas\<close>

subsection \<open>The CSV reader on the exported text\<close>

lemma scan_plain:
  "csv_plain s \<Longrightarrow> csv_scan False f r acc (s @ rest) = csv_scan False (rev s @ f) r acc rest"
  by (induction s arbitrary: f) (auto simp: csv_plain_def)

lemma scan_quoted_body:
  "CHR 0x22 \<notin> set s \<Longrightarrow> csv_scan True f r acc (s @ rest) = csv_scan True (rev s @ f) r acc rest"
  by (induction s arbitrary: f) auto

lemma scan_quoted:
  assumes "CHR 0x22 \<notin> set s" "cell_end rest"
  shows "csv_scan False [] r acc (quote s @ rest) = csv_scan False (rev s) r acc rest"
proof -
  have "csv_scan False [] r acc (quote s @ rest) = csv_scan True [] r acc (s @ CHR 0x22 # rest)"
    by (simp add: quote_def)
  also have "\<dots> = csv_scan True (rev s) r acc (CHR 0x22 # rest)"
    using scan_quoted_body [OF assms(1), of "[]"] by simp
  also have "\<dots> = csv_scan False (rev s) r acc rest"
    using assms(2) by (auto simp: cell_end_def)
  finally show ?thesis .
qed

lemma quote_quoted: "CHR 0x22 \<notin> set s \<Longrightarrow> csv_quoted (quote s) \<and> butlast (tl (quote s)) = s"
  by (simp add: csv_quoted_def quote_def)

lemma quoted_quote:
  assumes "csv_quoted c"
  shows "c = quote (butlast (tl c))"
proof (cases c)
  case Nil
  with assms show ?thesis by (simp add: csv_quoted_def)
next
  case (Cons x d)
  with assms have "x = CHR 0x22" "d \<noteq> []" "last d = CHR 0x22" by (auto simp: csv_quoted_def split: if_splits)
  with Cons show ?thesis unfolding quote_def using append_butlast_last_id [of d] by simp
qed

lemma plain_not_quoted: "csv_plain c \<Longrightarrow> \<not> csv_quoted c"
  by (cases c) (auto simp: csv_plain_def csv_quoted_def)

lemma scan_cell:
  assumes "csv_plain c \<or> csv_quoted c" "cell_end rest"
  shows "csv_scan False [] r acc (c @ rest) = csv_scan False (rev (csv_field c)) r acc rest"
  using assms(1)
proof
  assume "csv_plain c"
  then show ?thesis using scan_plain [of c "[]"] plain_not_quoted by (simp add: csv_field_def)
next
  assume q: "csv_quoted c"
  then have "CHR 0x22 \<notin> set (butlast (tl c))" by (simp add: csv_quoted_def)
  then show ?thesis
    using scan_quoted [OF _ assms(2)] quoted_quote [OF q] q by (metis csv_field_def)
qed

lemma scan_row:
  assumes "list_all (\<lambda>c. csv_plain c \<or> csv_quoted c) cs" "cs \<noteq> []" "cell_end rest"
  shows "csv_scan False [] r acc (join_sep '','' cs @ rest) =
         csv_scan False (rev (csv_field (last cs))) (rev (map csv_field (butlast cs)) @ r) acc rest"
  using assms(1,2)
proof (induction cs arbitrary: r)
  case (Cons x xs)
  show ?case
  proof (cases xs)
    case Nil
    then show ?thesis using Cons.prems scan_cell [OF _ assms(3)] by simp
  next
    case (Cons y zs)
    have "csv_scan False [] r acc (join_sep '','' (x # xs) @ rest) =
          csv_scan False [] (csv_field x # r) acc (join_sep '','' xs @ rest)"
      using Cons \<open>list_all _ (x # xs)\<close> scan_cell [of x "'','' @ join_sep '','' xs @ rest"] by (simp add: cell_end_def)
    also have "\<dots> = csv_scan False (rev (csv_field (last xs))) (rev (map csv_field (butlast xs)) @ csv_field x # r) acc rest"
      using Cons Cons.IH Cons.prems by simp
    finally show ?thesis using Cons by simp
  qed
qed simp

lemma scan_lines:
  assumes "list_all (\<lambda>cs. cs \<noteq> [] \<and> list_all (\<lambda>c. csv_plain c \<or> csv_quoted c) cs) rows" "rows \<noteq> []"
  shows "csv_scan False [] [] acc (join_sep newline (map (join_sep '','') rows)) = rev acc @ map (map csv_field) rows"
  using assms
proof (induction rows arbitrary: acc)
  case (Cons x xs)
  then have x: "x \<noteq> []" "list_all (\<lambda>c. csv_plain c \<or> csv_quoted c) x" by simp_all
  show ?case
  proof (cases xs)
    case Nil
    then show ?thesis
      using scan_row [OF x(2) x(1), of "[]" "[]" acc] map_butlast_last [OF x(1), of csv_field]
      by (simp add: cell_end_def)
  next
    case (Cons y ys)
    have "csv_scan False [] [] acc (join_sep newline (map (join_sep '','') (x # xs))) =
          csv_scan False [] [] (map csv_field x # acc) (join_sep newline (map (join_sep '','') xs))"
      using Cons scan_row [OF x(2) x(1), of "newline @ join_sep newline (map (join_sep '','') xs)" "[]" acc]
        map_butlast_last [OF x(1), of csv_field]
      by (simp add: cell_end_def newline_def)
    also have "\<dots> = rev (map csv_field x # acc) @ map (map csv_field) xs"
      using Cons.IH Cons.prems Cons by simp
    finally show ?thesis by simp
  qed
qed simp

lemma num_chars_plain: "list_all num_char s \<Longrightarrow> csv_plain s"
  by (auto simp: csv_plain_def list_all_iff num_char_def is_digit_def)

lemma csv_plain_numbers:
  "csv_plain (int_text i)" "csv_plain (nat_text n)" "csv_plain (to_fixed f x)"
  by (simp_all add: num_chars_plain int_text_chars to_fixed_chars)

lemma csv_field_plain: "csv_plain c \<Longrightarrow> csv_field c = c"
  by (simp add: csv_field_def plain_not_quoted)

lemma csv_field_quote: "CHR 0x22 \<notin> set s \<Longrightarrow> csv_field (quote s) = s"
  using quote_quoted by (simp add: csv_field_def)

lemma or_na_no_quote: "no_quote v \<Longrightarrow> CHR 0x22 \<notin> set (or_na v)"
  by (cases v) (auto simp: or_na_def no_quote_def list_all_iff)

lemma quoted_or_na_text: "quoted_or_na (text_or_null v) = quote (or_na v)"
  by (cases v) (simp_all add: quoted_or_na_def text_or_null_def or_na_def quote_def)

lemma csv_cells_z_row:
  assumes "list_all (\<lambda>v. of_int \<lfloor>v * 10 ^ 20\<rfloor> = v * 10 ^ 20) (z_amounts r)"
  shows "csv_cells (z_row_json r) =
         Some ([int_text (z_hour r), nat_text (z_total_transactions r)] @ map (\<lambda>v. to_fixed 2 (Num v)) (z_amounts r) @
               [quote (or_na (z_employee_signatures r)), quote (or_na (z_payment_methods r))])"
  using assms by (simp add: csv_cells_def z_row_json_def money_keys_def z_amounts_def quoted_or_na_text numeric_text_value)

subsection \<open>The page\<close>

lemma parse_int_number_nan: "js_parse_int (Some s) = None \<Longrightarrow> parse_int_number s = NaN"
  by (simp add: parse_int_number_def)

lemma z_rows_nan_start: "z_rows today PNaN b db = []"
  by (simp add: z_rows_def in_window_def sale_in_window_def param_between_def group_by_def)

lemma sale_hour_le_23: "sale_hour s \<le> 23"
proof -
  have "(sales_ts s mod 86400) div 3600 \<le> 86399 div 3600"
    by (intro zdiv_mono1) simp_all
  then show ?thesis by (simp add: sale_hour_def hour_of_def)
qed

lemma z_rows_nan_end: "z_rows today a PNaN db = z_rows today a (PVal 23) db"
proof -
  have "in_window today a PNaN = in_window today a (PVal 23)"
    using sale_hour_le_23 by (auto simp: in_window_def sale_in_window_def param_between_def)
  then show ?thesis by (simp add: z_rows_def)
qed

lemma prepare_csv_empty: "prepare_csv (JArr []) = Some (join_sep '','' csv_header)"
  by (simp add: prepare_csv_def)

lemma deployed_zreport_index:
  "[''api'', ''zreport''] \<notin> set files \<Longrightarrow> deployed_zreport files html today db sh eh = (200, JPrim (JStr html))"
  using dispatch_get [of "\<lparr>req_method = GET, req_path = [''api'', ''zreport'']\<rparr>" files]
  by (simp add: deployed_zreport_def)

lemma zpage_step_text:
  assumes "\<And>sh eh. get sh eh = Some (200, JPrim (JStr html))" "zp_csv p = []"
  shows "zp_csv (fst (zpage_step get p e)) = [] \<and> no_download (snd (zpage_step get p e))"
  using assms by (cases e) (simp_all add: zpage_fetch_def zpage_export_def prepare_csv_def no_download_def)

lemma z_row_json_typed: "has_type z_row_type (z_row_json r)"
  by (simp add: z_row_type_def z_row_json_def money_keys_def z_amounts_def text_or_null_def split: option.split)

lemma csv_cells_obj: "csv_cells (JObj kvs) \<noteq> None"
  by (simp add: csv_cells_def)

lemma has_type_obj: "has_type (TObj fs) v \<Longrightarrow> \<exists>kvs. v = JObj kvs"
  by (cases v) simp_all

section \<open>Properties\<close>



text \<open>
  An hour field the user clears (or fills with text \<open>parseInt\<close> cannot read) is \<open>NaN\<close>;
  the page's guard lets it through and the server binds the text \<open>NaN\<close> as \<open>numeric\<close>. A
  cleared start hour yields an empty report (the CSV is the header alone, no alert); a
  cleared end hour behaves as the end hour 23.
\<close>

theorem cleared_hour_fields:
  assumes "js_parse_int (Some s) = None" "\<bar>h\<bar> < 10 ^ 21"
  shows "zpage_fetch (\<lambda>sh eh. Some (zreport_http today db sh eh)) (p\<lparr>zp_start := parse_int_number s, zp_end := Num (of_int h)\<rparr>) =
           (p\<lparr>zp_start := NaN, zp_end := Num (of_int h), zp_data := JArr [], zp_csv := join_sep '','' csv_header, zp_loading := False\<rparr>, [])
       \<and> (0 \<le> h \<and> h \<le> 23 \<longrightarrow>
          zpage_fetch (\<lambda>sh eh. Some (zreport_http today db sh eh)) (p\<lparr>zp_start := Num (of_int h), zp_end := parse_int_number s\<rparr>) =
          (\<lambda>(p', out). (p'\<lparr>zp_end := NaN\<rparr>, out))
            (zpage_fetch (\<lambda>sh eh. Some (zreport_http today db sh eh)) (p\<lparr>zp_start := Num (of_int h), zp_end := Num 23\<rparr>)))"
proof
  have i: "js_num_string (Num (of_int h)) = int_text h" "pg_numeric_in (int_text h) = Some (PVal (of_int h))"
    by (rule js_num_string_int [OF assms(2)], rule pg_numeric_in_int_text)
  show "zpage_fetch (\<lambda>sh eh. Some (zreport_http today db sh eh)) (p\<lparr>zp_start := parse_int_number s, zp_end := Num (of_int h)\<rparr>) =
           (p\<lparr>zp_start := NaN, zp_end := Num (of_int h), zp_data := JArr [], zp_csv := join_sep '','' csv_header, zp_loading := False\<rparr>, [])"
    using assms i by (simp add: zpage_fetch_def parse_int_number_nan zreport_http_def z_report_def bind_numeric_def
                                 nan_text_facts z_rows_nan_start prepare_csv_empty)
  show "0 \<le> h \<and> h \<le> 23 \<longrightarrow>
          zpage_fetch (\<lambda>sh eh. Some (zreport_http today db sh eh)) (p\<lparr>zp_start := Num (of_int h), zp_end := parse_int_number s\<rparr>) =
          (\<lambda>(p', out). (p'\<lparr>zp_end := NaN\<rparr>, out))
            (zpage_fetch (\<lambda>sh eh. Some (zreport_http today db sh eh)) (p\<lparr>zp_start := Num (of_int h), zp_end := Num 23\<rparr>))"
  proof
    assume h: "0 \<le> h \<and> h \<le> 23"
    have t: "js_num_string (Num 23) = ''23''" "js_parse_int (Some ''23'') = Some 23" "pg_numeric_in ''23'' = Some (PVal 23)"
      by code_simp+
    have "js_parse_int (Some (int_text h)) = Some h"
      using h js_parse_int_nat_text [of "nat h"] by (simp add: int_text_def)
    show "zpage_fetch (\<lambda>sh eh. Some (zreport_http today db sh eh)) (p\<lparr>zp_start := Num (of_int h), zp_end := parse_int_number s\<rparr>) =
          (\<lambda>(p', out). (p'\<lparr>zp_end := NaN\<rparr>, out))
            (zpage_fetch (\<lambda>sh eh. Some (zreport_http today db sh eh)) (p\<lparr>zp_start := Num (of_int h), zp_end := Num 23\<rparr>))"
      using assms i h t \<open>js_parse_int (Some (int_text h)) = Some h\<close>
      by (simp add: zpage_fetch_def parse_int_number_nan zreport_http_def z_report_def bind_numeric_def
                    nan_text_facts z_rows_nan_end prepare_csv_empty split: option.split prod.split)
  qed
qed

theorem cleared_hour_fields_witness:
  "js_parse_int (Some '''') = None \<and> \<bar>9::int\<bar> < 10 ^ 21 \<and>
   zpage_fetch (\<lambda>sh eh. Some (zreport_http 20000 example_report_db sh eh))
     (zpage_init\<lparr>zp_start := parse_int_number '''', zp_end := Num (of_int 9)\<rparr>) =
     (zpage_init\<lparr>zp_start := NaN, zp_end := Num (of_int 9), zp_data := JArr [], zp_csv := join_sep '','' csv_header,
                 zp_loading := False\<rparr>, []) \<and>
   zpage_fetch (\<lambda>sh eh. Some (zreport_http 20000 example_report_db sh eh))
     (zpage_init\<lparr>zp_start := Num (of_int 9), zp_end := parse_int_number ''''\<rparr>) =
   (\<lambda>(p', out). (p'\<lparr>zp_end := NaN\<rparr>, out))
     (zpage_fetch (\<lambda>sh eh. Some (zreport_http 20000 example_report_db sh eh))
        (zpage_init\<lparr>zp_start := Num (of_int 9), zp_end := Num 23\<rparr>))"
proof -
  have h: "js_parse_int (Some '''') = None" by code_simp
  have b: "\<bar>9::int\<bar> < 10 ^ 21" by simp
  note c = cleared_hour_fields [OF h b, of 20000 example_report_db zpage_init]
  have r: "0 \<le> (9::int) \<and> (9::int) \<le> 23" by simp
  show ?thesis by (intro conjI h b conjunct1 [OF c] mp [OF conjunct2 [OF c] r])
qed

text \<open>
  C38. As deployed, the catch-all route answers \<open>GET /api/zreport\<close> with \<open>index.html\<close>, a
  string, so \<open>prepareCSVData\<close> throws on every fetch: starting from no CSV, whatever the
  user does, the CSV stays empty and the page never downloads a file.
\<close>

theorem deployed_never_downloads:
  assumes "[''api'', ''zreport''] \<notin> set files" "zp_csv p = []"
  shows "zp_csv (fst (zpage_run (\<lambda>sh eh. Some (deployed_zreport files html today db sh eh)) p evs)) = [] \<and>
         no_download (snd (zpage_run (\<lambda>sh eh. Some (deployed_zreport files html today db sh eh)) p evs))"
  using assms(2)
proof (induction evs arbitrary: p)
  case (Cons e evs)
  let ?get = "\<lambda>sh eh. Some (deployed_zreport files html today db sh eh)"
  obtain p1 o1 where st: "zpage_step ?get p e = (p1, o1)" by fastforce
  obtain p2 o2 where rn: "zpage_run ?get p1 evs = (p2, o2)" by fastforce
  have "zp_csv p1 = [] \<and> no_download o1"
    using zpage_step_text [of ?get html p e] Cons.prems deployed_zreport_index [OF assms(1)] st by simp
  then show ?case using Cons.IH [of p1] st rn by (simp add: no_download_def)
qed (simp add: no_download_def)

theorem deployed_never_downloads_witness:
  "[''api'', ''zreport''] \<notin> set [[''index.html'']] \<and> zp_csv zpage_init = [] \<and>
   zp_csv (fst (zpage_run (\<lambda>sh eh. Some (deployed_zreport [[''index.html'']] ''<html></html>'' 20000 example_report_db sh eh))
     zpage_init [Generate, Export])) = [] \<and>
   no_download (snd (zpage_run (\<lambda>sh eh. Some (deployed_zreport [[''index.html'']] ''<html></html>'' 20000 example_report_db sh eh))
     zpage_init [Generate, Export]))"
proof -
  have a: "[''api'', ''zreport''] \<notin> set [[''index.html'']]" by simp
  have b: "zp_csv zpage_init = []" by (simp add: zpage_init_def)
  show ?thesis using deployed_never_downloads [OF a b, of "''<html></html>''" 20000 example_report_db "[Generate, Export]"] a b
    by blast
qed

text \<open>
  C37. Every successful answer of \<open>GET /api/zreport\<close> has the shape the page reads: an
  array of objects with the hour, the count and the seven amounts as strings and the two
  lists as a string or \<open>null\<close>. And \<open>prepareCSVData\<close> builds a CSV text from every answer of
  that shape: on the server's data the page never throws.
\<close>

theorem zreport_typed:
  "(zreport_http today db sh eh = (200, v) \<longrightarrow> has_type (TArr z_row_type) v) \<and>
   (has_type (TArr z_row_type) v \<longrightarrow> prepare_csv v \<noteq> None)"
proof (intro conjI impI)
  assume "zreport_http today db sh eh = (200, v)"
  then obtain rs where "v = JArr (map z_row_json rs)"
    by (auto simp: zreport_http_def split: report_reply.splits)
  then show "has_type (TArr z_row_type) v" by (simp add: list_all_iff z_row_json_typed)
next
  assume t: "has_type (TArr z_row_type) v"
  then obtain xs where xs: "v = JArr xs" "list_all (has_type z_row_type) xs"
    by (cases v) simp_all
  have "\<exists>c. csv_cells x = Some c" if "x \<in> set xs" for x
    using xs(2) that has_type_obj [of _ x] csv_cells_obj by (fastforce simp: list_all_iff z_row_type_def)
  then have "those (map csv_cells xs) = Some (map (\<lambda>x. the (csv_cells x)) xs)"
    by (intro those_map_Some) auto
  then show "prepare_csv v \<noteq> None" by (simp add: prepare_csv_def xs(1))
qed

theorem zreport_typed_witness:
  "has_type (TArr z_row_type) (snd (zreport_http 20000 example_report_db (Some ''0'') (Some ''23''))) \<and>
   prepare_csv (snd (zreport_http 20000 example_report_db (Some ''0'') (Some ''23''))) \<noteq> None"
proof -
  have "fst (zreport_http 20000 example_report_db (Some ''0'') (Some ''23'')) = 200" by code_simp
  then have "zreport_http 20000 example_report_db (Some ''0'') (Some ''23'') =
               (200, snd (zreport_http 20000 example_report_db (Some ''0'') (Some ''23'')))"
    by (metis prod.collapse)
  then show ?thesis
    using zreport_typed [of 20000 example_report_db "Some ''0''" "Some ''23''"] by blast
qed

end
