(* ===== verification/OrderFlow.thy ===== *)
theory OrderFlow
  imports Orders JsNumber
begin

text \<open>
  The ordering pages of the front end: the menu (\<^verbatim>\<open>Menu.js\<close>) builds a cart in the
  browser's \<open>localStorage\<close>, the cart page (\<^verbatim>\<open>Cart.js\<close>) removes lines and submits the
  order to \<open>POST /api/orders\<close> (\<open>Orders.submit_order\<close>), and the payment pages
  (\<^verbatim>\<open>PaymentPage.js\<close>, \<^verbatim>\<open>CashPaymentPage.js\<close>) take the total it passes on.
  \<open>localStorage\<close> holds the cart as \<open>JSON.stringify\<close> writes it and \<open>JSON.parse\<close> reads it
  back; for the values the pages store (objects of strings and numbers) that round trip
  is the identity, so the stored cart is the list of \<open>json\<close> values itself. A value read
  from \<open>null\<close> or \<open>undefined\<close> throws a \<open>TypeError\<close> (\<open>None\<close>).
\<close>

section \<open>Objects\<close>

text \<open>\<open>obj.k\<close>: a missing member is \<open>undefined\<close>.\<close>

definition prop_of :: "json \<Rightarrow> string \<Rightarrow> json option" where
  "prop_of v k = get_prop v k"

text \<open>\<open>a + b\<close> on numbers.\<close>

fun js_add :: "jsnum \<Rightarrow> jsnum \<Rightarrow> jsnum" where
  "js_add (Num a) (Num b) = Num (a + b)"
| "js_add (Num a) (Infty b) = Infty b"
| "js_add (Infty a) (Num b) = Infty a"
| "js_add (Infty a) (Infty b) = (if a = b then Infty a else NaN)"
| "js_add _ _ = NaN"

fun js_sub :: "jsnum \<Rightarrow> jsnum \<Rightarrow> jsnum" where
  "js_sub a (Num b) = js_add a (Num (- b))"
| "js_sub a (Infty b) = js_add a (Infty (\<not> b))"
| "js_sub a NaN = NaN"

section \<open>The menu page\<close>

definition sugar_options :: "string list" where
  "sugar_options = [''No Sugar'', ''30%'', ''50%'', ''70%'', ''100%'']"

definition ice_options :: "string list" where
  "ice_options = [''No Ice'', ''Less Ice'', ''Normal Ice'', ''Hot'']"

definition topping_options :: "string list" where
  "topping_options = [''None'', ''Boba'', ''Lychee Jelly'', ''Pearls'', ''Grass Jelly'', ''Pudding'', ''Aloe Vera'', ''Red Beans'']"

text \<open>
  \<open>customizations\<close>: an object keyed by the item id (as a property key, the id's string),
  each value an object of the fields set so far.
\<close>

type_synonym customs = "string \<Rightarrow> string \<rightharpoonup> string"

definition no_customs :: customs where
  "no_customs = (\<lambda>_. Map.empty)"

text \<open>\<open>handleCustomizationChange(itemid, field, value)\<close>\<close>

definition customize :: "customs \<Rightarrow> json \<Rightarrow> string \<Rightarrow> string \<Rightarrow> customs" where
  "customize cs iid field value = cs(js_to_string iid := (cs (js_to_string iid))(field \<mapsto> value))"

text \<open>\<open>const { sugar = "100%", ice = "Normal Ice", topping = "None" } = customizations[itemid] || {}\<close>\<close>

definition chosen :: "customs \<Rightarrow> json \<Rightarrow> string \<Rightarrow> string \<Rightarrow> string" where
  "chosen cs iid field dflt = (case cs (js_to_string iid) field of Some v \<Rightarrow> v | None \<Rightarrow> dflt)"

definition customization_text :: "customs \<Rightarrow> json \<Rightarrow> string" where
  "customization_text cs iid =
     ''Sugar: '' @ chosen cs iid ''sugar'' ''100%'' @ '' | Ice: '' @ chosen cs iid ''ice'' ''Normal Ice'' @
     '' | Topping: '' @ chosen cs iid ''topping'' ''None''"

text \<open>
  \<open>addToCart(item)\<close> for an item of the menu list: the new cart (also written to
  \<open>localStorage\<close>) and the alert. The stored object has no member whose value is
  \<open>undefined\<close>.
\<close>

definition add_to_cart :: "customs \<Rightarrow> json list \<Rightarrow> json \<Rightarrow> (json list \<times> string) option" where
  "add_to_cart cs cart item =
     (case (prop_of item ''itemid'', prop_of item ''itemname'', prop_of item ''itemprice'') of
        (Some i, Some n, Some p) \<Rightarrow>
          Some (cart @ [json_obj [(''itemid'', i), (''itemname'', n), (''price'', p),
                                  (''customization'', JPrim (JStr (customization_text cs i)))]],
                js_to_string n @ '' added to cart!'')
      | _ \<Rightarrow> None)"

section \<open>The cart page\<close>

text \<open>\<open>updated.splice(index, 1)\<close> on a copy of the cart\<close>

definition remove_item :: "nat \<Rightarrow> json list \<Rightarrow> json list" where
  "remove_item i cart = take i cart @ drop (Suc i) cart"

text \<open>\<open>{ itemid: Number(item.itemid), price: Number(item.price), .. }\<close> as the server receives it\<close>

definition cart_order_item :: "json \<Rightarrow> order_item option" where
  "cart_order_item it =
     (case (prop_of it ''itemid'', prop_of it ''price'') of
        (Some i, Some p) \<Rightarrow> Some \<lparr>itemid = wire_number (json_number i), item_price = wire_number (json_number p)\<rparr>
      | _ \<Rightarrow> None)"

text \<open>\<open>items.reduce((sum, i) => sum + i.price, 0)\<close>\<close>

definition cart_total :: "order_item list \<Rightarrow> jsnum" where
  "cart_total its = fold (\<lambda>it s. js_add s (js_number (item_price it))) its (Num 0)"

text \<open>\<open>!x\<close> for what \<open>prompt\<close> returns: a string, or \<open>null\<close> when cancelled.\<close>

definition prompt_falsy :: "string option \<Rightarrow> bool" where
  "prompt_falsy v = (case v of None \<Rightarrow> True | Some s \<Rightarrow> s = [])"

datatype cart_outcome =
    CartAlert string         \<comment> \<open>an alert; the page stays\<close>
  | CartPaid jsnum           \<comment> \<open>\<open>navigate("/payment", { state: { total } })\<close>\<close>
  | CartThrows               \<comment> \<open>an uncaught \<open>TypeError\<close> before the request\<close>

definition order_failed :: string where
  "order_failed = ''Failed to submit order. Check the console and server.''"

text \<open>
  \<open>submitOrder\<close> with the two answers to \<open>prompt\<close>, against the order handler: the cart
  after it (cleared on success, in the page and in \<open>localStorage\<close>), the database, and
  what the user sees. \<^verbatim>\<open>axios\<close> rejects the 400 and 500 answers; the success branch
  reads \<open>res.data.success\<close>, which only the committed answer has. (The alert texts are
  without their emoji.)
\<close>

definition cart_submit ::
  "order_db \<Rightarrow> string option \<Rightarrow> string option \<Rightarrow> json list \<Rightarrow> json list \<times> order_db \<times> cart_outcome" where
  "cart_submit d name uid cart =
     (if prompt_falsy name \<or> prompt_falsy uid \<or> cart = []
      then (cart, d, CartAlert ''Missing customer name, user ID, or cart is empty.'')
      else case those (map cart_order_item cart) of
        None \<Rightarrow> (cart, d, CartThrows)
      | Some its \<Rightarrow>
          (let req = \<lparr>customerName = JStr (the name), userId = wire_number (parse_int_number (the uid)),
                      items = Some its, paymentMethod = Some ''Cash''\<rparr>;
               (resp, d') = submit_order req d
           in if resp = OrderSaved then ([], d', CartPaid (cart_total its))
              else (cart, d', CartAlert order_failed)))"

section \<open>The payment pages\<close>

text \<open>\<open>location.state?.total || 0\<close>\<close>

definition order_total :: "jsnum option \<Rightarrow> jsnum" where
  "order_total v = (case v of Some (Num q) \<Rightarrow> Num q | Some (Infty b) \<Rightarrow> Infty b | _ \<Rightarrow> Num 0)"

datatype pay_outcome =
    PayAlert string
  | ToCash jsnum      \<comment> \<open>\<open>navigate("/payment/cash", ..)\<close>\<close>
  | ToThankYou jsnum  \<comment> \<open>\<open>navigate("/thankyou", ..)\<close>\<close>

definition pay_cash :: "jsnum option \<Rightarrow> pay_outcome" where
  "pay_cash st = ToCash (order_total st)"

definition pay_card :: "jsnum option \<Rightarrow> pay_outcome list" where
  "pay_card st = [PayAlert ''Payment successful via Card!'', ToThankYou (order_total st)]"

text \<open>The cash page's keypad: the ten digits, \<open>C\<close> and backspace.\<close>

datatype cash_key = Digit char | ClearKey | Backspace

fun press :: "string \<Rightarrow> cash_key \<Rightarrow> string" where
  "press s ClearKey = []"
| "press s Backspace = butlast s"
| "press s (Digit c) = s @ [c]"

definition keypad :: "cash_key list" where
  "keypad = map Digit ''123456789'' @ [ClearKey, Digit CHR ''0'', Backspace]"

datatype cash_outcome = CashAlert string | CashAccepted jsnum \<comment> \<open>the change shown\<close>

text \<open>\<open>handleSubmit\<close>: the change, then \<open>/thankyou\<close> after 1.5 seconds.\<close>

definition cash_submit :: "jsnum \<Rightarrow> string \<Rightarrow> cash_outcome" where
  "cash_submit tot input =
     (let received = js_parse_float input in
      if received = NaN then CashAlert ''Invalid amount.''
      else if js_less received tot then CashAlert ''Insufficient amount.''
      else CashAccepted (js_sub received tot))"

text \<open>The line the order handler stores for a cart entry, if it binds.\<close>

definition cart_line :: "json \<Rightarrow> (int \<times> money) option" where
  "cart_line it = Option.bind (cart_order_item it) item_line"

text \<open>A cart of one item as the menu page stores it (price as the \<open>numeric\<close> text of the menu).\<close>

definition example_cart :: "json list" where
  "example_cart =
     [JObj [(''itemid'', JPrim (JNum 3)), (''itemname'', JPrim (JStr ''Taro Milk Tea'')), (''price'', JPrim (JStr ''5.50'')),
            (''customization'', JPrim (JStr ''Sugar: 100% | Ice: Normal Ice | Topping: None''))]]"

section \<open>Lemmas\<close>

lemma keypad_digits: "(k::nat) < 10 \<Longrightarrow> Digit (char_of (48 + k)) \<in> set keypad"
proof -
  have "list_all (\<lambda>k::nat. Digit (char_of (48 + k)) \<in> set keypad) [0..<10]" by code_simp
  moreover assume "k < 10"
  ultimately show ?thesis by (simp add: list_all_iff)
qed

lemma sale_rows_lines: "map (\<lambda>x. (menu_item_id x, price x)) (sale_rows pm k ls) = ls"
  by (induction ls arbitrary: k) (auto simp: sale_txn_def)

lemma cart_order_item_price: "cart_order_item it = Some oi \<Longrightarrow> \<exists>x. item_price oi = wire_number x"
  by (auto simp: cart_order_item_def split: option.splits)

lemma pg_num_wire: "pg_num (wire_number x) = Some p \<Longrightarrow> js_number (wire_number x) = Num p"
  by (cases x) simp_all

lemma cart_total_fold:
  assumes "map item_line its = map Some ls" "\<forall>it \<in> set its. \<exists>x. item_price it = wire_number x"
  shows "fold (\<lambda>it s. js_add s (js_number (item_price it))) its (Num a) = Num (a + sum_list (map snd ls))"
  using assms
proof (induction its arbitrary: ls a)
  case (Cons it its)
  then obtain l ls' where ls: "ls = l # ls'" "item_line it = Some l" "map item_line its = map Some ls'" by auto
  obtain mid p where l: "l = (mid, p)" by fastforce
  obtain x where x: "item_price it = wire_number x" using Cons.prems(2) by auto
  have "js_number (item_price it) = Num p"
    using ls(2) l x pg_num_wire by (auto simp: item_line_Some_iff)
  then show ?case using Cons.IH [OF ls(3)] Cons.prems(2) ls l by (simp add: algebra_simps)
qed simp

lemma press_digits: "fold (\<lambda>k s. press s k) (map Digit cs) s = s @ cs"
  by (induction cs arbitrary: s) simp_all

section \<open>Properties\<close>



text \<open>
  C40. The cash page can always be completed: for any total, typing on its keypad the
  digits of the total rounded up to whole units and submitting is accepted, with change
  below one unit (the keypad has no decimal point, so no exact amount can be typed for a
  total with cents).
\<close>

theorem cash_payment_live:
  assumes "0 \<le> q"
  shows "list_all (\<lambda>k. k \<in> set keypad) (map Digit (nat_text (nat \<lceil>q\<rceil>))) \<and>
         cash_submit (Num q) (fold (\<lambda>k s. press s k) (map Digit (nat_text (nat \<lceil>q\<rceil>))) []) =
           CashAccepted (Num (of_int \<lceil>q\<rceil> - q)) \<and>
         0 \<le> of_int \<lceil>q\<rceil> - q \<and> of_int \<lceil>q\<rceil> - q < 1"
proof -
  have c: "of_nat (nat \<lceil>q\<rceil>) = (of_int \<lceil>q\<rceil> :: rat)" using assms by simp
  have k: "list_all (\<lambda>k. k \<in> set keypad) (map Digit (nat_text (nat \<lceil>q\<rceil>)))"
    using nat_text_chars keypad_digits by (fastforce simp: list_all_iff)
  have "cash_submit (Num q) (fold (\<lambda>k s. press s k) (map Digit (nat_text (nat \<lceil>q\<rceil>))) []) =
          CashAccepted (Num (of_int \<lceil>q\<rceil> - q))"
    by (simp add: cash_submit_def press_digits js_parse_float_nat_text c not_less)
  moreover have "0 \<le> of_int \<lceil>q\<rceil> - q" "of_int \<lceil>q\<rceil> - q < 1"
    by linarith+
  ultimately show ?thesis using k by simp
qed

theorem cash_payment_live_witness:
  "0 \<le> (9 / 2 :: rat) \<and>
   list_all (\<lambda>k. k \<in> set keypad) (map Digit (nat_text (nat \<lceil>9 / 2 :: rat\<rceil>))) \<and>
   cash_submit (Num (9 / 2)) (fold (\<lambda>k s. press s k) (map Digit (nat_text (nat \<lceil>9 / 2 :: rat\<rceil>))) []) =
     CashAccepted (Num (of_int \<lceil>9 / 2 :: rat\<rceil> - 9 / 2)) \<and>
   0 \<le> of_int \<lceil>9 / 2 :: rat\<rceil> - (9 / 2 :: rat) \<and> of_int \<lceil>9 / 2 :: rat\<rceil> - (9 / 2 :: rat) < 1"
proof -
  have "0 \<le> (9 / 2 :: rat)" by simp
  then show ?thesis using cash_payment_live [of "9 / 2"] by blast
qed

end
