(* ===== verification/Listings.thy ===== *)
theory Listings
  imports Inventory Catalog JsNumber
begin

text \<open>
  The read-only listings of \<^verbatim>\<open>src/backend/server.js\<close> and the second registrations of the
  menu endpoints. As deployed none of them is reached (\<open>Router.reachable_endpoints\<close>):
  the \<open>GET\<close> routes come after \<open>app.get('*')\<close> and the two \<open>POST\<close> routes after the first
  registrations of the same paths. They are modelled as written, for the day the route
  table is fixed: \<open>GET /api/inventory\<close> (lines 236 to 255), \<open>GET /api/menu/seasonal\<close>
  (446 to 453), the seasonal \<open>POST /api/menu/add\<close> (455 to 470) and
  \<open>POST /api/menu/delete\<close> (471 to 484), \<open>GET /api/test-db\<close> (619 to 627) and
  \<open>GET /api/transactions\<close> (631 to 642), and the page that reads the last one,
  \<^verbatim>\<open>OrderHistory.js\<close>. A query without \<open>ORDER BY\<close> returns its rows in an unspecified
  order; the model returns them in table order, one of the possible answers.
\<close>

section \<open>\<open>GET /api/inventory\<close>\<close>

record inv_listing_row =
  il_inventoryid :: int
  il_quantity :: int
  il_menuitemid :: int
  il_itemname :: string
  il_timestamp :: instant
  il_restockdate :: instant
  il_lastupdated :: instant

text \<open>\<open>FROM inventory i JOIN menuitem m ON i.menuitemid = m.itemid ORDER BY i.inventoryid\<close>\<close>

definition get_inventory :: "inv_db \<Rightarrow> catalog \<Rightarrow> inv_listing_row list" where
  "get_inventory d c =
     sort_key il_inventoryid
       (concat (map (\<lambda>i. map (\<lambda>m. \<lparr>il_inventoryid = inventoryid i, il_quantity = inv_quantity i,
                                     il_menuitemid = menuitemid i, il_itemname = itemname m,
                                     il_timestamp = timestamp i, il_restockdate = restockdate i,
                                     il_lastupdated = lastupdated i\<rparr>)
                             (filter (\<lambda>m. itemid m = menuitemid i) (menuitem c)))
                    (inventory d)))"

section \<open>The seasonal menu\<close>

text \<open>\<open>SELECT * FROM menuitem WHERE itemtype = 'Seasonal'\<close>\<close>

definition get_seasonal :: "catalog \<Rightarrow> menu_item list" where
  "get_seasonal c = filter (\<lambda>m. itemtype m = ''Seasonal'') (menuitem c)"

datatype seasonal_response = SeasonalRow menu_item | SeasonalBadRequest | SeasonalFailed | SeasonalDeleted

text \<open>
  A body value bound to a \<open>text\<close> column: \<^verbatim>\<open>node-postgres\<close> sends a number or a boolean
  as its string.
\<close>

fun pg_text :: "jsval \<Rightarrow> string option" where
  "pg_text (JStr s) = Some s"
| "pg_text (JNum q) = Some (js_num_string (Num q))"
| "pg_text (JBool b) = Some (if b then ''true'' else ''false'')"
| "pg_text _ = None"

text \<open>
  The seasonal \<open>POST /api/menu/add\<close>: the guard
  \<open>!itemname || !itemtype || !itemprice\<close>, then
  \<open>INSERT INTO menuitem (itemname, itemtype, itemprice) VALUES ($1, 'Seasonal', $3) RETURNING *\<close>.
  The columns it leaves out take their defaults, which the schema (not in the repository)
  fixes: the parameter \<open>idseq\<close> is the sequence behind \<open>itemid\<close>'s default (\<open>None\<close> when
  there is none, so the key is \<open>NULL\<close> and the insert fails), \<open>avail\<close> the default of
  \<open>available\<close>. The sequence value is consumed even when the insert then fails.
\<close>

definition add_seasonal_item ::
  "bool \<Rightarrow> jsval \<Rightarrow> jsval \<Rightarrow> jsval \<Rightarrow> catalog \<times> pg_seq option \<Rightarrow> seasonal_response \<times> catalog \<times> pg_seq option" where
  "add_seasonal_item avail nv tv pv st =
     (case st of (c, idseq) \<Rightarrow>
      if \<not> js_truthy nv \<or> \<not> js_truthy tv \<or> \<not> js_truthy pv then (SeasonalBadRequest, c, idseq)
      else case (pg_text nv, pg_num pv) of
        (Some n, Some p) \<Rightarrow>
          (case idseq of
             None \<Rightarrow> (SeasonalFailed, c, idseq)
           | Some s \<Rightarrow>
               (case nextval s of
                  Inl e \<Rightarrow> (SeasonalFailed, c, idseq)
                | Inr (i, s') \<Rightarrow>
                    if i \<in> set (map itemid (menuitem c)) then (SeasonalFailed, c, Some s')
                    else let m = \<lparr>itemid = i, itemname = n, itemtype = ''Seasonal'', itemprice = p, available = avail\<rparr>
                         in (SeasonalRow m, c\<lparr>menuitem := menuitem c @ [m]\<rparr>, Some s')))
      | _ \<Rightarrow> (SeasonalFailed, c, idseq))"

text \<open>The seasonal \<open>POST /api/menu/delete\<close>: \<open>!itemid\<close>, then \<open>DELETE FROM menuitem WHERE itemid = $1\<close>.\<close>

definition delete_seasonal_item :: "jsval \<Rightarrow> catalog \<Rightarrow> seasonal_response \<times> catalog" where
  "delete_seasonal_item iv c =
     (if \<not> js_truthy iv then (SeasonalBadRequest, c)
      else case pg_int iv of
        Some i \<Rightarrow> (SeasonalDeleted, c\<lparr>menuitem := filter (\<lambda>m. itemid m \<noteq> i) (menuitem c)\<rparr>)
      | None \<Rightarrow> (SeasonalFailed, c))"

section \<open>Lemmas\<close>

lemma get_inventory_sorted: "sorted (map il_inventoryid (get_inventory d c))"
  by (simp add: get_inventory_def)

lemma get_inventory_rows:
  "r \<in> set (get_inventory d c) \<longleftrightarrow>
   (\<exists>i\<in>set (inventory d). \<exists>m\<in>set (menuitem c). itemid m = menuitemid i \<and>
      r = \<lparr>il_inventoryid = inventoryid i, il_quantity = inv_quantity i, il_menuitemid = menuitemid i,
           il_itemname = itemname m, il_timestamp = timestamp i, il_restockdate = restockdate i,
           il_lastupdated = lastupdated i\<rparr>)"
  by (auto simp: get_inventory_def)

lemma get_inventory_ids:
  "set (map il_inventoryid (get_inventory d c)) =
     inventoryid ` {i \<in> set (inventory d). menuitemid i \<in> itemid ` set (menuitem c)}"
  by (force simp: get_inventory_def)

lemma add_seasonal_wf:
  "catalog_wf c \<Longrightarrow> add_seasonal_item a nv tv pv (c, sq) = (r, c', sq') \<Longrightarrow> catalog_wf c'"
  by (auto simp: add_seasonal_item_def catalog_wf_def Let_def
           split: if_splits option.splits prod.splits sum.splits)

lemma add_seasonal_row:
  assumes "add_seasonal_item a nv tv pv (c, sq) = (SeasonalRow m, c', sq')"
  shows "get_seasonal c' = get_seasonal c @ [m] \<and> itemtype m = ''Seasonal'' \<and> itemid m \<notin> itemid ` set (menuitem c)"
  using assms
  by (auto simp: add_seasonal_item_def get_seasonal_def Let_def
           split: if_splits option.splits prod.splits sum.splits)

lemma delete_seasonal_wf:
  "catalog_wf c \<Longrightarrow> catalog_wf (snd (delete_seasonal_item iv c))"
  by (simp add: delete_seasonal_item_def catalog_wf_def distinct_map_filter split: option.split)

lemma delete_seasonal_gone:
  "delete_seasonal_item iv c = (SeasonalDeleted, c') \<Longrightarrow> pg_int iv = Some i \<Longrightarrow> i \<notin> itemid ` set (menuitem c')"
  by (auto simp: delete_seasonal_item_def split: if_splits option.splits)

end
