(* ===== verification/History.thy ===== *)
theory History
  imports Orders JsNumber
begin

text \<open>
  \<open>GET /api/test-db\<close> (\<^verbatim>\<open>src/backend/server.js\<close> lines 619 to 627),
  \<open>GET /api/transactions\<close> (631 to 642) and the page that shows the latter,
  \<^verbatim>\<open>src/frontend/src/components/OrderHistory.js\<close>: a stable sort by descending id and
  a search box that keeps the rows one of whose values contains the search term. Like the
  other \<open>GET\<close> routes, the listing is shadowed by \<open>app.get('*')\<close> as deployed; the page
  then receives \<^verbatim>\<open>index.html\<close>, a string, and \<open>sort\<close> throws.
\<close>

section \<open>The listing\<close>

text \<open>\<open>SELECT NOW()\<close>: one row holding the server's clock.\<close>

definition test_db :: "instant \<Rightarrow> instant list" where
  "test_db now = [now]"

text \<open>\<open>SELECT * FROM transactions ORDER BY id DESC LIMIT 30\<close>\<close>

definition get_transactions :: "txn list \<Rightarrow> txn list" where
  "get_transactions ts = take 30 (sort_key (\<lambda>t. - txn_id t) ts)"

section \<open>The order history page\<close>

text \<open>A transaction row as JSON: the columns of \<open>transactions\<close> in table order.\<close>

definition txn_json :: "txn \<Rightarrow> json" where
  "txn_json t =
     JObj [(''id'', JPrim (JNum (of_int (txn_id t)))), (''sale_id'', JPrim (JNum (of_int (sale_id t)))),
           (''menu_item_id'', JPrim (JNum (of_int (menu_item_id t)))), (''quantity'', JPrim (JNum (of_int (quantity t)))),
           (''price'', JPrim (JStr (numeric_text (price t)))),
           (''paymentmethod'', case paymentmethod t of Some s \<Rightarrow> JPrim (JStr s) | None \<Rightarrow> JPrim JNull),
           (''transactioncategory'', JPrim (JStr (transactioncategory t)))]"

text \<open>
  \<open>res.data.sort((a, b) => b.id - a.id)\<close>: a stable sort by descending id when every row's
  id is a number. A comparator that returns \<open>NaN\<close> leaves the order to the engine
  (\<open>SortUnspecified\<close>); a value that is not an array has no \<open>sort\<close>, and the call throws.
\<close>

datatype sort_result = Sorted "json list" | SortUnspecified | SortThrows

definition row_id :: "json \<Rightarrow> rat option" where
  "row_id r = (case get_prop r ''id'' of Some v \<Rightarrow> (case json_number v of Num q \<Rightarrow> Some q | _ \<Rightarrow> None) | None \<Rightarrow> None)"

definition history_sort :: "json \<Rightarrow> sort_result" where
  "history_sort data =
     (case data of
        JArr rows \<Rightarrow> if list_all (\<lambda>r. row_id r \<noteq> None) rows
                      then Sorted (sort_key (\<lambda>r. - the (row_id r)) rows) else SortUnspecified
      | _ \<Rightarrow> SortThrows)"

text \<open>\<open>Object.values(v)\<close>; \<open>null\<close> and \<open>undefined\<close> throw.\<close>

fun obj_values :: "json \<Rightarrow> json list option" where
  "obj_values (JObj kvs) = Some (map snd kvs)"
| "obj_values (JArr xs) = Some xs"
| "obj_values (JPrim (JStr s)) = Some (map (\<lambda>c. JPrim (JStr [c])) s)"
| "obj_values (JPrim JNull) = None"
| "obj_values (JPrim JUndef) = None"
| "obj_values (JPrim _) = Some []"

text \<open>\<open>s.includes(p)\<close>\<close>

definition js_includes :: "string \<Rightarrow> string \<Rightarrow> bool" where
  "js_includes s p \<longleftrightarrow> list_ex (\<lambda>i. take (length p) (drop i s) = p) [0..<Suc (length s)]"

text \<open>
  The search box: the rows one of whose values, as a lower-case string, contains the
  lower-cased search term (\<open>toLowerCase\<close> on ASCII letters).
\<close>

definition history_filter :: "string \<Rightarrow> json list \<Rightarrow> json list option" where
  "history_filter term rows =
     (if list_all (\<lambda>r. obj_values r \<noteq> None) rows
      then Some (filter (\<lambda>r. list_ex (\<lambda>v. js_includes (js_lower (js_to_string v)) (js_lower term))
                                      (case obj_values r of Some vs \<Rightarrow> vs | None \<Rightarrow> [])) rows)
      else None)"

text \<open>
  The page's state: the rows shown and the search term. \<open>fetchTransactions\<close> runs once,
  on mount; a failed request or a throwing sort is caught and leaves the rows as they are.
\<close>

record history_page =
  hp_transactions :: "json list"
  hp_search :: string

definition history_init :: history_page where
  "history_init = \<lparr>hp_transactions = [], hp_search = []\<rparr>"

definition history_fetch :: "json option \<Rightarrow> history_page \<Rightarrow> history_page option" where
  "history_fetch resp p =
     (case resp of
        None \<Rightarrow> Some p
      | Some data \<Rightarrow> (case history_sort data of
                        Sorted rows \<Rightarrow> Some (p\<lparr>hp_transactions := rows\<rparr>)
                      | SortThrows \<Rightarrow> Some p
                      | SortUnspecified \<Rightarrow> None))"

text \<open>The rows the table shows (\<open>filteredTransactions\<close>); \<open>None\<close> when a row throws.\<close>

definition history_shown :: "history_page \<Rightarrow> json list option" where
  "history_shown p = history_filter (hp_search p) (hp_transactions p)"

section \<open>Lemmas\<close>

lemma sorted_take_drop_le:
  assumes "sorted (map f xs)" "x \<in> set (take n xs)" "y \<in> set (drop n xs)"
  shows "f x \<le> f y"
  using assms sorted_append [of "map f (take n xs)" "map f (drop n xs)"]
  by (simp add: map_append [symmetric] del: map_append)

lemma get_transactions_sorted: "sorted (map (\<lambda>t. - txn_id t) (get_transactions ts))"
  unfolding get_transactions_def take_map [symmetric] by (rule sorted_wrt_take) simp

lemma get_transactions_length: "length (get_transactions ts) = min 30 (length ts)"
  by (simp add: get_transactions_def)

lemma get_transactions_sub: "mset (get_transactions ts) \<subseteq># mset ts"
proof -
  have "mset ts = mset (take 30 (sort_key (\<lambda>t. - txn_id t) ts)) + mset (drop 30 (sort_key (\<lambda>t. - txn_id t) ts))"
    by (metis append_take_drop_id mset_append mset_sort)
  then show ?thesis unfolding get_transactions_def by (metis mset_subset_eq_add_left)
qed

lemma get_transactions_top:
  assumes "t \<in> set ts" "t \<notin> set (get_transactions ts)" "u \<in> set (get_transactions ts)"
  shows "txn_id t \<le> txn_id u"
proof -
  let ?s = "sort_key (\<lambda>t. - txn_id t) ts"
  have "t \<in> set (take 30 ?s) \<union> set (drop 30 ?s)"
    using assms(1) by (metis append_take_drop_id set_append set_sort)
  then have "t \<in> set (drop 30 ?s)" using assms(2) by (auto simp: get_transactions_def)
  then show ?thesis
    using sorted_take_drop_le [of "\<lambda>t. - txn_id t" ?s u 30 t] assms(3)
    by (simp add: get_transactions_def)
qed

lemma row_id_txn [simp]: "row_id (txn_json t) = Some (of_int (txn_id t))"
  by (simp add: row_id_def txn_json_def)

lemma history_sort_txns:
  assumes "sorted (map (\<lambda>t. - txn_id t) ts)"
  shows "history_sort (JArr (map txn_json ts)) = Sorted (map txn_json ts)"
proof -
  have "sorted (map (\<lambda>t. - (of_int (txn_id t) :: rat)) ts)"
    using assms by (simp add: sorted_map)
  then show ?thesis
    by (simp add: history_sort_def list_all_iff sort_key_id_if_sorted comp_def)
qed

lemma js_includes_Nil [simp]: "js_includes s []"
  by (force simp: js_includes_def list_ex_iff)

text \<open>An empty search keeps every row that has a value; \<open>[].some(...)\<close> is false.\<close>

lemma history_filter_Nil:
  "list_all (\<lambda>r. \<exists>vs. obj_values r = Some vs \<and> vs \<noteq> []) rows \<Longrightarrow> history_filter [] rows = Some rows"
  unfolding history_filter_def list_all_iff
  by (auto simp: list_ex_iff js_lower_def filter_id_conv) (metis list.set_intros(1) neq_Nil_conv)

lemma obj_values_txn [simp]: "\<exists>vs. obj_values (txn_json t) = Some vs \<and> vs \<noteq> []"
  by (simp add: txn_json_def)

lemma history_fetch_listing:
  "history_fetch (Some (JArr (map txn_json (get_transactions ts)))) history_init =
     Some \<lparr>hp_transactions = map txn_json (get_transactions ts), hp_search = []\<rparr> \<and>
   history_shown \<lparr>hp_transactions = map txn_json (get_transactions ts), hp_search = []\<rparr> =
     Some (map txn_json (get_transactions ts))"
  using history_sort_txns [OF get_transactions_sorted [of ts]]
  by (simp add: history_fetch_def history_init_def history_shown_def history_filter_Nil list_all_iff)

lemma history_fetch_text: "history_fetch (Some (JPrim (JStr html))) p = Some p"
  by (simp add: history_fetch_def history_sort_def)

end
