(* ===== verification/MenuAdmin.thy ===== *)
theory MenuAdmin
  imports Listings Router
begin

text \<open>
  The two menu administration pages of the front end,
  \<^verbatim>\<open>src/frontend/src/components/DrinkMenu.js\<close> (route \<open>/drink-menu\<close>) and
  \<^verbatim>\<open>src/frontend/src/components/AddSeasonalItem.js\<close> (route \<open>/add-seasonal\<close>), composed
  with the handlers they reach, the first registrations of \<open>POST /api/menu/add\<close> and
  \<open>POST /api/menu/delete\<close> (\<open>Catalog.add_menu_item\<close>, \<open>Catalog.delete_menu_item\<close>). The
  pages differ in one field: the drink page has a category, the seasonal page sends the
  type \<open>Seasonal\<close> and leaves the category out of its guard. Alerts are given without
  their emoji prefixes.
\<close>

datatype admin_kind = DrinkPage | SeasonalPage

text \<open>The page's state: the three inputs and \<open>menuList\<close>, as received.\<close>

record admin_page =
  ap_name :: string
  ap_category :: string
  ap_price :: string
  ap_menu :: json

definition admin_init :: admin_page where
  "admin_init = \<lparr>ap_name = [], ap_category = [], ap_price = [], ap_menu = JArr []\<rparr>"

text \<open>
  \<open>viewMenu\<close>: \<open>GET /api/menu\<close>; \<open>resp\<close> is the body received, \<open>None\<close> when the request
  fails.
\<close>

definition view_menu :: "json option \<Rightarrow> admin_page \<Rightarrow> string list \<times> admin_page" where
  "view_menu resp p =
     (case resp of
        None \<Rightarrow> ([''Failed to fetch menu.''], p)
      | Some d \<Rightarrow> ([], p\<lparr>ap_menu := d\<rparr>))"

text \<open>
  \<open>addDrink\<close>: the guard on the inputs, then the post with \<open>itemprice: parseFloat(price)\<close>
  (\<open>JSON.stringify\<close> sends \<open>NaN\<close> as \<open>null\<close>), then on success the cleared inputs and a
  reload of the menu. The handler answers 500 on \<open>MenuFailed\<close>, which \<open>axios\<close> rejects.
\<close>

definition admin_type :: "admin_kind \<Rightarrow> admin_page \<Rightarrow> string" where
  "admin_type k p = (case k of DrinkPage \<Rightarrow> ap_category p | SeasonalPage \<Rightarrow> ''Seasonal'')"

definition admin_filled :: "admin_kind \<Rightarrow> admin_page \<Rightarrow> bool" where
  "admin_filled k p \<longleftrightarrow> ap_name p \<noteq> [] \<and> (k = SeasonalPage \<or> ap_category p \<noteq> []) \<and> ap_price p \<noteq> []"

definition admin_cleared :: "admin_kind \<Rightarrow> admin_page \<Rightarrow> admin_page" where
  "admin_cleared k p =
     (case k of
        DrinkPage \<Rightarrow> p\<lparr>ap_name := [], ap_category := [], ap_price := []\<rparr>
      | SeasonalPage \<Rightarrow> p\<lparr>ap_name := [], ap_price := []\<rparr>)"

definition admin_add ::
  "admin_kind \<Rightarrow> json option \<Rightarrow> admin_page \<Rightarrow> catalog \<Rightarrow> string list \<times> admin_page \<times> catalog" where
  "admin_add k resp p c =
     (if \<not> admin_filled k p then ([''Please fill out all fields.''], p, c)
      else case add_menu_item (Some (ap_name p)) (Some (admin_type k p)) (wire_number (js_parse_float (ap_price p))) c of
        (MenuAdded, c') \<Rightarrow>
          (case view_menu resp (admin_cleared k p) of (al, p') \<Rightarrow> (''Drink added successfully!'' # al, p', c'))
      | (_, c') \<Rightarrow> ([''Failed to add drink.''], p, c'))"

text \<open>\<open>deleteDrink\<close>: by name; the handler answers \<open>{ success: true }\<close> whether or not a row matched.\<close>

definition admin_delete ::
  "json option \<Rightarrow> admin_page \<Rightarrow> catalog \<Rightarrow> string list \<times> admin_page \<times> catalog" where
  "admin_delete resp p c =
     (if ap_name p = [] then ([''Please enter the drink name to delete.''], p, c)
      else case delete_menu_item (Some (ap_name p)) c of
        (MenuDeleted, c') \<Rightarrow>
          (case view_menu resp p of (al, p') \<Rightarrow> (''Drink deleted successfully!'' # al, p', c'))
      | (_, c') \<Rightarrow> ([''Failed to delete drink.''], p, c'))"

text \<open>
  A row of \<open>GET /api/menu\<close> as \<open>res.json\<close> sends it: \<open>itemid\<close> an integer, \<open>itemprice\<close> a
  \<open>numeric\<close> column and so a string, \<open>ingredients\<close> an array of names.
\<close>

definition menu_row_json :: "menu_row \<Rightarrow> json" where
  "menu_row_json r =
     JObj [(''itemid'', JPrim (JNum (of_int (row_itemid r)))), (''itemname'', JPrim (JStr (row_itemname r))),
           (''itemtype'', JPrim (JStr (row_itemtype r))), (''itemprice'', JPrim (JStr (numeric_text (row_itemprice r)))),
           (''ingredients'', JArr (map (\<lambda>n. JPrim (JStr n)) (row_ingredients r)))]"

text \<open>
  What \<open>viewMenu\<close> receives from the deployed server: the route table decides whether the
  request reaches the listing or the catch-all that sends \<^verbatim>\<open>index.html\<close>.
\<close>

definition deployed_menu :: "string list list \<Rightarrow> string \<Rightarrow> catalog \<Rightarrow> json option" where
  "deployed_menu files html c =
     (case dispatch files server_layers \<lparr>req_method = GET, req_path = [''api'', ''menu'']\<rparr> of
        Some GetMenu \<Rightarrow> (case get_menu c of MenuRows rs \<Rightarrow> Some (JArr (map menu_row_json rs)) | _ \<Rightarrow> None)
      | Some SpaIndex \<Rightarrow> Some (JPrim (JStr html))
      | Some ServeStatic \<Rightarrow> Some (JPrim (JStr html))
      | _ \<Rightarrow> None)"

section \<open>Lemmas\<close>

lemma pg_num_wire_parse:
  "pg_num (wire_number (js_parse_float s)) = (case js_parse_float s of Num q \<Rightarrow> Some q | _ \<Rightarrow> None)"
  by (cases "js_parse_float s") simp_all

lemma admin_add_added:
  assumes "admin_filled k p" "js_parse_float (ap_price p) = Num q"
  shows "admin_add k resp p c =
           (''Drink added successfully!'' # fst (view_menu resp (admin_cleared k p)),
            snd (view_menu resp (admin_cleared k p)),
            c\<lparr>menuitem := menuitem c @ [\<lparr>itemid = next_itemid c, itemname = ap_name p,
                                          itemtype = admin_type k p, itemprice = q, available = True\<rparr>]\<rparr>)"
proof -
  have "next_itemid c \<notin> set (map itemid (menuitem c))"
    using next_itemid_fresh by fastforce
  then show ?thesis
    using assms by (simp add: admin_add_def add_menu_item_def split: prod.split)
qed

lemma admin_add_unparsed:
  assumes "admin_filled k p" "js_parse_float (ap_price p) \<notin> range Num"
  shows "admin_add k resp p c = ([''Failed to add drink.''], p, c)"
  using assms by (cases "js_parse_float (ap_price p)") (auto simp: admin_add_def add_menu_item_def Let_def)

lemma admin_add_wf: "catalog_wf c \<Longrightarrow> catalog_wf (snd (snd (admin_add k resp p c)))"
  by (auto simp: admin_add_def add_menu_item_def catalog_wf_def Let_def
           split: prod.split option.split menu_response.split)

lemma admin_delete_wf: "catalog_wf c \<Longrightarrow> catalog_wf (snd (snd (admin_delete resp p c)))"
  by (auto simp: admin_delete_def delete_menu_item_def catalog_wf_def distinct_map_filter
           split: prod.split)

lemma admin_delete_named:
  assumes "ap_name p \<noteq> []"
  shows "hd (fst (admin_delete resp p c)) = ''Drink deleted successfully!'' \<and>
         menuitem (snd (snd (admin_delete resp p c))) = filter (\<lambda>m. itemname m \<noteq> ap_name p) (menuitem c)"
  using assms by (simp add: admin_delete_def delete_menu_item_def split: prod.split)

lemma seasonal_page_listed:
  assumes "admin_filled SeasonalPage p" "js_parse_float (ap_price p) = Num q"
  shows "get_seasonal (snd (snd (admin_add SeasonalPage resp p c))) =
           get_seasonal c @ [\<lparr>itemid = next_itemid c, itemname = ap_name p, itemtype = ''Seasonal'',
                               itemprice = q, available = True\<rparr>]"
  by (simp add: admin_add_added [OF assms] get_seasonal_def admin_type_def)

lemma view_menu_text:
  "html \<noteq> [] \<Longrightarrow> \<not> list_renders (ap_menu (snd (view_menu (Some (JPrim (JStr html))) p)))"
  by (simp add: view_menu_def list_renders_def)

lemma admin_init_renders: "list_renders (ap_menu admin_init)"
  by (simp add: admin_init_def list_renders_def)

lemma deployed_menu_index:
  "[''api'', ''menu''] \<notin> set files \<Longrightarrow> deployed_menu files html c = Some (JPrim (JStr html))"
  using dispatch_get [of "\<lparr>req_method = GET, req_path = [''api'', ''menu'']\<rparr>" files]
  by (simp add: deployed_menu_def)

lemma deployed_admin_unrendered:
  assumes "[''api'', ''menu''] \<notin> set files" "html \<noteq> []"
  shows "\<not> list_renders (ap_menu (snd (view_menu (deployed_menu files html c) p)))"
  using view_menu_text [OF assms(2)] by (simp add: deployed_menu_index [OF assms(1)])

end
