(* ===== verification/InventoryPage.thy ===== *)
theory InventoryPage
  imports Listings Router
begin

text \<open>
  The inventory page, \<^verbatim>\<open>src/frontend/src/components/Inventory.js\<close>, composed with the
  handlers it calls (\<open>Inventory.add_inventory\<close>, \<open>Inventory.update_inventory\<close>,
  \<open>Inventory.delete_inventory\<close>) and with the listing \<open>Listings.get_inventory\<close>. The page
  has one \<open>Item ID\<close> input: \<open>addInventory\<close> sends it as \<open>menuitemid\<close>,
  \<open>updateInventory\<close> and \<open>deleteInventory\<close> as \<open>inventoryid\<close>. Inputs are sent as the
  strings the input elements hold. A response outside 2xx makes \<open>axios\<close> reject; the page
  then shows its failure alert. Alerts are given without their emoji prefixes.
\<close>

record inv_page =
  ip_item :: string
  ip_quantity :: string
  ip_list :: json

definition inv_page_init :: inv_page where
  "inv_page_init = \<lparr>ip_item = [], ip_quantity = [], ip_list = JArr []\<rparr>"

text \<open>The answers the handlers give with a 2xx status.\<close>

definition inv_ok :: "inv_response \<Rightarrow> bool" where
  "inv_ok r \<longleftrightarrow> r \<in> {InventoryAdded, InventoryUpdated, DeleteOk, UpdateOk}"

text \<open>\<open>viewInventory\<close>: \<open>resp\<close> is the body \<open>GET /api/inventory\<close> returns, \<open>None\<close> when it fails.\<close>

definition inv_view :: "json option \<Rightarrow> inv_page \<Rightarrow> string list \<times> inv_page" where
  "inv_view resp p =
     (case resp of
        None \<Rightarrow> ([''Failed to fetch inventory''], p)
      | Some v \<Rightarrow> ([], p\<lparr>ip_list := v\<rparr>))"

definition inv_page_add :: "instant \<Rightarrow> json option \<Rightarrow> inv_page \<Rightarrow> inv_db \<Rightarrow> string list \<times> inv_page \<times> inv_db" where
  "inv_page_add now resp p d =
     (if ip_item p = [] \<or> ip_quantity p = [] then ([''Please fill in both fields.''], p, d)
      else case add_inventory now \<lparr>add_menuitemid = JStr (ip_item p), add_quantity = JStr (ip_quantity p)\<rparr> d of
        (r, d') \<Rightarrow>
          if inv_ok r then
            (case inv_view resp (p\<lparr>ip_item := [], ip_quantity := []\<rparr>) of
               (al, p') \<Rightarrow> (''Inventory added successfully!'' # al, p', d'))
          else ([''Failed to add inventory.''], p, d'))"

definition inv_page_update :: "json option \<Rightarrow> inv_page \<Rightarrow> inv_db \<Rightarrow> string list \<times> inv_page \<times> inv_db" where
  "inv_page_update resp p d =
     (if ip_item p = [] \<or> ip_quantity p = [] then ([''Please fill in both fields.''], p, d)
      else case update_inventory \<lparr>upd_inventoryid = JStr (ip_item p), upd_quantity = JStr (ip_quantity p)\<rparr> d of
        (r, d') \<Rightarrow>
          if inv_ok r then
            (case inv_view resp p of (al, p') \<Rightarrow> (''Inventory updated successfully!'' # al, p', d'))
          else ([''Failed to update inventory.''], p, d'))"

definition inv_page_delete :: "json option \<Rightarrow> inv_page \<Rightarrow> inv_db \<Rightarrow> string list \<times> inv_page \<times> inv_db" where
  "inv_page_delete resp p d =
     (if ip_item p = [] then ([''Please enter an Item ID to delete.''], p, d)
      else case delete_inventory (JStr (ip_item p)) d of
        (r, d') \<Rightarrow>
          if inv_ok r then
            (case inv_view resp p of (al, p') \<Rightarrow> (''Inventory deleted successfully!'' # al, p', d'))
          else ([''Failed to delete inventory.''], p, d'))"

text \<open>The three buttons, and a step of the page with the listing's answer \<open>resp\<close>.\<close>

datatype inv_button = AddButton instant | UpdateButton | DeleteButton

fun inv_page_step :: "json option \<Rightarrow> inv_button \<Rightarrow> inv_page \<Rightarrow> inv_db \<Rightarrow> string list \<times> inv_page \<times> inv_db" where
  "inv_page_step resp (AddButton now) p d = inv_page_add now resp p d"
| "inv_page_step resp UpdateButton p d = inv_page_update resp p d"
| "inv_page_step resp DeleteButton p d = inv_page_delete resp p d"

text \<open>
  A row of \<open>GET /api/inventory\<close> as \<open>res.json\<close> sends it. \<^verbatim>\<open>node-postgres\<close> reads a
  \<open>timestamp\<close> into a \<open>Date\<close>, which JSON writes as its ISO text: the parameter \<open>isotext\<close>.
\<close>

definition inv_listing_json :: "(instant \<Rightarrow> string) \<Rightarrow> inv_listing_row \<Rightarrow> json" where
  "inv_listing_json isotext r =
     JObj [(''inventoryid'', JPrim (JNum (of_int (il_inventoryid r)))), (''quantity'', JPrim (JNum (of_int (il_quantity r)))),
           (''menuitemid'', JPrim (JNum (of_int (il_menuitemid r)))), (''itemname'', JPrim (JStr (il_itemname r))),
           (''timestamp'', JPrim (JStr (isotext (il_timestamp r)))), (''restockdate'', JPrim (JStr (isotext (il_restockdate r)))),
           (''lastupdated'', JPrim (JStr (isotext (il_lastupdated r))))]"

text \<open>What \<open>viewInventory\<close> receives from the deployed server.\<close>

definition deployed_inventory :: "string list list \<Rightarrow> string \<Rightarrow> (instant \<Rightarrow> string) \<Rightarrow> inv_db \<Rightarrow> catalog \<Rightarrow> json option" where
  "deployed_inventory files html isotext d c =
     (case dispatch files server_layers \<lparr>req_method = GET, req_path = [''api'', ''inventory'']\<rparr> of
        Some GetInventory \<Rightarrow> Some (JArr (map (inv_listing_json isotext) (get_inventory d c)))
      | Some SpaIndex \<Rightarrow> Some (JPrim (JStr html))
      | Some ServeStatic \<Rightarrow> Some (JPrim (JStr html))
      | _ \<Rightarrow> None)"

section \<open>Lemmas\<close>

lemma inv_page_wf: "inv_wf d \<Longrightarrow> inv_wf (snd (snd (inv_page_step resp b p d)))"
  by (cases b)
     (auto simp: inv_page_add_def inv_page_update_def inv_page_delete_def split: prod.split
           intro: add_inventory_wf update_inventory_wf delete_inventory_wf)

text \<open>The \<open>Item ID\<close> text is a menu item id when adding \<dots>\<close>

lemma inv_page_add_rows:
  assumes "ip_item p \<noteq> []" "ip_quantity p \<noteq> []"
    and "bind_int4 (JStr (ip_item p)) = Inr mid" "bind_int4 (JStr (ip_quantity p)) = Inr q"
    and "has_item mid (inventory d)" "\<forall>row \<in> set (inventory d). menuitemid row = mid \<longrightarrow> in_int4 (inv_quantity row + q)"
  shows "inventory (snd (snd (inv_page_add now resp p d))) =
           map (\<lambda>row. if menuitemid row = mid then row\<lparr>inv_quantity := inv_quantity row + q, lastupdated := now\<rparr> else row)
               (inventory d)"
  using assms
  by (auto simp: inv_page_add_def add_inventory_def add_write_def increment_rows_def Let_def split: prod.split)

text \<open>\<dots> and an inventory id when updating.\<close>

lemma inv_page_update_rows:
  assumes "ip_item p \<noteq> []" "ip_quantity p \<noteq> []"
    and "bind_int4 (JStr (ip_item p)) = Inr i" "bind_int4 (JStr (ip_quantity p)) = Inr q"
  shows "inventory (snd (snd (inv_page_update resp p d))) =
           map (\<lambda>row. if inventoryid row = i then row\<lparr>inv_quantity := q\<rparr> else row) (inventory d)"
  using assms by (simp add: inv_page_update_def update_inventory_def split: prod.split)

lemma inv_page_delete_rows:
  assumes "ip_item p \<noteq> []" "bind_int4 (JStr (ip_item p)) = Inr i"
  shows "inventory (snd (snd (inv_page_delete resp p d))) = filter (\<lambda>row. inventoryid row \<noteq> i) (inventory d)"
  using assms by (simp add: inv_page_delete_def delete_inventory_def split: prod.split)

text \<open>
  So the same input names two different items: on a table where inventory row 1 holds menu
  item 2 and row 2 holds menu item 1, typing \<open>2\<close> and \<open>5\<close> and pressing \<open>Add\<close> adds 5 to
  menu item 2, while pressing \<open>Update\<close> sets menu item 1 to 5.
\<close>

definition confusion_db :: inv_db where
  "confusion_db =
     \<lparr>inventory = [\<lparr>inventoryid = 1, inv_quantity = 10, menuitemid = 2, timestamp = 0, restockdate = 0, lastupdated = 0\<rparr>,
                   \<lparr>inventoryid = 2, inv_quantity = 4, menuitemid = 1, timestamp = 0, restockdate = 0, lastupdated = 0\<rparr>],
      inventory_id_seq = serial_seq\<lparr>last_value := 2, is_called := True\<rparr>\<rparr>"

lemma inv_page_id_confusion:
  "item_quantity 2 (snd (snd (inv_page_add 0 resp \<lparr>ip_item = ''2'', ip_quantity = ''5'', ip_list = l\<rparr> confusion_db))) = 15 \<and>
   item_quantity 1 (snd (snd (inv_page_add 0 resp \<lparr>ip_item = ''2'', ip_quantity = ''5'', ip_list = l\<rparr> confusion_db))) = 4 \<and>
   item_quantity 2 (snd (snd (inv_page_update resp \<lparr>ip_item = ''2'', ip_quantity = ''5'', ip_list = l\<rparr> confusion_db))) = 10 \<and>
   item_quantity 1 (snd (snd (inv_page_update resp \<lparr>ip_item = ''2'', ip_quantity = ''5'', ip_list = l\<rparr> confusion_db))) = 5"
proof -
  let ?p = "\<lparr>ip_item = ''2'', ip_quantity = ''5'', ip_list = l\<rparr>"
  have b: "bind_int4 (JStr ''2'') = Inr 2" "bind_int4 (JStr ''5'') = Inr 5" by code_simp+
  have "in_int4 15" by code_simp
  then have add: "inventory (snd (snd (inv_page_add 0 resp ?p confusion_db))) =
      [\<lparr>inventoryid = 1, inv_quantity = 15, menuitemid = 2, timestamp = 0, restockdate = 0, lastupdated = 0\<rparr>,
       \<lparr>inventoryid = 2, inv_quantity = 4, menuitemid = 1, timestamp = 0, restockdate = 0, lastupdated = 0\<rparr>]"
    using inv_page_add_rows [of ?p 2 5 confusion_db 0 resp] b by (simp add: confusion_db_def has_item_def)
  have upd: "inventory (snd (snd (inv_page_update resp ?p confusion_db))) =
      [\<lparr>inventoryid = 1, inv_quantity = 10, menuitemid = 2, timestamp = 0, restockdate = 0, lastupdated = 0\<rparr>,
       \<lparr>inventoryid = 2, inv_quantity = 5, menuitemid = 1, timestamp = 0, restockdate = 0, lastupdated = 0\<rparr>]"
    using inv_page_update_rows [of ?p 2 5 resp confusion_db] b by (simp add: confusion_db_def)
  show ?thesis by (simp add: item_quantity_def add upd)
qed

lemma deployed_inventory_index:
  "[''api'', ''inventory''] \<notin> set files \<Longrightarrow> deployed_inventory files html isotext d c = Some (JPrim (JStr html))"
  using dispatch_get [of "\<lparr>req_method = GET, req_path = [''api'', ''inventory'']\<rparr>" files]
  by (simp add: deployed_inventory_def)

lemma deployed_inventory_unrendered:
  assumes "[''api'', ''inventory''] \<notin> set files" "html \<noteq> []"
  shows "\<not> list_renders (ip_list (snd (inv_view (deployed_inventory files html isotext d c) p)))"
  using assms by (simp add: deployed_inventory_index inv_view_def list_renders_def)

section \<open>Properties\<close>

text \<open>
  C20. The page's one \<open>Item ID\<close> input names a menu item when adding and an inventory row
  when updating. On a well-formed table, for a row whose inventory id \<open>i\<close> differs from its
  menu item, entering \<open>i\<close> and a quantity \<open>q\<close>: \<open>Update\<close> sets the quantity of the row's
  menu item to \<open>q\<close> and leaves menu item \<open>i\<close> as it was, while \<open>Add\<close> adds \<open>q\<close> to menu
  item \<open>i\<close> (when it has a row) and leaves the row's menu item as it was.
\<close>

theorem inv_page_item_id_confusion:
  assumes wf: "inv_wf d" and row: "row \<in> set (inventory d)" "inventoryid row = i" "menuitemid row \<noteq> i"
    and p: "ip_item p \<noteq> []" "ip_quantity p \<noteq> []"
      "bind_int4 (JStr (ip_item p)) = Inr i" "bind_int4 (JStr (ip_quantity p)) = Inr q"
  shows "item_quantity (menuitemid row) (snd (snd (inv_page_update resp p d))) = q \<and>
         item_quantity i (snd (snd (inv_page_update resp p d))) = item_quantity i d \<and>
         (has_item i (inventory d) \<and> (\<forall>r \<in> set (inventory d). menuitemid r = i \<longrightarrow> in_int4 (inv_quantity r + q)) \<longrightarrow>
            item_quantity i (snd (snd (inv_page_add now resp p d))) = item_quantity i d + q \<and>
            item_quantity (menuitemid row) (snd (snd (inv_page_add now resp p d))) = item_quantity (menuitemid row) d)"
proof -
  let ?upd = "\<lambda>r. if inventoryid r = i then r\<lparr>inv_quantity := q\<rparr> else r"
  have upd: "item_quantity m (snd (snd (inv_page_update resp p d))) = item_quantity m (d\<lparr>inventory := map ?upd (inventory d)\<rparr>)" for m
    using inv_page_update_rows [OF p] by (simp add: item_quantity_def)
  have add: "item_quantity i (snd (snd (inv_page_add now resp p d))) = item_quantity i d + q \<and>
             item_quantity (menuitemid row) (snd (snd (inv_page_add now resp p d))) = item_quantity (menuitemid row) d"
    if h: "has_item i (inventory d)" "\<forall>r \<in> set (inventory d). menuitemid r = i \<longrightarrow> in_int4 (inv_quantity r + q)"
  proof -
    let ?inc = "\<lambda>r. if menuitemid r = i then r\<lparr>inv_quantity := inv_quantity r + q, lastupdated := now\<rparr> else r"
    have inc: "increment_rows i q now (inventory d) = Inr (map ?inc (inventory d))"
      using h(2) by (auto simp: increment_rows_def)
    have "item_quantity m (snd (snd (inv_page_add now resp p d))) = item_quantity m (d\<lparr>inventory := map ?inc (inventory d)\<rparr>)" for m
      using inv_page_add_rows [OF p h] by (simp add: item_quantity_def)
    then show ?thesis
      using item_quantity_increment [OF inc] item_rows_one [OF wf h(1)] row(3) by simp
  qed
  show ?thesis
    using item_quantity_set_row [OF wf row(1,2), of q] upd row(3) add by simp
qed

theorem inv_page_item_id_confusion_witness:
  "item_quantity 2 (snd (snd (inv_page_update None \<lparr>ip_item = ''1'', ip_quantity = ''5'', ip_list = JArr []\<rparr> confusion_db))) = 5 \<and>
   item_quantity 1 (snd (snd (inv_page_update None \<lparr>ip_item = ''1'', ip_quantity = ''5'', ip_list = JArr []\<rparr> confusion_db))) = 4 \<and>
   item_quantity 1 (snd (snd (inv_page_add 0 None \<lparr>ip_item = ''1'', ip_quantity = ''5'', ip_list = JArr []\<rparr> confusion_db))) = 9 \<and>
   item_quantity 2 (snd (snd (inv_page_add 0 None \<lparr>ip_item = ''1'', ip_quantity = ''5'', ip_list = JArr []\<rparr> confusion_db))) = 10"
proof -
  have h: "inv_wf confusion_db" "bind_int4 (JStr ''1'') = Inr 1" "bind_int4 (JStr ''5'') = Inr 5"
    "has_item 1 (inventory confusion_db)" "in_int4 9" "item_quantity 1 confusion_db = 4" "item_quantity 2 confusion_db = 10"
    by code_simp+
  have r: "\<lparr>inventoryid = 1, inv_quantity = 10, menuitemid = 2, timestamp = 0, restockdate = 0, lastupdated = 0\<rparr> \<in> set (inventory confusion_db)"
    by (simp add: confusion_db_def)
  have "\<forall>x\<in>set (inventory confusion_db). menuitemid x = 1 \<longrightarrow> in_int4 (inv_quantity x + 5)"
    using h(5) by (simp add: confusion_db_def)
  then show ?thesis
    using inv_page_item_id_confusion [where d = confusion_db and i = 1 and q = 5 and resp = None and now = 0
        and p = "\<lparr>ip_item = ''1'', ip_quantity = ''5'', ip_list = JArr []\<rparr>"
        and row = "\<lparr>inventoryid = 1, inv_quantity = 10, menuitemid = 2, timestamp = 0, restockdate = 0, lastupdated = 0\<rparr>"]
      h r by simp
qed

end
