(* ===== verification/EmployeePage.thy ===== *)
theory EmployeePage
  imports Staff Router
begin

text \<open>
  The employee administration page, \<^verbatim>\<open>src/frontend/src/components/Employee.js\<close>,
  composed with the route table and the employee handlers of \<open>Staff\<close>. The page has no
  guard: it sends its four inputs as they are, the id as the last segment of the URL
  \<open>/api/employees/${id}\<close>. Failures only reach \<open>console.error\<close>, so they show no alert.
  Ids are taken to hold no \<open>?\<close>, \<open>#\<close> or \<open>%\<close>, which the URL would read otherwise.
\<close>

record emp_page =
  ep_id :: string
  ep_name :: string
  ep_password :: string
  ep_role :: string
  ep_list :: json

definition emp_page_init :: emp_page where
  "emp_page_init = \<lparr>ep_id = [], ep_name = [], ep_password = [], ep_role = [], ep_list = JArr []\<rparr>"

text \<open>A URL path split at its slashes, without the leading empty segment.\<close>

fun split_on :: "char \<Rightarrow> string \<Rightarrow> string list" where
  "split_on c [] = [[]]"
| "split_on c (x # xs) = (let r = split_on c xs in if x = c then [] # r else (x # hd r) # tl r)"

definition url_path :: "string \<Rightarrow> string list" where
  "url_path u = tl (split_on CHR ''/'' u)"

definition emp_request :: "http_method \<Rightarrow> string \<Rightarrow> request" where
  "emp_request m idt = \<lparr>req_method = m, req_path = url_path (''/api/employees/'' @ idt)\<rparr>"

text \<open>\<open>req.params.id\<close>: the third segment of the matched path.\<close>

definition emp_param :: "request \<Rightarrow> string" where
  "emp_param r = norm_path (req_path r) ! 2"

text \<open>\<open>viewEmployees\<close>: a failed request leaves the list as it is.\<close>

definition emp_view :: "json option \<Rightarrow> emp_page \<Rightarrow> emp_page" where
  "emp_view resp p = (case resp of None \<Rightarrow> p | Some v \<Rightarrow> p\<lparr>ep_list := v\<rparr>)"

definition emp_success :: "string \<Rightarrow> json option \<Rightarrow> emp_page \<Rightarrow> nat \<Rightarrow> string list \<times> emp_page" where
  "emp_success msg resp p st = (if 200 \<le> st \<and> st < 300 then ([msg], emp_view resp p) else ([], p))"

text \<open>
  The three buttons. \<open>POST /api/employees\<close> always reaches \<open>Staff.add_employee\<close>; the
  \<open>PUT\<close> and \<open>DELETE\<close> reach their handler only when the route table matches the URL,
  and are a 404 otherwise. \<open>cors()\<close> and the static files play no part for these
  methods, so the build directory is empty here.
\<close>

definition emp_page_add :: "json option \<Rightarrow> emp_page \<Rightarrow> staff_db \<Rightarrow> string list \<times> emp_page \<times> staff_db" where
  "emp_page_add resp p d =
     (case add_employee (Some (ep_name p)) (Some (ep_password p)) (Some (ep_role p)) d of
        ((st, _), d') \<Rightarrow> (case emp_success ''Employee added successfully!'' resp p st of (al, p') \<Rightarrow> (al, p', d')))"

definition emp_page_update :: "json option \<Rightarrow> emp_page \<Rightarrow> staff_db \<Rightarrow> string list \<times> emp_page \<times> staff_db" where
  "emp_page_update resp p d =
     (let r = emp_request PUT (ep_id p) in
      if dispatch [] server_layers r = Some PutEmployee then
        (case update_employee (emp_param r) (Some (ep_name p)) (Some (ep_password p)) (Some (ep_role p)) d of
           ((st, _), d') \<Rightarrow> (case emp_success ''Employee updated successfully!'' resp p st of (al, p') \<Rightarrow> (al, p', d')))
      else ([], p, d))"

definition emp_page_delete :: "json option \<Rightarrow> emp_page \<Rightarrow> staff_db \<Rightarrow> string list \<times> emp_page \<times> staff_db" where
  "emp_page_delete resp p d =
     (let r = emp_request DELETE (ep_id p) in
      if dispatch [] server_layers r = Some DeleteEmployee then
        (case delete_employee (emp_param r) d of
           ((st, _), d') \<Rightarrow> (case emp_success ''Employee deleted successfully!'' resp p st of (al, p') \<Rightarrow> (al, p', d')))
      else ([], p, d))"

text \<open>
  The table calls \<open>employeeList.map\<close> before it tests the length, so only an array
  renders.
\<close>

definition emp_list_renders :: "json \<Rightarrow> bool" where
  "emp_list_renders v = (case v of JArr _ \<Rightarrow> True | _ \<Rightarrow> False)"

text \<open>What \<open>viewEmployees\<close> receives from the deployed server.\<close>

definition deployed_employees :: "string list list \<Rightarrow> string \<Rightarrow> staff_db \<Rightarrow> json option" where
  "deployed_employees files html d =
     (case dispatch files server_layers \<lparr>req_method = GET, req_path = [''api'', ''employees'']\<rparr> of
        Some GetEmployees \<Rightarrow> Some (snd (get_employees d))
      | Some SpaIndex \<Rightarrow> Some (JPrim (JStr html))
      | Some ServeStatic \<Rightarrow> Some (JPrim (JStr html))
      | _ \<Rightarrow> None)"

section \<open>Lemmas\<close>

lemma req_method_emp_request [simp]: "req_method (emp_request m idt) = m"
  by (simp add: emp_request_def)

lemma split_on_no_sep: "c \<notin> set s \<Longrightarrow> split_on c s = [s]"
  by (induction s) (auto simp: Let_def)

lemma emp_request_path:
  "CHR ''/'' \<notin> set idt \<Longrightarrow> req_path (emp_request m idt) = [''api'', ''employees'', idt]"
  by (simp add: emp_request_def url_path_def split_on_no_sep Let_def)

lemma emp_request_blank: "req_path (emp_request m []) = [''api'', ''employees'', []]"
  by (simp add: emp_request_def url_path_def)

lemmas emp_route_simps = server_layers_effective effective_layers_def method_match_def api_def
  first_route_def norm_path_def seg_eq_def js_lower_def

text \<open>An id without a slash reaches the handler with that id \<dots>\<close>

lemma emp_dispatch:
  assumes "CHR ''/'' \<notin> set idt" "idt \<noteq> []"
  shows "dispatch files server_layers (emp_request PUT idt) = Some PutEmployee \<and>
         dispatch files server_layers (emp_request DELETE idt) = Some DeleteEmployee \<and>
         emp_param (emp_request m idt) = idt"
  using assms by (simp add: emp_request_path emp_param_def emp_route_simps)

text \<open>\<dots> and an empty id makes the URL \<open>/api/employees/\<close>, which no \<open>PUT\<close> or \<open>DELETE\<close> route matches.\<close>

lemma emp_dispatch_blank:
  "dispatch files server_layers (emp_request PUT []) = None \<and> dispatch files server_layers (emp_request DELETE []) = None"
  by (simp add: emp_request_blank emp_route_simps)

lemma emp_page_blank_id:
  "ep_id p = [] \<Longrightarrow> emp_page_update resp p d = ([], p, d) \<and> emp_page_delete resp p d = ([], p, d)"
  using emp_dispatch_blank [of "[]"]
  by (simp add: emp_page_update_def emp_page_delete_def Let_def)

lemma emp_page_update_rows:
  assumes "CHR ''/'' \<notin> set (ep_id p)" "ep_id p \<noteq> []" "parse_int (ep_id p) = Some i" "in_int4 i"
  shows "employees (snd (snd (emp_page_update resp p d))) =
           map (\<lambda>e. if employeeid e = i then e\<lparr>employeename := ep_name p, employeepassword := ep_password p,
                                               employeetype := ep_role p\<rparr> else e) (employees d)"
proof -
  have "dispatch [] server_layers (emp_request PUT (ep_id p)) = Some PutEmployee"
       "emp_param (emp_request PUT (ep_id p)) = ep_id p"
    using emp_dispatch [OF assms(1,2)] by simp_all
  then show ?thesis
    using assms(3,4)
    by (auto simp: emp_page_update_def update_employee_def Let_def split: prod.split
             intro!: map_idI [symmetric])
qed

lemma emp_page_delete_rows:
  assumes "CHR ''/'' \<notin> set (ep_id p)" "ep_id p \<noteq> []" "parse_int (ep_id p) = Some i" "in_int4 i"
  shows "employees (snd (snd (emp_page_delete resp p d))) = filter (\<lambda>e. employeeid e \<noteq> i) (employees d)"
proof -
  have "dispatch [] server_layers (emp_request DELETE (ep_id p)) = Some DeleteEmployee"
       "emp_param (emp_request DELETE (ep_id p)) = ep_id p"
    using emp_dispatch [OF assms(1,2)] by simp_all
  then show ?thesis
    using assms(3,4) by (simp add: emp_page_delete_def delete_employee_def Let_def split: prod.split)
qed

text \<open>No field is checked: with every input empty, the page adds an employee with an empty
  name, password and type.\<close>

lemma emp_page_add_blank:
  assumes "nextval (employee_id_seq d) = Inr (i, s)" "i \<notin> employeeid ` set (employees d)"
  shows "emp_page_add resp emp_page_init d =
           ([''Employee added successfully!''], emp_view resp emp_page_init,
            \<lparr>employees = employees d @ [\<lparr>employeeid = i, employeename = [], employeepassword = [], employeetype = []\<rparr>],
             employee_id_seq = s\<rparr>)"
  using assms by (simp add: emp_page_add_def add_employee_def emp_page_init_def emp_success_def)

lemma emp_page_wf:
  "staff_wf d \<Longrightarrow> staff_wf (snd (snd (emp_page_add resp p d))) \<and> staff_wf (snd (snd (emp_page_update resp p d))) \<and>
     staff_wf (snd (snd (emp_page_delete resp p d)))"
  using add_employee_wf [of d] update_employee_wf [of d] delete_employee_wf [of d]
  using add_employee_wf [of d] update_employee_wf [of d] delete_employee_wf [of d]
  by (auto simp: emp_page_add_def emp_page_update_def emp_page_delete_def Let_def split: prod.split)
     (metis snd_conv)+

lemma deployed_employees_unrendered:
  "[''api'', ''employees''] \<notin> set files \<Longrightarrow> \<not> emp_list_renders (ep_list (emp_view (deployed_employees files html d) p))"
  using dispatch_get [of "\<lparr>req_method = GET, req_path = [''api'', ''employees'']\<rparr>" files]
  by (simp add: deployed_employees_def emp_view_def emp_list_renders_def)

end
