(* ===== verification/XReportPage.thy ===== *)
theory XReportPage
  imports ZReportPage
begin

text \<open>
  The X report page, \<^verbatim>\<open>src/frontend/src/components/XReport.js\<close>, and the answer of
  \<open>GET /api/xreport\<close> (\<^verbatim>\<open>server.js\<close> lines 537 to 574, \<open>Reports.x_report\<close>) as the page
  receives it. The hours come from two \<open>select\<close> elements with the options 0 to 23 and are
  read back with \<open>parseInt\<close>; \<open>axios\<close> sends them as the query text of the numbers. The
  page has no guard of its own. As in \<open>ZReportPage\<close>, the server's answer is the parameter
  \<open>get\<close> of the page; a thrown \<open>TypeError\<close> during a render is \<open>None\<close>.
\<close>

section \<open>The server's answer\<close>

text \<open>
  A row of \<open>res.json(result.rows)\<close>: \<^verbatim>\<open>node-postgres\<close> delivers \<open>EXTRACT\<close>, \<open>numeric\<close>
  sums and \<open>bigint\<close> counts and sums as strings, \<open>STRING_AGG\<close> as a string or \<open>null\<close>.
\<close>

definition x_row_json :: "x_row \<Rightarrow> json" where
  "x_row_json r =
     JObj [(''hour'', JPrim (JStr (int_text (x_hour r)))),
           (''total_transactions'', JPrim (JStr (nat_text (x_total_transactions r)))),
           (''sales_revenue'', JPrim (JStr (numeric_text (x_sales_revenue r)))),
           (''total_sales'', JPrim (JStr (numeric_text (x_total_sales r)))),
           (''total_returns'', JPrim (JStr (numeric_text (x_total_returns r)))),
           (''drink_sales'', JPrim (JStr (int_text (x_drink_sales r)))),
           (''voids'', JPrim (JStr (numeric_text (x_voids r)))),
           (''discards'', JPrim (JStr (numeric_text (x_discards r)))),
           (''payment_methods'', text_or_null (x_payment_methods r))]"

definition xreport_http :: "day \<Rightarrow> report_db \<Rightarrow> string option \<Rightarrow> string option \<Rightarrow> http_response" where
  "xreport_http today db sh eh =
     (case x_report today sh eh db of
        ReportRows rs \<Rightarrow> (200, JArr (map x_row_json rs))
      | ReportBadRequest \<Rightarrow> (400, JPrim (JStr ''Invalid hours provided.''))
      | ReportFailed \<Rightarrow> (500, JPrim (JStr ''Failed to fetch report data'')))"

definition deployed_xreport ::
  "string list list \<Rightarrow> string \<Rightarrow> day \<Rightarrow> report_db \<Rightarrow> string option \<Rightarrow> string option \<Rightarrow> http_response" where
  "deployed_xreport files html today db sh eh =
     (case dispatch files server_layers \<lparr>req_method = GET, req_path = [''api'', ''xreport'']\<rparr> of
        Some GetXReport \<Rightarrow> xreport_http today db sh eh
      | Some SpaIndex \<Rightarrow> (200, JPrim (JStr html))
      | Some ServeStatic \<Rightarrow> (200, JPrim (JStr html))
      | _ \<Rightarrow> (404, JPrim (JStr ''Cannot GET /api/xreport'')))"

section \<open>The page\<close>

record xpage =
  xp_start :: jsnum  \<comment> \<open>\<open>startHour\<close>\<close>
  xp_end :: jsnum    \<comment> \<open>\<open>endHour\<close>\<close>
  xp_data :: json    \<comment> \<open>\<open>reportData\<close>\<close>

definition xpage_init :: xpage where
  "xpage_init = \<lparr>xp_start = Num 0, xp_end = Num 23, xp_data = JArr []\<rparr>"

text \<open>\<open>setStartHour(parseInt(e.target.value))\<close> for the option \<open>k\<close>, whose value is the text of \<open>k\<close>.\<close>

definition hour_option :: "nat \<Rightarrow> jsnum" where
  "hour_option k = parse_int_number (nat_text k)"

text \<open>\<open>handleGenerateReport\<close>: a response outside 2xx or a failed request is caught with an alert.\<close>

definition xpage_fetch ::
  "(string option \<Rightarrow> string option \<Rightarrow> http_response option) \<Rightarrow> xpage \<Rightarrow> xpage \<times> string list" where
  "xpage_fetch get p =
     (case get (Some (js_num_string (xp_start p))) (Some (js_num_string (xp_end p))) of
        Some (st, data) \<Rightarrow> if 200 \<le> st \<and> st < 300 then (p\<lparr>xp_data := data\<rparr>, []) else (p, [''Failed to fetch report data.''])
      | None \<Rightarrow> (p, [''Failed to fetch report data.'']))"

datatype xevent = XSetStart nat | XSetEnd nat | XGenerate

fun xpage_step ::
  "(string option \<Rightarrow> string option \<Rightarrow> http_response option) \<Rightarrow> xpage \<Rightarrow> xevent \<Rightarrow> xpage \<times> string list" where
  "xpage_step get p (XSetStart k) = (p\<lparr>xp_start := hour_option k\<rparr>, [])"
| "xpage_step get p (XSetEnd k) = (p\<lparr>xp_end := hour_option k\<rparr>, [])"
| "xpage_step get p XGenerate = xpage_fetch get p"

text \<open>
  The cells of one table row: a value as React prints it, an amount as
  \<open>Number(v).toFixed(2)\<close>, the payment methods as \<open>v || "N/A"\<close>; reading a member of
  \<open>null\<close> or \<open>undefined\<close> throws.
\<close>

definition x_cells :: "json \<Rightarrow> string list option" where
  "x_cells row =
     (case get_prop row ''hour'' of
        None \<Rightarrow> None
      | Some h \<Rightarrow>
          let p = (\<lambda>k. case get_prop row k of Some v \<Rightarrow> v | None \<Rightarrow> JPrim JUndef);
              money = (\<lambda>k. to_fixed 2 (json_number (p k)))
          in Some [join_elem h, join_elem (p ''total_transactions''), money ''sales_revenue'', money ''total_sales'',
                   money ''total_returns'', join_elem (p ''drink_sales''), money ''voids'', money ''discards'',
                   if json_truthy (p ''payment_methods'') then join_elem (p ''payment_methods'') else ''N/A''])"

text \<open>
  \<open>reportData.length > 0 && reportData.map(...)\<close>: the rows the table shows. A non-empty
  string has a length but no \<open>map\<close>; \<open>null\<close> and \<open>undefined\<close> have no \<open>length\<close>.
\<close>

definition x_table :: "json \<Rightarrow> string list list option" where
  "x_table v =
     (case v of
        JArr xs \<Rightarrow> those (map x_cells xs)
      | JPrim (JStr s) \<Rightarrow> if s = [] then Some [] else None
      | JPrim JNull \<Rightarrow> None
      | JPrim JUndef \<Rightarrow> None
      | JPrim _ \<Rightarrow> Some []
      | JObj _ \<Rightarrow> (case get_prop v ''length'' of
                    Some l \<Rightarrow> if js_less (Num 0) (json_number l) then None else Some []
                  | None \<Rightarrow> None))"

text \<open>The shape of a row the table reads.\<close>

definition x_row_type :: jtype where
  "x_row_type =
     TObj [(''hour'', TStr), (''total_transactions'', TStr), (''sales_revenue'', TStr), (''total_sales'', TStr),
           (''total_returns'', TStr), (''drink_sales'', TStr), (''voids'', TStr), (''discards'', TStr),
           (''payment_methods'', TOr TStr TNull)]"

section \<open>Lemmas\<close>

lemma js_string_to_number_nat_text: "js_string_to_number (nat_text n) = Num (of_nat n)"
  using js_string_to_number_plain [of "nat_text n" "[]" False]
  by (simp add: nat_text_digits nat_text_ne digits_acc_nat_text)

lemma hour_option_nat: "hour_option k = Num (of_nat k)"
  by (simp add: hour_option_def parse_int_number_def js_parse_int_nat_text)

lemma x_row_json_typed: "has_type x_row_type (x_row_json r)"
  by (simp add: x_row_type_def x_row_json_def text_or_null_def split: option.split)

lemma xreport_typed: "xreport_http today db sh eh = (200, v) \<Longrightarrow> has_type (TArr x_row_type) v"
  by (auto simp: xreport_http_def list_all_iff x_row_json_typed split: report_reply.splits)

lemma x_cells_obj: "x_cells (JObj kvs) \<noteq> None"
  by (simp add: x_cells_def)

lemma x_table_typed: "has_type (TArr x_row_type) v \<Longrightarrow> x_table v \<noteq> None"
proof -
  assume "has_type (TArr x_row_type) v"
  then obtain xs where xs: "v = JArr xs" "list_all (has_type x_row_type) xs" by (cases v) simp_all
  have "\<exists>c. x_cells x = Some c" if "x \<in> set xs" for x
    using xs(2) that has_type_obj [of _ x] x_cells_obj by (fastforce simp: list_all_iff x_row_type_def)
  then have "those (map x_cells xs) = Some (map (\<lambda>x. the (x_cells x)) xs)"
    by (intro those_map_Some) auto
  then show ?thesis by (simp add: x_table_def xs(1))
qed

lemma deployed_xreport_index:
  "[''api'', ''xreport''] \<notin> set files \<Longrightarrow> deployed_xreport files html today db sh eh = (200, JPrim (JStr html))"
  using dispatch_get [of "\<lparr>req_method = GET, req_path = [''api'', ''xreport'']\<rparr>" files]
  by (simp add: deployed_xreport_def)

lemma hour_query: "js_num_string (hour_option k) = nat_text k \<and> js_is_nan (Some (nat_text k)) = False \<and>
    bind_numeric (Some (nat_text k)) = Some (PVal (of_nat k))" if "k < 24"
proof -
  have "\<bar>int k\<bar> < 10 ^ 21" using that by simp
  then have "js_num_string (Num (of_int (int k))) = int_text (int k)" by (rule js_num_string_int)
  moreover have "int_text (int k) = nat_text k" by (simp add: int_text_def)
  moreover have "pg_numeric_in (int_text (int k)) = Some (PVal (of_int (int k)))" by (rule pg_numeric_in_int_text)
  ultimately show ?thesis
    by (simp add: hour_option_nat js_is_nan_def js_numeric_string_number js_string_to_number_nat_text bind_numeric_def)
qed

text \<open>Two hours chosen from the options, then \<open>Generate Report\<close>: the page holds the X report's rows.\<close>

lemma xpage_generate:
  assumes "k < 24" "k' < 24"
  shows "xpage_fetch (\<lambda>sh eh. Some (xreport_http today db sh eh)) (p\<lparr>xp_start := hour_option k, xp_end := hour_option k'\<rparr>) =
           (p\<lparr>xp_start := hour_option k, xp_end := hour_option k',
              xp_data := JArr (map x_row_json (x_rows today (PVal (of_nat k)) (PVal (of_nat k')) db))\<rparr>, [])"
  using hour_query [OF assms(1)] hour_query [OF assms(2)]
  by (simp add: xpage_fetch_def xreport_http_def x_report_def)

text \<open>As deployed, the answer is \<^verbatim>\<open>index.html\<close>: the page stores it and its next render throws.\<close>

lemma deployed_xpage_unrendered:
  assumes "[''api'', ''xreport''] \<notin> set files" "html \<noteq> []"
  shows "x_table (xp_data (fst (xpage_fetch (\<lambda>sh eh. Some (deployed_xreport files html today db sh eh)) p))) = None"
  using assms by (simp add: xpage_fetch_def deployed_xreport_index x_table_def)

end
