(* ===== verification/TrendsPages.thy ===== *)
theory TrendsPages
  imports Trends ZReportPage
begin

text \<open>
  The two chart pages and the answers they read: \<^verbatim>\<open>src/frontend/src/components/Trends.js\<close>
  with \<open>GET /api/trends\<close> (\<open>Trends.trends\<close>), and
  \<^verbatim>\<open>src/frontend/src/components/ProductUsage.js\<close> with \<open>GET /api/productusage\<close>
  (\<open>Trends.product_usage\<close>). Each page keeps the chart's data and labels as the values it
  read. Its \<open>useEffect\<close> reloads when a watched state changes, and a \<open>select\<close> fires only on
  another option, so choosing a trend or a range reloads exactly when the value changes.
  \<^verbatim>\<open>node-postgres\<close> reads a \<open>timestamp\<close> into a \<open>Date\<close>, which JSON writes as its ISO
  text: the parameter \<open>isotext\<close>.
\<close>

section \<open>The server's answers\<close>

text \<open>The rows of the four trend queries, with the column aliases of the query texts.\<close>

fun trend_json :: "(instant \<Rightarrow> string) \<Rightarrow> trend_row \<Rightarrow> json" where
  "trend_json isotext (SalesPoint t a) = JObj [(''date'', JPrim (JStr (isotext t))), (''total_amount'', JPrim (JStr (numeric_text a)))]"
| "trend_json isotext (CountPoint t n) = JObj [(''date'', JPrim (JStr (isotext t))), (''order_count'', JPrim (JStr (nat_text n)))]"
| "trend_json isotext (UsagePoint t q) = JObj [(''usage_date'', JPrim (JStr (isotext t))), (''used_quantity'', JPrim (JStr (int_text q)))]"

definition trends_http ::
  "(instant \<Rightarrow> string) \<Rightarrow> day \<Rightarrow> sale list \<Rightarrow> inv_row list \<Rightarrow> string option \<Rightarrow> string option \<Rightarrow> http_response" where
  "trends_http isotext today ss invs tt tr =
     (case trends today tt tr ss invs of
        ReportRows rs \<Rightarrow> (200, JArr (map (trend_json isotext) rs))
      | ReportBadRequest \<Rightarrow> (400, JObj [(''error'', JPrim (JStr ''Invalid trend type''))])
      | ReportFailed \<Rightarrow> (500, JObj [(''error'', JPrim (JStr ''Failed to fetch trend data''))]))"

text \<open>\<open>trendData\<close>: each row renamed to \<open>{ itemName, totalUsed }\<close>; the sum is a \<open>bigint\<close> string.\<close>

definition usage_json :: "usage_row \<Rightarrow> json" where
  "usage_json r = JObj [(''itemName'', JPrim (JStr (item_name r))), (''totalUsed'', JPrim (JStr (int_text (total_used r))))]"

definition usage_http ::
  "day \<Rightarrow> inv_row list \<Rightarrow> menu_item list \<Rightarrow> string option \<Rightarrow> date_param \<Rightarrow> date_param \<Rightarrow> http_response" where
  "usage_http today invs ms tr sd ed =
     (case product_usage today tr sd ed invs ms of
        ReportRows rs \<Rightarrow> (200, JArr (map usage_json rs))
      | _ \<Rightarrow> (500, JObj [(''error'', JPrim (JStr ''Failed to fetch product usage data''))]))"

section \<open>Reading an answer into a chart\<close>

text \<open>\<open>a || b\<close>\<close>

definition js_or :: "json \<Rightarrow> json \<Rightarrow> json" where
  "js_or a b = (if json_truthy a then a else b)"

text \<open>
  \<open>response.data.map(f)\<close> for two functions \<open>f\<close> and \<open>g\<close>: \<open>None\<close> when it throws (the data is
  not an array, or a row is \<open>null\<close> or \<open>undefined\<close>).
\<close>

definition chart_of :: "(json \<Rightarrow> json option) \<Rightarrow> (json \<Rightarrow> json option) \<Rightarrow> json \<Rightarrow> (json list \<times> json list) option" where
  "chart_of f g data =
     (case data of
        JArr xs \<Rightarrow> (case (those (map f xs), those (map g xs)) of (Some a, Some b) \<Rightarrow> Some (a, b) | _ \<Rightarrow> None)
      | _ \<Rightarrow> None)"

definition trend_value :: "json \<Rightarrow> json option" where
  "trend_value x =
     (case (get_prop x ''total_amount'', get_prop x ''order_count'', get_prop x ''used_quantity'') of
        (Some a, Some b, Some c) \<Rightarrow> Some (js_or a (js_or b c))
      | _ \<Rightarrow> None)"

definition trend_label :: "json \<Rightarrow> json option" where
  "trend_label x =
     (case (get_prop x ''date'', get_prop x ''usage_date'') of (Some a, Some b) \<Rightarrow> Some (js_or a b) | _ \<Rightarrow> None)"

text \<open>The value the chart plots for a row of a trend answer.\<close>

definition trend_point :: "trend_row \<Rightarrow> json" where
  "trend_point r =
     (case r of SalesPoint _ a \<Rightarrow> JPrim (JStr (numeric_text a)) | CountPoint _ n \<Rightarrow> JPrim (JStr (nat_text n))
      | UsagePoint _ q \<Rightarrow> JPrim (JStr (int_text q)))"

section \<open>The trends page\<close>

record tpage =
  tp_data :: "json list"    \<comment> \<open>\<open>salesData\<close>\<close>
  tp_labels :: "json list"  \<comment> \<open>\<open>dateLabels\<close>\<close>
  tp_trend :: string        \<comment> \<open>\<open>currentTrend\<close>\<close>
  tp_range :: string        \<comment> \<open>\<open>timeRange\<close>\<close>

definition tpage_init :: tpage where
  "tpage_init = \<lparr>tp_data = [], tp_labels = [], tp_trend = ''Daily Sales'', tp_range = ''Last 7 Days''\<rparr>"

text \<open>\<open>loadTrendData\<close>: a response outside 2xx, a failed request or a throwing \<open>map\<close> is caught.\<close>

definition tpage_load ::
  "(string option \<Rightarrow> string option \<Rightarrow> http_response option) \<Rightarrow> tpage \<Rightarrow> tpage \<times> string list" where
  "tpage_load get p =
     (case get (Some (tp_trend p)) (Some (tp_range p)) of
        Some (st, data) \<Rightarrow>
          if 200 \<le> st \<and> st < 300 then
            (case chart_of trend_value trend_label data of
               Some (a, b) \<Rightarrow> (p\<lparr>tp_data := a, tp_labels := b\<rparr>, [])
             | None \<Rightarrow> (p, [''Failed to fetch trend data.'']))
          else (p, [''Failed to fetch trend data.''])
      | None \<Rightarrow> (p, [''Failed to fetch trend data.'']))"

datatype tevent = TrendButton string | RangeSelect string

fun tpage_step ::
  "(string option \<Rightarrow> string option \<Rightarrow> http_response option) \<Rightarrow> tpage \<Rightarrow> tevent \<Rightarrow> tpage \<times> string list" where
  "tpage_step get p (TrendButton t) = (if t = tp_trend p then (p, []) else tpage_load get (p\<lparr>tp_trend := t\<rparr>))"
| "tpage_step get p (RangeSelect r) = (if r = tp_range p then (p, []) else tpage_load get (p\<lparr>tp_range := r\<rparr>))"

section \<open>The product usage page\<close>

record upage =
  up_data :: "json list"      \<comment> \<open>\<open>salesData\<close>\<close>
  up_labels :: "json list"    \<comment> \<open>\<open>dateLabels\<close>\<close>
  up_start :: date_param
  up_end :: date_param
  up_range :: string

definition upage_init :: upage where
  "upage_init = \<lparr>up_data = [], up_labels = [], up_start = DEmpty, up_end = DEmpty, up_range = ''Last 7 Days''\<rparr>"

definition upage_load ::
  "(string option \<Rightarrow> date_param \<Rightarrow> date_param \<Rightarrow> http_response option) \<Rightarrow> upage \<Rightarrow> upage \<times> string list" where
  "upage_load get p =
     (case get (Some (up_range p)) (up_start p) (up_end p) of
        Some (st, data) \<Rightarrow>
          if 200 \<le> st \<and> st < 300 then
            (case chart_of (\<lambda>x. get_prop x ''totalUsed'') (\<lambda>x. get_prop x ''itemName'') data of
               Some (a, b) \<Rightarrow> (p\<lparr>up_data := a, up_labels := b\<rparr>, [])
             | None \<Rightarrow> (p, [''Failed to fetch trend data.'']))
          else (p, [''Failed to fetch trend data.''])
      | None \<Rightarrow> (p, [''Failed to fetch trend data.'']))"

text \<open>What the two pages receive from the deployed server.\<close>

definition deployed_get :: "string list list \<Rightarrow> string \<Rightarrow> string list \<Rightarrow> endpoint \<Rightarrow> http_response \<Rightarrow> http_response" where
  "deployed_get files html path e answer =
     (case dispatch files server_layers \<lparr>req_method = GET, req_path = path\<rparr> of
        Some e' \<Rightarrow> if e' = e then answer else if e' = SpaIndex \<or> e' = ServeStatic then (200, JPrim (JStr html))
                   else (404, JPrim (JStr []))
      | None \<Rightarrow> (404, JPrim (JStr [])))"

datatype uevent = UsageRange string | UsageStart date_param | UsageEnd date_param | UsageApply

text \<open>
  \<open>handleTimeRangeChange\<close> clears both dates; the effect then loads unless the range is
  \<open>Custom Range\<close>. \<open>handleCustomDateRange\<close> loads only when both dates are set.
\<close>

fun upage_step ::
  "(string option \<Rightarrow> date_param \<Rightarrow> date_param \<Rightarrow> http_response option) \<Rightarrow> upage \<Rightarrow> uevent \<Rightarrow> upage \<times> string list" where
  "upage_step get p (UsageRange r) =
     (if r = up_range p then (p, [])
      else let p' = p\<lparr>up_range := r, up_start := DEmpty, up_end := DEmpty\<rparr> in
           if r = ''Custom Range'' then (p', []) else upage_load get p')"
| "upage_step get p (UsageStart d) = (p\<lparr>up_start := d\<rparr>, [])"
| "upage_step get p (UsageEnd d) = (p\<lparr>up_end := d\<rparr>, [])"
| "upage_step get p UsageApply =
     (if date_truthy (up_start p) \<and> date_truthy (up_end p) then upage_load get p
      else (p, [''Please select a valid custom date range.'']))"

section \<open>Lemmas\<close>

lemma printed_numbers_ne [simp]: "nat_text n \<noteq> []" "int_text i \<noteq> []" "numeric_text q \<noteq> []"
  using nat_text_ne by (simp_all add: int_text_def numeric_text_def fixed_digits_def Let_def)

lemma trend_chart:
  assumes "\<forall>t. isotext t \<noteq> []"
  shows "chart_of trend_value trend_label (JArr (map (trend_json isotext) rs)) =
           Some (map trend_point rs, map (\<lambda>r. JPrim (JStr (isotext (trend_time r)))) rs)"
proof -
  have v: "trend_value (trend_json isotext r) = Some (trend_point r)" for r
    by (cases r) (simp_all add: trend_value_def trend_point_def js_or_def)
  have l: "trend_label (trend_json isotext r) = Some (JPrim (JStr (isotext (trend_time r))))" for r
    using assms by (cases r) (simp_all add: trend_label_def js_or_def)
  show ?thesis
    by (simp add: chart_of_def comp_def v l those_map_Some)
qed

text \<open>A reload of the trends page against the modelled server plots the series the query returns.\<close>

lemma tpage_load_rows:
  assumes "\<forall>t. isotext t \<noteq> []" "trends today (Some (tp_trend p)) (Some (tp_range p)) ss invs = ReportRows rs"
  shows "tpage_load (\<lambda>tt tr. Some (trends_http isotext today ss invs tt tr)) p =
           (p\<lparr>tp_data := map trend_point rs, tp_labels := map (\<lambda>r. JPrim (JStr (isotext (trend_time r)))) rs\<rparr>, [])"
  using assms by (simp add: tpage_load_def trends_http_def trend_chart)

lemma tpage_load_fails:
  assumes "\<forall>rs. trends today (Some (tp_trend p)) (Some (tp_range p)) ss invs \<noteq> ReportRows rs"
  shows "tpage_load (\<lambda>tt tr. Some (trends_http isotext today ss invs tt tr)) p = (p, [''Failed to fetch trend data.''])"
  using assms by (simp add: tpage_load_def trends_http_def split: report_reply.split)

lemma usage_chart:
  "chart_of (\<lambda>x. get_prop x ''totalUsed'') (\<lambda>x. get_prop x ''itemName'') (JArr (map usage_json rs)) =
     Some (map (\<lambda>r. JPrim (JStr (int_text (total_used r)))) rs, map (\<lambda>r. JPrim (JStr (item_name r))) rs)"
  by (simp add: chart_of_def usage_json_def comp_def those_map_Some)

text \<open>\<open>Custom Range\<close> with both dates set, then \<open>Apply\<close>: the chart shows the usage between them.\<close>

lemma upage_custom_apply:
  assumes "up_range p = ''Custom Range''" "up_start p = DDay a" "up_end p = DDay b"
  shows "upage_step (\<lambda>tr sd ed. Some (usage_http today invs ms tr sd ed)) p UsageApply =
           (p\<lparr>up_data := map (\<lambda>r. JPrim (JStr (int_text (total_used r)))) (usage_rows (Some a) (Some b) invs ms),
              up_labels := map (\<lambda>r. JPrim (JStr (item_name r))) (usage_rows (Some a) (Some b) invs ms)\<rparr>, [])"
  using assms
  by (simp add: upage_load_def usage_http_def product_usage_def usage_range_def usage_chart)

text \<open>Choosing \<open>Custom Range\<close> clears both dates and loads nothing; \<open>Apply\<close> then only alerts.\<close>

lemma upage_custom_cleared:
  assumes "up_range p \<noteq> ''Custom Range''"
  shows "upage_step get p (UsageRange ''Custom Range'') =
           (p\<lparr>up_range := ''Custom Range'', up_start := DEmpty, up_end := DEmpty\<rparr>, []) \<and>
         upage_step get (p\<lparr>up_range := ''Custom Range'', up_start := DEmpty, up_end := DEmpty\<rparr>) UsageApply =
           (p\<lparr>up_range := ''Custom Range'', up_start := DEmpty, up_end := DEmpty\<rparr>, [''Please select a valid custom date range.''])"
  using assms by (simp add: Let_def)

text \<open>As deployed, both pages receive \<^verbatim>\<open>index.html\<close>: every load alerts and the chart keeps its data.\<close>

lemma deployed_charts_fail:
  assumes "[''api'', ''trends''] \<notin> set files" "[''api'', ''productusage''] \<notin> set files"
  shows "tpage_load (\<lambda>tt tr. Some (deployed_get files html [''api'', ''trends''] GetTrends (trends_http isotext today ss invs tt tr))) p =
           (p, [''Failed to fetch trend data.'']) \<and>
         upage_load (\<lambda>tr sd ed. Some (deployed_get files html [''api'', ''productusage''] GetProductUsage (usage_http today invs ms tr sd ed))) q =
           (q, [''Failed to fetch trend data.''])"
  using assms dispatch_get [of "\<lparr>req_method = GET, req_path = [''api'', ''trends'']\<rparr>" files]
    dispatch_get [of "\<lparr>req_method = GET, req_path = [''api'', ''productusage'']\<rparr>" files]
  by (simp add: tpage_load_def upage_load_def deployed_get_def chart_of_def)

end
