(* ===== verification/SelectionPage.thy ===== *)
theory SelectionPage
  imports MenuAdmin OrderFlow History
begin

text \<open>
  The category page, \<^verbatim>\<open>src/frontend/src/components/MenuItemSelectionPage.js\<close> (route
  \<open>/menu-category/:category\<close>), and how its cart meets the cart page of \<open>OrderFlow\<close>. The
  page loads \<open>GET /api/menu\<close>, keeps the items whose name contains the category, and
  adds an item with three \<open>prompt\<close> answers (\<open>None\<close>: cancelled). It keeps its own cart,
  empty on every mount, and writes it to \<open>localStorage\<close> as the whole cart.
\<close>

record sel_page =
  sp_items :: "json list"
  sp_cart :: "json list"

definition sel_init :: sel_page where
  "sel_init = \<lparr>sp_items = [], sp_cart = []\<rparr>"

text \<open>
  \<open>item.itemname.toLowerCase().includes(category.toLowerCase())\<close>; \<open>None\<close> when it throws
  (no name, or a name that is not a string).
\<close>

definition name_matches :: "string \<Rightarrow> json \<Rightarrow> bool option" where
  "name_matches category item =
     (case get_prop item ''itemname'' of
        Some (JPrim (JStr n)) \<Rightarrow> Some (js_includes (js_lower n) (js_lower category))
      | _ \<Rightarrow> None)"

text \<open>\<open>fetchItems\<close>: a failed request or a throwing \<open>filter\<close> is caught and leaves the items.\<close>

definition sel_fetch :: "string \<Rightarrow> json option \<Rightarrow> sel_page \<Rightarrow> sel_page" where
  "sel_fetch category resp p =
     (case resp of
        Some (JArr xs) \<Rightarrow>
          (case those (map (name_matches category) xs) of
             Some bs \<Rightarrow> p\<lparr>sp_items := map fst (filter snd (zip xs bs))\<rparr>
           | None \<Rightarrow> p)
      | _ \<Rightarrow> p)"

text \<open>\<open>{ ...item, customization }\<close>: a member already present keeps its place.\<close>

definition obj_set :: "json \<Rightarrow> string \<Rightarrow> json \<Rightarrow> json" where
  "obj_set v k x =
     (case v of
        JObj kvs \<Rightarrow> if k \<in> fst ` set kvs then JObj (map (\<lambda>(k', y). if k' = k then (k', x) else (k', y)) kvs)
                    else JObj (kvs @ [(k, x)])
      | JArr xs \<Rightarrow> JObj (zip (map nat_text [0..<length xs]) xs @ [(k, x)])
      | JPrim (JStr s) \<Rightarrow> JObj (zip (map nat_text [0..<length s]) (map (\<lambda>c. JPrim (JStr [c])) s) @ [(k, x)])
      | JPrim _ \<Rightarrow> JObj [(k, x)])"

text \<open>
  \<open>handleCustomize(item)\<close>: the page, the \<open>localStorage\<close> cart it writes (\<open>None\<close>: not
  written) and the alert.
\<close>

definition sel_customize ::
  "string option \<Rightarrow> string option \<Rightarrow> string option \<Rightarrow> json \<Rightarrow> sel_page \<Rightarrow> sel_page \<times> json list option \<times> string list" where
  "sel_customize sugar ice topping item p =
     (if prompt_falsy sugar \<or> prompt_falsy ice \<or> prompt_falsy topping then (p, None, [])
      else
        let text = ''Sugar: '' @ the sugar @ '' | Ice: '' @ the ice @ '' | Topping: '' @ the topping;
            cart' = sp_cart p @ [obj_set item ''customization'' (JPrim (JStr text))]
        in (p\<lparr>sp_cart := cart'\<rparr>, Some cart',
            [js_to_string (case get_prop item ''itemname'' of Some n \<Rightarrow> n | None \<Rightarrow> JPrim JUndef) @ '' added to cart!'']))"

section \<open>Lemmas\<close>

text \<open>The page writes its own cart: whatever \<open>localStorage\<close> held before is replaced.\<close>

lemma sel_customize_replaces:
  assumes "\<not> prompt_falsy s" "\<not> prompt_falsy i" "\<not> prompt_falsy t"
  shows "fst (snd (sel_customize s i t item sel_init)) =
           Some [obj_set item ''customization'' (JPrim (JStr (''Sugar: '' @ the s @ '' | Ice: '' @ the i @ '' | Topping: '' @ the t)))]"
  using assms by (simp add: sel_customize_def sel_init_def Let_def)

lemma menu_row_json_price: "get_prop (obj_set (menu_row_json r) k x) ''price'' = Some (JPrim JUndef)" if "k \<noteq> ''price''"
  using that by (simp add: obj_set_def menu_row_json_def)

text \<open>
  An item of the menu listing added here has no \<open>price\<close> member: the cart page sends
  \<open>Number(undefined)\<close>, which \<open>JSON.stringify\<close> writes as \<open>null\<close>, and the order handler
  cannot bind it. A cart holding such an item is never paid.
\<close>

lemma cart_order_item_no_price:
  "get_prop it ''price'' = Some (JPrim JUndef) \<Longrightarrow> get_prop it ''itemid'' = Some v \<Longrightarrow>
     map_option item_price (cart_order_item it) = Some JNull"
  by (simp add: cart_order_item_def prop_of_def)

lemma item_line_null_price: "item_price x = JNull \<Longrightarrow> item_line x = None"
  by (simp add: item_line_def split: option.split)

lemma selection_item_never_paid:
  assumes "obj_set (menu_row_json r) ''customization'' c \<in> set cart"
  shows "\<forall>t. snd (snd (cart_submit d name uid cart)) \<noteq> CartPaid t"
proof
  fix t
  let ?it = "obj_set (menu_row_json r) ''customization'' c"
  show "snd (snd (cart_submit d name uid cart)) \<noteq> CartPaid t"
  proof
    assume paid: "snd (snd (cart_submit d name uid cart)) = CartPaid t"
    have nf: "\<not> (prompt_falsy name \<or> prompt_falsy uid \<or> cart = [])"
    proof
      assume "prompt_falsy name \<or> prompt_falsy uid \<or> cart = []"
      then have "cart_submit d name uid cart = (cart, d, CartAlert ''Missing customer name, user ID, or cart is empty.'')"
        unfolding cart_submit_def by (simp only: if_True)
      with paid show False by simp
    qed
    obtain its where its: "those (map cart_order_item cart) = Some its"
    proof (cases "those (map cart_order_item cart)")
      case None
      then have "cart_submit d name uid cart = (cart, d, CartThrows)" using nf by (simp add: cart_submit_def)
      with paid show ?thesis by simp
    qed
    let ?req = "\<lparr>customerName = JStr (the name), userId = wire_number (parse_int_number (the uid)),
                 items = Some its, paymentMethod = Some ''Cash''\<rparr>"
    obtain resp d' where sr: "submit_order ?req d = (resp, d')" by (cases "submit_order ?req d")
    have "snd (snd (cart_submit d name uid cart)) = (if resp = OrderSaved then CartPaid (cart_total its) else CartAlert order_failed)"
      using nf by (simp add: cart_submit_def its sr)
    with paid have "resp = OrderSaved" by (auto split: if_splits)
    with sr obtain ls where ls: "map item_line its = map Some ls"
      using submit_order_savedD [of ?req d d'] by (auto simp: order_items_def)
    have "map_option item_price (cart_order_item ?it) = Some JNull"
      by (rule cart_order_item_no_price) (simp_all add: obj_set_def menu_row_json_def)
    then obtain x where x: "cart_order_item ?it = Some x" "item_price x = JNull" by auto
    have eq: "map cart_order_item cart = map Some its" using those_SomeD [OF its] .
    have "cart_order_item ?it \<in> set (map cart_order_item cart)" using assms by simp
    then have "Some x \<in> set (map Some its)" by (simp only: eq x(1))
    then have "x \<in> set its" by auto
    then have "item_line x \<in> set (map item_line its)" by simp
    then have "item_line x \<in> set (map Some ls)" by (simp only: ls)
    moreover have "item_line x = None" using x(2) by (rule item_line_null_price)
    ultimately show False by auto
  qed
qed

end
