(* ===== verification/MenuPage.thy ===== *)
theory MenuPage
  imports MenuAdmin OrderFlow
begin

text \<open>
  The customer menu, \<^verbatim>\<open>src/frontend/src/components/Menu.js\<close>: the category buttons, the
  listing each one loads (\<open>GET /api/menu\<close> or \<open>GET /api/menu/:type\<close>, \<open>Catalog.get_menu\<close>
  and \<open>Catalog.get_menu_by_type\<close>), the cart read from \<open>localStorage\<close> on mount and
  extended by \<open>addToCart\<close> (\<open>OrderFlow.add_to_cart\<close>). The category travels as
  \<open>encodeURIComponent(type)\<close>, which Express decodes back into \<open>req.params.type\<close>; the
  request path below holds the decoded segment. The cart's JSON round trip through
  \<open>localStorage\<close> is the identity (see \<open>OrderFlow\<close>).
\<close>

definition menu_categories :: "string list" where
  "menu_categories = [''All'', ''Fruit Tea'', ''Milk Tea'', ''Brewed Tea'', ''Ice Blended'', ''Fresh Milk'',
                      ''Signature'', ''Seasonal'', ''Additional Toppings'']"

record menu_page =
  mp_menu :: json
  mp_cart :: "json list"
  mp_category :: string
  mp_customs :: customs

text \<open>The path \<open>fetchMenu(type)\<close> requests.\<close>

definition menu_path :: "string \<Rightarrow> string list" where
  "menu_path t = (if t = ''All'' then [''api'', ''menu''] else [''api'', ''menu'', t])"

text \<open>\<open>fetchMenu(type)\<close>: \<open>get\<close> is the body received, \<open>None\<close> when the request fails (logged only).\<close>

definition menu_fetch :: "(string list \<Rightarrow> json option) \<Rightarrow> string \<Rightarrow> menu_page \<Rightarrow> menu_page" where
  "menu_fetch get t p =
     (case get (menu_path t) of Some d \<Rightarrow> p\<lparr>mp_menu := d, mp_category := t\<rparr> | None \<Rightarrow> p)"

text \<open>The mount effect: \<open>fetchMenu("All")\<close> and \<open>JSON.parse(localStorage.getItem("cart")) || []\<close>.\<close>

definition menu_mount :: "(string list \<Rightarrow> json option) \<Rightarrow> json list option \<Rightarrow> menu_page" where
  "menu_mount get stored =
     menu_fetch get ''All''
       \<lparr>mp_menu = JArr [], mp_cart = (case stored of Some c \<Rightarrow> c | None \<Rightarrow> []), mp_category = ''All'', mp_customs = no_customs\<rparr>"

text \<open>\<open>addToCart(item)\<close>: the page, the cart written to \<open>localStorage\<close> and the alert.\<close>

definition menu_add :: "json \<Rightarrow> menu_page \<Rightarrow> (menu_page \<times> json list \<times> string) option" where
  "menu_add item p =
     map_option (\<lambda>(c, msg). (p\<lparr>mp_cart := c\<rparr>, c, msg)) (add_to_cart (mp_customs p) (mp_cart p) item)"

text \<open>The listing the modelled server sends for a path of the menu.\<close>

definition menu_server :: "catalog \<Rightarrow> string list \<Rightarrow> json option" where
  "menu_server c path =
     (case path of
        [a, m] \<Rightarrow> Some (JArr (map menu_row_json (menu_listing (\<lambda>_. True) c)))
      | [a, m, t] \<Rightarrow> Some (JArr (map menu_row_json (menu_listing (\<lambda>x. itemtype x = t) c)))
      | _ \<Rightarrow> None)"

text \<open>What the deployed server sends for a \<open>GET\<close> of that path.\<close>

definition menu_deployed :: "string list list \<Rightarrow> string \<Rightarrow> catalog \<Rightarrow> string list \<Rightarrow> json option" where
  "menu_deployed files html c path =
     (case dispatch files server_layers \<lparr>req_method = GET, req_path = path\<rparr> of
        Some GetMenu \<Rightarrow> menu_server c path
      | Some GetMenuByType \<Rightarrow> menu_server c path
      | Some SpaIndex \<Rightarrow> Some (JPrim (JStr html))
      | Some ServeStatic \<Rightarrow> Some (JPrim (JStr html))
      | _ \<Rightarrow> None)"

section \<open>Lemmas\<close>

text \<open>A category button shows the available items of that type, in item id order.\<close>

lemma menu_fetch_category:
  "t \<noteq> ''All'' \<Longrightarrow>
   mp_menu (menu_fetch (menu_server c) t p) = JArr (map menu_row_json (menu_listing (\<lambda>x. itemtype x = t) c)) \<and>
   mp_category (menu_fetch (menu_server c) t p) = t"
  by (simp add: menu_fetch_def menu_server_def menu_path_def)

lemma menu_mount_all:
  "mp_menu (menu_mount (menu_server c) stored) = JArr (map menu_row_json (menu_listing (\<lambda>_. True) c)) \<and>
   mp_cart (menu_mount (menu_server c) stored) = (case stored of Some s \<Rightarrow> s | None \<Rightarrow> [])"
  by (simp add: menu_mount_def menu_fetch_def menu_server_def menu_path_def)

text \<open>As deployed, every category's request gets \<^verbatim>\<open>index.html\<close>, and the page's first render throws.\<close>

lemma menu_deployed_index:
  "menu_path t \<notin> set files \<Longrightarrow> menu_deployed files html c (menu_path t) = Some (JPrim (JStr html))"
  using dispatch_get [of "\<lparr>req_method = GET, req_path = menu_path t\<rparr>" files]
  by (simp add: menu_deployed_def)

lemma menu_mount_deployed:
  "[''api'', ''menu''] \<notin> set files \<Longrightarrow> html \<noteq> [] \<Longrightarrow>
     \<not> list_renders (mp_menu (menu_mount (menu_deployed files html c) stored))"
  using menu_deployed_index [of "''All''" files html c]
  by (simp add: menu_mount_def menu_fetch_def menu_path_def list_renders_def)

text \<open>Adding keeps the cart read from \<open>localStorage\<close> and appends the new line.\<close>

lemma menu_add_keeps_cart:
  "menu_add item p = Some (p', stored, msg) \<Longrightarrow> \<exists>x. stored = mp_cart p @ [x] \<and> mp_cart p' = stored"
  by (auto simp: menu_add_def add_to_cart_def split: option.splits)

text \<open>
  An item of the listing, added from this page, carries its price as \<open>price\<close>: the cart
  page sends the price the menu holds, and the order handler binds it (for prices with at
  most twenty decimals, which \<open>numeric\<close> money has, and a non-zero id: the handler's
  \<open>!item.itemid\<close> rejects 0).
\<close>

lemma menu_item_orderable:
  assumes "of_int \<lfloor>row_itemprice r * 10 ^ 20\<rfloor> = row_itemprice r * 10 ^ 20" "row_itemid r \<noteq> 0"
    and "add_to_cart cs cart (menu_row_json r) = Some (cart', msg)"
  shows "cart_line (last cart') = Some (row_itemid r, row_itemprice r)"
proof -
  have p: "js_string_to_number (numeric_text (row_itemprice r)) = Num (row_itemprice r)"
    by (rule numeric_text_value [OF assms(1)])
  from assms(3) have "last cart' = json_obj [(''itemid'', JPrim (JNum (of_int (row_itemid r)))),
        (''itemname'', JPrim (JStr (row_itemname r))), (''price'', JPrim (JStr (numeric_text (row_itemprice r)))),
        (''customization'', JPrim (JStr (customization_text cs (JPrim (JNum (of_int (row_itemid r)))))))]"
    by (auto simp: add_to_cart_def prop_of_def menu_row_json_def)
  then show ?thesis
    using p assms(2) by (simp add: cart_line_def cart_order_item_def prop_of_def json_obj_def item_line_def
                  invalid_item_format_def)
qed

end
