(* ===== verification/ClientRoutes.thy ===== *)
theory ClientRoutes
  imports Router "HOL-Library.Code_Target_Nat"
begin

text \<open>
  The front end's own routing: the \<open>Routes\<close> table of \<^verbatim>\<open>src/frontend/src/App.js\<close>
  (lines 118 to 141) and every \<open>navigate(path)\<close> the pages call. React Router matches a
  location against the route paths segment by segment, ignoring case and a trailing slash,
  \<open>:param\<close> matching one non-empty segment (\<open>Router.seg_match\<close> and \<open>Router.norm_path\<close>
  say the same for Express); it picks the most specific match, which for this table is the
  only one. A location no route matches renders nothing.
\<close>

datatype page =
    LoginPg | MenuPg | CartPg | CashierPg | ManagerPg | CategoryPg | GuestPg | OrdersPg | DrinkMenuPg
  | InventoryPg | TrendsPg | EmployeePg | SeasonalPg | ProductUsagePg | XReportPg | ZReportPg
  | PaymentPg | CashPaymentPg | ThankYouPg | OrderHistoryPg | WeatherPg

definition client_routes :: "(seg list \<times> page) list" where
  "client_routes =
     [([], LoginPg), ([Lit ''menu''], MenuPg), ([Lit ''cart''], CartPg), ([Lit ''cashier''], CashierPg),
      ([Lit ''manager''], ManagerPg), ([Lit ''menu-category'', Param], CategoryPg), ([Lit ''guest''], GuestPg),
      ([Lit ''orders''], OrdersPg), ([Lit ''drink-menu''], DrinkMenuPg), ([Lit ''inventory''], InventoryPg),
      ([Lit ''trends''], TrendsPg), ([Lit ''employee''], EmployeePg), ([Lit ''add-seasonal''], SeasonalPg),
      ([Lit ''product-usage''], ProductUsagePg), ([Lit ''x-report''], XReportPg), ([Lit ''z-report''], ZReportPg),
      ([Lit ''payment''], PaymentPg), ([Lit ''payment'', Lit ''cash''], CashPaymentPg),
      ([Lit ''thankyou''], ThankYouPg), ([Lit ''order-history''], OrderHistoryPg), ([Lit ''weather''], WeatherPg)]"

text \<open>The pages a location shows: every route that matches it.\<close>

definition client_match :: "string list \<Rightarrow> page list" where
  "client_match p = map snd (filter (\<lambda>(ps, _). seg_match ps (norm_path p)) client_routes)"

text \<open>The Manager page's buttons (\<^verbatim>\<open>Manager.js\<close> lines 18 to 29) and its logout (line 40).\<close>

definition manager_links :: "(string \<times> string list) list" where
  "manager_links =
     [(''Drink Menu'', [''drink-menu'']), (''Inventory'', [''inventory'']), (''Trends'', [''trends'']),
      (''Employee'', [''employee'']), (''Orders'', [''menu'']), (''Add Seasonal Menu Item'', [''add-seasonal'']),
      (''Product Usage'', [''product-usage'']), (''X-Report'', [''x-report'']), (''Z-Report'', [''z-report'']),
      (''Order History'', [''order-history''])]"

text \<open>
  Every location a page navigates to, with where the call is: the role routing of
  \<open>App.handleLogin\<close> and \<open>handleLogout\<close>, the Manager page's buttons and logout, and the
  \<open>navigate\<close> calls of the other pages.
\<close>

definition nav_targets :: "(string \<times> string list) list" where
  "nav_targets =
     [(''App.js:45'', [''manager'']), (''App.js:48'', [''cashier'']), (''App.js:51'', [''menu'']),
      (''App.js:54'', [''menu'']), (''App.js:61'', []), (''Cart.js:54'', [''payment'']),
      (''CashPaymentPage.js:30'', [''thankyou'']), (''Cashier.js:16'', [''weather'']),
      (''Employee.js:146'', [''manager'']), (''Guest.js:18'', []), (''Inventory.js:121'', [''manager'']),
      (''Login.js:82'', [''guest'']), (''Manager.js:40'', []), (''Menu.js:82'', [''order-history'']),
      (''Menu.js:174'', [''cart'']), (''PaymentPage.js:10'', [''payment'', ''cash'']),
      (''PaymentPage.js:15'', [''thankyou'']), (''ThankYouPage.js:16'', []), (''ThankYouPage.js:33'', [''menu'']),
      (''Trends.js:153'', [''manager''])] @
     map (\<lambda>(l, p). (''Manager.js:'' @ l, p)) manager_links"

text \<open>The pages some navigation leads to, and those a user can only reach by typing the URL.\<close>

definition nav_pages :: "page list" where
  "nav_pages = concat (map (\<lambda>(_, p). client_match p) nav_targets)"

section \<open>Lemmas\<close>

lemma nav_targets_resolve: "list_all (\<lambda>(_, p). length (client_match p) = 1) nav_targets"
  by code_simp

lemma unreached_pages: "OrdersPg \<notin> set nav_pages \<and> CategoryPg \<notin> set nav_pages \<and> SeasonalPg \<in> set nav_pages"
  by code_simp

text \<open>No location matches two routes, so the order of the table does not matter.\<close>

lemma client_match_unique: "length (client_match p) \<le> 1"
proof -
  have low: "list_all (\<lambda>a. js_lower a = a)
    [''menu'', ''cart'', ''cashier'', ''manager'', ''menu-category'', ''guest'', ''orders'', ''drink-menu'',
     ''inventory'', ''trends'', ''employee'', ''add-seasonal'', ''product-usage'', ''x-report'', ''z-report'',
     ''payment'', ''cash'', ''thankyou'', ''order-history'', ''weather'']"
    by code_simp
  have eq: "seg_eq a x \<longleftrightarrow> js_lower x = a" if "js_lower a = a" for a x
    using that by (auto simp: seg_eq_def)
  consider "norm_path p = []" | x where "norm_path p = [x]" | x y where "norm_path p = [x, y]"
    | x y z zs where "norm_path p = x # y # z # zs"
    by (metis list.exhaust)
  then show ?thesis
  proof cases
    case 2
    then show ?thesis using low by (simp add: client_match_def client_routes_def eq)
  next
    case 3
    then show ?thesis using low by (simp add: client_match_def client_routes_def eq)
  qed (simp_all add: client_match_def client_routes_def)
qed

end
