(* ===== verification/Spec2Isabelle.thy ===== *)
theory Spec2Isabelle
  imports Orders Inventory Catalog Staff TextInput Reports Trends Router JsNumber ZReportPage OrderFlow
    Listings History MenuAdmin InventoryPage EmployeePage XReportPage TrendsPages SelectionPage MenuPage ClientRoutes
begin

text \<open>
  \<^bold>\<open>ShareTea point of sale: a verification development.\<close>

  \<^bold>\<open>The program.\<close> An Express server (\<^verbatim>\<open>src/backend/server.js\<close>, with the router
  \<^verbatim>\<open>src/backend/routes/authRoutes.js\<close>) over a PostgreSQL database, and a React front end
  (\<^verbatim>\<open>src/frontend/src\<close>). The server's parts: the order handler \<open>POST /api/orders\<close>,
  which turns a cart into \<open>transactions\<close> rows inside one database transaction after
  resynchronising the id sequence \<open>transactions_id_seq\<close>; the inventory handlers; the menu
  handlers; the employee and login handlers; the report queries (X, Z, trends, product
  usage); a few listings; and the route table, whose registration order decides which
  handler serves a request. The front end's pages call those endpoints with \<open>axios\<close>. The
  parts interact only through HTTP requests (the route table) and the shared tables.

  \<^bold>\<open>Theories\<close>, each importing the ones it calls:
  \<^item> \<open>Prelude\<close>: the model's types (\<open>money = rat\<close>: PostgreSQL \<open>numeric\<close> is exact),
    request values \<open>jsval\<close> with JavaScript truthiness (the \<open>!x\<close> guards), response
    documents \<open>json\<close> with property access (\<open>get_prop\<close>; \<open>None\<close> is a \<open>TypeError\<close>),
    PostgreSQL's coercion of bound parameters (\<open>pg_int\<close>, \<open>pg_num\<close>), the SQL aggregates,
    the shapes of JSON documents (\<open>jtype\<close>, \<open>has_type\<close>) a page relies on, whether a
    page's table renders what it received (\<open>list_renders\<close>), and the shared list, option
    and string lemmas.
  \<^item> \<open>PgSequence\<close>: a sequence as a record with \<open>nextval\<close> and \<open>setval\<close>; both may fail
    and neither is undone by \<open>ROLLBACK\<close>.
  \<^item> \<open>Orders\<close>: \<open>POST /api/orders\<close> (\<^verbatim>\<open>server.js\<close> 136 to 193) as \<open>submit_order\<close>, with
    its guard, \<open>resync_seq\<close>, the insert loop \<open>insert_items\<close> and the \<open>COMMIT\<close> or
    \<open>ROLLBACK\<close> branch over the state \<open>order_db\<close> (the table in insertion order and its
    sequence). Claims C1 to C7: what a committed order stores, all-or-nothing, ids ascending
    and below the sequence, the bounds of new rows, failure on an empty table, ids issued
    twice after a rollback.
  \<^item> \<open>Inventory\<close>: the add (an upsert by \<open>SELECT\<close> then \<open>UPDATE\<close> or \<open>INSERT\<close>), update and
    delete handlers (261 to 331); the invariant \<open>inv_wf\<close> and its preservation; the
    interleaving of concurrent adds as the \<open>inductive\<close> step relation \<open>race_step\<close> with
    reachability \<open>race_reach\<close>, shown to duplicate rows and never to lose an increment (C8
    to C12), and to end: the step relation is well-founded under the measure
    \<open>race_pending\<close> (the statements each request has left) and stops only when every
    request has finished (C31).
  \<^item> \<open>Catalog\<close>: \<open>GET /api/menu\<close>, \<open>GET /api/menu/:type\<close> and the first registrations of the
    menu add and delete (83 to 226), C13 and C14.
  \<^item> \<open>Staff\<close>: the logins on both servers and the employee endpoints with the client's
    submit handlers and role routing (\<^verbatim>\<open>Login.js\<close>, \<^verbatim>\<open>App.js\<close>), C15 to C19.
  \<^item> \<open>TextInput\<close> and \<open>Reports\<close>: \<open>isNaN\<close>, \<open>parseInt\<close> and PostgreSQL's numeric input of
    a query parameter; the X and Z report queries as functions of the joined rows, grouped by
    hour (537 to 618), C21 to C26.
  \<^item> \<open>Trends\<close>: the trend query built from text templates, with PostgreSQL's acceptance of
    the text, and the product-usage report (335 to 385, 487 to 534), C28 to C30.
  \<^item> \<open>Router\<close>: every registration in order with Express's first-match dispatch
    (\<open>dispatch\<close>, \<open>server_layers\<close>), the endpoints it can reach, and the front end's API
    calls (\<open>frontend_calls\<close>), C32 and C33.
  \<^item> \<open>JsNumber\<close>: JavaScript numbers as exact rationals with \<open>NaN\<close> and the infinities:
    \<open>Number\<close>, \<open>parseInt\<close>, \<open>parseFloat\<close>, \<open>toFixed\<close>, \<open>ToString\<close>, \<open>JSON.stringify\<close> of a
    number, and the text \<^verbatim>\<open>node-postgres\<close> delivers for \<open>numeric\<close> columns; C35 and C36.
  \<^item> \<open>ZReportPage\<close>: \<^verbatim>\<open>ZReport.js\<close> as a record of page state and a step function over
    its events, the CSV it builds, an RFC 4180 reader \<open>csv_read\<close> for the round trip, and
    the page as deployed (\<open>deployed_zreport\<close>), C34 and C38; the server's answer has
    the shape the page reads and the page accepts every answer of that shape (C37).
  \<^item> \<open>OrderFlow\<close>: \<^verbatim>\<open>Menu.js\<close>, \<^verbatim>\<open>Cart.js\<close>, \<^verbatim>\<open>PaymentPage.js\<close> and
    \<^verbatim>\<open>CashPaymentPage.js\<close>: the cart in \<open>localStorage\<close>, its submission composed with
    \<open>Orders.submit_order\<close> (a refinement, C39) and the cash keypad (C40).
  \<^item> \<open>Listings\<close>: the handlers the route table never reaches (\<open>GET /api/inventory\<close>, the
    seasonal menu and the second registrations of the menu add and delete), modelled as
    written, with the invariant of the catalog kept by the seasonal add and delete.
  \<^item> \<open>History\<close>: \<open>GET /api/transactions\<close> and \<open>GET /api/test-db\<close> with
    \<^verbatim>\<open>OrderHistory.js\<close>: the listing holds the 30 highest ids in descending order, the
    page's stable sort leaves it as it is, and an empty search shows every row.
  \<^item> \<open>MenuAdmin\<close>: \<^verbatim>\<open>DrinkMenu.js\<close> and \<^verbatim>\<open>AddSeasonalItem.js\<close> as one page model with
    the kind of page as a parameter, composed with the catalog handlers; as deployed, the
    menu reload receives \<^verbatim>\<open>index.html\<close> and the table cannot render.
  \<^item> \<open>InventoryPage\<close>: \<^verbatim>\<open>Inventory.js\<close> composed with the inventory handlers: its one
    \<open>Item ID\<close> input is a menu item id for \<open>Add\<close> and an inventory id for \<open>Update\<close> and
    \<open>Delete\<close> (C20); the page keeps \<open>inv_wf\<close>.
  \<^item> \<open>EmployeePage\<close>: \<^verbatim>\<open>Employee.js\<close> composed with the route table (the id as a URL
    segment, an empty id matching no route) and the employee handlers; no input is checked.
  \<^item> \<open>XReportPage\<close>: \<open>GET /api/xreport\<close> with \<^verbatim>\<open>XReport.js\<close>: the hour options, the
    generated query composed with \<open>Reports.x_rows\<close>, the shape of the answer, and the page
    as deployed (the request receives \<^verbatim>\<open>index.html\<close> and the table cannot render).
  \<^item> \<open>TrendsPages\<close>: \<^verbatim>\<open>Trends.js\<close> and \<^verbatim>\<open>ProductUsage.js\<close> with their endpoints: the
    chart data read from each point, the range presets, and the custom range, which clears
    the chart until a new load; as deployed both charts receive \<^verbatim>\<open>index.html\<close>.
  \<^item> \<open>SelectionPage\<close>: \<^verbatim>\<open>MenuItemSelectionPage.js\<close>: the filtered listing, the
    customisation that replaces the cart, and the cart line that carries no price, so the
    order handler refuses it.
  \<^item> \<open>MenuPage\<close>: the category filter and mount of \<^verbatim>\<open>Menu.js\<close> composed with the catalog
    handlers and with the route table as deployed, and the add-to-cart of an item.
  \<^item> \<open>ClientRoutes\<close>: the \<open>Routes\<close> table of \<^verbatim>\<open>App.js\<close> with React Router's matching
    and every \<open>navigate\<close> target of the pages: each target matches exactly one route, no
    location matches two, and no navigation leads to the orders page or the category page.
  \<^item> This theory: properties that span components (C27: an order stored by the POS never
    appears in an X or Z report).

  \<^bold>\<open>Conventions.\<close> A handler is a function from the request and the state to the response
  and the new state; a thrown error or a failed query is a value (an error constructor, an
  \<open>Inl\<close>, or \<open>None\<close>), never an exception. A page is a record of its React state and a
  function per event handler; what a request returns is a parameter, so the pages are
  proved against any server answer and then composed with the modelled handlers or with
  the route table as deployed. Queries without \<open>ORDER BY\<close> return rows in table order, one
  of the answers PostgreSQL may give.

  \<^bold>\<open>Bounds.\<close> Sequence values are \<open>int\<close> with the sequence's own bounds checked
  explicitly (\<open>SERIAL\<close>: 1 to 2147483647), and \<open>integer\<close> columns with the int4 range
  (\<open>in_int4\<close>). JavaScript numbers are exact rationals: the values the pages meet (money
  with two decimals, hours, ids) are exact as doubles, and where JavaScript rounds
  (\<open>toFixed\<close>, \<open>ToString\<close>) the model rounds the exact value, which agrees on every decimal
  with at most 15 significant digits. No loop needs fuel: every loop of the code is a
  traversal of a list (the insert loop, the CSV scan, the sorts), so the definitions are
  structural recursion or library list functions. The one process that is not a traversal,
  the interleaving of concurrent requests, is a relation, and its termination is proved
  (C31) rather than assumed.

  \<^bold>\<open>Not modelled.\<close> Network and process behaviour (the connection pool, a failing
  \<open>pool.connect\<close>, Express's handling of a rejected promise); Google's token verification (an
  external service, a parameter of the sign-in handlers); the weather proxy
  (\<open>/api/weather\<close>, \<^verbatim>\<open>WeatherPage.js\<close>: an external API); the markup and styling of the
  pages, the drawing of the charts by Chart.js and the language buttons of \<^verbatim>\<open>i18n\<close> (only
  what each page computes before rendering is modelled); the timer of the thank-you page;
  the pages with no logic beyond navigation, whose targets \<open>ClientRoutes\<close> records (\<^verbatim>\<open>Manager.js\<close>, \<^verbatim>\<open>Cashier.js\<close>,
  \<^verbatim>\<open>Guest.js\<close>, \<^verbatim>\<open>ThankYouPage.js\<close>); and \<^verbatim>\<open>routes/orders.js\<close>, \<^verbatim>\<open>routes/user.js\<close>
  and \<^verbatim>\<open>db.js\<close>, which no file mounts. The database schema is not in the repository: the
  model takes the columns the handlers write to be \<open>NOT NULL\<close>, \<open>transactions.id\<close> and
  \<open>inventory.inventoryid\<close> to be \<open>SERIAL\<close>, and leaves the defaults the seasonal insert
  relies on as parameters.
\<close>

section \<open>Properties across components\<close>

text \<open>
  C27. Orders submitted through \<open>POST /api/orders\<close> never reach the X or Z report: their
  rows carry \<open>sale_id = 0\<close>, and as long as no sale has id 0 (a \<open>SERIAL\<close> starts at 1) the
  reports' join from \<open>Sales\<close> never meets them, whatever the order handler answers.
\<close>

theorem submitted_orders_not_reported:
  assumes "submit_order r d = (resp, d')" and "0 \<notin> sale_key ` set (sales db)"
  shows "x_rows today a b (db\<lparr>txns := transactions d'\<rparr>) = x_rows today a b (db\<lparr>txns := transactions d\<rparr>) \<and>
         z_rows today a b (db\<lparr>txns := transactions d'\<rparr>) = z_rows today a b (db\<lparr>txns := transactions d\<rparr>)"
proof -
  obtain new where n: "transactions d' = transactions d @ new" "\<forall>t \<in> set new. sale_id t = 0"
    using submit_order_appends [OF assms(1)] by blast
  let ?db = "db\<lparr>txns := transactions d\<rparr>"
  have "\<forall>s \<in> set (sales ?db). sale_txns (?db\<lparr>txns := transactions d'\<rparr>) s = sale_txns ?db s"
    using assms(2) n sale_txns_append_other [OF n(2), of _ ?db] by force
  from joins_same_lines [OF this] show ?thesis by (simp add: x_rows_def z_rows_def)
qed

theorem submitted_orders_not_reported_witness:
  "submit_order example_order example_db = (OrderSaved, saved_db example_order example_db [(3, 11/2), (4, 5)]) \<and>
   0 \<notin> sale_key ` set (sales example_report_db) \<and>
   x_rows 20000 (PVal 0) (PVal 23)
     (example_report_db\<lparr>txns := transactions (saved_db example_order example_db [(3, 11/2), (4, 5)])\<rparr>) =
   x_rows 20000 (PVal 0) (PVal 23) (example_report_db\<lparr>txns := transactions example_db\<rparr>)"
proof -
  have s: "submit_order example_order example_db = (OrderSaved, saved_db example_order example_db [(3, 11/2), (4, 5)])"
    by (rule example_order_result)
  have k: "0 \<notin> sale_key ` set (sales example_report_db)" by code_simp
  show ?thesis using s k submitted_orders_not_reported [OF s k] by simp
qed

end
